(* ===== verification/Prelude.thy ===== *)
theory Prelude
  imports Main "HOL-Library.Word"
begin

text \<open>
  Shared vocabulary of the development.

  \<^item> The names of the Go types every component uses: UUIDs (16 bytes), instants, calendar
    dates, half-open time ranges.
  \<^item> Effectful Go code as functions from a state to a result and a new state: a Go function
    returning \<open>(T, error)\<close> is an \<open>act\<close>, its early return on \<open>err != nil\<close> is \<open>bnd\<close>, a handled
    error is \<open>attempt\<close>. An error does not undo the state: only a transaction does that, and it
    does so explicitly.
  \<^item> A calculus of invariants over acts (\<open>preserves\<close>), collected in \<open>pres_intros\<close>, so that an
    invariant of a service is proved by following the structure of its code.
  \<^item> Machine integers: the conversion \<open>int32(x)\<close>, and decimal text as \<open>strconv\<close> reads and writes it.
\<close>

section \<open>Names of types\<close>

type_synonym uuid = "128 word"
type_synonym time = int
type_synonym date = int
type_synonym duration = int

abbreviation uuid_Nil :: uuid where
  "uuid_Nil \<equiv> 0"

section \<open>Go functions with an error result and a state\<close>

type_synonym ('s, 'e, 'a) act = "'s \<Rightarrow> ('e + 'a) \<times> 's"

definition ret :: "'a \<Rightarrow> ('s, 'e, 'a) act" where
  "ret x s = (Inr x, s)"

definition throw :: "'e \<Rightarrow> ('s, 'e, 'a) act" where
  "throw e s = (Inl e, s)"

definition bnd :: "('s, 'e, 'a) act \<Rightarrow> ('a \<Rightarrow> ('s, 'e, 'b) act) \<Rightarrow> ('s, 'e, 'b) act" where
  "bnd m f s = (case m s of (Inl e, s') \<Rightarrow> (Inl e, s') | (Inr x, s') \<Rightarrow> f x s')"

definition attempt :: "('s, 'e, 'a) act \<Rightarrow> ('s, 'e, 'e + 'a) act" where
  "attempt m s = (case m s of (r, s') \<Rightarrow> (Inr r, s'))"

definition map_err :: "('e \<Rightarrow> 'e) \<Rightarrow> ('s, 'e, 'a) act \<Rightarrow> ('s, 'e, 'a) act" where
  "map_err g m s = (case m s of (Inl e, s') \<Rightarrow> (Inl (g e), s') | (Inr x, s') \<Rightarrow> (Inr x, s'))"

definition guard :: "bool \<Rightarrow> 'e \<Rightarrow> ('s, 'e, unit) act" where
  "guard b e = (if b then ret () else throw e)"

fun for_each :: "('a \<Rightarrow> ('s, 'e, 'b) act) \<Rightarrow> 'a list \<Rightarrow> ('s, 'e, 'b list) act" where
  "for_each f [] = ret []"
| "for_each f (x # xs) = bnd (f x) (\<lambda>y. bnd (for_each f xs) (\<lambda>ys. ret (y # ys)))"

definition preserves :: "('s \<Rightarrow> bool) \<Rightarrow> ('s, 'e, 'a) act \<Rightarrow> bool" where
  "preserves I m \<longleftrightarrow> (\<forall>s. I s \<longrightarrow> I (snd (m s)))"

section \<open>Machine integers and decimal text\<close>

definition int32 :: "int \<Rightarrow> int" where
  "int32 i = sint (word_of_int i :: 32 word)"

abbreviation max_int32 :: int where
  "max_int32 \<equiv> 2147483647"

definition in_int32 :: "int \<Rightarrow> bool" where
  "in_int32 i \<longleftrightarrow> - 2147483648 \<le> i \<and> i \<le> max_int32"

definition in_int64 :: "int \<Rightarrow> bool" where
  "in_int64 i \<longleftrightarrow> - 9223372036854775808 \<le> i \<and> i \<le> 9223372036854775807"

definition digit :: "nat \<Rightarrow> char" where
  "digit n = char_of (48 + n)"

definition is_digit :: "char \<Rightarrow> bool" where
  "is_digit c \<longleftrightarrow> 48 \<le> (of_char c :: nat) \<and> (of_char c :: nat) \<le> 57"

definition digit_val :: "char \<Rightarrow> nat" where
  "digit_val c = of_char c - 48"

fun dec_nat :: "nat \<Rightarrow> string" where
  "dec_nat n = (if n < 10 then [digit n] else dec_nat (n div 10) @ [digit (n mod 10)])"

declare dec_nat.simps [simp del]

definition dec_int :: "int \<Rightarrow> string" where
  "dec_int i = (if i < 0 then ''-'' @ dec_nat (nat (- i)) else dec_nat (nat i))"

definition read_nat :: "string \<Rightarrow> nat" where
  "read_nat s = foldl (\<lambda>a c. 10 * a + digit_val c) 0 s"

definition parse_digits :: "string \<Rightarrow> nat option" where
  "parse_digits s = (if s \<noteq> [] \<and> list_all is_digit s then Some (read_nat s) else None)"

fun strconv_Atoi :: "string \<Rightarrow> int option" where
  "strconv_Atoi s =
     (let (neg, ds) = (case s of [] \<Rightarrow> (False, [])
                       | c # cs \<Rightarrow> if c = CHR ''-'' then (True, cs)
                                   else if c = CHR ''+'' then (False, cs) else (False, s))
      in case parse_digits ds of
           None \<Rightarrow> None
         | Some n \<Rightarrow> let i = (if neg then - int n else int n)
                     in if in_int64 i then Some i else None)"

definition pad0 :: "nat \<Rightarrow> string \<Rightarrow> string" where
  "pad0 w s = replicate (w - length s) (CHR ''0'') @ s"

section \<open>UUIDs and JSON strings as text\<close>

definition hex_digit :: "nat \<Rightarrow> char" where
  "hex_digit n = (if n < 10 then char_of (48 + n) else char_of (87 + n))"

definition hex_of :: "nat \<Rightarrow> nat \<Rightarrow> string" where
  "hex_of w n = map (\<lambda>k. hex_digit (n div 16 ^ (w - 1 - k) mod 16)) [0..<w]"

definition uuid_text :: "uuid \<Rightarrow> string" where
  "uuid_text u = (let h = hex_of 32 (unat u)
     in take 8 h @ ''-'' @ take 4 (drop 8 h) @ ''-'' @ take 4 (drop 12 h) @ ''-''
        @ take 4 (drop 16 h) @ ''-'' @ drop 20 h)"

definition json_char :: "char \<Rightarrow> string" where
  "json_char c =
     (if c = CHR 0x22 \<or> c = CHR 0x5C then [CHR 0x5C, c]
      else if c = CHR 0x0A then [CHR 0x5C, CHR ''n''] else if c = CHR 0x0D then [CHR 0x5C, CHR ''r'']
      else if c = CHR 0x09 then [CHR 0x5C, CHR ''t''] else if c = CHR 0x08 then [CHR 0x5C, CHR ''b'']
      else if c = CHR 0x0C then [CHR 0x5C, CHR ''f'']
      else if (of_char c :: nat) < 32 \<or> c \<in> {CHR ''<'', CHR ''>'', CHR ''&''}
      then CHR 0x5C # ''u'' @ hex_of 4 (of_char c) else [c])"

definition json_string :: "string \<Rightarrow> string" where
  "json_string s = [CHR 0x22] @ concat (map json_char s) @ [CHR 0x22]"

fun json_fields :: "(string \<times> string) list \<Rightarrow> string" where
  "json_fields [] = []"
| "json_fields [(k, v)] = json_string k @ '':'' @ v"
| "json_fields ((k, v) # r) = json_string k @ '':'' @ v @ '','' @ json_fields r"

definition json_object :: "(string \<times> string) list \<Rightarrow> string" where
  "json_object fs = CHR 0x7B # json_fields fs @ [CHR 0x7D]"

section \<open>Collections of facts\<close>

named_theorems act_simps \<open>equations of the act combinators\<close>
named_theorems pres_intros \<open>how an invariant passes through a program\<close>

section \<open>The act combinators\<close>

lemma ret_apply [act_simps]: "ret x s = (Inr x, s)"
  by (simp add: ret_def)

lemma throw_apply [act_simps]: "throw e s = (Inl e, s)"
  by (simp add: throw_def)

lemma bnd_Inl [act_simps]: "m s = (Inl e, s') \<Longrightarrow> bnd m f s = (Inl e, s')"
  by (simp add: bnd_def)

lemma bnd_Inr [act_simps]: "m s = (Inr x, s') \<Longrightarrow> bnd m f s = f x s'"
  by (simp add: bnd_def)

lemma bnd_returns_iff:
  "bnd m f s = (Inr y, t) \<longleftrightarrow> (\<exists>x u. m s = (Inr x, u) \<and> f x u = (Inr y, t))"
  by (auto simp: bnd_def split: prod.splits sum.splits)

lemma bnd_fails_iff:
  "bnd m f s = (Inl e, t) \<longleftrightarrow> m s = (Inl e, t) \<or> (\<exists>x u. m s = (Inr x, u) \<and> f x u = (Inl e, t))"
  by (auto simp: bnd_def split: prod.splits sum.splits)

lemma map_err_returns_iff [simp]: "map_err g m s = (Inr y, t) \<longleftrightarrow> m s = (Inr y, t)"
  by (auto simp: map_err_def split: prod.splits sum.splits)

lemma map_err_fails_iff: "map_err g m s = (Inl e, t) \<longleftrightarrow> (\<exists>e'. m s = (Inl e', t) \<and> e = g e')"
  by (auto simp: map_err_def split: prod.splits sum.splits)

lemma attempt_returns_iff [simp]: "attempt m s = (Inr r, t) \<longleftrightarrow> m s = (r, t)"
  by (auto simp: attempt_def split: prod.splits)

lemma attempt_never_fails [simp]: "attempt m s \<noteq> (Inl e, t)"
  by (auto simp: attempt_def split: prod.splits)

lemma guard_returns_iff [simp]: "guard b e s = (Inr u, t) \<longleftrightarrow> b \<and> t = s"
  by (auto simp: guard_def ret_def throw_def)

lemma guard_fails_iff [simp]: "guard b e s = (Inl e', t) \<longleftrightarrow> \<not> b \<and> e' = e \<and> t = s"
  by (auto simp: guard_def ret_def throw_def)

lemmas act_returns = bnd_returns_iff ret_def throw_def

lemma for_each_length: "for_each f xs s = (Inr ys, t) \<Longrightarrow> length ys = length xs"
  by (induction xs arbitrary: s ys) (auto simp: act_returns)

section \<open>Invariants of acts\<close>

lemma preservesI: "(\<And>s. I s \<Longrightarrow> I (snd (m s))) \<Longrightarrow> preserves I m"
  by (simp add: preserves_def)

lemma preservesD: "preserves I m \<Longrightarrow> I s \<Longrightarrow> m s = (r, t) \<Longrightarrow> I t"
  by (metis preserves_def snd_conv)

lemma preserves_ret [pres_intros]: "preserves I (ret x)"
  by (simp add: preserves_def ret_def)

lemma preserves_throw [pres_intros]: "preserves I (throw e)"
  by (simp add: preserves_def throw_def)

lemma preserves_bnd [pres_intros]:
  assumes "preserves I m" and "\<And>x. preserves I (f x)"
  shows "preserves I (bnd m f)"
proof (rule preservesI)
  fix s
  assume I: "I s"
  obtain r t where m: "m s = (r, t)" by fastforce
  from assms(1) I m have "I t" by (rule preservesD)
  with m assms(2) show "I (snd (bnd m f s))"
    by (cases r) (auto simp: bnd_def preserves_def)
qed

lemma preserves_attempt [pres_intros]: "preserves I m \<Longrightarrow> preserves I (attempt m)"
  by (auto simp: preserves_def attempt_def split: prod.splits)

lemma preserves_map_err [pres_intros]: "preserves I m \<Longrightarrow> preserves I (map_err g m)"
  by (auto simp: preserves_def map_err_def split: prod.splits sum.splits)

lemma preserves_guard [pres_intros]: "preserves I (guard b e)"
  by (simp add: guard_def preserves_ret preserves_throw)

lemma preserves_for_each [pres_intros]:
  "(\<And>x. preserves I (f x)) \<Longrightarrow> preserves I (for_each f xs)"
  by (induction xs) (auto intro!: pres_intros)

lemma preserves_if [pres_intros]:
  "(b \<Longrightarrow> preserves I m) \<Longrightarrow> (\<not> b \<Longrightarrow> preserves I n) \<Longrightarrow> preserves I (if b then m else n)"
  by simp

lemma preserves_case_option [pres_intros]:
  "(x = None \<Longrightarrow> preserves I m) \<Longrightarrow> (\<And>y. x = Some y \<Longrightarrow> preserves I (f y)) \<Longrightarrow>
   preserves I (case x of None \<Rightarrow> m | Some y \<Rightarrow> f y)"
  by (cases x) auto

lemma preserves_case_sum [pres_intros]:
  "(\<And>e. x = Inl e \<Longrightarrow> preserves I (f e)) \<Longrightarrow> (\<And>y. x = Inr y \<Longrightarrow> preserves I (g y)) \<Longrightarrow>
   preserves I (case x of Inl e \<Rightarrow> f e | Inr y \<Rightarrow> g y)"
  by (cases x) auto

lemma preserves_case_prod [pres_intros]:
  "(\<And>a b. preserves I (f a b)) \<Longrightarrow> preserves I (case p of (a, b) \<Rightarrow> f a b)"
  by (cases p) auto

lemma preserves_let [pres_intros]: "preserves I (f x) \<Longrightarrow> preserves I (let y = x in f y)"
  by simp

section \<open>int32\<close>

lemma int32_id [simp]: "in_int32 i \<Longrightarrow> int32 i = i"
  by (simp add: in_int32_def int32_def sint_sbintrunc' signed_take_bit_int_eq_self)

lemma int32_range: "in_int32 (int32 i)"
proof -
  have "- (2 ^ 31) \<le> sint (word_of_int i :: 32 word)" "sint (word_of_int i :: 32 word) < 2 ^ 31"
    using sint_ge [of "word_of_int i :: 32 word"] sint_lt [of "word_of_int i :: 32 word"] by simp_all
  then show ?thesis
    by (simp add: in_int32_def int32_def)
qed

lemma int32_cong: "i mod 4294967296 = j mod 4294967296 \<Longrightarrow> int32 i = int32 j"
proof -
  assume "i mod 4294967296 = j mod 4294967296"
  then have "(word_of_int i :: 32 word) = word_of_int j"
    by (simp add: word_of_int_eq_iff take_bit_eq_mod)
  then show ?thesis by (simp only: int32_def)
qed

section \<open>Decimal text\<close>

lemma of_char_digit: "n < 10 \<Longrightarrow> (of_char (digit n) :: nat) = 48 + n"
  by (simp add: digit_def)

lemma is_digit_digit [simp]: "n < 10 \<Longrightarrow> is_digit (digit n)"
  by (simp add: is_digit_def of_char_digit)

lemma digit_val_digit [simp]: "n < 10 \<Longrightarrow> digit_val (digit n) = n"
  by (simp add: digit_val_def of_char_digit)

lemma dec_nat_digits: "list_all is_digit (dec_nat n)"
  by (induction n rule: dec_nat.induct) (subst dec_nat.simps, simp)

lemma dec_nat_nonempty [simp]: "dec_nat n \<noteq> []"
  by (subst dec_nat.simps) simp

lemma read_nat_snoc: "read_nat (s @ [c]) = 10 * read_nat s + digit_val c"
  by (simp add: read_nat_def)

lemma read_dec_nat [simp]: "read_nat (dec_nat n) = n"
proof (induction n rule: dec_nat.induct)
  case (1 n)
  show ?case
  proof (cases "n < 10")
    case True
    then show ?thesis by (simp add: dec_nat.simps [of n] read_nat_def)
  next
    case False
    then have "read_nat (dec_nat (n div 10)) = n div 10" by (rule 1)
    with False show ?thesis
      by (simp add: dec_nat.simps [of n] read_nat_snoc mult.commute)
  qed
qed

lemma dec_nat_inj: "dec_nat m = dec_nat n \<Longrightarrow> m = n"
  by (metis read_dec_nat)

lemma parse_dec_nat [simp]: "parse_digits (dec_nat n) = Some n"
  by (simp add: parse_digits_def dec_nat_digits)

lemma dec_nat_no_sign: "\<exists>c cs. dec_nat n = c # cs \<and> c \<noteq> CHR ''-'' \<and> c \<noteq> CHR ''+''"
proof -
  obtain c cs where c: "dec_nat n = c # cs" by (cases "dec_nat n") auto
  with dec_nat_digits [of n] have "is_digit c" by simp
  then show ?thesis using c by (auto simp: is_digit_def)
qed

lemma Atoi_dec_int: "in_int64 i \<Longrightarrow> strconv_Atoi (dec_int i) = Some i"
proof -
  assume i: "in_int64 i"
  obtain c cs where "dec_nat (nat i) = c # cs" "c \<noteq> CHR ''-''" "c \<noteq> CHR ''+''"
    using dec_nat_no_sign by blast
  with i show ?thesis
    using parse_dec_nat [of "nat i"] by (auto simp: dec_int_def)
qed

lemma read_nat_zeros: "read_nat (replicate k (CHR ''0'') @ s) = read_nat s"
  by (induction k) (simp_all add: read_nat_def digit_val_def)

lemma read_pad0 [simp]: "read_nat (pad0 w (dec_nat n)) = n"
  by (simp add: pad0_def read_nat_zeros)

lemma pad0_digits: "list_all is_digit s \<Longrightarrow> list_all is_digit (pad0 w s)"
  by (auto simp: pad0_def list_all_iff is_digit_def)

lemma length_pad0: "length s \<le> w \<Longrightarrow> length (pad0 w s) = w"
  by (simp add: pad0_def)

lemma length_dec_nat: "n < 10 ^ Suc k \<Longrightarrow> length (dec_nat n) \<le> Suc k"
proof (induction k arbitrary: n)
  case 0
  then show ?case by (simp add: dec_nat.simps [of n])
next
  case (Suc k)
  show ?case
  proof (cases "n < 10")
    case True
    then show ?thesis by (simp add: dec_nat.simps [of n])
  next
    case False
    from Suc.prems have "n div 10 < 10 ^ Suc k"
      by (simp add: less_mult_imp_div_less mult.commute)
    then have "length (dec_nat (n div 10)) \<le> Suc k" by (rule Suc.IH)
    with False show ?thesis by (simp add: dec_nat.simps [of n])
  qed
qed

lemma digit_of_val [simp]: "is_digit c \<Longrightarrow> digit (digit_val c) = c"
  by (simp add: is_digit_def digit_val_def digit_def)

lemma digit_val_less: "is_digit c \<Longrightarrow> digit_val c < 10"
  by (auto simp: is_digit_def digit_val_def)

lemma digit_0: "digit 0 = CHR ''0''"
  using digit_of_val [of "CHR ''0''"] by (simp add: is_digit_def digit_val_def)

lemma pad0_snoc:
  assumes "0 < w" "d < 10"
  shows "pad0 (Suc w) (dec_nat (10 * n + d)) = pad0 w (dec_nat n) @ [digit d]"
proof (cases "n = 0")
  case True
  then have "pad0 w (dec_nat n) = replicate w (CHR ''0'')"
    using assms by (cases w) (simp_all add: pad0_def dec_nat.simps [of 0] digit_0 replicate_append_same)
  with True assms show ?thesis
    by (simp add: pad0_def dec_nat.simps [of d])
next
  case False
  with assms have "dec_nat (10 * n + d) = dec_nat n @ [digit d]"
    by (subst dec_nat.simps) simp
  then show ?thesis by (simp add: pad0_def)
qed

lemma pad0_read_nat:
  assumes "s \<noteq> []" "list_all is_digit s"
  shows "pad0 (length s) (dec_nat (read_nat s)) = s"
  using assms
proof (induction s rule: rev_nonempty_induct)
  case (single c)
  then show ?case
    by (simp add: read_nat_def pad0_def dec_nat.simps [of "digit_val c"] digit_val_less)
next
  case (snoc c s)
  then show ?case
    by (simp add: read_nat_snoc pad0_snoc digit_val_less)
qed

lemma read_nat_less: "list_all is_digit s \<Longrightarrow> read_nat s < 10 ^ length s"
  by (induction s rule: rev_induct) (auto simp: read_nat_snoc dest: digit_val_less, simp add: read_nat_def)

lemma parse_digits_pad0: "parse_digits (pad0 w (dec_nat n)) = Some n"
  by (simp add: parse_digits_def pad0_digits dec_nat_digits) (simp add: pad0_def)

section \<open>Codecs\<close>

text \<open>
  A writer and a reader of text, such as \<open>Format\<close> and \<open>Parse\<close>: reading back what was written of a
  value in range gives the value. Maps keyed by the written text then behave like maps keyed by
  the values.
\<close>

locale codec =
  fixes enc :: "'a \<Rightarrow> 'b" and dec :: "'b \<Rightarrow> 'a option" and in_range :: "'a \<Rightarrow> bool"
  assumes dec_enc: "in_range x \<Longrightarrow> dec (enc x) = Some x"
begin

lemma enc_inject: "in_range x \<Longrightarrow> in_range y \<Longrightarrow> enc x = enc y \<longleftrightarrow> x = y"
  by (metis dec_enc option.inject)

lemma enc_mem_iff: "in_range x \<Longrightarrow> list_all in_range ys \<Longrightarrow> enc x \<in> enc ` set ys \<longleftrightarrow> x \<in> set ys"
  by (auto simp: list_all_iff dest: enc_inject)

lemma filter_by_key:
  "list_all in_range xs \<Longrightarrow> list_all in_range ys \<Longrightarrow>
   filter (\<lambda>x. enc x \<notin> enc ` set ys) xs = filter (\<lambda>x. x \<notin> set ys) xs"
  by (rule filter_cong) (simp_all add: enc_mem_iff list_all_iff)

lemma distinct_enc: "list_all in_range xs \<Longrightarrow> distinct xs \<Longrightarrow> distinct (map enc xs)"
  by (auto simp: distinct_map inj_on_def list_all_iff dest: enc_inject)

end

text \<open>Entries stored under keys that tell apart what they stand for.\<close>

locale keyed_cache =
  fixes key :: "'k \<Rightarrow> 'c" and ok :: "'k \<Rightarrow> bool"
  assumes key_inject: "ok k \<Longrightarrow> ok k' \<Longrightarrow> key k = key k' \<longleftrightarrow> k = k'"
begin

lemma stored: "ok k \<Longrightarrow> list_all ok ks \<Longrightarrow> map_of (map (\<lambda>k. (key k, f k)) ks) (key k) = (if k \<in> set ks then Some (f k) else None)"
  by (induction ks) (auto simp: key_inject)

lemma stored_last:
  "ok k \<Longrightarrow> list_all ok ks \<Longrightarrow> map_of (rev (map (\<lambda>k. (key k, f k)) ks)) (key k) = (if k \<in> set ks then Some (f k) else None)"
  using stored [of k "rev ks" f] by (simp add: rev_map)

end

sublocale codec \<subseteq> keyed: keyed_cache enc in_range
  by unfold_locales (rule enc_inject)

interpretation decimal: codec dec_int strconv_Atoi in_int64
  by unfold_locales (rule Atoi_dec_int)

section \<open>The text of a UUID\<close>

lemma hex_digit_inject: "a < 16 \<Longrightarrow> b < 16 \<Longrightarrow> hex_digit a = hex_digit b \<longleftrightarrow> a = b"
proof -
  have "of_char (hex_digit n) = (if n < 10 then 48 + n else 87 + n)" if "n < 16" for n
    using that by (simp add: hex_digit_def of_char_of)
  then show "a < 16 \<Longrightarrow> b < 16 \<Longrightarrow> hex_digit a = hex_digit b \<longleftrightarrow> a = b"
    by (auto dest!: arg_cong [where f = "of_char :: char \<Rightarrow> nat"] split: if_splits)
qed

lemma hex_of_Suc: "hex_of (Suc w) n = hex_of w (n div 16) @ [hex_digit (n mod 16)]"
  unfolding hex_of_def by (auto simp: div_mult2_eq [symmetric] Suc_diff_Suc simp flip: power_Suc)

lemma hex_of_inject: "n < 16 ^ w \<Longrightarrow> m < 16 ^ w \<Longrightarrow> hex_of w n = hex_of w m \<longleftrightarrow> n = m"
proof (induction w arbitrary: n m)
  case (Suc w)
  then have "n div 16 < 16 ^ w" "m div 16 < 16 ^ w" by (simp_all add: less_mult_imp_div_less mult.commute)
  with Suc.IH [of "n div 16" "m div 16"] show ?case
    by (auto simp: hex_of_Suc hex_digit_inject) (metis div_mod_decomp)
qed simp

lemma length_hex_of [simp]: "length (hex_of w n) = w"
  by (simp add: hex_of_def)

lemma uuid_text_inject: "uuid_text u = uuid_text v \<longleftrightarrow> u = v"
proof
  let ?f = "\<lambda>t :: string. take 8 t @ take 4 (drop 9 t) @ take 4 (drop 14 t) @ take 4 (drop 19 t) @ drop 24 t"
  have h: "?f (uuid_text w) = hex_of 32 (unat w)" for w :: uuid
  proof -
    let ?h = "hex_of 32 (unat w)"
    have "?f (uuid_text w) = take 8 ?h @ take 4 (drop 8 ?h) @ take 4 (drop 12 ?h) @ take 4 (drop 16 ?h) @ drop 20 ?h"
      by (simp add: uuid_text_def Let_def)
    also have "\<dots> = ?h"
      using append_take_drop_id [of 8 ?h] append_take_drop_id [of 4 "drop 8 ?h"]
        append_take_drop_id [of 4 "drop 12 ?h"] append_take_drop_id [of 4 "drop 16 ?h"] by simp
    finally show ?thesis .
  qed
  have lt: "unat w < 16 ^ 32" for w :: uuid
    using unsigned_less [of w] by simp
  assume "uuid_text u = uuid_text v"
  with h [of u] h [of v] have "hex_of 32 (unat u) = hex_of 32 (unat v)" by simp
  then show "u = v" using hex_of_inject [OF lt lt] by (simp add: word_unat_eq_iff)
qed simp

lemma length_uuid_text [simp]: "length (uuid_text u) = 36"
  by (simp add: uuid_text_def Let_def)

section \<open>Lists\<close>

lemma map_if_id: "(\<And>x. x \<in> set xs \<Longrightarrow> \<not> P x) \<Longrightarrow> map (\<lambda>x. if P x then f x else x) xs = xs"
  by (induction xs) auto

end
