(* ===== verification/Calendar.thy ===== *)
theory Calendar
  imports Prelude
begin

text \<open>
  Instants, calendar dates and stay periods: \<open>util/time.go\<close>, \<open>util/range.go\<close>,
  \<open>types/iso8601_date.go\<close> and what they use of Go's package \<open>time\<close>.

  An instant is the number of nanoseconds since Go's zero time, 0001-01-01 00:00:00 UTC. Every
  \<open>time.Time\<close> is rendered in UTC, the zone the server's image runs in. The stored instants have
  PostgreSQL's resolution of a microsecond (\<open>pg_ts\<close>). A civil date is read off the day number
  with the 400/100/4/1-year cycles of the Gregorian calendar.
\<close>

section \<open>Package time\<close>

definition day_ns :: int where
  "day_ns = 86400000000000"

definition second_ns :: int where
  "second_ns = 1000000000"

definition minute_ns :: int where
  "minute_ns = 60000000000"

definition hour_ns :: int where
  "hour_ns = 3600000000000"

definition truncate_to :: "duration \<Rightarrow> time \<Rightarrow> time" where
  "truncate_to d t = t - t mod d"

definition day_of :: "time \<Rightarrow> date" where
  "day_of t = t div day_ns"

definition pg_ts :: "time \<Rightarrow> time" where
  "pg_ts t = truncate_to 1000 t"

definition leap_year :: "int \<Rightarrow> bool" where
  "leap_year y \<longleftrightarrow> y mod 4 = 0 \<and> (y mod 100 \<noteq> 0 \<or> y mod 400 = 0)"

definition days_before :: "bool \<Rightarrow> int \<Rightarrow> int" where
  "days_before leap m =
     (let l = (if leap then 1 else 0)
      in if m \<le> 1 then 0 else if m = 2 then 31 else if m = 3 then 59 + l else if m = 4 then 90 + l
         else if m = 5 then 120 + l else if m = 6 then 151 + l else if m = 7 then 181 + l
         else if m = 8 then 212 + l else if m = 9 then 243 + l else if m = 10 then 273 + l
         else if m = 11 then 304 + l else if m = 12 then 334 + l else 365 + l)"

definition days_in :: "int \<Rightarrow> int \<Rightarrow> int" where
  "days_in y m = days_before (leap_year y) (m + 1) - days_before (leap_year y) m"

definition month_of_yday :: "bool \<Rightarrow> int \<Rightarrow> int" where
  "month_of_yday leap yd =
     (let b = days_before leap
      in if yd < b 2 then 1 else if yd < b 3 then 2 else if yd < b 4 then 3 else if yd < b 5 then 4
         else if yd < b 6 then 5 else if yd < b 7 then 6 else if yd < b 8 then 7 else if yd < b 9 then 8
         else if yd < b 10 then 9 else if yd < b 11 then 10 else if yd < b 12 then 11 else 12)"

definition year_start :: "int \<Rightarrow> date" where
  "year_start y = (let p = y - 1 in 365 * p + p div 4 - p div 100 + p div 400)"

definition date_of_civil :: "int \<Rightarrow> int \<Rightarrow> int \<Rightarrow> date" where
  "date_of_civil y m d = year_start y + days_before (leap_year y) m + (d - 1)"

definition year_yday :: "date \<Rightarrow> int \<times> int" where
  "year_yday n =
     (let a = n div 146097; r = n mod 146097;
          c = min (r div 36524) 3; r = r - 36524 * c;
          q = r div 1461; r = r - 1461 * q;
          y = min (r div 365) 3
      in (400 * a + 100 * c + 4 * q + y + 1, r - 365 * y))"

definition civil_of_date :: "date \<Rightarrow> int \<times> int \<times> int" where
  "civil_of_date n =
     (let (y, yd) = year_yday n; m = month_of_yday (leap_year y) yd
      in (y, m, yd - days_before (leap_year y) m + 1))"

definition valid_civil :: "int \<Rightarrow> int \<Rightarrow> int \<Rightarrow> bool" where
  "valid_civil y m d \<longleftrightarrow> 1 \<le> m \<and> m \<le> 12 \<and> 1 \<le> d \<and> d \<le> days_in y m"

definition append_int :: "int \<Rightarrow> nat \<Rightarrow> string" where
  "append_int i w = (if i < 0 then ''-'' @ pad0 w (dec_nat (nat (- i))) else pad0 w (dec_nat (nat i)))"

definition format_date :: "time \<Rightarrow> string" where
  "format_date t = (case civil_of_date (day_of t) of (y, m, d) \<Rightarrow>
     append_int y 4 @ ''-'' @ append_int m 2 @ ''-'' @ append_int d 2)"

definition format_RFC3339 :: "time \<Rightarrow> string" where
  "format_RFC3339 t = (let s = t mod day_ns div second_ns
     in format_date t @ ''T'' @ append_int (s div 3600) 2 @ '':'' @ append_int (s div 60 mod 60) 2
        @ '':'' @ append_int (s mod 60) 2 @ ''Z'')"

definition parse_date :: "string \<Rightarrow> time option" where
  "parse_date s =
     (if length s = 10 \<and> s ! 4 = CHR ''-'' \<and> s ! 7 = CHR ''-''
      then (case (parse_digits (take 4 s), parse_digits (take 2 (drop 5 s)), parse_digits (drop 8 s)) of
              (Some y, Some m, Some d) \<Rightarrow>
                if valid_civil (int y) (int m) (int d)
                then Some (date_of_civil (int y) (int m) (int d) * day_ns) else None
            | _ \<Rightarrow> None)
      else None)"

section \<open>types/iso8601\_date.go\<close>

definition ISO8601Date_String :: "time \<Rightarrow> string" where
  "ISO8601Date_String d = format_date d"

definition ISO8601Date_MarshalJSON :: "time \<Rightarrow> string" where
  "ISO8601Date_MarshalJSON d = CHR 0x22 # ISO8601Date_String d @ [CHR 0x22]"

definition ISO8601Date_UnmarshalJSON :: "string \<Rightarrow> time option" where
  "ISO8601Date_UnmarshalJSON s =
     (if length s < 2 \<or> hd s \<noteq> CHR 0x22 \<or> last s \<noteq> CHR 0x22 then None
      else parse_date (butlast (tl s)))"

section \<open>util/time.go\<close>

definition TSToTime :: "time option \<Rightarrow> time" where
  "TSToTime t = (case t of Some x \<Rightarrow> x | None \<Rightarrow> 0)"

definition TSToTimePtr :: "time option \<Rightarrow> time option" where
  "TSToTimePtr t = t"

function nights_loop :: "time \<Rightarrow> time \<Rightarrow> time list" where
  "nights_loop current end_t =
     (if current < end_t then current # nights_loop (current + 24 * hour_ns) end_t else [])"
  by auto
termination
  by (relation "measure (\<lambda>(c, e). nat (e - c))") (auto simp: hour_ns_def)

declare nights_loop.simps [simp del]

definition NightsBetween :: "time \<Rightarrow> time \<Rightarrow> time list" where
  "NightsBetween arrival departure =
     nights_loop (truncate_to (24 * hour_ns) arrival) (truncate_to (24 * hour_ns) departure)"

definition DatesToPGDates :: "time list \<Rightarrow> date list" where
  "DatesToPGDates dates = map day_of dates"

definition RemovedDates :: "time list \<Rightarrow> time list \<Rightarrow> time list" where
  "RemovedDates old_ds new_ds =
     (let newSet = format_date ` set new_ds in filter (\<lambda>d. format_date d \<notin> newSet) old_ds)"

definition AddedDates :: "time list \<Rightarrow> time list \<Rightarrow> time list" where
  "AddedDates old_ds new_ds =
     (let oldSet = format_date ` set old_ds in filter (\<lambda>d. format_date d \<notin> oldSet) new_ds)"

section \<open>util/range.go\<close>

datatype bound_type = Inclusive | Exclusive | Unbounded | Empty

record tstzrange =
  Lower :: "time option"
  Upper :: "time option"
  LowerType :: bound_type
  UpperType :: bound_type
  RangeValid :: bool

definition ToRange :: "time \<Rightarrow> time \<Rightarrow> tstzrange" where
  "ToRange lower upper = \<lparr>Lower = Some lower, Upper = Some upper,
     LowerType = Inclusive, UpperType = Exclusive, RangeValid = True\<rparr>"

definition FormatRange :: "tstzrange \<Rightarrow> string" where
  "FormatRange r =
     (let open_b = (if LowerType r = Exclusive then ''('' else ''['');
          close_b = (if UpperType r = Inclusive then '']'' else '')'')
      in open_b @ format_RFC3339 (TSToTime (Lower r)) @ '','' @ format_RFC3339 (TSToTime (Upper r)) @ close_b)"

section \<open>util/ptr.go and util/text.go\<close>

definition PtrToUUID :: "uuid \<Rightarrow> uuid option" where
  "PtrToUUID u = (if u = uuid_Nil then None else Some u)"

definition NullUUIDToPtr :: "uuid option \<Rightarrow> uuid option" where
  "NullUUIDToPtr nu = (case nu of Some u \<Rightarrow> Some u | None \<Rightarrow> None)"

definition PtrUUID :: "uuid option \<Rightarrow> uuid" where
  "PtrUUID u = (case u of Some i \<Rightarrow> i | None \<Rightarrow> uuid_Nil)"

definition NullText :: "string option \<Rightarrow> string" where
  "NullText t = (case t of Some s \<Rightarrow> s | None \<Rightarrow> [])"

section \<open>Civil dates\<close>

lemma year_decomp:
  fixes y :: int
  obtains a c q r where "y = 400 * a + 100 * c + 4 * q + r + 1"
    "0 \<le> c" "c \<le> 3" "0 \<le> q" "q \<le> 24" "0 \<le> r" "r \<le> 3"
proof
  let ?p = "y - 1"
  have "?p = 400 * (?p div 400) + ?p mod 400"
    "?p mod 400 = 100 * (?p mod 400 div 100) + ?p mod 400 mod 100"
    "?p mod 400 mod 100 = 4 * (?p mod 400 mod 100 div 4) + ?p mod 400 mod 100 mod 4"
    by simp_all
  then show "y = 400 * (?p div 400) + 100 * (?p mod 400 div 100) + 4 * (?p mod 400 mod 100 div 4)
      + ?p mod 400 mod 100 mod 4 + 1"
    by linarith
  have "0 \<le> ?p mod 400" "?p mod 400 < 400" "0 \<le> ?p mod 400 mod 100" "?p mod 400 mod 100 < 100"
    by simp_all
  then show "0 \<le> ?p mod 400 div 100" "?p mod 400 div 100 \<le> 3" "0 \<le> ?p mod 400 mod 100 div 4"
    "?p mod 400 mod 100 div 4 \<le> 24"
    by linarith+
  have "?p mod 400 mod 100 mod 4 < 4" by (rule pos_mod_bound) simp
  then show "0 \<le> ?p mod 400 mod 100 mod 4" "?p mod 400 mod 100 mod 4 \<le> 3"
    by simp_all
qed

lemma cycle_divs:
  fixes a c q r :: int
  assumes "0 \<le> c" "c \<le> 3" "0 \<le> q" "q \<le> 24" "0 \<le> r" "r \<le> 3"
  shows "(400 * a + 100 * c + 4 * q + r) div 4 = 100 * a + 25 * c + q"
    and "(400 * a + 100 * c + 4 * q + r) div 100 = 4 * a + c"
    and "(400 * a + 100 * c + 4 * q + r) div 400 = a"
  using assms
  by (auto intro: int_div_pos_eq [of _ _ _ r] int_div_pos_eq [of _ _ _ "4 * q + r"]
      int_div_pos_eq [of _ _ _ "100 * c + 4 * q + r"])

lemma year_start_cycles:
  assumes "0 \<le> c" "c \<le> 3" "0 \<le> q" "q \<le> 24" "0 \<le> r" "r \<le> 3"
  shows "year_start (400 * a + 100 * c + 4 * q + r + 1) = 146097 * a + 36524 * c + 1461 * q + 365 * r"
  using cycle_divs [OF assms, of a] by (simp add: year_start_def Let_def)

lemma leap_year_cycles:
  assumes "0 \<le> c" "c \<le> 3" "0 \<le> q" "q \<le> 24" "0 \<le> r" "r \<le> 3"
  shows "leap_year (400 * a + 100 * c + 4 * q + r + 1) \<longleftrightarrow> r = 3 \<and> (q < 24 \<or> c = 3)"
proof -
  let ?y = "400 * a + 100 * c + 4 * q + r + 1"
  have 4: "?y mod 4 = 0 \<longleftrightarrow> r = 3"
  proof (cases "r = 3")
    case True
    then have "?y = 4 * (100 * a + 25 * c + q + 1) + 0" by simp
    then have "?y mod 4 = 0" by (rule int_mod_pos_eq) simp_all
    with True show ?thesis by simp
  next
    case False
    have "?y = 4 * (100 * a + 25 * c + q) + (r + 1)" by simp
    then have "?y mod 4 = r + 1" by (rule int_mod_pos_eq) (use assms False in simp_all)
    with False assms show ?thesis by simp
  qed
  have 100: "?y mod 100 = 0 \<longleftrightarrow> r = 3 \<and> q = 24"
  proof (cases "r = 3 \<and> q = 24")
    case True
    then have "?y = 100 * (4 * a + c + 1) + 0" by simp
    then have "?y mod 100 = 0" by (rule int_mod_pos_eq) simp_all
    with True show ?thesis by simp
  next
    case False
    have "?y = 100 * (4 * a + c) + (4 * q + r + 1)" by simp
    then have "?y mod 100 = 4 * q + r + 1" by (rule int_mod_pos_eq) (use assms False in auto)
    with False assms show ?thesis by auto
  qed
  have 400: "?y mod 400 = 0 \<longleftrightarrow> r = 3 \<and> q = 24 \<and> c = 3"
  proof (cases "r = 3 \<and> q = 24 \<and> c = 3")
    case True
    then have "?y = 400 * (a + 1) + 0" by simp
    then have "?y mod 400 = 0" by (rule int_mod_pos_eq) simp_all
    with True show ?thesis by simp
  next
    case False
    have "?y = 400 * a + (100 * c + 4 * q + r + 1)" by simp
    then have "?y mod 400 = 100 * c + 4 * q + r + 1" by (rule int_mod_pos_eq) (use assms False in auto)
    with False assms show ?thesis by auto
  qed
  from 4 100 400 show ?thesis using assms unfolding leap_year_def by auto
qed

lemma year_yday_eq:
  assumes "a = n div 146097" "r1 = n mod 146097" "c = min (r1 div 36524) 3" "r2 = r1 - 36524 * c"
    "q = r2 div 1461" "r3 = r2 - 1461 * q" "y = min (r3 div 365) 3"
  shows "year_yday n = (400 * a + 100 * c + 4 * q + y + 1, r3 - 365 * y)"
  unfolding year_yday_def Let_def assms ..

lemma year_length_bounds:
  "year_yday n = (y, yd) \<Longrightarrow> 0 \<le> yd \<and> yd < (if leap_year y then 366 else 365) \<and> n = year_start y + yd"
proof -
  assume yy: "year_yday n = (y, yd)"
  define a r1 where "a = n div 146097" and "r1 = n mod 146097"
  define c where "c = min (r1 div 36524) 3"
  define r2 where "r2 = r1 - 36524 * c"
  define q where "q = r2 div 1461"
  define r3 where "r3 = r2 - 1461 * q"
  define r where "r = min (r3 div 365) 3"
  have n: "n = 146097 * a + r1" and r1: "0 \<le> r1" "r1 \<le> 146096"
    by (simp_all add: a_def r1_def)
  have c: "0 \<le> c" "c \<le> 3" and r2: "0 \<le> r2" "r2 \<le> (if c = 3 then 36524 else 36523)"
    using r1 unfolding r2_def c_def by (auto simp: min_def)
  have q: "0 \<le> q" "q \<le> 24" and r3: "0 \<le> r3" "r3 \<le> 1460" "q = 24 \<Longrightarrow> c < 3 \<Longrightarrow> r3 \<le> 1459"
    using r2 unfolding r3_def q_def by (auto split: if_splits)
  have r: "0 \<le> r" "r \<le> 3" and yd: "0 \<le> r3 - 365 * r" "r3 - 365 * r \<le> (if r = 3 then 365 else 364)"
    "r3 \<le> 1459 \<Longrightarrow> r3 - 365 * r \<le> 364"
    using r3(1,2) unfolding r_def by (auto simp: min_def)
  have y: "y = 400 * a + 100 * c + 4 * q + r + 1" and ydd: "yd = r3 - 365 * r"
    using yy year_yday_eq [OF a_def r1_def c_def r2_def q_def r3_def r_def] by simp_all
  have "n = year_start y + yd"
    using year_start_cycles [OF c q r, of a] n y ydd r2_def r3_def by simp
  moreover have "yd < (if leap_year y then 366 else 365)"
    using leap_year_cycles [OF c q r, of a] y ydd yd r3 c q by (auto split: if_splits)
  ultimately show ?thesis using yd ydd by simp
qed

lemma year_yday_start:
  assumes "0 \<le> yd" "yd < (if leap_year y then 366 else 365)"
  shows "year_yday (year_start y + yd) = (y, yd)"
proof -
  obtain a c q r where y: "y = 400 * a + 100 * c + 4 * q + r + 1"
    and b: "0 \<le> c" "c \<le> 3" "0 \<le> q" "q \<le> 24" "0 \<le> r" "r \<le> 3"
    by (rule year_decomp)
  have leap: "leap_year y \<longleftrightarrow> r = 3 \<and> (q < 24 \<or> c = 3)"
    unfolding y by (rule leap_year_cycles [OF b])
  define r3 where "r3 = 365 * r + yd"
  define r2 where "r2 = 1461 * q + r3"
  define r1 where "r1 = 36524 * c + r2"
  have n: "year_start y + yd = 146097 * a + r1"
    unfolding y r1_def r2_def r3_def by (simp add: year_start_cycles [OF b])
  have r3: "0 \<le> r3" "r3 \<le> 1460" "q = 24 \<Longrightarrow> c < 3 \<Longrightarrow> r3 \<le> 1459" "min (r3 div 365) 3 = r"
    using assms b leap unfolding r3_def by (auto split: if_splits)
  have r2: "0 \<le> r2" "r2 \<le> (if c = 3 then 36524 else 36523)" "r2 div 1461 = q"
    using r3 b unfolding r2_def by (cases "q = 24"; auto split: if_splits)+
  have r1: "0 \<le> r1" "r1 < 146097" "min (r1 div 36524) 3 = c"
    using r2 b unfolding r1_def by (auto split: if_splits)
  have "a = (146097 * a + r1) div 146097" "r1 = (146097 * a + r1) mod 146097"
    using r1 by simp_all
  moreover have "r2 = r1 - 36524 * c" "r3 = r2 - 1461 * q"
    by (simp_all add: r1_def r2_def)
  ultimately have "year_yday (year_start y + yd) = (400 * a + 100 * c + 4 * q + r + 1, r3 - 365 * r)"
    unfolding n using r1(3) r2(3) r3(4) by (metis year_yday_eq)
  then show ?thesis by (simp add: r3_def y)
qed

lemma days_before_table [simp]:
  "days_before l 1 = 0" "days_before l 2 = 31"
  "days_before False 3 = 59" "days_before False 4 = 90" "days_before False 5 = 120"
  "days_before False 6 = 151" "days_before False 7 = 181" "days_before False 8 = 212"
  "days_before False 9 = 243" "days_before False 10 = 273" "days_before False 11 = 304"
  "days_before False 12 = 334" "days_before False 13 = 365"
  "days_before True 3 = 60" "days_before True 4 = 91" "days_before True 5 = 121"
  "days_before True 6 = 152" "days_before True 7 = 182" "days_before True 8 = 213"
  "days_before True 9 = 244" "days_before True 10 = 274" "days_before True 11 = 305"
  "days_before True 12 = 335" "days_before True 13 = 366"
  by (simp_all add: days_before_def)

lemma month_cases:
  fixes m :: int
  assumes "1 \<le> m" "m \<le> 12"
  shows "m = 1 \<or> m = 2 \<or> m = 3 \<or> m = 4 \<or> m = 5 \<or> m = 6 \<or> m = 7 \<or> m = 8 \<or> m = 9 \<or> m = 10 \<or> m = 11 \<or> m = 12"
  using assms by presburger

lemma year_start_Suc: "year_start (y + 1) = year_start y + (if leap_year y then 366 else 365)"
proof -
  obtain a c q r where y: "y = 400 * a + 100 * c + 4 * q + r + 1"
    and b: "0 \<le> c" "c \<le> 3" "0 \<le> q" "q \<le> 24" "0 \<le> r" "r \<le> 3"
    by (rule year_decomp)
  have leap: "leap_year y \<longleftrightarrow> r = 3 \<and> (q < 24 \<or> c = 3)"
    unfolding y by (rule leap_year_cycles [OF b])
  consider "r < 3" | "r = 3" "q < 24" | "r = 3" "q = 24" "c < 3" | "r = 3" "q = 24" "c = 3"
    using b by linarith
  then show ?thesis
  proof cases
    case 1
    then show ?thesis using leap b year_start_cycles [of c q "r + 1" a] year_start_cycles [OF b, of a]
      by (simp add: y algebra_simps)
  next
    case 2
    then show ?thesis using leap b year_start_cycles [of c "q + 1" 0 a] year_start_cycles [OF b, of a]
      by (simp add: y algebra_simps)
  next
    case 3
    then show ?thesis using leap b year_start_cycles [of "c + 1" 0 0 a] year_start_cycles [OF b, of a]
      by (simp add: y algebra_simps)
  next
    case 4
    then show ?thesis using leap b year_start_cycles [of 0 0 0 "a + 1"] year_start_cycles [OF b, of a]
      by (simp add: y algebra_simps)
  qed
qed

lemma year_start_mono: "y \<le> z \<Longrightarrow> year_start y \<le> year_start z"
proof (induction "nat (z - y)" arbitrary: z)
  case (Suc k)
  then have "year_start y \<le> year_start (z - 1)" by simp
  also have "\<dots> \<le> year_start z" using year_start_Suc [of "z - 1"] by simp
  finally show ?case .
qed simp

lemma month_of_yday_bounds:
  assumes "0 \<le> yd" "yd < (if leap then 366 else 365)"
  shows "1 \<le> month_of_yday leap yd \<and> month_of_yday leap yd \<le> 12 \<and>
    days_before leap (month_of_yday leap yd) \<le> yd \<and> yd < days_before leap (month_of_yday leap yd + 1)"
  using assms by (cases leap) (simp_all add: month_of_yday_def Let_def)

lemma month_of_yday_eq:
  assumes "1 \<le> m" "m \<le> 12" "days_before leap m \<le> yd" "yd < days_before leap (m + 1)"
  shows "month_of_yday leap yd = m"
  using month_cases [OF assms(1,2)] assms(3,4)
  by (cases leap; elim disjE) (simp_all add: month_of_yday_def Let_def)

lemma year_ends:
  assumes "1 \<le> m" "m \<le> 12"
  shows "0 \<le> days_before leap m" "days_before leap (m + 1) \<le> (if leap then 366 else 365)"
  using month_cases [OF assms] by (cases leap; elim disjE; simp)+

lemma civil_of_date_valid:
  assumes "civil_of_date n = (y, m, d)"
  shows "valid_civil y m d" and "date_of_civil y m d = n"
proof -
  obtain yd where yy: "year_yday n = (y, yd)"
    and m: "m = month_of_yday (leap_year y) yd" and d: "d = yd - days_before (leap_year y) m + 1"
    using assms by (auto simp: civil_of_date_def Let_def split: prod.splits)
  from year_length_bounds [OF yy] have yd: "0 \<le> yd" "yd < (if leap_year y then 366 else 365)"
    and n: "n = year_start y + yd" by auto
  from month_of_yday_bounds [OF yd] m d show "valid_civil y m d"
    by (simp add: valid_civil_def days_in_def)
  from n d show "date_of_civil y m d = n" by (simp add: date_of_civil_def)
qed

lemma civil_of_date_of_civil:
  assumes "valid_civil y m d"
  shows "civil_of_date (date_of_civil y m d) = (y, m, d)"
proof -
  define yd where "yd = days_before (leap_year y) m + (d - 1)"
  have m: "1 \<le> m" "m \<le> 12" and d: "1 \<le> d" "d \<le> days_in y m"
    using assms by (simp_all add: valid_civil_def)
  have yd: "days_before (leap_year y) m \<le> yd" "yd < days_before (leap_year y) (m + 1)"
    using d by (simp_all add: yd_def days_in_def)
  have "year_yday (year_start y + yd) = (y, yd)"
    using yd year_ends [OF m, of "leap_year y"] by (intro year_yday_start) auto
  moreover have "month_of_yday (leap_year y) yd = m"
    using m yd by (rule month_of_yday_eq)
  ultimately show ?thesis
    by (simp add: civil_of_date_def date_of_civil_def yd_def add.assoc)
qed

section \<open>Dates as text\<close>

definition iso_year :: "time \<Rightarrow> bool" where
  "iso_year t \<longleftrightarrow> (case civil_of_date (day_of t) of (y, m, d) \<Rightarrow> 0 \<le> y \<and> y \<le> 9999)"

definition iso_midnight :: "time \<Rightarrow> bool" where
  "iso_midnight t \<longleftrightarrow> t mod day_ns = 0 \<and> iso_year t"

lemma day_ns_pos [simp]: "0 < day_ns"
  by (simp add: day_ns_def)

lemma truncate_day: "truncate_to day_ns t = day_of t * day_ns"
  by (simp add: truncate_to_def day_of_def minus_mod_eq_div_mult)

lemma day_of_midnight [simp]: "day_of (n * day_ns) = n"
  by (simp add: day_of_def day_ns_def)

lemma midnight_eq: "t mod day_ns = 0 \<Longrightarrow> day_of t * day_ns = t"
  unfolding day_of_def by (metis add.right_neutral div_mult_mod_eq)

lemma field_width:
  assumes "0 \<le> i" "i < 10 ^ w" "0 < w"
  shows "append_int i w = pad0 w (dec_nat (nat i))"
    and "length (pad0 w (dec_nat (nat i))) = w"
    and "parse_digits (pad0 w (dec_nat (nat i))) = Some (nat i)"
proof -
  obtain k where k: "w = Suc k" using assms(3) by (cases w) auto
  then have "nat i < 10 ^ Suc k"
    using assms by (simp add: nat_less_iff)
  then show "length (pad0 w (dec_nat (nat i))) = w"
    unfolding k by (intro length_pad0 length_dec_nat)
qed (use assms in \<open>simp_all add: append_int_def parse_digits_pad0\<close>)

lemma days_in_le: "1 \<le> m \<Longrightarrow> m \<le> 12 \<Longrightarrow> days_in y m \<le> 31"
  unfolding days_in_def by (cases "leap_year y"; drule (1) month_cases; elim disjE; simp)

lemma parse_date_fields:
  assumes "length a = 4" "length b = 2" "length c = 2"
  shows "parse_date (a @ ''-'' @ b @ ''-'' @ c) =
    (case (parse_digits a, parse_digits b, parse_digits c) of
       (Some y, Some m, Some d) \<Rightarrow>
         if valid_civil (int y) (int m) (int d)
         then Some (date_of_civil (int y) (int m) (int d) * day_ns) else None
     | _ \<Rightarrow> None)"
  using assms by (simp add: parse_date_def nth_append)

lemma parse_format_date:
  assumes "iso_year t"
  shows "parse_date (format_date t) = Some (truncate_to day_ns t)"
proof -
  obtain y m d where c: "civil_of_date (day_of t) = (y, m, d)" by (cases "civil_of_date (day_of t)")
  with assms have y: "0 \<le> y" "y < 10 ^ 4" "0 < (4 :: nat)" by (auto simp: iso_year_def)
  have v: "valid_civil y m d" and n: "date_of_civil y m d = day_of t"
    using civil_of_date_valid [OF c] .
  then have m: "0 \<le> m" "m < 10 ^ 2" "0 < (2 :: nat)" and d: "0 \<le> d" "d < 10 ^ 2" "0 < (2 :: nat)"
    using days_in_le [of m y] by (auto simp: valid_civil_def)
  have "format_date t = pad0 4 (dec_nat (nat y)) @ ''-'' @ pad0 2 (dec_nat (nat m)) @ ''-'' @ pad0 2 (dec_nat (nat d))"
    using field_width(1) [OF y] field_width(1) [OF m] field_width(1) [OF d] c
    by (simp add: format_date_def)
  then show ?thesis
    using field_width(2,3) [OF y] field_width(2,3) [OF m] field_width(2,3) [OF d] y m d v n
    by (simp only: parse_date_fields truncate_day) simp
qed

interpretation iso_date: codec format_date parse_date iso_midnight
  by unfold_locales (simp add: iso_midnight_def parse_format_date truncate_to_def)

lemma format_parse_date:
  assumes "parse_date s = Some t"
  shows "format_date t = s \<and> iso_midnight t"
proof -
  let ?a = "take 4 s" and ?b = "take 2 (drop 5 s)" and ?c = "drop 8 s"
  from assms obtain y m d where len: "length s = 10" "s ! 4 = CHR ''-''" "s ! 7 = CHR ''-''"
    and p: "parse_digits ?a = Some y" "parse_digits ?b = Some m" "parse_digits ?c = Some d"
    and v: "valid_civil (int y) (int m) (int d)"
    and t: "t = date_of_civil (int y) (int m) (int d) * day_ns"
    by (auto simp: parse_date_def split: if_splits option.splits)
  have fields: "pad0 4 (dec_nat y) = ?a" "pad0 2 (dec_nat m) = ?b" "pad0 2 (dec_nat d) = ?c"
    using pad0_read_nat [of ?a] pad0_read_nat [of ?b] pad0_read_nat [of ?c] p len(1)
    by (auto simp: parse_digits_def split: if_splits)
  have "s = ?a @ s ! 4 # ?b @ s ! 7 # ?c"
    using len(1) by (intro nth_equalityI) (auto simp: nth_append nth_Cons less_Suc_eq numeral_eq_Suc split: nat.splits)
  moreover have "civil_of_date (day_of t) = (int y, int m, int d)"
    using v t by (simp add: civil_of_date_of_civil)
  moreover have "y < 10 ^ 4"
    using p(1) read_nat_less [of ?a] len(1) by (auto simp: parse_digits_def split: if_splits)
  ultimately show ?thesis
    using fields len t by (simp add: format_date_def append_int_def iso_midnight_def iso_year_def)
qed

section \<open>Nights\<close>

lemma hours_24: "24 * hour_ns = day_ns"
  by (simp add: hour_ns_def day_ns_def)

lemma nights_loop_upto:
  "nights_loop (a * day_ns) (b * day_ns) = map (\<lambda>n. n * day_ns) [a..b - 1]"
proof (induction "nat (b - a)" arbitrary: a)
  case 0
  then show ?case by (simp add: nights_loop.simps day_ns_def)
next
  case (Suc k)
  then have "a < b" by simp
  moreover from Suc have "nights_loop ((a + 1) * day_ns) (b * day_ns) = map (\<lambda>n. n * day_ns) [a + 1..b - 1]"
    by simp
  ultimately show ?case
    by (subst nights_loop.simps) (simp add: hours_24 upto_rec1 distrib_right)
qed

lemma NightsBetween_upto:
  "NightsBetween a d = map (\<lambda>n. n * day_ns) [day_of a..day_of d - 1]"
  by (simp add: NightsBetween_def hours_24 truncate_day nights_loop_upto)

lemma set_NightsBetween:
  "t \<in> set (NightsBetween a d) \<longleftrightarrow> t mod day_ns = 0 \<and> day_of a \<le> day_of t \<and> day_of t < day_of d"
proof
  assume r: "t mod day_ns = 0 \<and> day_of a \<le> day_of t \<and> day_of t < day_of d"
  then have "t = day_of t * day_ns" by (simp only: midnight_eq)
  with r show "t \<in> set (NightsBetween a d)"
    unfolding NightsBetween_upto by (intro list.set_map [THEN equalityD2, THEN subsetD] image_eqI) auto
qed (auto simp: NightsBetween_upto)

lemma distinct_NightsBetween: "distinct (NightsBetween a d)"
  by (simp add: NightsBetween_upto distinct_map inj_on_def day_ns_def)

definition iso_stay :: "time \<Rightarrow> time \<Rightarrow> bool" where
  "iso_stay a d \<longleftrightarrow> year_start 0 \<le> day_of a \<and> day_of d \<le> year_start 10000"

lemma civil_year_bounds:
  assumes "civil_of_date n = (y, m, d)"
  shows "year_start y \<le> n" "n < year_start (y + 1)"
proof -
  obtain yd where yy: "year_yday n = (y, yd)"
    using assms by (auto simp: civil_of_date_def Let_def split: prod.splits)
  note b = year_length_bounds [OF yy]
  then show "year_start y \<le> n" by simp
  from b show "n < year_start (y + 1)"
    using year_start_Suc [of y] by simp
qed

lemma iso_year_iff: "iso_year t \<longleftrightarrow> year_start 0 \<le> day_of t \<and> day_of t < year_start 10000"
proof -
  obtain y m d where c: "civil_of_date (day_of t) = (y, m, d)" by (cases "civil_of_date (day_of t)")
  note b = civil_year_bounds [OF c]
  have "y < 0 \<Longrightarrow> day_of t < year_start 0" "10000 \<le> y \<Longrightarrow> year_start 10000 \<le> day_of t"
    "0 \<le> y \<Longrightarrow> year_start 0 \<le> day_of t" "y \<le> 9999 \<Longrightarrow> day_of t < year_start 10000"
    using b year_start_mono [of "y + 1" 0] year_start_mono [of 10000 y] year_start_mono [of 0 y]
      year_start_mono [of "y + 1" 10000] by linarith+
  with c show ?thesis by (cases "y < 0"; cases "10000 \<le> y") (auto simp: iso_year_def)
qed

lemma NightsBetween_iso: "iso_stay a d \<Longrightarrow> list_all iso_midnight (NightsBetween a d)"
  by (auto simp: list_all_iff set_NightsBetween iso_midnight_def iso_year_iff iso_stay_def)

lemma DatesToPGDates_NightsBetween: "DatesToPGDates (NightsBetween a d) = [day_of a..day_of d - 1]"
  by (simp add: NightsBetween_upto DatesToPGDates_def o_def)

lemma RemovedDates_iso:
  "iso_stay a d \<Longrightarrow> iso_stay a' d' \<Longrightarrow>
   RemovedDates (NightsBetween a d) (NightsBetween a' d') =
   filter (\<lambda>t. t \<notin> set (NightsBetween a' d')) (NightsBetween a d)"
  unfolding RemovedDates_def Let_def by (intro iso_date.filter_by_key NightsBetween_iso)

lemma AddedDates_RemovedDates: "AddedDates xs ys = RemovedDates ys xs"
  by (simp add: AddedDates_def RemovedDates_def)

section \<open>What the calendar code guarantees\<close>

text \<open>The nights of a stay, as the dates the inventory ledger is keyed by, are the consecutive
  calendar days from the day of arrival up to, and not including, the day of departure: none
  is missing, none repeated, the departure day is never charged, and a stay that does not
  cross midnight has none.\<close>

theorem nights_are_days:
  "DatesToPGDates (NightsBetween arrival departure) = [day_of arrival..day_of departure - 1]"
  by (rule DatesToPGDates_NightsBetween)

text \<open>When a stay is changed, \<open>RemovedDates\<close> are exactly the nights of the old stay outside the
  new one and \<open>AddedDates\<close> the nights of the new stay outside the old one, in order, although
  both functions compare dates through their text: for stays within the years the text can
  tell apart (0000 to 9999), dropping the removed nights and adding the added ones gives
  precisely the new stay.\<close>

theorem stay_change_nights:
  assumes "iso_stay a d" and "iso_stay a' d'"
  shows "RemovedDates (NightsBetween a d) (NightsBetween a' d') =
           filter (\<lambda>t. \<not> (day_of a' \<le> day_of t \<and> day_of t < day_of d')) (NightsBetween a d)
    \<and> AddedDates (NightsBetween a d) (NightsBetween a' d') =
           filter (\<lambda>t. \<not> (day_of a \<le> day_of t \<and> day_of t < day_of d)) (NightsBetween a' d')
    \<and> set (NightsBetween a' d') =
           (set (NightsBetween a d) - set (RemovedDates (NightsBetween a d) (NightsBetween a' d')))
           \<union> set (AddedDates (NightsBetween a d) (NightsBetween a' d'))"
  using assms
  by (auto simp: RemovedDates_iso AddedDates_RemovedDates set_NightsBetween intro!: filter_cong)

theorem stay_change_nights_witness:
  "RemovedDates (NightsBetween 0 (3 * day_ns)) (NightsBetween day_ns (4 * day_ns)) =
     filter (\<lambda>t. \<not> (day_of day_ns \<le> day_of t \<and> day_of t < day_of (4 * day_ns))) (NightsBetween 0 (3 * day_ns))"
proof -
  have "iso_stay 0 (3 * day_ns)" "iso_stay day_ns (4 * day_ns)"
    by (simp_all add: iso_stay_def year_start_def day_of_def day_ns_def)
  then show ?thesis by (rule stay_change_nights [THEN conjunct1])
qed

text \<open>C18. The JSON form of a date round-trips both ways: reading back a written date of a year
  0000 to 9999 gives the midnight of the same day, and every accepted text is exactly the
  text that is written for the date read, so no second spelling of a date is accepted.\<close>

theorem iso8601_roundtrip:
  assumes "iso_year t"
  shows "ISO8601Date_UnmarshalJSON (ISO8601Date_MarshalJSON t) = Some (truncate_to day_ns t)
    \<and> (\<forall>s u. ISO8601Date_UnmarshalJSON s = Some u \<longrightarrow> ISO8601Date_MarshalJSON u = s)"
proof -
  have "ISO8601Date_MarshalJSON u = s" if u: "ISO8601Date_UnmarshalJSON s = Some u" for s u
  proof -
    obtain c r where s: "s = c # r" "r \<noteq> []" "c = CHR 0x22" "last r = CHR 0x22"
      using u by (cases s) (auto simp: ISO8601Date_UnmarshalJSON_def split: if_splits)
    with u format_parse_date [of "butlast r" u] have "format_date u = butlast r"
      by (simp add: ISO8601Date_UnmarshalJSON_def split: if_splits)
    with s show ?thesis
      by (metis ISO8601Date_MarshalJSON_def ISO8601Date_String_def append_butlast_last_id)
  qed
  then show ?thesis
    using parse_format_date [OF assms]
    by (simp add: ISO8601Date_UnmarshalJSON_def ISO8601Date_MarshalJSON_def ISO8601Date_String_def)
qed

theorem iso8601_roundtrip_witness:
  "ISO8601Date_UnmarshalJSON (ISO8601Date_MarshalJSON (63902736000 * second_ns + 5)) =
     Some (truncate_to day_ns (63902736000 * second_ns + 5))"
proof -
  have "iso_year (63902736000 * second_ns + 5)"
    by (simp add: iso_year_iff day_of_def day_ns_def second_ns_def year_start_def)
  then show ?thesis by (simp only: iso8601_roundtrip)
qed

end
