(* ===== verification/Errors.thy ===== *)
theory Errors
  imports Prelude
begin

text \<open>
  Errors as values: \<open>apierror/apierror.go\<close>, \<open>helpers/db_errors.go\<close> and the sentinel errors of
  \<open>booking/errors.go\<close>.

  A Go \<open>error\<close> that is not nil is a \<open>goerr\<close>: an \<open>*APIError\<close>, \<open>pgx.ErrNoRows\<close>, a PostgreSQL error
  with its SQLSTATE, a cancelled or expired context, an error of another package, \<open>fmt.Errorf\<close> wrapping with \<open>%w\<close> or
  \<open>errors.Join\<close>. \<open>errors.Is\<close> and \<open>errors.As\<close> search that tree depth first.
\<close>

section \<open>Error values\<close>

record APIError =
  ErrCode :: string
  ErrMessage :: string
  ErrStatus :: int
  Suggestions :: "string list"

record PgError =
  PgCode :: string
  PgMessage :: string
  PgDetail :: string

datatype goerr =
    ApiE APIError
  | NoRows
  | PgE PgError
  | ContextCanceled
  | ContextDeadlineExceeded
  | ErrorString string
  | Wrap string goerr
  | Joined "goerr list"

definition New :: "string \<Rightarrow> string \<Rightarrow> int \<Rightarrow> APIError" where
  "New code message status =
     \<lparr>ErrCode = code, ErrMessage = message, ErrStatus = status, Suggestions = []\<rparr>"

definition WithMessage :: "APIError \<Rightarrow> string \<Rightarrow> APIError" where
  "WithMessage e msg =
     \<lparr>ErrCode = ErrCode e, ErrMessage = msg, ErrStatus = ErrStatus e, Suggestions = []\<rparr>"

definition WithSuggestions :: "APIError \<Rightarrow> string list \<Rightarrow> APIError" where
  "WithSuggestions e ss =
     \<lparr>ErrCode = ErrCode e, ErrMessage = ErrMessage e, ErrStatus = ErrStatus e, Suggestions = ss\<rparr>"

fun errors_As_api :: "goerr \<Rightarrow> APIError option"
  and errors_As_api_list :: "goerr list \<Rightarrow> APIError option" where
  "errors_As_api (ApiE a) = Some a"
| "errors_As_api (Wrap m e) = errors_As_api e"
| "errors_As_api (Joined es) = errors_As_api_list es"
| "errors_As_api _ = None"
| "errors_As_api_list [] = None"
| "errors_As_api_list (e # es) =
     (case errors_As_api e of Some a \<Rightarrow> Some a | None \<Rightarrow> errors_As_api_list es)"

fun errors_As_pg :: "goerr \<Rightarrow> PgError option"
  and errors_As_pg_list :: "goerr list \<Rightarrow> PgError option" where
  "errors_As_pg (PgE p) = Some p"
| "errors_As_pg (Wrap m e) = errors_As_pg e"
| "errors_As_pg (Joined es) = errors_As_pg_list es"
| "errors_As_pg _ = None"
| "errors_As_pg_list [] = None"
| "errors_As_pg_list (e # es) =
     (case errors_As_pg e of Some a \<Rightarrow> Some a | None \<Rightarrow> errors_As_pg_list es)"

fun errors_Is_NoRows :: "goerr \<Rightarrow> bool"
  and errors_Is_NoRows_list :: "goerr list \<Rightarrow> bool" where
  "errors_Is_NoRows NoRows = True"
| "errors_Is_NoRows (Wrap m e) = errors_Is_NoRows e"
| "errors_Is_NoRows (Joined es) = errors_Is_NoRows_list es"
| "errors_Is_NoRows _ = False"
| "errors_Is_NoRows_list [] = False"
| "errors_Is_NoRows_list (e # es) = (errors_Is_NoRows e \<or> errors_Is_NoRows_list es)"

fun errors_Is_context :: "goerr \<Rightarrow> bool"
  and errors_Is_context_list :: "goerr list \<Rightarrow> bool" where
  "errors_Is_context ContextCanceled = True"
| "errors_Is_context ContextDeadlineExceeded = True"
| "errors_Is_context (Wrap m e) = errors_Is_context e"
| "errors_Is_context (Joined es) = errors_Is_context_list es"
| "errors_Is_context _ = False"
| "errors_Is_context_list [] = False"
| "errors_Is_context_list (e # es) = (errors_Is_context e \<or> errors_Is_context_list es)"

fun err_text :: "goerr \<Rightarrow> string"
  and err_texts :: "goerr list \<Rightarrow> string" where
  "err_text (ApiE a) = ErrMessage a"
| "err_text NoRows = ''no rows in result set''"
| "err_text (PgE p) = ''ERROR: '' @ PgMessage p @ '' (SQLSTATE '' @ PgCode p @ '')''"
| "err_text ContextCanceled = ''context canceled''"
| "err_text ContextDeadlineExceeded = ''context deadline exceeded''"
| "err_text (ErrorString m) = m"
| "err_text (Wrap m e) = m @ err_text e"
| "err_text (Joined es) = err_texts es"
| "err_texts [] = []"
| "err_texts [e] = err_text e"
| "err_texts (e # e' # es) = err_text e @ [CHR 0x0A] @ err_texts (e' # es)"

section \<open>helpers/db\_errors.go\<close>

definition UniqueViolationCode :: string where "UniqueViolationCode = ''23505''"
definition ForeignKeyViolationCode :: string where "ForeignKeyViolationCode = ''23503''"
definition CheckViolationCode :: string where "CheckViolationCode = ''23514''"
definition NotNullViolationCode :: string where "NotNullViolationCode = ''23502''"
definition RaiseExceptionCode :: string where "RaiseExceptionCode = ''P0001''"
definition InvalidTextRepresentationCode :: string where "InvalidTextRepresentationCode = ''22P02''"
definition DataExceptionCode :: string where "DataExceptionCode = ''22000''"
definition ExclusionViolationCode :: string where "ExclusionViolationCode = ''23P01''"
definition UndefinedObjectCode :: string where "UndefinedObjectCode = ''42704''"

definition CheckErrorCode :: "goerr \<Rightarrow> string \<Rightarrow> bool" where
  "CheckErrorCode err code = (case errors_As_pg err of Some p \<Rightarrow> PgCode p = code | None \<Rightarrow> False)"

section \<open>The sentinels of apierror.go\<close>

definition ErrNotFound :: APIError where
  "ErrNotFound = New ''NOT_FOUND'' ''resource not found'' 404"
definition ErrBadRequest :: APIError where
  "ErrBadRequest = New ''BAD_REQUEST'' ''invalid request'' 400"
definition ErrUnauthorized :: APIError where
  "ErrUnauthorized = New ''UNAUTHORIZED'' ''authentication required'' 401"
definition ErrForbidden :: APIError where
  "ErrForbidden = New ''FORBIDDEN'' ''insufficient permissions'' 403"
definition ErrConflict :: APIError where
  "ErrConflict = New ''CONFLICT'' ''resource already exists'' 409"
definition ErrInternal :: APIError where
  "ErrInternal = New ''INTERNAL_ERROR'' ''internal server error'' 500"
definition ErrUnprocessable :: APIError where
  "ErrUnprocessable = New ''UNPROCESSABLE_ENTITY'' ''the request contains invalid data'' 422"

definition MapPostgresError :: "goerr \<Rightarrow> APIError" where
  "MapPostgresError err =
     (if CheckErrorCode err UniqueViolationCode
      then WithMessage ErrConflict ''a record with this value already exists''
      else if CheckErrorCode err ForeignKeyViolationCode
      then WithMessage ErrBadRequest ''referenced resource does not exist''
      else if CheckErrorCode err CheckViolationCode
      then WithMessage ErrUnprocessable ''the value violates a database constraint''
      else if CheckErrorCode err ExclusionViolationCode
      then WithMessage ErrConflict ''the dates overlap with an existing reservation''
      else if CheckErrorCode err RaiseExceptionCode
      then (case errors_As_pg err of
              Some p \<Rightarrow> if PgDetail p \<noteq> [] then WithMessage ErrUnprocessable (PgDetail p)
                        else WithMessage ErrUnprocessable ''the request violates a business rule''
            | None \<Rightarrow> WithMessage ErrUnprocessable ''the request violates a business rule'')
      else WithMessage ErrInternal ''an unexpected database error occurred'')"

definition MapStoreError :: "goerr \<Rightarrow> APIError" where
  "MapStoreError err = (if errors_Is_NoRows err then ErrNotFound else MapPostgresError err)"

section \<open>The sentinels of booking/errors.go\<close>

definition ErrVersionMismatch :: APIError where
  "ErrVersionMismatch = New ''VERSION_MISMATCH''
     ''this record was modified by another user; your uncommitted changes may be lost'' 412"
definition ErrUnassignedItems :: APIError where
  "ErrUnassignedItems = WithSuggestions (New ''UNASSIGNED_ITEMS'' ''items missing room assignment'' 409)
     [''assign a room to each item before confirming'']"
definition ErrTerminal :: APIError where
  "ErrTerminal = New ''TERMINAL_RESERVATION'' ''reservation is in a terminal state'' 409"
definition ErrOutstandingBalance :: APIError where
  "ErrOutstandingBalance = WithSuggestions (New ''OUTSTANDING_FOLIO_BALANCE'' ''folio balance must be zero'' 409)
     [''settle the outstanding folio balance before checkout'']"
definition ErrHasCheckedInItems :: APIError where
  "ErrHasCheckedInItems = New ''RESERVATION_HAS_CHECKED_IN_ITEMS'' ''checkout or cancel checked-in items first'' 409"
definition ErrDoNotMove :: APIError where
  "ErrDoNotMove = WithSuggestions (New ''DO_NOT_MOVE'' ''do-not-move flag is set on this item'' 403)
     [''remove the do-not-move flag or contact a manager'']"
definition ErrRatePlanCapacity :: APIError where
  "ErrRatePlanCapacity = WithSuggestions (New ''RATE_PLAN_CAPACITY_EXCEEDED'' ''rate plan daily capacity exceeded'' 409)
     [''select a different rate plan or reduce the stay length'']"
definition ErrInvalidTransition :: APIError where
  "ErrInvalidTransition = New ''INVALID_TRANSITION'' ''state transition not allowed'' 409"
definition ErrNoGuest :: APIError where
  "ErrNoGuest = New ''NO_GUEST'' ''reservation must have a guest attached'' 400"
definition ErrSourceDeferred :: APIError where
  "ErrSourceDeferred = New ''SOURCE_DEFERRED'' ''this source type is not yet implemented in the API'' 501"
definition ErrNoPropertyContext :: APIError where
  "ErrNoPropertyContext = WithSuggestions (New ''NO_PROPERTY_CONTEXT'' ''X-Property-ID header is required'' 400)
     [''try refreshing your page - if you have further issues contact support'']"
definition ErrMissingPermission :: APIError where
  "ErrMissingPermission = New ''MISSING_PERMISSION'' ''insufficient permissions for this action'' 403"
definition ErrGuestNotAttached :: APIError where
  "ErrGuestNotAttached = New ''GUEST_NOT_ATTACHED'' ''confirm requires a guest to be attached to the reservation'' 409"
definition ErrHoldExpired :: APIError where
  "ErrHoldExpired = New ''HOLD_EXPIRED'' ''reservation hold has expired'' 410"
definition ErrRoomNotAvailable :: APIError where
  "ErrRoomNotAvailable = New ''ROOM_NOT_AVAILABLE'' ''requested room is not available for the specified dates'' 409"
definition ErrPaymentsNotSupported :: APIError where
  "ErrPaymentsNotSupported = New ''PAYMENTS_NOT_SUPPORTED'' ''payment operations are not yet supported'' 501"
definition ErrInvalidDates :: APIError where
  "ErrInvalidDates = New ''INVALID_DATES'' ''stay period dates violate business rules'' 400"
definition ErrForbiddenSource :: APIError where
  "ErrForbiddenSource = New ''FORBIDDEN_SOURCE'' ''this operation is not allowed for the reservation's source'' 403"
definition ErrNotImplemented :: APIError where
  "ErrNotImplemented = New ''NOT_IMPLEMENTED'' ''this operation is not yet implemented'' 501"

lemmas pg_code_defs =
  UniqueViolationCode_def ForeignKeyViolationCode_def CheckViolationCode_def NotNullViolationCode_def
  RaiseExceptionCode_def InvalidTextRepresentationCode_def DataExceptionCode_def
  ExclusionViolationCode_def UndefinedObjectCode_def

lemma MapPostgresError_cong: "errors_As_pg e = errors_As_pg e' \<Longrightarrow> MapPostgresError e = MapPostgresError e'"
  by (simp add: MapPostgresError_def CheckErrorCode_def)

lemma MapPostgresError_no_pg:
  "errors_As_pg e = None \<Longrightarrow> MapPostgresError e = WithMessage ErrInternal ''an unexpected database error occurred''"
  by (simp add: MapPostgresError_def CheckErrorCode_def)

section \<open>What the error mapping guarantees\<close>

text \<open>C17. Whatever a query fails with, \<open>MapStoreError\<close> answers with one of the documented statuses
  404, 409, 400, 422 or 500, and the same one however often the error was wrapped with
  \<open>fmt.Errorf\<close> on its way up; a missing row is always a 404, and the text of the driver or of
  the database never reaches the client except the \<open>DETAIL\<close> of an exception raised on purpose
  (SQLSTATE P0001).\<close>

theorem store_errors_classified:
  "ErrStatus (MapStoreError e) \<in> {404, 409, 400, 422, 500}
   \<and> (ErrStatus (MapStoreError e) = 404 \<longleftrightarrow> errors_Is_NoRows e)
   \<and> MapStoreError (Wrap m e) = MapStoreError e
   \<and> (ErrMessage (MapStoreError e) \<in>
        {''resource not found'', ''a record with this value already exists'',
         ''referenced resource does not exist'', ''the value violates a database constraint'',
         ''the dates overlap with an existing reservation'', ''the request violates a business rule'',
         ''an unexpected database error occurred''}
      \<or> (\<exists>p. errors_As_pg e = Some p \<and> PgCode p = RaiseExceptionCode
             \<and> ErrMessage (MapStoreError e) = PgDetail p))"
proof -
  note defs = MapStoreError_def MapPostgresError_def WithMessage_def New_def ErrNotFound_def
    ErrConflict_def ErrBadRequest_def ErrUnprocessable_def ErrInternal_def
  have "MapStoreError (Wrap m e) = MapStoreError e"
    using MapPostgresError_cong [of "Wrap m e" e] by (simp add: MapStoreError_def)
  moreover have "ErrStatus (MapStoreError e) \<in> {404, 409, 400, 422, 500}
      \<and> (ErrStatus (MapStoreError e) = 404 \<longleftrightarrow> errors_Is_NoRows e)"
    by (simp add: defs split: option.split)
  ultimately show ?thesis
    by (simp add: defs CheckErrorCode_def split: option.split)
qed

end
