(* ===== verification/StateMachine.thy ===== *)
theory StateMachine
  imports Errors
begin

text \<open>
  The reservation and item lifecycles: the statuses and sources of \<open>booking/types.go\<close> and the
  whole of \<open>booking/state_machine.go\<close>.

  A status is a Go string with named constants: a datatype with one constructor per constant and
  one for every other text, related to the text by \<open>..._text\<close> and \<open>..._of_text\<close>.
\<close>

section \<open>booking/types.go: statuses and sources\<close>

datatype ReservationSource =
  SourceWebsite | SourceInternal | SourceOTA | SourceOther string

datatype ReservationStatus =
    StatusHold | StatusConfirmed | StatusCheckedIn | StatusCheckedOut
  | StatusPendingCancellation | StatusCancelled | StatusArchived | StatusOther string

datatype ItemStatus =
    ItemStatusBooked | ItemStatusCheckedIn | ItemStatusCheckedOut | ItemStatusNoShow
  | ItemStatusOverstay | ItemStatusCancelled | ItemStatusArchived | ItemStatusOther string

fun source_text :: "ReservationSource \<Rightarrow> string" where
  "source_text SourceWebsite = ''website''"
| "source_text SourceInternal = ''internal''"
| "source_text SourceOTA = ''ota''"
| "source_text (SourceOther s) = s"

definition source_of_text :: "string \<Rightarrow> ReservationSource" where
  "source_of_text s = (if s = ''website'' then SourceWebsite else if s = ''internal'' then SourceInternal
     else if s = ''ota'' then SourceOTA else SourceOther s)"

fun status_text :: "ReservationStatus \<Rightarrow> string" where
  "status_text StatusHold = ''hold''"
| "status_text StatusConfirmed = ''confirmed''"
| "status_text StatusCheckedIn = ''checked_in''"
| "status_text StatusCheckedOut = ''checked_out''"
| "status_text StatusPendingCancellation = ''pending_cancellation''"
| "status_text StatusCancelled = ''cancelled''"
| "status_text StatusArchived = ''archived''"
| "status_text (StatusOther s) = s"

definition status_of_text :: "string \<Rightarrow> ReservationStatus" where
  "status_of_text s =
     (if s = ''hold'' then StatusHold else if s = ''confirmed'' then StatusConfirmed
      else if s = ''checked_in'' then StatusCheckedIn else if s = ''checked_out'' then StatusCheckedOut
      else if s = ''pending_cancellation'' then StatusPendingCancellation
      else if s = ''cancelled'' then StatusCancelled else if s = ''archived'' then StatusArchived
      else StatusOther s)"

fun item_status_text :: "ItemStatus \<Rightarrow> string" where
  "item_status_text ItemStatusBooked = ''booked''"
| "item_status_text ItemStatusCheckedIn = ''checked_in''"
| "item_status_text ItemStatusCheckedOut = ''checked_out''"
| "item_status_text ItemStatusNoShow = ''no_show''"
| "item_status_text ItemStatusOverstay = ''overstay''"
| "item_status_text ItemStatusCancelled = ''cancelled''"
| "item_status_text ItemStatusArchived = ''archived''"
| "item_status_text (ItemStatusOther s) = s"

definition SourceToInitialStatus :: "ReservationSource \<rightharpoonup> ReservationStatus \<times> ItemStatus" where
  "SourceToInitialStatus = map_of
     [(SourceWebsite, (StatusHold, ItemStatusBooked)),
      (SourceInternal, (StatusHold, ItemStatusBooked)),
      (SourceOTA, (StatusConfirmed, ItemStatusBooked))]"

definition SourceIsWalkin :: "ReservationSource \<Rightarrow> bool \<Rightarrow> bool" where
  "SourceIsWalkin source isWalkin \<longleftrightarrow> source = SourceInternal \<and> isWalkin"

section \<open>booking/state\_machine.go: transitions\<close>

definition reservationTransitions :: "ReservationStatus \<rightharpoonup> ReservationStatus list" where
  "reservationTransitions = map_of
     [(StatusHold, [StatusConfirmed, StatusCancelled]),
      (StatusConfirmed, [StatusCancelled]),
      (StatusCheckedIn, []),
      (StatusCheckedOut, [StatusArchived]),
      (StatusCancelled, [StatusConfirmed]),
      (StatusArchived, []),
      (StatusPendingCancellation, [])]"

definition escape_char :: "char \<Rightarrow> string" where
  "escape_char c =
     (if c = CHR 0x22 \<or> c = CHR 0x5C then [CHR 0x5C, c]
      else case map_of [(CHR 0x07, CHR ''a''), (CHR 0x08, CHR ''b''), (CHR 0x0C, CHR ''f''),
                        (CHR 0x0A, CHR ''n''), (CHR 0x0D, CHR ''r''), (CHR 0x09, CHR ''t''),
                        (CHR 0x0B, CHR ''v'')] c of
        Some d \<Rightarrow> [CHR 0x5C, d]
      | None \<Rightarrow>
          let n = (of_char c :: nat)
          in if n < 32 \<or> n = 127 then [CHR 0x5C, CHR ''x'', hex_digit (n div 16), hex_digit (n mod 16)]
             else [c])"

definition go_quote :: "string \<Rightarrow> string" where
  "go_quote s = [CHR 0x22] @ concat (map escape_char s) @ [CHR 0x22]"

definition ValidateReservationTransition ::
  "ReservationStatus \<Rightarrow> ReservationStatus \<Rightarrow> APIError option" where
  "ValidateReservationTransition from to =
     (case reservationTransitions from of
        None \<Rightarrow> Some (WithMessage ErrInvalidTransition
          (''reservation status '' @ go_quote (status_text from) @ '' has no defined transitions''))
      | Some allowed \<Rightarrow>
          if to \<notin> set allowed
          then Some (WithMessage ErrInvalidTransition
            (''transition from '' @ go_quote (status_text from) @ '' to '' @ go_quote (status_text to) @ '' is not allowed''))
          else None)"

definition itemTransitions :: "ItemStatus \<rightharpoonup> ItemStatus list" where
  "itemTransitions = map_of
     [(ItemStatusBooked, [ItemStatusCheckedIn, ItemStatusNoShow, ItemStatusCancelled]),
      (ItemStatusCheckedIn, [ItemStatusCheckedOut, ItemStatusOverstay]),
      (ItemStatusCheckedOut, [ItemStatusArchived]),
      (ItemStatusNoShow, [ItemStatusCancelled]),
      (ItemStatusOverstay, [ItemStatusCheckedIn, ItemStatusCheckedOut]),
      (ItemStatusCancelled, [ItemStatusBooked]),
      (ItemStatusArchived, [])]"

definition ValidateItemTransition :: "ItemStatus \<Rightarrow> ItemStatus \<Rightarrow> APIError option" where
  "ValidateItemTransition from to =
     (case itemTransitions from of
        None \<Rightarrow> Some (WithMessage ErrInvalidTransition
          (''item status '' @ go_quote (item_status_text from) @ '' has no defined transitions''))
      | Some allowed \<Rightarrow>
          if to \<notin> set allowed
          then Some (WithMessage ErrInvalidTransition
            (''item transition from '' @ go_quote (item_status_text from) @ '' to '' @ go_quote (item_status_text to) @ '' is not allowed''))
          else None)"

section \<open>booking/state\_machine.go: the rollup of item statuses\<close>

record RollupResult =
  RollupStatus :: ReservationStatus
  Changed :: bool

record rollup_counts =
  terminal :: nat
  checkedOut :: nat
  checkedIn :: nat
  booked :: nat
  cancelled :: nat
  noShow :: nat
  overstay :: nat

definition no_counts :: rollup_counts where
  "no_counts = \<lparr>terminal = 0, checkedOut = 0, checkedIn = 0, booked = 0, cancelled = 0,
     noShow = 0, overstay = 0\<rparr>"

fun count_item :: "ItemStatus \<Rightarrow> rollup_counts \<Rightarrow> rollup_counts" where
  "count_item ItemStatusCheckedOut c = c\<lparr>terminal := Suc (terminal c), checkedOut := Suc (checkedOut c)\<rparr>"
| "count_item ItemStatusNoShow c = c\<lparr>terminal := Suc (terminal c), noShow := Suc (noShow c)\<rparr>"
| "count_item ItemStatusCancelled c = c\<lparr>terminal := Suc (terminal c), cancelled := Suc (cancelled c)\<rparr>"
| "count_item ItemStatusArchived c = c\<lparr>terminal := Suc (terminal c)\<rparr>"
| "count_item ItemStatusCheckedIn c = c\<lparr>checkedIn := Suc (checkedIn c)\<rparr>"
| "count_item ItemStatusOverstay c = c\<lparr>terminal := Suc (terminal c), overstay := Suc (overstay c)\<rparr>"
| "count_item ItemStatusBooked c = c\<lparr>booked := Suc (booked c)\<rparr>"
| "count_item (ItemStatusOther s) c = c"

definition RollupReservationStatus :: "ReservationStatus \<Rightarrow> ItemStatus list \<Rightarrow> RollupResult" where
  "RollupReservationStatus current items =
     (if items = [] then \<lparr>RollupStatus = StatusCancelled, Changed = current \<noteq> StatusCancelled\<rparr>
      else let c = fold count_item items no_counts; total = length items
      in if cancelled c = total then \<lparr>RollupStatus = StatusCancelled, Changed = current \<noteq> StatusCancelled\<rparr>
         else if terminal c = total \<and> checkedOut c > 0
         then \<lparr>RollupStatus = StatusCheckedOut, Changed = current \<noteq> StatusCheckedOut\<rparr>
         else if checkedIn c > 0 \<and> booked c = 0
         then \<lparr>RollupStatus = StatusCheckedIn, Changed = current \<noteq> StatusCheckedIn\<rparr>
         else \<lparr>RollupStatus = current, Changed = False\<rparr>)"

section \<open>booking/state\_machine.go: repeated actions\<close>

datatype anyStatus = ResSt ReservationStatus | ItemSt ItemStatus

definition idempotency_table :: "((string \<times> anyStatus \<times> anyStatus) \<times> (bool \<times> bool)) list" where
  "idempotency_table =
    [((''confirm'', ResSt StatusConfirmed, ResSt StatusConfirmed), (True, False)),
     ((''confirm'', ResSt StatusConfirmed, ResSt StatusHold), (False, False)),
     ((''confirm'', ResSt StatusConfirmed, ResSt StatusCancelled), (False, True)),
     ((''cancel'', ResSt StatusCancelled, ResSt StatusCancelled), (False, True)),
     ((''cancel'', ResSt StatusCancelled, ResSt StatusArchived), (False, True)),
     ((''cancel'', ResSt StatusCancelled, ResSt StatusHold), (False, False)),
     ((''cancel'', ResSt StatusCancelled, ResSt StatusConfirmed), (False, False)),
     ((''cancel'', ResSt StatusCancelled, ResSt StatusCheckedIn), (False, False)),
     ((''checkin_item'', ItemSt ItemStatusCheckedIn, ItemSt ItemStatusCheckedIn), (True, False)),
     ((''checkin_item'', ItemSt ItemStatusCheckedIn, ItemSt ItemStatusCheckedOut), (False, True)),
     ((''checkin_item'', ItemSt ItemStatusCheckedIn, ItemSt ItemStatusCancelled), (False, True)),
     ((''checkin_item'', ItemSt ItemStatusCheckedIn, ItemSt ItemStatusBooked), (False, False)),
     ((''checkout_item'', ItemSt ItemStatusCheckedOut, ItemSt ItemStatusCheckedOut), (True, False)),
     ((''checkout_item'', ItemSt ItemStatusCheckedOut, ItemSt ItemStatusCancelled), (False, True)),
     ((''checkout_item'', ItemSt ItemStatusCheckedOut, ItemSt ItemStatusCheckedIn), (False, False)),
     ((''cancel_item'', ItemSt ItemStatusCancelled, ItemSt ItemStatusCancelled), (True, False)),
     ((''cancel_item'', ItemSt ItemStatusCancelled, ItemSt ItemStatusCheckedOut), (False, True)),
     ((''no_show'', ItemSt ItemStatusNoShow, ItemSt ItemStatusNoShow), (True, False)),
     ((''no_show'', ItemSt ItemStatusNoShow, ItemSt ItemStatusBooked), (False, False)),
     ((''no_show'', ItemSt ItemStatusNoShow, ItemSt ItemStatusCheckedIn), (False, False)),
     ((''no_show'', ItemSt ItemStatusNoShow, ItemSt ItemStatusCancelled), (False, True)),
     ((''reactivate'', ResSt StatusConfirmed, ResSt StatusConfirmed), (True, False)),
     ((''reactivate'', ResSt StatusConfirmed, ResSt StatusCancelled), (False, False))]"

definition ActionIdempotency :: "string \<Rightarrow> anyStatus \<Rightarrow> anyStatus \<Rightarrow> bool \<times> bool" where
  "ActionIdempotency endpoint desired current =
     (case map_of idempotency_table (endpoint, desired, current) of
        Some r \<Rightarrow> r | None \<Rightarrow> (False, False))"

definition IsTerminalItemStatus :: "ItemStatus \<Rightarrow> bool" where
  "IsTerminalItemStatus s \<longleftrightarrow> s \<in> {ItemStatusCheckedOut, ItemStatusCancelled, ItemStatusArchived}"

definition IsTerminalReservationStatus :: "ReservationStatus \<Rightarrow> bool" where
  "IsTerminalReservationStatus s \<longleftrightarrow> s \<in> {StatusCancelled, StatusArchived}"

section \<open>Statuses and their text\<close>

definition known_status :: "ReservationStatus \<Rightarrow> bool" where
  "known_status s \<longleftrightarrow> (case s of StatusOther t \<Rightarrow> False | _ \<Rightarrow> True)"

interpretation status_codec: codec status_text "\<lambda>s. Some (status_of_text s)" known_status
  by unfold_locales (auto simp: known_status_def status_of_text_def split: ReservationStatus.splits)

section \<open>Direct transitions\<close>

definition reservation_step :: "ReservationStatus \<Rightarrow> ReservationStatus \<Rightarrow> bool" where
  "reservation_step from to \<longleftrightarrow> ValidateReservationTransition from to = None"

definition item_step :: "ItemStatus \<Rightarrow> ItemStatus \<Rightarrow> bool" where
  "item_step from to \<longleftrightarrow> ValidateItemTransition from to = None"

lemma reservation_step_iff:
  "reservation_step from to \<longleftrightarrow>
     (from = StatusHold \<and> to \<in> {StatusConfirmed, StatusCancelled}
      \<or> from = StatusConfirmed \<and> to = StatusCancelled
      \<or> from = StatusCheckedOut \<and> to = StatusArchived
      \<or> from = StatusCancelled \<and> to = StatusConfirmed)"
  by (cases "from") (auto simp: reservation_step_def ValidateReservationTransition_def reservationTransitions_def)

lemma item_step_iff:
  "item_step from to \<longleftrightarrow>
     (from = ItemStatusBooked \<and> to \<in> {ItemStatusCheckedIn, ItemStatusNoShow, ItemStatusCancelled}
      \<or> from = ItemStatusCheckedIn \<and> to \<in> {ItemStatusCheckedOut, ItemStatusOverstay}
      \<or> from = ItemStatusCheckedOut \<and> to = ItemStatusArchived
      \<or> from = ItemStatusNoShow \<and> to = ItemStatusCancelled
      \<or> from = ItemStatusOverstay \<and> to \<in> {ItemStatusCheckedIn, ItemStatusCheckedOut}
      \<or> from = ItemStatusCancelled \<and> to = ItemStatusBooked)"
  by (cases "from") (auto simp: item_step_def ValidateItemTransition_def itemTransitions_def)

lemma closed_under_steps:
  assumes "R\<^sup>*\<^sup>* x y" and "x \<in> S" and "\<And>a b. a \<in> S \<Longrightarrow> R a b \<Longrightarrow> b \<in> S"
  shows "y \<in> S"
  using assms(1,2) by (induction rule: rtranclp_induct) (auto intro: assms(3))

section \<open>The rollup loop\<close>

definition item_terminal :: "ItemStatus \<Rightarrow> bool" where
  "item_terminal s \<longleftrightarrow> s \<in> {ItemStatusCheckedOut, ItemStatusNoShow, ItemStatusCancelled,
     ItemStatusArchived, ItemStatusOverstay}"

lemma count_fold:
  "cancelled (fold count_item xs c) = cancelled c + length (filter (\<lambda>s. s = ItemStatusCancelled) xs)"
  "terminal (fold count_item xs c) = terminal c + length (filter item_terminal xs)"
  "checkedOut (fold count_item xs c) = checkedOut c + length (filter (\<lambda>s. s = ItemStatusCheckedOut) xs)"
  "checkedIn (fold count_item xs c) = checkedIn c + length (filter (\<lambda>s. s = ItemStatusCheckedIn) xs)"
  "booked (fold count_item xs c) = booked c + length (filter (\<lambda>s. s = ItemStatusBooked) xs)"
proof (induction xs arbitrary: c)
  case (Cons x xs)
  { case 1 show ?case using Cons(1) by (cases x) simp_all }
  { case 2 show ?case using Cons(2) by (cases x) (simp_all add: item_terminal_def) }
  { case 3 show ?case using Cons(3) by (cases x) simp_all }
  { case 4 show ?case using Cons(4) by (cases x) simp_all }
  { case 5 show ?case using Cons(5) by (cases x) simp_all }
qed simp_all

lemma filter_counts:
  "length (filter P xs) = length xs \<longleftrightarrow> (\<forall>x\<in>set xs. P x)"
  "0 < length (filter (\<lambda>x. x = v) xs) \<longleftrightarrow> v \<in> set xs"
  "length (filter (\<lambda>x. x = v) xs) = 0 \<longleftrightarrow> v \<notin> set xs"
  by (metis filter_True length_filter_less less_irrefl) (induction xs; auto)+

definition rollup_spec :: "ReservationStatus \<Rightarrow> ItemStatus set \<Rightarrow> ReservationStatus" where
  "rollup_spec current S =
     (if S \<subseteq> {ItemStatusCancelled} then StatusCancelled
      else if (\<forall>s\<in>S. item_terminal s) \<and> ItemStatusCheckedOut \<in> S then StatusCheckedOut
      else if ItemStatusCheckedIn \<in> S \<and> ItemStatusBooked \<notin> S then StatusCheckedIn
      else current)"

lemma rollup_refines:
  "RollupReservationStatus current items =
     \<lparr>RollupStatus = rollup_spec current (set items), Changed = rollup_spec current (set items) \<noteq> current\<rparr>"
proof (cases "items = []")
  case False
  have "set items \<subseteq> {ItemStatusCancelled} \<longleftrightarrow> (\<forall>s\<in>set items. s = ItemStatusCancelled)"
    by auto
  then show ?thesis
    unfolding RollupReservationStatus_def rollup_spec_def Let_def count_fold no_counts_def
      rollup_counts.simps add_0 filter_counts
    using False by (simp add: eq_commute [of current]) blast
qed (auto simp: RollupReservationStatus_def rollup_spec_def)

section \<open>What the state machine guarantees\<close>


text \<open>The rollup counts an overstaying item as finished: a reservation with one guest checked
  out and another still in the house after the departure date is rolled up to
  \<open>checked_out\<close>, where the terminal states of ADR-009 (checked out, no-show, cancelled,
  archived) leave its status as it is.\<close>

theorem rollup_overstay_counts_as_terminal:
  "RollupStatus (RollupReservationStatus StatusCheckedIn [ItemStatusCheckedOut, ItemStatusOverstay]) = StatusCheckedOut
   \<and> IsTerminalItemStatus ItemStatusOverstay = False"
  by (simp add: rollup_refines rollup_spec_def item_terminal_def IsTerminalItemStatus_def)

text \<open>Once an item is checked in, no sequence of validated item transitions cancels it, marks it
  a no-show or makes it booked again: it stays among checked in, overstay, checked out and
  archived, and an archived item never moves.\<close>

theorem checked_in_never_cancelled:
  assumes "item_step\<^sup>*\<^sup>* ItemStatusCheckedIn s"
  shows "s \<in> {ItemStatusCheckedIn, ItemStatusOverstay, ItemStatusCheckedOut, ItemStatusArchived}
    \<and> \<not> item_step ItemStatusArchived t"
proof -
  from assms have "s \<in> {ItemStatusCheckedIn, ItemStatusOverstay, ItemStatusCheckedOut, ItemStatusArchived}"
    by (rule closed_under_steps) (auto simp: item_step_iff)
  then show ?thesis by (simp add: item_step_iff)
qed

theorem checked_in_never_cancelled_witness:
  "ItemStatusArchived \<in> {ItemStatusCheckedIn, ItemStatusOverstay, ItemStatusCheckedOut, ItemStatusArchived}
   \<and> \<not> item_step ItemStatusArchived ItemStatusBooked"
proof -
  have "item_step\<^sup>*\<^sup>* ItemStatusCheckedIn ItemStatusArchived"
    by (rule converse_rtranclp_into_rtranclp [of _ _ ItemStatusCheckedOut])
      (auto simp: item_step_iff intro: r_into_rtranclp)
  then show ?thesis by (rule checked_in_never_cancelled)
qed

text \<open>A reservation leaves the statuses \<open>hold\<close>, \<open>confirmed\<close> and \<open>cancelled\<close> by no sequence of
  direct transitions: checking in and out is left to the rollup, archiving starts only from
  \<open>checked_out\<close>, and \<open>archived\<close>, \<open>checked_in\<close> and \<open>pending_cancellation\<close> have no direct
  transition at all.\<close>

theorem reservation_reachable:
  "(reservation_step\<^sup>*\<^sup>* StatusHold s \<longleftrightarrow> s \<in> {StatusHold, StatusConfirmed, StatusCancelled})
   \<and> (reservation_step s StatusArchived \<longleftrightarrow> s = StatusCheckedOut)
   \<and> \<not> reservation_step StatusCheckedIn t \<and> \<not> reservation_step StatusArchived t
   \<and> \<not> reservation_step StatusPendingCancellation t"
proof -
  have "s \<in> {StatusHold, StatusConfirmed, StatusCancelled}" if "reservation_step\<^sup>*\<^sup>* StatusHold s"
    using that by (rule closed_under_steps) (auto simp: reservation_step_iff)
  moreover have "reservation_step\<^sup>*\<^sup>* StatusHold s" if "s \<in> {StatusHold, StatusConfirmed, StatusCancelled}"
    using that by (auto intro: r_into_rtranclp simp: reservation_step_iff)
  ultimately show ?thesis by (auto simp: reservation_step_iff)
qed

end
