(* ===== verification/Schema.thy ===== *)
theory Schema
  imports Calendar StateMachine "HOL-Library.List_Lexorder"
begin

text \<open>
  The database: the rows of \<open>internal/store/models.go\<close> as records, a table as the list of its rows in
  insertion order, and \<open>db\<close> with the tables the booking code uses, the pending notifications and
  the position in the supply of \<open>uuidv7()\<close> values.

  \<open>violations\<close> is the schema of \<open>migrations/\<close>: every CHECK, UNIQUE, EXCLUDE and FOREIGN KEY
  constraint on those tables, with the SQLSTATE a statement that breaks it fails with. Columns no
  code of the repository reads are left out of the rows.
\<close>

section \<open>store/models.go\<close>

record OperationsReservation =
  r_id :: uuid
  r_property_id :: uuid
  r_primary_guest_id :: uuid
  r_sequential :: int
  r_code :: string
  r_source :: ReservationSource
  r_notes :: "string option"
  r_status :: ReservationStatus
  r_envelope :: tstzrange
  r_version :: int
  r_created_at :: time
  r_updated_at :: time
  r_deleted_at :: "time option"
  r_expires_at :: "time option"

record OperationsReservationItem =
  i_id :: uuid
  i_property_id :: uuid
  i_reservation_id :: uuid
  i_room_type_id :: uuid
  i_assigned_room_id :: "uuid option"
  i_guest_id :: "uuid option"
  i_rate_plan_id :: "uuid option"
  i_stay_period :: tstzrange
  i_do_not_move :: bool
  i_base_rate_pence :: int
  i_adults_count :: int
  i_children_count :: int
  i_status :: ItemStatus
  i_version :: int
  i_created_at :: time
  i_updated_at :: time
  i_deleted_at :: "time option"

datatype InventoryStatus = Available | Sold | OnHold | Maintenance | Decommissioned

record InventoryRoomInventoryLedger =
  l_id :: uuid
  l_property_id :: uuid
  l_room_id :: uuid
  l_reservation_id :: "uuid option"
  l_item_id :: "uuid option"
  l_block_id :: "uuid option"
  l_date :: date
  l_status :: InventoryStatus
  l_deleted_at :: "time option"

record InventoryRoom =
  rm_id :: uuid
  rm_property_id :: uuid
  rm_room_type_id :: "uuid option"
  rm_name :: string
  rm_deleted_at :: "time option"

record InventoryRoomType =
  rt_id :: uuid
  rt_property_id :: uuid
  rt_std_occupancy :: int
  rt_min_occupancy :: int
  rt_max_occupancy :: int
  rt_deleted_at :: "time option"

record PricingRatePlan =
  rp_id :: uuid
  rp_property_id :: uuid

record PricingBaseRate =
  br_property_id :: uuid
  br_room_type_id :: uuid
  br_rate_plan_id :: uuid
  br_day_of_week :: int
  br_base_price_pence :: int
  br_max_daily_capacity :: "int option"
  br_deleted_at :: "time option"

record IdentityGuest =
  g_id :: uuid
  g_property_id :: uuid
  g_first_name :: string
  g_last_name :: string
  g_email :: "string option"
  g_phone_number :: "string option"
  g_deleted_at :: "time option"

record OperationsProperty =
  p_id :: uuid
  p_licence_id :: uuid
  p_timezone :: string
  p_deleted_at :: "time option"

datatype OutboxStatus = OutboxPending | OutboxProcessing | OutboxCompleted | OutboxFailed

record InternalOutboxEvent =
  o_id :: uuid
  o_event_type :: string
  o_payload :: string
  o_status :: OutboxStatus
  o_retry_count :: int
  o_last_error :: "string option"
  o_process_at :: time
  o_updated_at :: time

record db =
  reservations :: "OperationsReservation list"
  items :: "OperationsReservationItem list"
  ledger :: "InventoryRoomInventoryLedger list"
  rooms :: "InventoryRoom list"
  room_types :: "InventoryRoomType list"
  rate_plans :: "PricingRatePlan list"
  base_rates :: "PricingBaseRate list"
  guests :: "IdentityGuest list"
  properties :: "OperationsProperty list"
  sequences :: "(uuid \<times> int) list"
  outbox :: "InternalOutboxEvent list"
  notifications :: "(string \<times> string) list"
  uuid_next :: nat

section \<open>The schema of migrations/\<close>

definition char_length :: "string \<Rightarrow> nat" where
  "char_length s = length (filter (\<lambda>c. (of_char c :: nat) div 64 \<noteq> 2) s)"

definition text_max :: "nat \<Rightarrow> string option \<Rightarrow> bool" where
  "text_max n t = (case t of None \<Rightarrow> True | Some s \<Rightarrow> char_length s \<le> n)"

definition reservation_check :: "OperationsReservation \<Rightarrow> bool" where
  "reservation_check r \<longleftrightarrow>
     text_max 2500 (r_notes r)
     \<and> (case (Lower (r_envelope r), Upper (r_envelope r)) of (Some l, Some u) \<Rightarrow> l < u | _ \<Rightarrow> True)
     \<and> (r_status r = StatusHold \<longrightarrow> r_expires_at r \<noteq> None)"

definition item_check :: "OperationsReservationItem \<Rightarrow> bool" where
  "item_check i \<longleftrightarrow>
     (case (Lower (i_stay_period i), Upper (i_stay_period i)) of (Some l, Some u) \<Rightarrow> l < u | _ \<Rightarrow> False)
     \<and> 0 \<le> i_base_rate_pence i \<and> 1 \<le> i_adults_count i"

definition ledger_check :: "InventoryRoomInventoryLedger \<Rightarrow> bool" where
  "ledger_check l \<longleftrightarrow>
     (l_status l \<in> {Sold, OnHold} \<and> l_reservation_id l \<noteq> None)
     \<or> (l_status l = Maintenance \<and> l_block_id l \<noteq> None)
     \<or> l_status l \<in> {Available, Decommissioned}"

definition guest_check :: "IdentityGuest \<Rightarrow> bool" where
  "guest_check g \<longleftrightarrow> char_length (g_first_name g) \<le> 50 \<and> char_length (g_last_name g) \<le> 50
     \<and> text_max 100 (g_email g) \<and> text_max 20 (g_phone_number g)"

definition outbox_check :: "InternalOutboxEvent \<Rightarrow> bool" where
  "outbox_check e \<longleftrightarrow> char_length (o_event_type e) \<le> 100"

definition ranges_overlap :: "tstzrange \<Rightarrow> tstzrange \<Rightarrow> bool" where
  "ranges_overlap a b = (case (Lower a, Upper a, Lower b, Upper b) of
     (Some la, Some ua, Some lb, Some ub) \<Rightarrow> la < ub \<and> lb < ua | _ \<Rightarrow> False)"

definition room_conflict :: "OperationsReservationItem \<Rightarrow> OperationsReservationItem \<Rightarrow> bool" where
  "room_conflict i j \<longleftrightarrow>
     i_deleted_at i = None \<and> i_deleted_at j = None
     \<and> i_assigned_room_id i \<noteq> None \<and> i_assigned_room_id i = i_assigned_room_id j
     \<and> ranges_overlap (i_stay_period i) (i_stay_period j)"

definition reservation_fk :: "db \<Rightarrow> OperationsReservation \<Rightarrow> bool" where
  "reservation_fk d r \<longleftrightarrow>
     list_ex (\<lambda>p. p_id p = r_property_id r) (properties d)
     \<and> list_ex (\<lambda>g. g_id g = r_primary_guest_id r \<and> g_property_id g = r_property_id r) (guests d)"

definition item_fk :: "db \<Rightarrow> OperationsReservationItem \<Rightarrow> bool" where
  "item_fk d i \<longleftrightarrow>
     list_ex (\<lambda>r. r_id r = i_reservation_id i \<and> r_property_id r = i_property_id i) (reservations d)
     \<and> list_ex (\<lambda>t. rt_id t = i_room_type_id i \<and> rt_property_id t = i_property_id i) (room_types d)
     \<and> (case i_assigned_room_id i of None \<Rightarrow> True
        | Some m \<Rightarrow> list_ex (\<lambda>x. rm_id x = m \<and> rm_property_id x = i_property_id i) (rooms d))
     \<and> (case i_guest_id i of None \<Rightarrow> True | Some g \<Rightarrow> list_ex (\<lambda>x. g_id x = g) (guests d))
     \<and> (case i_rate_plan_id i of None \<Rightarrow> True
        | Some p \<Rightarrow> list_ex (\<lambda>x. rp_id x = p \<and> rp_property_id x = i_property_id i) (rate_plans d))"

definition ledger_fk :: "db \<Rightarrow> InventoryRoomInventoryLedger \<Rightarrow> bool" where
  "ledger_fk d l \<longleftrightarrow>
     list_ex (\<lambda>x. rm_id x = l_room_id l \<and> rm_property_id x = l_property_id l) (rooms d)
     \<and> (case l_reservation_id l of None \<Rightarrow> True
        | Some r \<Rightarrow> list_ex (\<lambda>x. r_id x = r \<and> r_property_id x = l_property_id l) (reservations d))
     \<and> (case l_item_id l of None \<Rightarrow> True | Some i \<Rightarrow> list_ex (\<lambda>x. i_id x = i) (items d))"

definition guest_fk :: "db \<Rightarrow> IdentityGuest \<Rightarrow> bool" where
  "guest_fk d g \<longleftrightarrow> list_ex (\<lambda>p. p_id p = g_property_id g) (properties d)"

definition violations :: "db \<Rightarrow> (bool \<times> string) list" where
  "violations d =
     [(list_all reservation_check (reservations d), CheckViolationCode),
      (list_all item_check (items d), CheckViolationCode),
      (list_all ledger_check (ledger d), CheckViolationCode),
      (list_all guest_check (guests d), CheckViolationCode),
      (list_all outbox_check (outbox d), CheckViolationCode),
      (distinct (map r_id (reservations d)), UniqueViolationCode),
      (distinct (map (\<lambda>r. (r_property_id r, r_code r)) (filter (\<lambda>r. r_deleted_at r = None) (reservations d))),
       UniqueViolationCode),
      (distinct (map i_id (items d)), UniqueViolationCode),
      (distinct (map l_id (ledger d)), UniqueViolationCode),
      (distinct (map (\<lambda>l. (l_room_id l, l_date l)) (ledger d)), UniqueViolationCode),
      (distinct (map g_id (guests d)), UniqueViolationCode),
      (distinct (map o_id (outbox d)), UniqueViolationCode),
      (sorted_wrt (\<lambda>i j. \<not> room_conflict i j) (items d), ExclusionViolationCode),
      (list_all (reservation_fk d) (reservations d), ForeignKeyViolationCode),
      (list_all (item_fk d) (items d), ForeignKeyViolationCode),
      (list_all (ledger_fk d) (ledger d), ForeignKeyViolationCode),
      (list_all (guest_fk d) (guests d), ForeignKeyViolationCode)]"

definition first_violation :: "db \<Rightarrow> string option" where
  "first_violation d = map_option snd (find (\<lambda>(ok, code). \<not> ok) (violations d))"

definition schema_ok :: "db \<Rightarrow> bool" where
  "schema_ok d \<longleftrightarrow> list_all fst (violations d)"

end
