(* ===== verification/Store.thy ===== *)
theory Store
  imports Schema "HOL-Library.AList"
begin

text \<open>
  The queries of \<open>internal/store/*.sql.go\<close> on the state one goroutine sees of the system.

  \<^item> \<open>sess\<close>: the committed database (\<open>pool\<close>) and, within a transaction, its snapshot, its own view
    of the data, the setting the row-level security policies read, and the error later statements
    of an aborted transaction get. \<open>faults\<close> is the script of the environment: each statement
    consumes one entry and fails if that is an error. \<open>redis\<close> is the shared cache.
  \<^item> \<open>env\<close> holds what the code takes from outside: the clocks, the supply of UUIDs, whether the
    database role is subject to row-level security, which rows other transactions have locked,
    the time zone database and the collation of names.
  \<^item> A statement is atomic: it fails without effect when a constraint would be violated
    (\<open>checked\<close>). An SQL error aborts the transaction; \<open>pgx.ErrNoRows\<close> does not.
\<close>

section \<open>Sessions and statements\<close>

record env =
  pg_now :: time
  app_now :: time
  uuidv7 :: "nat \<Rightarrow> uuid"
  enforce_rls :: bool
  locked :: "uuid \<Rightarrow> bool"
  load_location :: "string \<Rightarrow> (time \<Rightarrow> time) option"
  name_rank :: "string \<Rightarrow> int"

record sess =
  pool :: db
  snapshot :: db
  data :: db
  cur_property :: "uuid option"
  aborted :: "goerr option"
  faults :: "goerr option list"
  redis :: "string \<rightharpoonup> string \<times> time"

type_synonym 'a query = "(sess, goerr, 'a) act"

definition pg_error :: "string \<Rightarrow> goerr" where
  "pg_error code = PgE \<lparr>PgCode = code, PgMessage = [], PgDetail = []\<rparr>"

definition later_error :: "goerr \<Rightarrow> goerr" where
  "later_error e = (case errors_As_pg e of
     Some p \<Rightarrow> pg_error ''25P02'' | None \<Rightarrow> ErrorString ''conn closed'')"

definition pop_fault :: "sess \<Rightarrow> goerr option \<times> sess" where
  "pop_fault s = (case faults s of [] \<Rightarrow> (None, s) | f # fs \<Rightarrow> (f, s\<lparr>faults := fs\<rparr>))"

definition stmt_effect :: "(sess \<Rightarrow> goerr + 'a \<times> db) \<Rightarrow> 'a query" where
  "stmt_effect f s = (case f s of
     Inl e \<Rightarrow> (Inl e, if errors_As_pg e = None then s else s\<lparr>aborted := Some (later_error e)\<rparr>)
   | Inr (x, d) \<Rightarrow> (Inr x, s\<lparr>data := d\<rparr>))"

definition run_stmt :: "(sess \<Rightarrow> goerr + 'a \<times> db) \<Rightarrow> 'a query" where
  "run_stmt f s =
     (case aborted s of
        Some e \<Rightarrow> (Inl e, s)
      | None \<Rightarrow>
          (case pop_fault s of
             (Some e, s') \<Rightarrow> (Inl e, s'\<lparr>aborted := Some (later_error e)\<rparr>)
           | (None, s') \<Rightarrow> stmt_effect f s'))"

definition rls_view :: "env \<Rightarrow> uuid option \<Rightarrow> goerr + (uuid \<Rightarrow> bool)" where
  "rls_view E cur = (if enforce_rls E
     then (case cur of None \<Rightarrow> Inl (pg_error UndefinedObjectCode) | Some p \<Rightarrow> Inr (\<lambda>q. q = p))
     else Inr (\<lambda>q. True))"

definition query :: "env \<Rightarrow> ((uuid \<Rightarrow> bool) \<Rightarrow> db \<Rightarrow> goerr + 'a \<times> db) \<Rightarrow> 'a query" where
  "query E f = run_stmt (\<lambda>s. case rls_view E (cur_property s) of
     Inl e \<Rightarrow> Inl e | Inr vis \<Rightarrow> f vis (data s))"

definition checked :: "'a \<Rightarrow> db \<Rightarrow> goerr + 'a \<times> db" where
  "checked x d = (case first_violation d of None \<Rightarrow> Inr (x, d) | Some code \<Rightarrow> Inl (pg_error code))"

definition one_row :: "'a list \<Rightarrow> db \<Rightarrow> goerr + 'a \<times> db" where
  "one_row xs d = (case xs of [] \<Rightarrow> Inl NoRows | x # _ \<Rightarrow> Inr (x, d))"

definition pg_range :: "tstzrange \<Rightarrow> goerr + tstzrange" where
  "pg_range r =
     (if LowerType r = Empty then Inr r
      else case (Lower r, Upper r) of
        (Some l, Some u) \<Rightarrow>
          if pg_ts u < pg_ts l then Inl (pg_error DataExceptionCode)
          else if pg_ts l = pg_ts u \<and> \<not> (LowerType r = Inclusive \<and> UpperType r = Inclusive)
          then Inr \<lparr>Lower = None, Upper = None, LowerType = Empty, UpperType = Empty, RangeValid = True\<rparr>
          else Inr (r\<lparr>Lower := Some (pg_ts l), Upper := Some (pg_ts u)\<rparr>)
      | _ \<Rightarrow> Inl (ErrorString ''range bound cannot be NULL''))"

definition status_enum :: "ReservationStatus \<Rightarrow> bool" where
  "status_enum s \<longleftrightarrow> s \<in> {StatusHold, StatusConfirmed, StatusCheckedIn, StatusCheckedOut, StatusCancelled, StatusArchived}"

definition item_status_enum :: "ItemStatus \<Rightarrow> bool" where
  "item_status_enum s \<longleftrightarrow> (case s of ItemStatusOther t \<Rightarrow> False | _ \<Rightarrow> True)"

definition source_enum :: "ReservationSource \<Rightarrow> bool" where
  "source_enum s \<longleftrightarrow> (case s of SourceOther t \<Rightarrow> False | _ \<Rightarrow> True)"

section \<open>global.sql.go\<close>

definition no_effect :: "sess \<Rightarrow> goerr + unit \<times> db" where
  "no_effect s = Inr ((), data s)"

definition SetCurrentPropertyID :: "uuid \<Rightarrow> unit query" where
  "SetCurrentPropertyID p s =
     (case run_stmt no_effect s of
        (Inl e, s') \<Rightarrow> (Inl e, s') | (Inr u, s') \<Rightarrow> (Inr u, s'\<lparr>cur_property := Some p\<rparr>))"

definition GetPropertyTimezone :: "env \<Rightarrow> uuid \<Rightarrow> string query" where
  "GetPropertyTimezone E p = run_stmt (\<lambda>s.
     if enforce_rls E then Inl (pg_error UndefinedObjectCode)
     else one_row (map p_timezone (filter (\<lambda>x. p_id x = p \<and> p_deleted_at x = None) (properties (data s)))) (data s))"

definition NotifyChannel :: "string \<Rightarrow> string \<Rightarrow> unit query" where
  "NotifyChannel channel payload = run_stmt (\<lambda>s.
     Inr ((), (data s)\<lparr>notifications := notifications (data s) @ [(channel, payload)]\<rparr>))"

section \<open>guest.sql.go\<close>

record CreateGuestParams =
  cg_PropertyID :: uuid
  cg_FirstName :: string
  cg_LastName :: string
  cg_Email :: "string option"
  cg_PhoneNumber :: "string option"

definition CreateGuest :: "env \<Rightarrow> CreateGuestParams \<Rightarrow> IdentityGuest query" where
  "CreateGuest E a = query E (\<lambda>vis d.
     let g = \<lparr>g_id = uuidv7 E (uuid_next d), g_property_id = cg_PropertyID a,
              g_first_name = cg_FirstName a, g_last_name = cg_LastName a,
              g_email = cg_Email a, g_phone_number = cg_PhoneNumber a, g_deleted_at = None\<rparr>
     in if \<not> vis (cg_PropertyID a) then Inl (pg_error ''42501'')
        else checked g (d\<lparr>guests := guests d @ [g], uuid_next := Suc (uuid_next d)\<rparr>))"

definition GetGuest :: "env \<Rightarrow> uuid \<Rightarrow> IdentityGuest query" where
  "GetGuest E u = query E (\<lambda>vis d.
     one_row (filter (\<lambda>g. vis (g_property_id g) \<and> g_id g = u \<and> g_deleted_at g = None) (guests d)) d)"

section \<open>reservation\_crud.sql.go\<close>

record CreateReservationParams =
  cr_PropertyID :: uuid
  cr_PrimaryGuestID :: uuid
  cr_StayPeriodEnvelope :: tstzrange
  cr_Source :: ReservationSource
  cr_Notes :: "string option"
  cr_Status :: ReservationStatus
  cr_ExpiresAt :: "time option"

definition lpad6 :: "string \<Rightarrow> string" where
  "lpad6 s = (if length s \<le> 6 then pad0 6 s else take 6 s)"

definition reservation_code :: "int \<Rightarrow> string" where
  "reservation_code n = ''RES-'' @ lpad6 (dec_int n)"

definition next_sequential :: "db \<Rightarrow> uuid \<Rightarrow> int" where
  "next_sequential d p = (case map_of (sequences d) p of Some n \<Rightarrow> n | None \<Rightarrow> 1)"

definition CreateReservation :: "env \<Rightarrow> CreateReservationParams \<Rightarrow> OperationsReservation query" where
  "CreateReservation E a = query E (\<lambda>vis d.
     let p = cr_PropertyID a; n = next_sequential d p
     in if \<not> source_enum (cr_Source a) \<or> \<not> status_enum (cr_Status a)
        then Inl (pg_error InvalidTextRepresentationCode)
        else case pg_range (cr_StayPeriodEnvelope a) of
          Inl e \<Rightarrow> Inl e
        | Inr envelope \<Rightarrow>
            if \<not> vis p then Inl (pg_error ''42501'')
            else if \<not> in_int64 (n + 1) then Inl (pg_error ''22003'')
            else let r = \<lparr>r_id = uuidv7 E (uuid_next d), r_property_id = p,
                          r_primary_guest_id = cr_PrimaryGuestID a, r_sequential = n,
                          r_code = reservation_code n, r_source = cr_Source a, r_notes = cr_Notes a,
                          r_status = cr_Status a, r_envelope = envelope, r_version = 1,
                          r_created_at = pg_now E, r_updated_at = pg_now E, r_deleted_at = None,
                          r_expires_at = map_option pg_ts (cr_ExpiresAt a)\<rparr>
                 in checked r (d\<lparr>reservations := reservations d @ [r],
                                 sequences := AList.update p (n + 1) (sequences d),
                                 uuid_next := Suc (uuid_next d)\<rparr>))"

record CreateReservationItemParams =
  ci_PropertyID :: uuid
  ci_ReservationID :: uuid
  ci_BookedRoomTypeID :: uuid
  ci_AssignedRoomID :: "uuid option"
  ci_GuestID :: "uuid option"
  ci_RatePlanID :: "uuid option"
  ci_StayPeriod :: tstzrange
  ci_BaseRatePence :: int
  ci_AdultsCount :: int
  ci_ChildrenCount :: int
  ci_Status :: ItemStatus
  ci_DoNotMove :: bool

definition CreateReservationItem :: "env \<Rightarrow> CreateReservationItemParams \<Rightarrow> OperationsReservationItem query" where
  "CreateReservationItem E a = query E (\<lambda>vis d.
     if \<not> item_status_enum (ci_Status a) then Inl (pg_error InvalidTextRepresentationCode)
     else case pg_range (ci_StayPeriod a) of
       Inl e \<Rightarrow> Inl e
     | Inr stay \<Rightarrow>
         if \<not> vis (ci_PropertyID a) then Inl (pg_error ''42501'')
         else let i = \<lparr>i_id = uuidv7 E (uuid_next d), i_property_id = ci_PropertyID a,
                       i_reservation_id = ci_ReservationID a, i_room_type_id = ci_BookedRoomTypeID a,
                       i_assigned_room_id = ci_AssignedRoomID a, i_guest_id = ci_GuestID a,
                       i_rate_plan_id = ci_RatePlanID a, i_stay_period = stay,
                       i_do_not_move = ci_DoNotMove a, i_base_rate_pence = ci_BaseRatePence a,
                       i_adults_count = ci_AdultsCount a, i_children_count = ci_ChildrenCount a,
                       i_status = ci_Status a, i_version = 1, i_created_at = pg_now E,
                       i_updated_at = pg_now E, i_deleted_at = None\<rparr>
              in checked i (d\<lparr>items := items d @ [i], uuid_next := Suc (uuid_next d)\<rparr>))"

definition GetReservation :: "env \<Rightarrow> uuid \<Rightarrow> OperationsReservation query" where
  "GetReservation E u = query E (\<lambda>vis d.
     one_row (filter (\<lambda>r. vis (r_property_id r) \<and> r_id r = u \<and> r_deleted_at r = None) (reservations d)) d)"

record ListReservationsParams =
  lr_PropertyID :: uuid
  lr_Status :: string
  lr_CursorDate :: "time option"
  lr_CursorID :: uuid
  lr_StartDate :: "date option"
  lr_EndDate :: "date option"
  lr_Limit :: int

definition list_filter :: "ListReservationsParams \<Rightarrow> OperationsReservation \<Rightarrow> bool" where
  "list_filter a r \<longleftrightarrow>
     r_property_id r = lr_PropertyID a \<and> r_deleted_at r = None
     \<and> (lr_Status a = [] \<or> status_text (r_status r) = lr_Status a)
     \<and> (case lr_CursorDate a of None \<Rightarrow> True
        | Some c \<Rightarrow> (case Lower (r_envelope r) of None \<Rightarrow> False
                     | Some l \<Rightarrow> l < pg_ts c \<or> l = pg_ts c \<and> r_id r < lr_CursorID a))
     \<and> (case lr_StartDate a of None \<Rightarrow> True
        | Some x \<Rightarrow> (case Lower (r_envelope r) of None \<Rightarrow> False | Some l \<Rightarrow> x * day_ns \<le> l))
     \<and> (case lr_EndDate a of None \<Rightarrow> True
        | Some x \<Rightarrow> (case Upper (r_envelope r) of None \<Rightarrow> False | Some u \<Rightarrow> u \<le> x * day_ns))"

definition list_order :: "OperationsReservation list \<Rightarrow> OperationsReservation list" where
  "list_order rs =
     sort_key (\<lambda>r. case Lower (r_envelope r) of None \<Rightarrow> 0 | Some l \<Rightarrow> (1 :: int))
       (sort_key (\<lambda>r. case Lower (r_envelope r) of None \<Rightarrow> 0 | Some l \<Rightarrow> - l)
         (sort_key (\<lambda>r. - uint (r_id r)) rs))"

definition ListReservations :: "env \<Rightarrow> ListReservationsParams \<Rightarrow> OperationsReservation list query" where
  "ListReservations E a = query E (\<lambda>vis d.
     Inr (take (nat (lr_Limit a)) (list_order (filter (\<lambda>r. vis (r_property_id r) \<and> list_filter a r) (reservations d))), d))"

record UpdateReservationItemParams =
  ui_BookedRoomTypeID :: "uuid option"
  ui_AssignedRoomID :: "uuid option"
  ui_StayPeriod :: tstzrange
  ui_RatePlanID :: "uuid option"
  ui_AdultsCount :: int
  ui_ChildrenCount :: int
  ui_Status :: ItemStatus
  ui_ID :: uuid
  ui_Version :: int

definition coalesce :: "'a option \<Rightarrow> 'a \<Rightarrow> 'a" where
  "coalesce x y = (case x of Some v \<Rightarrow> v | None \<Rightarrow> y)"

definition coalesce_null :: "'a option \<Rightarrow> 'a option \<Rightarrow> 'a option" where
  "coalesce_null x y = (case x of Some v \<Rightarrow> Some v | None \<Rightarrow> y)"

definition range_param :: "tstzrange \<Rightarrow> goerr + tstzrange option" where
  "range_param r = (if RangeValid r then (case pg_range r of Inl e \<Rightarrow> Inl e | Inr x \<Rightarrow> Inr (Some x)) else Inr None)"

definition updated_item ::
  "env \<Rightarrow> UpdateReservationItemParams \<Rightarrow> tstzrange option \<Rightarrow> OperationsReservationItem \<Rightarrow> OperationsReservationItem" where
  "updated_item E a stay i = i\<lparr>
     i_room_type_id := coalesce (ui_BookedRoomTypeID a) (i_room_type_id i),
     i_assigned_room_id := coalesce_null (ui_AssignedRoomID a) (i_assigned_room_id i),
     i_stay_period := coalesce stay (i_stay_period i),
     i_rate_plan_id := coalesce_null (ui_RatePlanID a) (i_rate_plan_id i),
     i_adults_count := ui_AdultsCount a,
     i_children_count := ui_ChildrenCount a,
     i_status := ui_Status a,
     i_version := i_version i + 1,
     i_updated_at := pg_now E\<rparr>"

definition UpdateReservationItem :: "env \<Rightarrow> UpdateReservationItemParams \<Rightarrow> OperationsReservationItem query" where
  "UpdateReservationItem E a = query E (\<lambda>vis d.
     let hit = (\<lambda>i. vis (i_property_id i) \<and> i_id i = ui_ID a \<and> i_version i = ui_Version a)
     in if \<not> item_status_enum (ui_Status a) then Inl (pg_error InvalidTextRepresentationCode)
        else case range_param (ui_StayPeriod a) of
          Inl e \<Rightarrow> Inl e
        | Inr stay \<Rightarrow>
            (case filter hit (items d) of
               [] \<Rightarrow> Inl NoRows
             | i # _ \<Rightarrow>
                 if \<not> in_int32 (i_version i + 1) then Inl (pg_error ''22003'')
                 else checked (updated_item E a stay i)
                        (d\<lparr>items := map (\<lambda>i. if hit i then updated_item E a stay i else i) (items d)\<rparr>)))"

record UpdateReservationMetadataParams =
  um_Notes :: "string option"
  um_PrimaryGuestID :: uuid
  um_StayPeriodEnvelope :: "tstzrange option"
  um_ID :: uuid
  um_Version :: int

definition updated_metadata ::
  "env \<Rightarrow> UpdateReservationMetadataParams \<Rightarrow> tstzrange option \<Rightarrow> OperationsReservation \<Rightarrow> OperationsReservation" where
  "updated_metadata E a envelope r = r\<lparr>
     r_notes := coalesce_null (um_Notes a) (r_notes r),
     r_primary_guest_id := um_PrimaryGuestID a,
     r_envelope := coalesce envelope (r_envelope r),
     r_version := r_version r + 1,
     r_updated_at := pg_now E\<rparr>"

definition UpdateReservationMetadata :: "env \<Rightarrow> UpdateReservationMetadataParams \<Rightarrow> OperationsReservation query" where
  "UpdateReservationMetadata E a = query E (\<lambda>vis d.
     let hit = (\<lambda>r. vis (r_property_id r) \<and> r_id r = um_ID a \<and> r_version r = um_Version a)
     in case (case um_StayPeriodEnvelope a of None \<Rightarrow> Inr None | Some x \<Rightarrow> range_param x) of
          Inl e \<Rightarrow> Inl e
        | Inr envelope \<Rightarrow>
            (case filter hit (reservations d) of
               [] \<Rightarrow> Inl NoRows
             | r # _ \<Rightarrow>
                 if \<not> in_int32 (r_version r + 1) then Inl (pg_error ''22003'')
                 else checked (updated_metadata E a envelope r)
                        (d\<lparr>reservations := map (\<lambda>r. if hit r then updated_metadata E a envelope r else r) (reservations d)\<rparr>)))"

section \<open>reservation\_workers.sql.go\<close>

definition updated_status :: "env \<Rightarrow> ReservationStatus \<Rightarrow> OperationsReservation \<Rightarrow> OperationsReservation" where
  "updated_status E st r = r\<lparr>r_status := st, r_version := r_version r + 1, r_updated_at := pg_now E\<rparr>"

definition UpdateReservationStatus :: "env \<Rightarrow> uuid \<Rightarrow> int \<Rightarrow> ReservationStatus \<Rightarrow> int query" where
  "UpdateReservationStatus E u v st = query E (\<lambda>vis d.
     let hit = (\<lambda>r. vis (r_property_id r) \<and> r_id r = u \<and> r_version r = v)
     in if \<not> status_enum st then Inl (pg_error InvalidTextRepresentationCode)
        else if list_ex hit (reservations d) \<and> \<not> in_int32 (v + 1) then Inl (pg_error ''22003'')
        else checked (int (length (filter hit (reservations d))))
               (d\<lparr>reservations := map (\<lambda>r. if hit r then updated_status E st r else r) (reservations d)\<rparr>))"

definition FindArchivableReservations :: "env \<Rightarrow> OperationsReservation list query" where
  "FindArchivableReservations E = query E (\<lambda>vis d.
     Inr (take 500 (filter (\<lambda>r. \<not> locked E (r_id r)) (sort_key r_updated_at
       (filter (\<lambda>r. vis (r_property_id r) \<and> r_status r \<in> {StatusCheckedOut, StatusCancelled}
                  \<and> r_updated_at r < pg_now E - 365 * day_ns) (reservations d)))), d))"

definition FindExpiredHolds :: "env \<Rightarrow> OperationsReservation list query" where
  "FindExpiredHolds E = query E (\<lambda>vis d.
     Inr (take 100 (filter (\<lambda>r. \<not> locked E (r_id r)) (sort_key r_created_at
       (filter (\<lambda>r. vis (r_property_id r) \<and> r_status r = StatusHold
                  \<and> (case r_expires_at r of None \<Rightarrow> False | Some t \<Rightarrow> t < pg_now E)) (reservations d)))), d))"

definition FindOverdueCheckins :: "env \<Rightarrow> OperationsReservationItem list query" where
  "FindOverdueCheckins E = query E (\<lambda>vis d.
     Inr (filter (\<lambda>i. vis (i_property_id i) \<and> i_status i = ItemStatusBooked
       \<and> (case Lower (i_stay_period i) of None \<Rightarrow> False | Some l \<Rightarrow> l + 10 * minute_ns < pg_now E)) (items d), d))"

definition FindOverstays :: "env \<Rightarrow> OperationsReservationItem list query" where
  "FindOverstays E = query E (\<lambda>vis d.
     Inr (take 100 (filter (\<lambda>i. \<not> locked E (i_id i)) (sort_key i_updated_at
       (filter (\<lambda>i. vis (i_property_id i) \<and> i_status i = ItemStatusCheckedIn
          \<and> (case Upper (i_stay_period i) of None \<Rightarrow> False | Some u \<Rightarrow> u + 100 * minute_ns < pg_now E)) (items d)))), d))"

section \<open>reservation\_items.sql.go\<close>

definition blocking :: "InventoryStatus \<Rightarrow> bool" where
  "blocking st \<longleftrightarrow> st \<in> {Sold, OnHold, Maintenance, Decommissioned}"

definition BlockedCountByType :: "env \<Rightarrow> uuid \<Rightarrow> uuid option \<Rightarrow> date \<Rightarrow> date \<Rightarrow> (date \<times> int) list query" where
  "BlockedCountByType E p rt start_d end_d = query E (\<lambda>vis d.
     let of_type = (\<lambda>m. list_ex (\<lambda>r. vis (rm_property_id r) \<and> rm_id r = m \<and> rm_property_id r = p
                            \<and> rt \<noteq> None \<and> rm_room_type_id r = rt) (rooms d));
         hits = filter (\<lambda>l. vis (l_property_id l) \<and> of_type (l_room_id l) \<and> blocking (l_status l)
                  \<and> l_deleted_at l = None \<and> start_d \<le> l_date l \<and> l_date l \<le> end_d) (ledger d)
     in Inr (map (\<lambda>x. (x, int (length (remdups (map l_room_id (filter (\<lambda>l. l_date l = x) hits))))))
              (sort (remdups (map l_date hits))), d))"

record BulkInsertLedgerRowsParams =
  bl_PropertyIds :: "uuid list"
  bl_RoomIds :: "uuid list"
  bl_ReservationIds :: "uuid list"
  bl_ReservationItemIds :: "uuid list"
  bl_CalendarDates :: "date option list"
  bl_Statuses :: "string list"

definition inventory_status_of_text :: "string \<Rightarrow> InventoryStatus option" where
  "inventory_status_of_text s = map_of
     [(''available'', Available), (''sold'', Sold), (''on_hold'', OnHold),
      (''maintenance'', Maintenance), (''decommissioned'', Decommissioned)] s"

definition nth_opt :: "'a list \<Rightarrow> nat \<Rightarrow> 'a option" where
  "nth_opt xs k = (if k < length xs then Some (xs ! k) else None)"

definition bulk_length :: "BulkInsertLedgerRowsParams \<Rightarrow> nat" where
  "bulk_length a = fold max [length (bl_PropertyIds a), length (bl_RoomIds a), length (bl_ReservationIds a),
     length (bl_ReservationItemIds a), length (bl_CalendarDates a), length (bl_Statuses a)] 0"

definition bulk_row :: "env \<Rightarrow> db \<Rightarrow> BulkInsertLedgerRowsParams \<Rightarrow> nat \<Rightarrow> goerr + InventoryRoomInventoryLedger" where
  "bulk_row E d a k =
     (case map_option inventory_status_of_text (nth_opt (bl_Statuses a) k) of
        Some None \<Rightarrow> Inl (pg_error InvalidTextRepresentationCode)
      | None \<Rightarrow> Inl (pg_error NotNullViolationCode)
      | Some (Some st) \<Rightarrow>
          (case (nth_opt (bl_PropertyIds a) k, nth_opt (bl_RoomIds a) k, nth_opt (bl_CalendarDates a) k) of
             (Some p, Some m, Some (Some x)) \<Rightarrow>
               Inr \<lparr>l_id = uuidv7 E (uuid_next d + k), l_property_id = p, l_room_id = m,
                    l_reservation_id = nth_opt (bl_ReservationIds a) k,
                    l_item_id = nth_opt (bl_ReservationItemIds a) k, l_block_id = None,
                    l_date = x, l_status = st, l_deleted_at = None\<rparr>
           | _ \<Rightarrow> Inl (pg_error NotNullViolationCode)))"

fun sequence_sum :: "('e + 'a) list \<Rightarrow> 'e + 'a list" where
  "sequence_sum [] = Inr []"
| "sequence_sum (Inl e # xs) = Inl e"
| "sequence_sum (Inr x # xs) = (case sequence_sum xs of Inl e \<Rightarrow> Inl e | Inr ys \<Rightarrow> Inr (x # ys))"

definition BulkInsertLedgerRows :: "env \<Rightarrow> BulkInsertLedgerRowsParams \<Rightarrow> unit query" where
  "BulkInsertLedgerRows E a = query E (\<lambda>vis d.
     case sequence_sum (map (bulk_row E d a) [0..<bulk_length a]) of
       Inl e \<Rightarrow> Inl e
     | Inr new \<Rightarrow>
         if \<not> list_all (\<lambda>l. vis (l_property_id l)) new then Inl (pg_error ''42501'')
         else checked () (d\<lparr>ledger := ledger d @ new, uuid_next := uuid_next d + length new\<rparr>))"

definition cancel_hit :: "uuid \<Rightarrow> uuid \<Rightarrow> OperationsReservationItem \<Rightarrow> bool" where
  "cancel_hit r p i \<longleftrightarrow> i_reservation_id i = r \<and> i_property_id i = p
     \<and> i_status i \<notin> {ItemStatusCheckedOut, ItemStatusCancelled, ItemStatusArchived}"

definition CancelReservationItems :: "env \<Rightarrow> uuid \<Rightarrow> uuid \<Rightarrow> unit query" where
  "CancelReservationItems E r p = query E (\<lambda>vis d.
     let hit = (\<lambda>i. vis (i_property_id i) \<and> cancel_hit r p i)
     in if list_ex (\<lambda>i. hit i \<and> \<not> in_int32 (i_version i + 1)) (items d) then Inl (pg_error ''22003'')
        else checked () (d\<lparr>items := map (\<lambda>i. if hit i
               then i\<lparr>i_status := ItemStatusCancelled, i_deleted_at := Some (pg_now E), i_version := i_version i + 1\<rparr>
               else i) (items d)\<rparr>))"

definition ConflictCheckOnLedger :: "env \<Rightarrow> uuid \<Rightarrow> date list \<Rightarrow> uuid \<Rightarrow> uuid \<Rightarrow> date list query" where
  "ConflictCheckOnLedger E m ds p exclude = query E (\<lambda>vis d.
     Inr (sort (map l_date (filter (\<lambda>l. vis (l_property_id l) \<and> l_room_id l = m \<and> l_date l \<in> set ds
       \<and> l_property_id l = p \<and> blocking (l_status l) \<and> l_deleted_at l = None
       \<and> (case l_item_id l of None \<Rightarrow> False | Some i \<Rightarrow> i \<noteq> exclude)) (ledger d))), d))"

definition CountRoomsByType :: "env \<Rightarrow> uuid \<Rightarrow> uuid option \<Rightarrow> int query" where
  "CountRoomsByType E p rt = query E (\<lambda>vis d.
     Inr (int (length (filter (\<lambda>r. vis (rm_property_id r) \<and> rm_property_id r = p
                         \<and> rt \<noteq> None \<and> rm_room_type_id r = rt) (rooms d))), d))"

definition DeleteLedgerForReservation :: "env \<Rightarrow> uuid \<Rightarrow> uuid \<Rightarrow> unit query" where
  "DeleteLedgerForReservation E r p = query E (\<lambda>vis d.
     Inr ((), d\<lparr>ledger := filter (\<lambda>l. \<not> (vis (l_property_id l) \<and> l_reservation_id l = Some r \<and> l_property_id l = p)) (ledger d)\<rparr>))"

definition DeleteLedgerRowsByItem :: "env \<Rightarrow> uuid \<Rightarrow> uuid \<Rightarrow> unit query" where
  "DeleteLedgerRowsByItem E i p = query E (\<lambda>vis d.
     Inr ((), d\<lparr>ledger := filter (\<lambda>l. \<not> (vis (l_property_id l) \<and> l_item_id l = Some i \<and> l_property_id l = p)) (ledger d)\<rparr>))"

definition DeleteLedgerRowsByItemFromDate :: "env \<Rightarrow> uuid \<Rightarrow> uuid \<Rightarrow> date \<Rightarrow> unit query" where
  "DeleteLedgerRowsByItemFromDate E i p x = query E (\<lambda>vis d.
     Inr ((), d\<lparr>ledger := filter (\<lambda>l. \<not> (vis (l_property_id l) \<and> l_item_id l = Some i \<and> l_property_id l = p \<and> x \<le> l_date l)) (ledger d)\<rparr>))"

definition GetReservationItem :: "env \<Rightarrow> uuid \<Rightarrow> OperationsReservationItem query" where
  "GetReservationItem E u = query E (\<lambda>vis d.
     one_row (filter (\<lambda>i. vis (i_property_id i) \<and> i_id i = u \<and> i_deleted_at i = None) (items d)) d)"

definition GetReservationItems :: "env \<Rightarrow> uuid \<Rightarrow> uuid \<Rightarrow> OperationsReservationItem list query" where
  "GetReservationItems E r p = query E (\<lambda>vis d.
     Inr (sort_key i_created_at (filter (\<lambda>i. vis (i_property_id i) \<and> i_reservation_id i = r
            \<and> i_property_id i = p \<and> i_deleted_at i = None) (items d)), d))"

definition GetRoomTypeOccupancy :: "env \<Rightarrow> uuid \<Rightarrow> uuid \<Rightarrow> InventoryRoomType query" where
  "GetRoomTypeOccupancy E u p = query E (\<lambda>vis d.
     one_row (filter (\<lambda>t. vis (rt_property_id t) \<and> rt_id t = u \<and> rt_property_id t = p \<and> rt_deleted_at t = None) (room_types d)) d)"

definition InsertLedgerRow ::
  "env \<Rightarrow> uuid \<Rightarrow> uuid \<Rightarrow> uuid option \<Rightarrow> uuid option \<Rightarrow> date \<Rightarrow> InventoryStatus \<Rightarrow> unit query" where
  "InsertLedgerRow E p m r i x st = query E (\<lambda>vis d.
     if \<not> vis p then Inl (pg_error ''42501'')
     else checked () (d\<lparr>ledger := ledger d @
       [\<lparr>l_id = uuidv7 E (uuid_next d), l_property_id = p, l_room_id = m, l_reservation_id = r,
         l_item_id = i, l_block_id = None, l_date = x, l_status = st, l_deleted_at = None\<rparr>],
       uuid_next := Suc (uuid_next d)\<rparr>))"

definition ReactivateReservationItems :: "env \<Rightarrow> uuid \<Rightarrow> uuid \<Rightarrow> unit query" where
  "ReactivateReservationItems E r p = query E (\<lambda>vis d.
     let hit = (\<lambda>i. vis (i_property_id i) \<and> i_reservation_id i = r \<and> i_property_id i = p
                    \<and> i_status i = ItemStatusCancelled \<and> i_deleted_at i \<noteq> None)
     in if list_ex (\<lambda>i. hit i \<and> \<not> in_int32 (i_version i + 1)) (items d) then Inl (pg_error ''22003'')
        else checked () (d\<lparr>items := map (\<lambda>i. if hit i
               then i\<lparr>i_status := ItemStatusBooked, i_deleted_at := None, i_version := i_version i + 1\<rparr>
               else i) (items d)\<rparr>))"

definition SelectRoomForAutoPin :: "env \<Rightarrow> uuid \<Rightarrow> uuid \<Rightarrow> date list \<Rightarrow> uuid query" where
  "SelectRoomForAutoPin E p rt ds = query E (\<lambda>vis d.
     one_row (map rm_id (filter (\<lambda>r. \<not> locked E (rm_id r)) (sort_key (\<lambda>r. name_rank E (rm_name r))
       (filter (\<lambda>r. vis (rm_property_id r) \<and> rm_property_id r = p \<and> rm_room_type_id r = Some rt
          \<and> \<not> list_ex (\<lambda>l. vis (l_property_id l) \<and> l_room_id l = rm_id r \<and> l_date l \<in> set ds
                 \<and> blocking (l_status l) \<and> l_deleted_at l = None) (ledger d)) (rooms d))))) d)"

definition UpdateLedgerRowRoom :: "env \<Rightarrow> uuid \<Rightarrow> uuid \<Rightarrow> uuid \<Rightarrow> unit query" where
  "UpdateLedgerRowRoom E m i p = query E (\<lambda>vis d.
     checked () (d\<lparr>ledger := map (\<lambda>l. if vis (l_property_id l) \<and> l_item_id l = Some i \<and> l_property_id l = p
       then l\<lparr>l_room_id := m\<rparr> else l) (ledger d)\<rparr>))"

section \<open>reservation\_rates.sql.go, worker.sql.go and the statements written in Go\<close>

definition GetBaseRate :: "env \<Rightarrow> uuid \<Rightarrow> uuid \<Rightarrow> uuid \<Rightarrow> int \<Rightarrow> int query" where
  "GetBaseRate E p rt rp dow = query E (\<lambda>vis d.
     one_row (map br_base_price_pence (filter (\<lambda>b. vis (br_property_id b) \<and> br_property_id b = p
       \<and> br_room_type_id b = rt \<and> br_rate_plan_id b = rp \<and> br_day_of_week b = dow \<and> br_deleted_at b = None)
       (base_rates d))) d)"

definition GetRatePlanCapacity :: "env \<Rightarrow> uuid \<Rightarrow> uuid \<Rightarrow> int option query" where
  "GetRatePlanCapacity E rp p = query E (\<lambda>vis d.
     one_row (map br_max_daily_capacity (filter (\<lambda>b. vis (br_property_id b) \<and> br_rate_plan_id b = rp \<and> br_property_id b = p
       \<and> br_deleted_at b = None) (base_rates d))) d)"

text \<open>
  The rollup written in SQL: its CASE has branches of the enumeration type and the literal \<open>''\<close>, which PostgreSQL converts to
  that type when it analyses the statement. The empty text is no value of the enumeration, so the statement is refused.
\<close>

definition RollupReservationStatus_sql :: "env \<Rightarrow> uuid \<Rightarrow> string query" where
  "RollupReservationStatus_sql E r = query E (\<lambda>vis d. Inl (pg_error InvalidTextRepresentationCode))"

definition CreateOutboxEvent :: "env \<Rightarrow> string \<Rightarrow> string \<Rightarrow> time \<Rightarrow> uuid query" where
  "CreateOutboxEvent E ty payload process_at = run_stmt (\<lambda>s.
     let d = data s; u = uuidv7 E (uuid_next d)
     in checked u (d\<lparr>outbox := outbox d @ [\<lparr>o_id = u, o_event_type = ty, o_payload = payload,
          o_status = OutboxPending, o_retry_count = 0, o_last_error = None,
          o_process_at = pg_ts process_at, o_updated_at = pg_now E\<rparr>],
          uuid_next := Suc (uuid_next d)\<rparr>))"

definition SelectItemStatusForUpdate :: "env \<Rightarrow> uuid \<Rightarrow> ItemStatus query" where
  "SelectItemStatusForUpdate E u = query E (\<lambda>vis d.
     one_row (map i_status (filter (\<lambda>i. vis (i_property_id i) \<and> i_id i = u) (items d))) d)"

definition SoftDeleteItems :: "env \<Rightarrow> uuid \<Rightarrow> unit query" where
  "SoftDeleteItems E r = query E (\<lambda>vis d.
     let hit = (\<lambda>i. vis (i_property_id i) \<and> i_reservation_id i = r \<and> i_deleted_at i = None)
     in if list_ex (\<lambda>i. hit i \<and> \<not> in_int32 (i_version i + 1)) (items d) then Inl (pg_error ''22003'')
        else checked () (d\<lparr>items := map (\<lambda>i. if hit i
               then i\<lparr>i_deleted_at := Some (pg_now E), i_version := i_version i + 1\<rparr> else i) (items d)\<rparr>))"

end
