(* ===== verification/Tx.thy ===== *)
theory Tx
  imports Store
begin

text \<open>
  Request contexts (\<open>helpers/context.go\<close>) and transactions (\<open>db/tx.go\<close>).

  A transaction works on a snapshot of the committed database. It commits when none of its
  statements failed with an SQL error and nobody changed what it started from; a transaction that
  changed nothing commits in any case, one that conflicts fails with SQLSTATE 40001, as
  SERIALIZABLE promises. A transaction may run inside another one on a connection of its own: it
  sees and changes the committed database only.
\<close>

section \<open>helpers/context.go\<close>

record ctx =
  ctxPropertyID :: "uuid option"
  ctxPermissions :: "string list option"
  ctxIfMatchVer :: "int option"
  ctxUserID :: "uuid option"

definition GetPropertyIDFromCtx :: "ctx \<Rightarrow> uuid" where
  "GetPropertyIDFromCtx c = (case ctxPropertyID c of Some u \<Rightarrow> u | None \<Rightarrow> uuid_Nil)"

definition SetPropertyIDInCtx :: "ctx \<Rightarrow> uuid \<Rightarrow> ctx" where
  "SetPropertyIDInCtx c u = c\<lparr>ctxPropertyID := Some u\<rparr>"

definition GetUserIDFromCtx :: "ctx \<Rightarrow> uuid" where
  "GetUserIDFromCtx c = (case ctxUserID c of Some u \<Rightarrow> u | None \<Rightarrow> uuid_Nil)"

definition GetUserIDPtrFromCtx :: "ctx \<Rightarrow> uuid option" where
  "GetUserIDPtrFromCtx c = (case ctxUserID c of Some u \<Rightarrow> Some u | None \<Rightarrow> None)"

definition SetUserIDInCtx :: "ctx \<Rightarrow> uuid \<Rightarrow> ctx" where
  "SetUserIDInCtx c u = c\<lparr>ctxUserID := Some u\<rparr>"

definition GetPermissionsFromCtx :: "ctx \<Rightarrow> string list" where
  "GetPermissionsFromCtx c = (case ctxPermissions c of Some ps \<Rightarrow> ps | None \<Rightarrow> [])"

definition SetPermissionsInCtx :: "ctx \<Rightarrow> string list \<Rightarrow> ctx" where
  "SetPermissionsInCtx c ps = c\<lparr>ctxPermissions := Some ps\<rparr>"

definition HasPermission :: "ctx \<Rightarrow> string \<Rightarrow> bool" where
  "HasPermission c perm = list_ex (\<lambda>p. p = perm) (GetPermissionsFromCtx c)"

definition GetIfMatchVersion :: "ctx \<Rightarrow> int" where
  "GetIfMatchVersion c = (case ctxIfMatchVer c of Some v \<Rightarrow> v | None \<Rightarrow> 0)"

definition SetIfMatchVersion :: "ctx \<Rightarrow> int \<Rightarrow> ctx" where
  "SetIfMatchVersion c v = c\<lparr>ctxIfMatchVer := Some v\<rparr>"

section \<open>Transactions of the driver\<close>

definition BeginTx :: "unit query" where
  "BeginTx s = (case pop_fault s of
     (Some e, s') \<Rightarrow> (Inl e, s')
   | (None, s') \<Rightarrow> (Inr (), s'\<lparr>snapshot := pool s', data := pool s', cur_property := None, aborted := None\<rparr>))"

definition Commit :: "unit query" where
  "Commit s =
     (if aborted s \<noteq> None then (Inl (ErrorString ''commit unexpectedly resulted in rollback''), s)
      else case pop_fault s of
        (Some e, s') \<Rightarrow> (Inl e, s')
      | (None, s') \<Rightarrow>
          if data s' = snapshot s' then (Inr (), s')
          else if pool s' = snapshot s' then (Inr (), s'\<lparr>pool := data s'\<rparr>)
          else (Inl (pg_error ''40001''), s'))"

definition leave_tx :: "sess \<Rightarrow> sess \<Rightarrow> sess" where
  "leave_tx outer s = s\<lparr>snapshot := snapshot outer, data := data outer,
     cur_property := cur_property outer, aborted := aborted outer\<rparr>"

definition rolled_back :: "goerr \<Rightarrow> sess \<Rightarrow> goerr \<times> sess" where
  "rolled_back err s = (case pop_fault s of
     (None, s') \<Rightarrow> (err, s') | (Some e, s') \<Rightarrow> (Joined [err, e], s'))"

section \<open>db/tx.go\<close>

definition SetCurrentUserID :: "uuid \<Rightarrow> unit query" where
  "SetCurrentUserID u = run_stmt no_effect"

definition tx_error :: "goerr \<Rightarrow> goerr" where
  "tx_error fnErr = (case errors_As_api fnErr of
     Some a \<Rightarrow> ApiE a | None \<Rightarrow> ApiE (MapPostgresError fnErr))"

definition tx_body :: "ctx \<Rightarrow> 'a query \<Rightarrow> 'a query" where
  "tx_body c fn =
     bnd (guard (GetPropertyIDFromCtx c \<noteq> uuid_Nil)
            (ApiE (WithMessage ErrBadRequest ''X-Property-ID header required''))) (\<lambda>_.
     bnd (map_err (Wrap ''set rls property id: '') (SetCurrentPropertyID (GetPropertyIDFromCtx c))) (\<lambda>_.
     bnd (if GetUserIDFromCtx c \<noteq> uuid_Nil
          then map_err (Wrap ''set rls user id: '') (SetCurrentUserID (GetUserIDFromCtx c)) else ret ()) (\<lambda>_.
     map_err tx_error fn)))"

definition ExecuteTx :: "ctx \<Rightarrow> 'a query \<Rightarrow> 'a query" where
  "ExecuteTx c fn s =
     (case BeginTx s of
        (Inl e, s1) \<Rightarrow> (Inl (Wrap ''begin tx: '' e), s1)
      | (Inr _, s1) \<Rightarrow>
          (case tx_body c fn s1 of
             (Inl e, s2) \<Rightarrow> (case rolled_back e s2 of (e', s3) \<Rightarrow> (Inl e', leave_tx s s3))
           | (Inr x, s2) \<Rightarrow>
               (case Commit s2 of
                  (Inl e, s3) \<Rightarrow> (Inl (Wrap ''commit tx: '' e), leave_tx s s3)
                | (Inr _, s3) \<Rightarrow> (Inr x, leave_tx s s3))))"

definition auto_commit :: "'a query \<Rightarrow> 'a query" where
  "auto_commit q s =
     (case q (s\<lparr>snapshot := pool s, data := pool s, cur_property := None, aborted := None\<rparr>) of
        (Inl e, s') \<Rightarrow> (Inl e, leave_tx s s')
      | (Inr x, s') \<Rightarrow> (Inr x, leave_tx s (s'\<lparr>pool := data s'\<rparr>)))"

end
