(* ===== verification/Invariants.thy ===== *)
theory Invariants
  imports Tx
begin

text \<open>
  What every query keeps.

  \<^item> \<open>session_invariant\<close>: a predicate on sessions that does not look at the script of faults nor at
    the aborted flag. Every statement that leaves the data alone keeps it.
  \<^item> \<open>store_client\<close>: the interface between the store and the booking code: the predicate is kept by
    every query that writes. The booking code is proved to keep it once, from this interface alone.
  \<^item> The interpretations discharge the interface for the queries of the model, with the
    integrity of the schema, with the isolation of the tenants under row-level security, and with
    the part of a session a transaction body cannot touch.
\<close>

section \<open>Statements\<close>

lemma pop_fault_faults: "pop_fault s = (f, s') \<Longrightarrow> \<exists>fs. s' = s\<lparr>faults := fs\<rparr>"
  by (auto simp: pop_fault_def split: list.splits intro: exI [of _ "faults s"])

lemma run_stmt_cases:
  obtains (failed) e s' where "run_stmt f s = (Inl e, s')" "data s' = data s"
      "\<exists>fs a. s' = s\<lparr>faults := fs, aborted := a\<rparr>"
  | (succeeded) x d fs where "run_stmt f s = (Inr x, s\<lparr>faults := fs, data := d\<rparr>)"
      "f (s\<lparr>faults := fs\<rparr>) = Inr (x, d)" "aborted s = None"
proof (cases "aborted s")
  case None
  obtain o' s' where p: "pop_fault s = (o', s')" by fastforce
  then obtain fs where s': "s' = s\<lparr>faults := fs\<rparr>" using pop_fault_faults by blast
  show ?thesis
  proof (cases o')
    case (Some e)
    with None p s' that(1) show ?thesis by (fastforce simp: run_stmt_def)
  next
    case o': None
    with None p have "run_stmt f s = stmt_effect f s'" by (simp add: run_stmt_def)
    show ?thesis
    proof (cases "f s'")
      case (Inl e)
      have "s\<lparr>faults := fs, aborted := aborted s\<rparr> = s\<lparr>faults := fs\<rparr>" by simp
      then have "\<exists>fs' a. snd (stmt_effect f s') = s\<lparr>faults := fs', aborted := a\<rparr>"
        using Inl s' by (auto simp: stmt_effect_def) (metis \<open>s\<lparr>faults := fs, aborted := aborted s\<rparr> = s\<lparr>faults := fs\<rparr>\<close>)
      with Inl \<open>run_stmt f s = stmt_effect f s'\<close> s' that(1) [of e "snd (stmt_effect f s')"] show ?thesis
        by (auto simp: stmt_effect_def split: if_splits)
    next
      case (Inr r)
      obtain x d where r: "r = (x, d)" by (cases r)
      with Inr \<open>run_stmt f s = stmt_effect f s'\<close> s' None that(2) [of x d fs] show ?thesis
        by (simp add: stmt_effect_def)
    qed
  qed
next
  case (Some e)
  have "\<exists>fs a. s = s\<lparr>faults := fs, aborted := a\<rparr>"
    by (intro exI [of _ "faults s"] exI [of _ "aborted s"]) simp
  with Some that(1) [of e s] show ?thesis by (simp add: run_stmt_def)
qed

locale session_invariant =
  fixes I :: "sess \<Rightarrow> bool"
  assumes faults_irrelevant: "I s \<Longrightarrow> I (s\<lparr>faults := fs\<rparr>)"
    and aborted_irrelevant: "I s \<Longrightarrow> I (s\<lparr>aborted := a\<rparr>)"
begin

lemma preserves_run_stmt:
  assumes "\<And>s x d. I s \<Longrightarrow> f s = Inr (x, d) \<Longrightarrow> I (s\<lparr>data := d\<rparr>)"
  shows "preserves I (run_stmt f)"
proof (rule preservesI)
  fix s
  assume I: "I s"
  show "I (snd (run_stmt f s))"
  proof (cases f s rule: run_stmt_cases)
    case (failed e s')
    with I show ?thesis by (auto intro: faults_irrelevant aborted_irrelevant)
  next
    case (succeeded x d fs)
    with I assms [of "s\<lparr>faults := fs\<rparr>" x d] show ?thesis by (auto intro: faults_irrelevant)
  qed
qed

lemma same_data: "I s \<Longrightarrow> d = data s \<Longrightarrow> I (s\<lparr>data := d\<rparr>)"
  by simp

lemma preserves_query:
  assumes "\<And>s vis x d. I s \<Longrightarrow> rls_view E (cur_property s) = Inr vis \<Longrightarrow> f vis (data s) = Inr (x, d) \<Longrightarrow>
    I (s\<lparr>data := d\<rparr>)"
  shows "preserves I (query E f)"
  unfolding query_def by (rule preserves_run_stmt) (auto split: sum.splits intro: assms)

lemma preserves_reading:
  assumes "\<And>vis d x d'. f vis d = Inr (x, d') \<Longrightarrow> d' = d"
  shows "preserves I (query E f)"
proof (rule preserves_query)
  fix s vis x d
  assume "I s" "f vis (data s) = Inr (x, d)"
  with assms [of vis "data s" x d] show "I (s\<lparr>data := d\<rparr>)" by simp
qed

lemma one_row_reads: "one_row xs d = Inr (x, d') \<Longrightarrow> d' = d"
  by (auto simp: one_row_def split: list.splits)

lemma preserves_reads:
  "preserves I (GetGuest E u)" "preserves I (GetReservation E u)" "preserves I (ListReservations E lp)"
  "preserves I (FindArchivableReservations E)" "preserves I (FindExpiredHolds E)"
  "preserves I (FindOverdueCheckins E)" "preserves I (FindOverstays E)"
  "preserves I (BlockedCountByType E p rt d1 d2)" "preserves I (ConflictCheckOnLedger E m ds p x)"
  "preserves I (CountRoomsByType E p rt)" "preserves I (GetReservationItem E u)"
  "preserves I (GetReservationItems E r p)" "preserves I (GetRoomTypeOccupancy E u p)"
  "preserves I (SelectRoomForAutoPin E p m ds)" "preserves I (GetBaseRate E p m rp dow)"
  "preserves I (SelectItemStatusForUpdate E u)" "preserves I (GetRatePlanCapacity E rp p)"
  "preserves I (RollupReservationStatus_sql E r)"
  unfolding GetGuest_def GetReservation_def ListReservations_def FindArchivableReservations_def
    FindExpiredHolds_def FindOverdueCheckins_def FindOverstays_def BlockedCountByType_def
    ConflictCheckOnLedger_def CountRoomsByType_def GetReservationItem_def GetReservationItems_def
    GetRoomTypeOccupancy_def SelectRoomForAutoPin_def GetBaseRate_def SelectItemStatusForUpdate_def
    GetRatePlanCapacity_def RollupReservationStatus_sql_def
  by (rule preserves_reading; auto simp: Let_def dest: one_row_reads)+

lemma preserves_GetPropertyTimezone: "preserves I (GetPropertyTimezone E p)"
  unfolding GetPropertyTimezone_def
  by (rule preserves_run_stmt) (auto split: if_splits intro!: same_data dest: one_row_reads)

lemma preserves_SetCurrentUserID: "preserves I (SetCurrentUserID u)"
  unfolding SetCurrentUserID_def by (rule preserves_run_stmt) (auto simp: no_effect_def intro: same_data)

end

text \<open>The interface of the store that the booking code relies on.\<close>

locale store_client = session_invariant I
  for I :: "sess \<Rightarrow> bool" +
  fixes E :: env
  assumes keeps_CreateGuest: "preserves I (CreateGuest E cg)"
    and keeps_CreateReservation: "preserves I (CreateReservation E cr)"
    and keeps_CreateReservationItem: "preserves I (CreateReservationItem E ci)"
    and keeps_UpdateReservationItem: "preserves I (UpdateReservationItem E ui)"
    and keeps_UpdateReservationMetadata: "preserves I (UpdateReservationMetadata E um)"
    and keeps_UpdateReservationStatus: "preserves I (UpdateReservationStatus E u v st)"
    and keeps_BulkInsertLedgerRows: "preserves I (BulkInsertLedgerRows E bl)"
    and keeps_CancelReservationItems: "preserves I (CancelReservationItems E r p)"
    and keeps_ReactivateReservationItems: "preserves I (ReactivateReservationItems E r p)"
    and keeps_DeleteLedgerForReservation: "preserves I (DeleteLedgerForReservation E r p)"
    and keeps_DeleteLedgerRowsByItem: "preserves I (DeleteLedgerRowsByItem E r p)"
    and keeps_DeleteLedgerRowsByItemFromDate: "preserves I (DeleteLedgerRowsByItemFromDate E r p x)"
    and keeps_UpdateLedgerRowRoom: "preserves I (UpdateLedgerRowRoom E m r p)"
    and keeps_SoftDeleteItems: "preserves I (SoftDeleteItems E r)"
    and keeps_NotifyChannel: "preserves I (NotifyChannel ch pay)"
    and keeps_CreateOutboxEvent: "preserves I (CreateOutboxEvent E ty pay at)"
begin

lemmas keeps_queries = preserves_reads preserves_GetPropertyTimezone preserves_SetCurrentUserID
  keeps_CreateGuest keeps_CreateReservation
  keeps_CreateReservationItem keeps_UpdateReservationItem keeps_UpdateReservationMetadata
  keeps_UpdateReservationStatus keeps_BulkInsertLedgerRows keeps_CancelReservationItems
  keeps_ReactivateReservationItems keeps_DeleteLedgerForReservation keeps_DeleteLedgerRowsByItem
  keeps_DeleteLedgerRowsByItemFromDate keeps_UpdateLedgerRowRoom keeps_SoftDeleteItems
  keeps_NotifyChannel keeps_CreateOutboxEvent

end

section \<open>The schema is kept\<close>

definition schema_inv :: "sess \<Rightarrow> bool" where
  "schema_inv s \<longleftrightarrow> schema_ok (data s)"

lemma first_violation_iff: "first_violation d = None \<longleftrightarrow> schema_ok d"
  by (auto simp: first_violation_def schema_ok_def list_all_iff find_None_iff)

lemma checked_ok: "checked x d = Inr (y, d') \<Longrightarrow> y = x \<and> d' = d \<and> schema_ok d"
  by (auto simp: checked_def first_violation_iff split: option.splits)

lemma schema_ok_fewer_ledger_rows:
  assumes "schema_ok d"
  shows "schema_ok (d\<lparr>ledger := filter P (ledger d)\<rparr>)"
proof -
  have fk: "item_fk (d\<lparr>ledger := l\<rparr>) = item_fk d" "reservation_fk (d\<lparr>ledger := l\<rparr>) = reservation_fk d"
    "ledger_fk (d\<lparr>ledger := l\<rparr>) = ledger_fk d" "guest_fk (d\<lparr>ledger := l\<rparr>) = guest_fk d" for l
    by (simp_all add: item_fk_def reservation_fk_def ledger_fk_def guest_fk_def fun_eq_iff cong: option.case_cong)
  show ?thesis
    using assms by (auto simp: schema_ok_def violations_def fk list_all_iff distinct_map_filter)
qed

lemma schema_ok_notifications: "schema_ok (d\<lparr>notifications := n\<rparr>) = schema_ok d"
proof -
  have "item_fk (d\<lparr>notifications := n\<rparr>) = item_fk d" "reservation_fk (d\<lparr>notifications := n\<rparr>) = reservation_fk d"
    "ledger_fk (d\<lparr>notifications := n\<rparr>) = ledger_fk d" "guest_fk (d\<lparr>notifications := n\<rparr>) = guest_fk d"
    by (simp_all add: item_fk_def reservation_fk_def ledger_fk_def guest_fk_def fun_eq_iff cong: option.case_cong)
  then show ?thesis by (simp add: schema_ok_def violations_def)
qed

interpretation schema_session: session_invariant schema_inv
  by unfold_locales (simp_all add: schema_inv_def)

lemma schema_checked_query:
  assumes "\<And>vis d x d'. f vis d = Inr (x, d') \<Longrightarrow> schema_ok d'"
  shows "preserves schema_inv (query E f)"
  by (rule schema_session.preserves_query) (auto simp: schema_inv_def dest: assms)

lemma schema_delete_query:
  "preserves schema_inv (query E (\<lambda>vis d. Inr ((), d\<lparr>ledger := filter (P vis) (ledger d)\<rparr>)))"
  by (rule schema_session.preserves_query) (auto simp: schema_inv_def schema_ok_fewer_ledger_rows)

interpretation schema: store_client schema_inv E for E
proof unfold_locales
  fix cg cr ci ui um u v st bl r p x m ch pay ty at
  show "preserves schema_inv (CreateGuest E cg)" "preserves schema_inv (CreateReservation E cr)"
    "preserves schema_inv (CreateReservationItem E ci)" "preserves schema_inv (UpdateReservationItem E ui)"
    "preserves schema_inv (UpdateReservationMetadata E um)" "preserves schema_inv (UpdateReservationStatus E u v st)"
    "preserves schema_inv (BulkInsertLedgerRows E bl)" "preserves schema_inv (CancelReservationItems E r p)"
    "preserves schema_inv (ReactivateReservationItems E r p)" "preserves schema_inv (UpdateLedgerRowRoom E m r p)"
    "preserves schema_inv (SoftDeleteItems E r)"
    unfolding CreateGuest_def CreateReservation_def CreateReservationItem_def UpdateReservationItem_def
      UpdateReservationMetadata_def UpdateReservationStatus_def BulkInsertLedgerRows_def
      CancelReservationItems_def ReactivateReservationItems_def UpdateLedgerRowRoom_def SoftDeleteItems_def Let_def
    by (rule schema_checked_query; auto split: if_splits sum.splits list.splits dest!: checked_ok)+
  show "preserves schema_inv (DeleteLedgerForReservation E r p)" "preserves schema_inv (DeleteLedgerRowsByItem E r p)"
    "preserves schema_inv (DeleteLedgerRowsByItemFromDate E r p x)"
    unfolding DeleteLedgerForReservation_def DeleteLedgerRowsByItem_def DeleteLedgerRowsByItemFromDate_def
    by (rule schema_delete_query)+
  show "preserves schema_inv (NotifyChannel ch pay)"
    unfolding NotifyChannel_def
    by (rule schema_session.preserves_run_stmt) (auto simp: schema_inv_def schema_ok_notifications)
  show "preserves schema_inv (CreateOutboxEvent E ty pay at)"
    unfolding CreateOutboxEvent_def Let_def
    by (rule schema_session.preserves_run_stmt) (auto simp: schema_inv_def dest!: checked_ok)
qed

section \<open>Tenants are isolated by row-level security\<close>

definition foreign :: "uuid \<Rightarrow> db \<Rightarrow> db" where
  "foreign p d = d\<lparr>
     reservations := filter (\<lambda>r. r_property_id r \<noteq> p) (reservations d),
     items := filter (\<lambda>i. i_property_id i \<noteq> p) (items d),
     ledger := filter (\<lambda>l. l_property_id l \<noteq> p) (ledger d),
     guests := filter (\<lambda>g. g_property_id g \<noteq> p) (guests d),
     sequences := filter (\<lambda>q. fst q \<noteq> p) (sequences d),
     outbox := [], notifications := [], uuid_next := 0\<rparr>"

definition isolated :: "uuid \<Rightarrow> db \<Rightarrow> sess \<Rightarrow> bool" where
  "isolated p F s \<longleftrightarrow> cur_property s = Some p \<and> foreign p (data s) = F"

abbreviation with_rls :: "env \<Rightarrow> env" where
  "with_rls E \<equiv> E\<lparr>enforce_rls := True\<rparr>"

lemma filter_map_hit:
  assumes "\<And>x. hit x \<Longrightarrow> \<not> P x \<and> \<not> P (u x)"
  shows "filter P (map (\<lambda>x. if hit x then u x else x) xs) = filter P xs"
  by (induction xs) (use assms in auto)

lemma filter_filter_hit: "(\<And>x. P x \<Longrightarrow> Q x) \<Longrightarrow> filter P (filter Q xs) = filter P xs"
  by (induction xs) auto

lemma filter_update_key: "filter (\<lambda>q. fst q \<noteq> k) (AList.update k v xs) = filter (\<lambda>q. fst q \<noteq> k) xs"
  by (induction xs) auto

lemma foreign_update:
  "(\<And>r. hit_r r \<Longrightarrow> r_property_id r = p \<and> r_property_id (f r) = p) \<Longrightarrow>
   foreign p (d\<lparr>reservations := map (\<lambda>r. if hit_r r then f r else r) (reservations d)\<rparr>) = foreign p d"
  "(\<And>i. hit_i i \<Longrightarrow> i_property_id i = p \<and> i_property_id (g i) = p) \<Longrightarrow>
   foreign p (d\<lparr>items := map (\<lambda>i. if hit_i i then g i else i) (items d)\<rparr>) = foreign p d"
  "(\<And>l. hit_l l \<Longrightarrow> l_property_id l = p \<and> l_property_id (h l) = p) \<Longrightarrow>
   foreign p (d\<lparr>ledger := map (\<lambda>l. if hit_l l then h l else l) (ledger d)\<rparr>) = foreign p d"
  using filter_map_hit [of hit_r "\<lambda>r. r_property_id r \<noteq> p" f "reservations d"]
    filter_map_hit [of hit_i "\<lambda>i. i_property_id i \<noteq> p" g "items d"]
    filter_map_hit [of hit_l "\<lambda>l. l_property_id l \<noteq> p" h "ledger d"]
  by (simp_all add: foreign_def)

lemma foreign_delete:
  "(\<And>l. l_property_id l \<noteq> p \<Longrightarrow> Q l) \<Longrightarrow> foreign p (d\<lparr>ledger := filter Q (ledger d)\<rparr>) = foreign p d"
  using filter_filter_hit [of "\<lambda>l. l_property_id l \<noteq> p" Q "ledger d"] by (simp add: foreign_def)

lemma rls_view_with_rls: "rls_view (with_rls E) cur = Inr vis \<longleftrightarrow> (\<exists>p. cur = Some p \<and> vis = (\<lambda>q. q = p))"
  by (auto simp: rls_view_def split: option.splits)

interpretation isolated_session: session_invariant "isolated p F" for p F
  by unfold_locales (simp_all add: isolated_def)

lemma isolated_query:
  assumes "\<And>d x d'. f (\<lambda>q. q = p) d = Inr (x, d') \<Longrightarrow> foreign p d' = foreign p d"
  shows "preserves (isolated p F) (query (with_rls E) f)"
  by (rule isolated_session.preserves_query) (auto simp: isolated_def rls_view_with_rls dest: assms)

interpretation isolation: store_client "isolated p F" "with_rls E" for p F E
proof unfold_locales
  fix cg cr ci ui um u v st bl r q x m ch pay ty at
  show "preserves (isolated p F) (CreateGuest (with_rls E) cg)"
    "preserves (isolated p F) (CreateReservation (with_rls E) cr)"
    "preserves (isolated p F) (CreateReservationItem (with_rls E) ci)"
    "preserves (isolated p F) (BulkInsertLedgerRows (with_rls E) bl)"
    unfolding CreateGuest_def CreateReservation_def CreateReservationItem_def BulkInsertLedgerRows_def Let_def
    by (rule isolated_query; auto simp: foreign_def filter_update_key list_all_iff
        split: if_splits sum.splits dest!: checked_ok)+
  show "preserves (isolated p F) (UpdateReservationItem (with_rls E) ui)"
    "preserves (isolated p F) (UpdateReservationMetadata (with_rls E) um)"
    "preserves (isolated p F) (UpdateReservationStatus (with_rls E) u v st)"
    "preserves (isolated p F) (CancelReservationItems (with_rls E) r q)"
    "preserves (isolated p F) (ReactivateReservationItems (with_rls E) r q)"
    "preserves (isolated p F) (SoftDeleteItems (with_rls E) r)"
    "preserves (isolated p F) (UpdateLedgerRowRoom (with_rls E) m r q)"
    unfolding UpdateReservationItem_def UpdateReservationMetadata_def UpdateReservationStatus_def
      CancelReservationItems_def ReactivateReservationItems_def SoftDeleteItems_def UpdateLedgerRowRoom_def Let_def
    by (rule isolated_query; auto simp: updated_item_def updated_metadata_def updated_status_def
        split: if_splits sum.splits list.splits dest!: checked_ok intro!: foreign_update)+
  show "preserves (isolated p F) (DeleteLedgerForReservation (with_rls E) r q)"
    "preserves (isolated p F) (DeleteLedgerRowsByItem (with_rls E) r q)"
    "preserves (isolated p F) (DeleteLedgerRowsByItemFromDate (with_rls E) r q x)"
    unfolding DeleteLedgerForReservation_def DeleteLedgerRowsByItem_def DeleteLedgerRowsByItemFromDate_def
    by (rule isolated_query; auto intro!: foreign_delete)+
  show "preserves (isolated p F) (NotifyChannel ch pay)"
    unfolding NotifyChannel_def
    by (rule isolated_session.preserves_run_stmt) (auto simp: isolated_def foreign_def)
  show "preserves (isolated p F) (CreateOutboxEvent (with_rls E) ty pay at)"
    unfolding CreateOutboxEvent_def Let_def
    by (rule isolated_session.preserves_run_stmt) (auto simp: isolated_def foreign_def dest!: checked_ok)
qed

section \<open>What a transaction body cannot touch\<close>

definition frame :: "db \<Rightarrow> db \<Rightarrow> (string \<rightharpoonup> string \<times> time) \<Rightarrow> uuid option \<Rightarrow> sess \<Rightarrow> bool" where
  "frame P Q R c s \<longleftrightarrow> pool s = P \<and> snapshot s = Q \<and> redis s = R \<and> cur_property s = c"

interpretation frame_session: session_invariant "frame P Q R c" for P Q R c
  by unfold_locales (simp_all add: frame_def)

lemma frame_run_stmt: "preserves (frame P Q R c) (run_stmt f)"
  by (rule frame_session.preserves_run_stmt) (simp add: frame_def)

interpretation frame: store_client "frame P Q R c" E for P Q R c E
  by unfold_locales (simp_all add: CreateGuest_def CreateReservation_def CreateReservationItem_def
      UpdateReservationItem_def UpdateReservationMetadata_def UpdateReservationStatus_def
      BulkInsertLedgerRows_def CancelReservationItems_def ReactivateReservationItems_def
      UpdateLedgerRowRoom_def SoftDeleteItems_def DeleteLedgerForReservation_def
      DeleteLedgerRowsByItem_def DeleteLedgerRowsByItemFromDate_def NotifyChannel_def
      CreateOutboxEvent_def query_def frame_run_stmt)

definition framed :: "'a query \<Rightarrow> bool" where
  "framed q \<longleftrightarrow> (\<forall>P Q R c. preserves (frame P Q R c) q)"

lemma framedD:
  assumes "framed q" "q s = (r, t)"
  shows "pool t = pool s" "snapshot t = snapshot s" "redis t = redis s" "cur_property t = cur_property s"
proof -
  have "preserves (frame (pool s) (snapshot s) (redis s) (cur_property s)) q"
    using assms(1) by (simp add: framed_def)
  moreover have "frame (pool s) (snapshot s) (redis s) (cur_property s) s"
    by (simp add: frame_def)
  ultimately have "frame (pool s) (snapshot s) (redis s) (cur_property s) t"
    using assms(2) by (rule preservesD)
  then show "pool t = pool s" "snapshot t = snapshot s" "redis t = redis s" "cur_property t = cur_property s"
    by (simp_all add: frame_def)
qed

section \<open>Transactions\<close>

lemma pop_fault_fields:
  assumes "pop_fault s = (f, t)"
  shows "pool t = pool s" "snapshot t = snapshot s" "data t = data s" "cur_property t = cur_property s"
    "aborted t = aborted s" "redis t = redis s"
  using pop_fault_faults [OF assms] by auto

lemma SetCurrentPropertyID_returns:
  "SetCurrentPropertyID p s = (Inr u, t) \<Longrightarrow> \<exists>fs. t = s\<lparr>faults := fs, cur_property := Some p\<rparr>"
  by (cases no_effect s rule: run_stmt_cases)
    (auto simp: SetCurrentPropertyID_def no_effect_def split: prod.splits sum.splits)

lemma SetCurrentPropertyID_fails:
  "SetCurrentPropertyID p s = (Inl e, t) \<Longrightarrow> pool t = pool s \<and> redis t = redis s"
  by (cases no_effect s rule: run_stmt_cases)
    (auto simp: SetCurrentPropertyID_def no_effect_def split: prod.splits sum.splits)

lemma SetCurrentUserID_returns: "SetCurrentUserID p s = (Inr u, t) \<Longrightarrow> \<exists>fs. t = s\<lparr>faults := fs\<rparr>"
  by (cases no_effect s rule: run_stmt_cases) (auto simp: SetCurrentUserID_def no_effect_def)

lemma SetCurrentUserID_fails: "SetCurrentUserID p s = (Inl e, t) \<Longrightarrow> pool t = pool s \<and> redis t = redis s"
  by (cases no_effect s rule: run_stmt_cases) (auto simp: SetCurrentUserID_def no_effect_def)

lemma tx_body_returns:
  assumes "tx_body c fn s = (Inr x, t)"
  obtains fs where "GetPropertyIDFromCtx c \<noteq> uuid_Nil"
    "fn (s\<lparr>faults := fs, cur_property := Some (GetPropertyIDFromCtx c)\<rparr>) = (Inr x, t)"
proof -
  from assms obtain s1 s2 where nil: "GetPropertyIDFromCtx c \<noteq> uuid_Nil"
    and s1: "SetCurrentPropertyID (GetPropertyIDFromCtx c) s = (Inr (), s1)"
    and s2: "s2 = s1 \<or> SetCurrentUserID (GetUserIDFromCtx c) s1 = (Inr (), s2)"
    and fn: "fn s2 = (Inr x, t)"
    unfolding tx_body_def by (auto simp: act_returns split: if_splits)
  from SetCurrentPropertyID_returns [OF s1]
  obtain fs where s1': "s1 = s\<lparr>faults := fs, cur_property := Some (GetPropertyIDFromCtx c)\<rparr>" ..
  from s2 obtain fs' where "s2 = s1\<lparr>faults := fs'\<rparr>"
    by (auto dest: SetCurrentUserID_returns intro: that [of "faults s1"])
  with s1' have "s2 = s\<lparr>faults := fs', cur_property := Some (GetPropertyIDFromCtx c)\<rparr>" by simp
  with nil fn that show thesis by blast
qed

definition tx_frame :: "db \<Rightarrow> (string \<rightharpoonup> string \<times> time) \<Rightarrow> sess \<Rightarrow> bool" where
  "tx_frame P R s \<longleftrightarrow> pool s = P \<and> snapshot s = P \<and> redis s = R"

lemma framed_tx_frame: "framed fn \<Longrightarrow> preserves (tx_frame P R) fn"
proof (rule preservesI)
  fix s
  assume fn: "framed fn" and s: "tx_frame P R s"
  obtain r t where "fn s = (r, t)" by fastforce
  with framedD [OF fn this] s show "tx_frame P R (snd (fn s))" by (simp add: tx_frame_def)
qed

interpretation tx_frame_session: session_invariant "tx_frame P R" for P R
  by unfold_locales (simp_all add: tx_frame_def)

lemma tx_frame_SetCurrentPropertyID: "preserves (tx_frame P R) (SetCurrentPropertyID p)"
proof (rule preservesI)
  fix s
  assume "tx_frame P R s"
  then show "tx_frame P R (snd (SetCurrentPropertyID p s))"
    by (cases no_effect s rule: run_stmt_cases)
      (auto simp: SetCurrentPropertyID_def tx_frame_def)
qed

lemma tx_frame_body: "framed fn \<Longrightarrow> preserves (tx_frame P R) (tx_body c fn)"
  unfolding tx_body_def
  by (intro pres_intros tx_frame_SetCurrentPropertyID tx_frame_session.preserves_SetCurrentUserID framed_tx_frame)

lemma Commit_returns:
  "Commit s = (Inr u, t) \<Longrightarrow> tx_frame P R s \<Longrightarrow> aborted s = None \<and> pool t = data s \<and> redis t = redis s"
proof -
  assume c: "Commit s = (Inr u, t)" and f: "tx_frame P R s"
  obtain x s' where p: "pop_fault s = (x, s')" by fastforce
  with c f pop_fault_fields [OF p] show ?thesis
    by (auto simp: Commit_def tx_frame_def split: if_splits option.splits)
qed

lemma Commit_fails: "Commit s = (Inl e, t) \<Longrightarrow> pool t = pool s \<and> redis t = redis s"
  by (auto simp: Commit_def split: if_splits prod.splits option.splits dest: pop_fault_fields)

lemma rolled_back_pool: "rolled_back e s = (e', t) \<Longrightarrow> pool t = pool s \<and> redis t = redis s"
  by (auto simp: rolled_back_def split: prod.splits option.splits dest: pop_fault_fields)

lemma leave_tx_fields [simp]:
  "pool (leave_tx o' s) = pool s" "redis (leave_tx o' s) = redis s" "faults (leave_tx o' s) = faults s"
  "data (leave_tx o' s) = data o'" "snapshot (leave_tx o' s) = snapshot o'"
  "cur_property (leave_tx o' s) = cur_property o'" "aborted (leave_tx o' s) = aborted o'"
  by (simp_all add: leave_tx_def)

lemma BeginTx_returns:
  "BeginTx s = (Inr u, t) \<Longrightarrow>
   \<exists>fs. t = s\<lparr>faults := fs, snapshot := pool s, data := pool s, cur_property := None, aborted := None\<rparr>"
  by (auto simp: BeginTx_def split: prod.splits option.splits dest!: pop_fault_faults)

lemma BeginTx_fails: "BeginTx s = (Inl e, t) \<Longrightarrow> pool t = pool s \<and> redis t = redis s"
  by (auto simp: BeginTx_def split: prod.splits option.splits dest: pop_fault_fields)

lemma ExecuteTx_returns:
  assumes "framed fn" "ExecuteTx c fn s = (Inr x, s')"
  obtains t t' where "fn t = (Inr x, t')" "data t = pool s" "aborted t = None" "aborted t' = None"
    "cur_property t = Some (GetPropertyIDFromCtx c)" "GetPropertyIDFromCtx c \<noteq> uuid_Nil"
    "pool s' = data t'" "redis s' = redis s"
proof -
  from assms(2) obtain u s1 s2 v s3 where b: "BeginTx s = (Inr u, s1)" and f: "tx_body c fn s1 = (Inr x, s2)"
    and co: "Commit s2 = (Inr v, s3)" and s': "s' = leave_tx s s3"
    by (auto simp: ExecuteTx_def split: prod.splits sum.splits)
  from BeginTx_returns [OF b] obtain fs where
    s1: "s1 = s\<lparr>faults := fs, snapshot := pool s, data := pool s, cur_property := None, aborted := None\<rparr>" ..
  have "tx_frame (pool s) (redis s) s1" using s1 by (simp add: tx_frame_def)
  with tx_frame_body [OF assms(1)] f have "tx_frame (pool s) (redis s) s2" by (blast intro: preservesD)
  then have "aborted s2 = None" "pool s' = data s2" "redis s' = redis s"
    using Commit_returns [OF co] s' by (auto simp: tx_frame_def)
  moreover from f obtain fs' where "GetPropertyIDFromCtx c \<noteq> uuid_Nil"
    "fn (s1\<lparr>faults := fs', cur_property := Some (GetPropertyIDFromCtx c)\<rparr>) = (Inr x, s2)"
    by (rule tx_body_returns)
  ultimately show thesis
    using that [of "s1\<lparr>faults := fs', cur_property := Some (GetPropertyIDFromCtx c)\<rparr>" s2] s1 by simp
qed

lemma ExecuteTx_fails:
  assumes "framed fn" "ExecuteTx c fn s = (Inl e, s')"
  shows "pool s' = pool s \<and> redis s' = redis s"
proof (cases "BeginTx s")
  case (Pair b s1)
  show ?thesis
  proof (cases b)
    case (Inl e')
    with assms(2) Pair BeginTx_fails [of s e' s1] show ?thesis by (simp add: ExecuteTx_def)
  next
    case (Inr u)
    obtain r s2 where f: "tx_body c fn s1 = (r, s2)" by fastforce
    from BeginTx_returns Pair Inr have "tx_frame (pool s) (redis s) s1" by (fastforce simp: tx_frame_def)
    with tx_frame_body [OF assms(1)] f have "tx_frame (pool s) (redis s) s2" by (blast intro: preservesD)
    then have "pool s2 = pool s" "redis s2 = redis s" by (simp_all add: tx_frame_def)
    with assms(2) Pair Inr f show ?thesis
      by (auto simp: ExecuteTx_def split: sum.splits prod.splits dest!: Commit_fails rolled_back_pool)
  qed
qed

lemma ExecuteTx_invariant:
  assumes "framed fn" "J (pool s)"
    and "\<And>t x t'. fn t = (Inr x, t') \<Longrightarrow> J (data t) \<Longrightarrow> cur_property t = Some (GetPropertyIDFromCtx c) \<Longrightarrow> J (data t')"
  shows "J (pool (snd (ExecuteTx c fn s)))"
proof (cases "ExecuteTx c fn s")
  case (Pair r s')
  show ?thesis
  proof (cases r)
    case (Inl e)
    with Pair ExecuteTx_fails [OF assms(1), of c s e s'] assms(2) show ?thesis by simp
  next
    case (Inr x)
    with Pair have "ExecuteTx c fn s = (Inr x, s')" by simp
    with assms(1) obtain t t' where "fn t = (Inr x, t')" "data t = pool s"
      "cur_property t = Some (GetPropertyIDFromCtx c)" "pool s' = data t'"
      by (rule ExecuteTx_returns)
    with assms(2,3) Pair show ?thesis by fastforce
  qed
qed

section \<open>What a transaction guarantees\<close>

text \<open>C3. A transaction is all or nothing, whatever statement of it fails and however the environment
  interferes: when \<open>ExecuteTx\<close> returns an error the committed database is the one it started
  from; when it returns a result, every statement of the body ran on that database under the
  property of the request, none left the transaction aborted, and the committed database is
  exactly what the body left. A request without a property never reaches its body.\<close>

theorem executeTx_atomic:
  assumes "framed fn"
  shows "(case ExecuteTx c fn s of
      (Inl e, s') \<Rightarrow> pool s' = pool s
    | (Inr x, s') \<Rightarrow> GetPropertyIDFromCtx c \<noteq> uuid_Nil
        \<and> (\<exists>t t'. fn t = (Inr x, t') \<and> data t = pool s \<and> cur_property t = Some (GetPropertyIDFromCtx c)
             \<and> aborted t' = None \<and> pool s' = data t'))"
proof (cases "ExecuteTx c fn s")
  case (Pair r s')
  show ?thesis
  proof (cases r)
    case (Inl e)
    with Pair ExecuteTx_fails [OF assms, of c s e s'] show ?thesis by simp
  next
    case (Inr x)
    with Pair have "ExecuteTx c fn s = (Inr x, s')" by simp
    with assms obtain t t' where "fn t = (Inr x, t')" "data t = pool s" "aborted t' = None"
      "cur_property t = Some (GetPropertyIDFromCtx c)" "GetPropertyIDFromCtx c \<noteq> uuid_Nil" "pool s' = data t'"
      by (rule ExecuteTx_returns)
    with Pair Inr show ?thesis by auto
  qed
qed

lemma framed_NotifyChannel: "framed (NotifyChannel ch pay)"
  unfolding framed_def by (intro allI frame.keeps_NotifyChannel)

theorem executeTx_atomic_witness:
  "\<forall>c s. (case ExecuteTx c (NotifyChannel ''reservation_changes'' ''x'') s of
      (Inl e, s') \<Rightarrow> pool s' = pool s
    | (Inr x, s') \<Rightarrow> GetPropertyIDFromCtx c \<noteq> uuid_Nil
        \<and> (\<exists>t t'. NotifyChannel ''reservation_changes'' ''x'' t = (Inr x, t') \<and> data t = pool s
             \<and> cur_property t = Some (GetPropertyIDFromCtx c) \<and> aborted t' = None \<and> pool s' = data t'))"
  by (intro allI executeTx_atomic framed_NotifyChannel)

end
