(* ===== verification/BookingTypes.thy ===== *)
theory BookingTypes
  imports Invariants
begin

text \<open>
  The inputs and responses of the booking API (\<open>booking/types.go\<close>), the converters of
  \<open>booking/service_helpers.go\<close>, the expansion of related resources (\<open>booking/include.go\<close>), the
  outbox producer (\<open>worker/enqueue.go\<close>, \<open>worker/payloads.go\<close>) and the change notification of
  \<open>booking/service_create.go\<close>. Fields of a response that no code sets are left out.
\<close>

section \<open>booking/types.go: inputs\<close>

record GuestInlinePayload =
  gp_ID :: "uuid option"
  gp_FirstName :: string
  gp_LastName :: string
  gp_Email :: string
  gp_Phone :: string

record CreateItemInput =
  RoomTypeID :: uuid
  AssignedRoomID :: "uuid option"
  ArrivalDate :: time
  DepartureDate :: time
  RatePlanID :: "uuid option"
  AdultsCount :: int
  ChildrenCount :: int

record CreateReservationInput =
  Source :: ReservationSource
  IsWalkin :: bool
  PrimaryGuestID :: "uuid option"
  Guest :: "GuestInlinePayload option"
  Notes :: string
  Items :: "CreateItemInput list"

record CancelInput =
  ReasonCode :: string
  FeePence :: int
  WaiveFee :: bool
  ShortenStayFlag :: bool

record AssignRoomInput =
  ar_RoomID :: uuid
  OverrideDnmReason :: string

record UpdateMetadataInput =
  umi_Notes :: "string option"
  umi_TravelAgentID :: "uuid option"
  umi_GroupID :: "uuid option"
  umi_PrimaryGuestID :: "uuid option"

record ListParams =
  lp_Status :: "string option"
  lp_CursorDate :: "time option"
  lp_CursorID :: "uuid option"
  lp_StartDate :: "time option"
  lp_EndDate :: "time option"
  lp_Limit :: int

record IncludeFlags =
  inc_Items :: bool
  inc_Guest :: bool
  inc_FolioSummary :: bool
  inc_None :: bool

definition IncludeItems :: "IncludeFlags \<Rightarrow> bool" where
  "IncludeItems f \<longleftrightarrow> inc_Items f \<and> \<not> inc_None f"

section \<open>booking/types.go: responses\<close>

record GuestResponse =
  gr_ID :: uuid
  gr_PropertyID :: uuid
  gr_FirstName :: string
  gr_LastName :: string
  gr_Email :: string
  gr_Phone :: string

record ItemResponse =
  ir_ID :: uuid
  ir_PropertyID :: uuid
  ir_ReservationID :: uuid
  ir_BookedRoomTypeID :: uuid
  ir_AssignedRoomID :: "uuid option"
  ir_GuestID :: "uuid option"
  ir_RatePlanID :: "uuid option"
  ir_StayPeriod :: string
  ir_BaseRatePence :: int
  ir_AdultsCount :: int
  ir_ChildrenCount :: int
  ir_Status :: ItemStatus
  ir_Version :: int
  ir_DoNotMove :: bool
  ir_CreatedAt :: time
  ir_UpdatedAt :: time
  ir_DeletedAt :: "time option"

record ReservationResponse =
  rr_ID :: uuid
  rr_PropertyID :: uuid
  rr_PrimaryGuestID :: "uuid option"
  rr_Source :: ReservationSource
  rr_Notes :: string
  rr_Status :: ReservationStatus
  rr_Version :: int
  rr_CreatedAt :: time
  rr_UpdatedAt :: time
  rr_DeletedAt :: "time option"
  rr_Sequential :: int
  rr_Code :: string
  rr_StayPeriodEnvelope :: string
  rr_ExpiresAt :: "time option"
  rr_Guest :: "GuestResponse option"
  rr_Items :: "ItemResponse list"

section \<open>booking/service\_helpers.go: converters\<close>

definition reservationToResponse :: "OperationsReservation \<Rightarrow> ReservationResponse" where
  "reservationToResponse r = \<lparr>rr_ID = r_id r, rr_PropertyID = r_property_id r,
     rr_PrimaryGuestID = PtrToUUID (r_primary_guest_id r), rr_Source = r_source r,
     rr_Notes = NullText (r_notes r), rr_Status = r_status r, rr_Version = r_version r,
     rr_CreatedAt = TSToTime (Some (r_created_at r)), rr_UpdatedAt = TSToTime (Some (r_updated_at r)),
     rr_DeletedAt = TSToTimePtr (r_deleted_at r), rr_Sequential = r_sequential r, rr_Code = r_code r,
     rr_StayPeriodEnvelope = FormatRange (r_envelope r), rr_ExpiresAt = TSToTimePtr (r_expires_at r),
     rr_Guest = None, rr_Items = []\<rparr>"

definition reservationFromRow :: "OperationsReservation \<Rightarrow> ReservationResponse" where
  "reservationFromRow r = \<lparr>rr_ID = r_id r, rr_PropertyID = r_property_id r,
     rr_PrimaryGuestID = PtrToUUID (r_primary_guest_id r), rr_Source = r_source r,
     rr_Notes = NullText (r_notes r), rr_Status = r_status r, rr_Version = r_version r,
     rr_CreatedAt = TSToTime (Some (r_created_at r)), rr_UpdatedAt = TSToTime (Some (r_updated_at r)),
     rr_DeletedAt = TSToTimePtr (r_deleted_at r), rr_Sequential = r_sequential r, rr_Code = r_code r,
     rr_StayPeriodEnvelope = FormatRange (r_envelope r), rr_ExpiresAt = TSToTimePtr (r_expires_at r),
     rr_Guest = None, rr_Items = []\<rparr>"

definition itemToResponse :: "OperationsReservationItem \<Rightarrow> ItemResponse" where
  "itemToResponse i = \<lparr>ir_ID = i_id i, ir_PropertyID = i_property_id i, ir_ReservationID = i_reservation_id i,
     ir_BookedRoomTypeID = i_room_type_id i, ir_AssignedRoomID = NullUUIDToPtr (i_assigned_room_id i),
     ir_GuestID = NullUUIDToPtr (i_guest_id i), ir_RatePlanID = NullUUIDToPtr (i_rate_plan_id i),
     ir_StayPeriod = FormatRange (i_stay_period i), ir_BaseRatePence = i_base_rate_pence i,
     ir_AdultsCount = i_adults_count i, ir_ChildrenCount = i_children_count i, ir_Status = i_status i,
     ir_Version = i_version i, ir_DoNotMove = i_do_not_move i,
     ir_CreatedAt = TSToTime (Some (i_created_at i)), ir_UpdatedAt = TSToTime (Some (i_updated_at i)),
     ir_DeletedAt = TSToTimePtr (i_deleted_at i)\<rparr>"

definition guestToResponse :: "IdentityGuest \<Rightarrow> GuestResponse" where
  "guestToResponse g = \<lparr>gr_ID = g_id g, gr_PropertyID = g_property_id g, gr_FirstName = g_first_name g,
     gr_LastName = g_last_name g, gr_Email = NullText (g_email g), gr_Phone = NullText (g_phone_number g)\<rparr>"

section \<open>booking/include.go\<close>

fun split_commas :: "string \<Rightarrow> string list" where
  "split_commas [] = [[]]"
| "split_commas (c # s) = (if c = CHR '','' then [] # split_commas s
     else case split_commas s of w # ws \<Rightarrow> (c # w) # ws | [] \<Rightarrow> [[c]])"

definition is_space :: "char \<Rightarrow> bool" where
  "is_space c \<longleftrightarrow> c \<in> {CHR '' '', CHR 0x09, CHR 0x0A, CHR 0x0B, CHR 0x0C, CHR 0x0D}"

definition TrimSpace :: "string \<Rightarrow> string" where
  "TrimSpace s = rev (dropWhile is_space (rev (dropWhile is_space s)))"

definition include_part :: "string \<Rightarrow> IncludeFlags \<Rightarrow> IncludeFlags" where
  "include_part p f =
     (let w = TrimSpace p
      in if w = ''items'' then f\<lparr>inc_Items := True\<rparr>
         else if w = ''guest'' then f\<lparr>inc_Guest := True\<rparr>
         else if w = ''folio_summary'' then f\<lparr>inc_FolioSummary := True\<rparr>
         else if w = ''none'' then f\<lparr>inc_None := True, inc_Items := False\<rparr>
         else f)"

definition ParseIncludeFlags :: "string \<Rightarrow> IncludeFlags" where
  "ParseIncludeFlags raw =
     (let default_flags = \<lparr>inc_Items = True, inc_Guest = False, inc_FolioSummary = False, inc_None = False\<rparr>
      in if raw = [] then default_flags else fold include_part (split_commas raw) default_flags)"

definition expandInclude_with ::
  "OperationsReservationItem list query \<Rightarrow> (uuid \<Rightarrow> IdentityGuest query) \<Rightarrow>
   ReservationResponse \<Rightarrow> IncludeFlags \<Rightarrow> uuid option \<Rightarrow> ReservationResponse query" where
  "expandInclude_with getItems getGuest resp flags guest =
     bnd (if IncludeItems flags \<and> rr_Items resp = []
          then bnd (attempt getItems) (\<lambda>res. case res of
                 Inl e \<Rightarrow> ret resp
               | Inr is \<Rightarrow> ret (resp\<lparr>rr_Items := rr_Items resp @ map itemToResponse is\<rparr>))
          else ret resp) (\<lambda>resp.
     case (if inc_Guest flags then guest else None) of
       None \<Rightarrow> ret resp
     | Some g \<Rightarrow> bnd (attempt (getGuest g)) (\<lambda>res. case res of
           Inl e \<Rightarrow> ret resp
         | Inr x \<Rightarrow> ret (resp\<lparr>rr_Guest := Some (guestToResponse x)\<rparr>)))"

definition expandInclude ::
  "env \<Rightarrow> ReservationResponse \<Rightarrow> IncludeFlags \<Rightarrow> uuid \<Rightarrow> uuid \<Rightarrow> uuid option \<Rightarrow> ReservationResponse query" where
  "expandInclude E resp flags p r guest =
     expandInclude_with (GetReservationItems E r p) (GetGuest E) resp flags guest"

section \<open>worker/payloads.go and worker/enqueue.go\<close>

definition EventConfirmationEmail :: string where "EventConfirmationEmail = ''smtp.confirmation''"
definition EventPreArrivalEmail :: string where "EventPreArrivalEmail = ''smtp.pre_arrival''"
definition EventCancellationEmail :: string where "EventCancellationEmail = ''smtp.cancellation''"

definition confirmationEmailPayload :: "string \<Rightarrow> string" where
  "confirmationEmailPayload rid = json_object
     [(''reservation_id'', json_string rid), (''guest_email'', json_string []),
      (''guest_name'', json_string []), (''property_name'', json_string [])]"

definition EnqueueAt :: "env \<Rightarrow> string \<Rightarrow> string \<Rightarrow> time \<Rightarrow> unit query" where
  "EnqueueAt E ty payload processAt =
     bnd (map_err (Wrap ''worker: create outbox event: '') (CreateOutboxEvent E ty payload processAt)) (\<lambda>_. ret ())"

definition Enqueue :: "env \<Rightarrow> string \<Rightarrow> string \<Rightarrow> unit query" where
  "Enqueue E ty payload = EnqueueAt E ty payload (app_now E)"

section \<open>booking/service\_create.go: notifyReservationChange\<close>

definition notifyReservationChange :: "string \<Rightarrow> uuid \<Rightarrow> unit query" where
  "notifyReservationChange action rid = NotifyChannel ''reservation_changes''
     (json_object [(''action'', json_string action), (''reservation_id'', json_string (uuid_text rid))])"

section \<open>What these helpers keep\<close>

context store_client
begin

lemma keeps_expandInclude: "preserves I (expandInclude E resp flags p r g)"
  unfolding expandInclude_def expandInclude_with_def by (intro pres_intros keeps_queries)

lemma keeps_Enqueue: "preserves I (Enqueue E ty pay)"
  unfolding Enqueue_def EnqueueAt_def by (intro pres_intros keeps_queries)

lemma keeps_notifyReservationChange: "preserves I (notifyReservationChange a r)"
  unfolding notifyReservationChange_def by (intro keeps_queries)

lemmas keeps_helpers = keeps_queries keeps_expandInclude keeps_Enqueue keeps_notifyReservationChange

end

end
