(* ===== verification/Availability.thy ===== *)
theory Availability
  imports BookingTypes
begin

text \<open>
  Availability and its cache: \<open>booking/availability.go\<close>.

  The Redis cache is a map from keys to texts with an expiry. A command of the Redis client
  consumes one entry of the script of faults, like a statement does. What the code calls
  availability is \<open>room_availability\<close>: the rooms of the type less the ledger rows that block one
  of them on that day.
\<close>

section \<open>The Redis client\<close>

definition redis_get :: "env \<Rightarrow> sess \<Rightarrow> string \<Rightarrow> string option" where
  "redis_get E s k = (case redis s k of None \<Rightarrow> None | Some (v, ex) \<Rightarrow> if app_now E < ex then Some v else None)"

definition redis_MGet :: "env \<Rightarrow> string list \<Rightarrow> string option list query" where
  "redis_MGet E ks s = (case pop_fault s of
     (Some e, s') \<Rightarrow> (Inl e, s')
   | (None, s') \<Rightarrow> if ks = [] then (Inl (ErrorString ''ERR wrong number of arguments for 'mget' command''), s')
                   else (Inr (map (redis_get E s') ks), s'))"

definition redis_SetAll :: "env \<Rightarrow> (string \<times> string) list \<Rightarrow> duration \<Rightarrow> unit query" where
  "redis_SetAll E kvs ttl s = (case pop_fault s of
     (Some e, s') \<Rightarrow> (Inl e, s')
   | (None, s') \<Rightarrow> (Inr (), s'\<lparr>redis := redis s' ++ map_of (rev (map (\<lambda>(k, v). (k, (v, app_now E + ttl))) kvs))\<rparr>))"

definition redis_Del :: "string \<Rightarrow> unit query" where
  "redis_Del k s = (case pop_fault s of
     (Some e, s') \<Rightarrow> (Inl e, s') | (None, s') \<Rightarrow> (Inr (), s'\<lparr>redis := (redis s')(k := None)\<rparr>))"

section \<open>booking/availability.go\<close>

record DateAvailability =
  da_Date :: time
  da_Total :: int
  da_Available :: int
  da_Reason :: string

definition availabilityCacheTTL :: duration where
  "availabilityCacheTTL = 60 * second_ns"

definition availabilityCacheKey :: "uuid \<Rightarrow> uuid \<Rightarrow> time \<Rightarrow> string" where
  "availabilityCacheKey p rt night =
     ''yop:availability:'' @ uuid_text p @ '':'' @ uuid_text rt @ '':'' @ format_date night"

definition ParseInt32 :: "string \<Rightarrow> int option" where
  "ParseInt32 s = (case strconv_Atoi s of Some n \<Rightarrow> if in_int32 n then Some n else None | None \<Rightarrow> None)"

definition rooms_of_type :: "(uuid \<Rightarrow> bool) \<Rightarrow> db \<Rightarrow> uuid \<Rightarrow> uuid \<Rightarrow> uuid list" where
  "rooms_of_type vis d p rt =
     map rm_id (filter (\<lambda>r. vis (rm_property_id r) \<and> rm_room_type_id r = Some rt \<and> rm_property_id r = p) (rooms d))"

definition blocked_rows :: "(uuid \<Rightarrow> bool) \<Rightarrow> db \<Rightarrow> uuid \<Rightarrow> uuid \<Rightarrow> date \<Rightarrow> InventoryRoomInventoryLedger list" where
  "blocked_rows vis d p rt x =
     filter (\<lambda>l. vis (l_property_id l) \<and> l_date l = x \<and> blocking (l_status l) \<and> l_room_id l \<in> set (rooms_of_type vis d p rt))
       (ledger d)"

definition room_availability :: "(uuid \<Rightarrow> bool) \<Rightarrow> db \<Rightarrow> uuid \<Rightarrow> uuid \<Rightarrow> date \<Rightarrow> int" where
  "room_availability vis d p rt x = int (length (rooms_of_type vis d p rt)) - int (length (blocked_rows vis d p rt x))"

definition availQuery :: "env \<Rightarrow> uuid \<Rightarrow> uuid \<Rightarrow> date \<Rightarrow> date \<Rightarrow> (date \<times> int) list query" where
  "availQuery E p rt first_d last_d = query E (\<lambda>vis d.
     if list_all (\<lambda>x. in_int32 (int (length (blocked_rows vis d p rt x)))) [first_d..last_d]
     then Inr (map (\<lambda>x. (x, room_availability vis d p rt x)) [first_d..last_d], d)
     else Inl (pg_error ''22003''))"

text \<open>
  \<open>Pool.Query\<close> reports that no connection could be acquired or that the statement could not be prepared. An error
  of the execution ends the stream of rows instead: \<open>rows.Next\<close> returns false, and only \<open>rows.Err\<close>, which
  the code does not call, would tell. A stream that fails is taken to fail before its first row.
\<close>

definition pool_Query :: "'a list query \<Rightarrow> 'a list query" where
  "pool_Query q s = (case pop_fault s of
     (Some e, s') \<Rightarrow> (Inl e, s')
   | (None, s') \<Rightarrow> (case auto_commit q s' of (Inl e, s'') \<Rightarrow> (Inr [], s'') | (Inr rows, s'') \<Rightarrow> (Inr rows, s'')))"

definition scan_rows :: "(date \<times> int) list \<Rightarrow> (string \<times> int) list query" where
  "scan_rows rows = (case find (\<lambda>(x, a). \<not> in_int32 a) rows of
     Some (x, a) \<Rightarrow> throw (Wrap ''scan availability: '' (ErrorString (''can't scan into dest[1] (col: available): '' @ dec_int a
        @ (if 0 < a then '' is greater than maximum value for int32'' else '' is less than minimum value for int32''))))
   | None \<Rightarrow> ret (map (\<lambda>(x, a). (format_date (x * day_ns), a)) rows))"

definition cached_values :: "time list \<Rightarrow> string option list \<Rightarrow> (string \<times> int) list" where
  "cached_values nights vals =
     concat (map (\<lambda>(n, v). case Option.bind v ParseInt32 of None \<Rightarrow> [] | Some i \<Rightarrow> [(format_date n, i)]) (zip nights vals))"

definition uncached_nights :: "time list \<Rightarrow> string option list \<Rightarrow> time list" where
  "uncached_nights nights vals = map fst (filter (\<lambda>(n, v). Option.bind v ParseInt32 = None) (zip nights vals))"

definition map_get :: "(string \<times> int) list \<Rightarrow> string \<Rightarrow> int" where
  "map_get m k = (case map_of (rev m) k of Some v \<Rightarrow> v | None \<Rightarrow> 0)"

definition buildAvailabilityResult :: "time list \<Rightarrow> (string \<times> int) list \<Rightarrow> DateAvailability list" where
  "buildAvailabilityResult nights m =
     map (\<lambda>n. \<lparr>da_Date = n, da_Total = 0, da_Available = map_get m (format_date n), da_Reason = []\<rparr>) nights"

definition CheckAvailability :: "env \<Rightarrow> uuid \<Rightarrow> uuid \<Rightarrow> time \<Rightarrow> time \<Rightarrow> DateAvailability list query" where
  "CheckAvailability E p rt startDate endDate =
     bnd (guard (startDate < endDate) (ApiE (WithMessage ErrInvalidDates ''end_date must be after start_date''))) (\<lambda>_.
     let nights = NightsBetween startDate endDate
     in bnd (map_err (Wrap ''redis mget availability: '') (redis_MGet E (map (availabilityCacheKey p rt) nights))) (\<lambda>vals.
        let cachedByDate = cached_values nights vals; uncached = uncached_nights nights vals
        in if uncached = [] then ret (buildAvailabilityResult nights cachedByDate)
           else bnd (map_err (Wrap ''availability query: '')
                      (pool_Query (availQuery E p rt (day_of (hd uncached)) (day_of (last uncached))))) (\<lambda>rows.
             bnd (scan_rows rows) (\<lambda>availByDate.
             let fresh = map (\<lambda>n. (format_date n, map_get availByDate (format_date n))) uncached
             in bnd (attempt (redis_SetAll E (map (\<lambda>n. (availabilityCacheKey p rt n,
                        dec_int (map_get availByDate (format_date n)))) uncached) availabilityCacheTTL)) (\<lambda>_.
                ret (buildAvailabilityResult nights (cachedByDate @ fresh)))))))"

definition InvalidateAvailabilityCache :: "uuid \<Rightarrow> uuid \<Rightarrow> time \<Rightarrow> time \<Rightarrow> unit query" where
  "InvalidateAvailabilityCache p rt arrival departure =
     bnd (for_each (\<lambda>night. attempt (redis_Del (availabilityCacheKey p rt night))) (NightsBetween arrival departure)) (\<lambda>_. ret ())"

definition conflictCheck :: "env \<Rightarrow> ctx \<Rightarrow> uuid \<Rightarrow> time list \<Rightarrow> uuid option \<Rightarrow> unit query" where
  "conflictCheck E c m dates excludeItemID =
     bnd (map_err (Wrap ''conflict check: '')
            (ConflictCheckOnLedger E m (DatesToPGDates dates) (GetPropertyIDFromCtx c) (PtrUUID excludeItemID))) (\<lambda>conflicts.
     if conflicts \<noteq> []
     then throw (ApiE (WithMessage ErrRoomNotAvailable (''room not available on '' @ dec_int (int (length conflicts))
            @ '' date(s), including '' @ format_date (hd conflicts * day_ns))))
     else ret ())"

end
