(* ===== verification/ServiceCreate.thy ===== *)
theory ServiceCreate
  imports Availability
begin

text \<open>
  Creating and confirming reservations: \<open>booking/service_create.go\<close>.

  Every function is the Go function of the same name, statement by statement. \<open>time.Now()\<close> is the
  application clock of the environment, one value per request. Log lines are left out.
\<close>

section \<open>Helpers\<close>

fun envelope_loop :: "CreateItemInput list \<Rightarrow> nat \<Rightarrow> time \<times> time \<Rightarrow> time \<times> time" where
  "envelope_loop [] i env = env"
| "envelope_loop (item # rest) i (lo, up) =
     (let arrival = ArrivalDate item; departure = DepartureDate item
      in envelope_loop rest (Suc i)
           (if i = 0 \<or> arrival < lo then arrival else lo,
            if i = 0 \<or> departure > up then departure else up))"

definition computeEnvelope :: "CreateItemInput list \<Rightarrow> time \<times> time" where
  "computeEnvelope is = envelope_loop is 0 (0, 0)"

definition computeExpiresAt :: "ReservationSource \<Rightarrow> ReservationStatus \<Rightarrow> time \<Rightarrow> time option" where
  "computeExpiresAt source st now =
     (if st \<noteq> StatusHold then None
      else let ttlSeconds = (if source = SourceWebsite then 900 else 1800) in Some (now + ttlSeconds * second_ns))"

definition empty_null :: "string \<Rightarrow> string option" where
  "empty_null s = (if s = [] then None else Some s)"

definition resolvePrimaryGuest :: "env \<Rightarrow> CreateReservationInput \<Rightarrow> uuid \<Rightarrow> uuid option query" where
  "resolvePrimaryGuest E input p =
     (case PrimaryGuestID input of
        Some g \<Rightarrow> ret (Some g)
      | None \<Rightarrow>
          (case Guest input of
             None \<Rightarrow> ret None
           | Some g \<Rightarrow>
               bnd (CreateGuest E \<lparr>cg_PropertyID = p, cg_FirstName = gp_FirstName g, cg_LastName = gp_LastName g,
                      cg_Email = empty_null (gp_Email g), cg_PhoneNumber = empty_null (gp_Phone g)\<rparr>) (\<lambda>created.
               ret (Some (g_id created)))))"

definition weekday :: "time \<Rightarrow> int" where
  "weekday t = (day_of t + 1) mod 7"

definition resolveRates :: "env \<Rightarrow> uuid \<Rightarrow> uuid \<Rightarrow> uuid option \<Rightarrow> time list \<Rightarrow> int list query" where
  "resolveRates E p rt plan dates =
     (case plan of
        None \<Rightarrow> ret (map (\<lambda>_. 10000) dates)
      | Some rp \<Rightarrow> for_each (\<lambda>d. map_err (Wrap (''resolve rate for '' @ format_date d @ '': ''))
                                   (GetBaseRate E p rt rp (weekday d))) dates)"

definition ledger_rows :: "uuid \<Rightarrow> uuid \<Rightarrow> uuid \<Rightarrow> uuid \<Rightarrow> time list \<Rightarrow> BulkInsertLedgerRowsParams" where
  "ledger_rows p m r i dates = \<lparr>bl_PropertyIds = map (\<lambda>_. p) dates, bl_RoomIds = map (\<lambda>_. m) dates,
     bl_ReservationIds = map (\<lambda>_. r) dates, bl_ReservationItemIds = map (\<lambda>_. i) dates,
     bl_CalendarDates = map Some (DatesToPGDates dates), bl_Statuses = map (\<lambda>_. ''sold'') dates\<rparr>"

definition zero_ledger_row :: BulkInsertLedgerRowsParams where
  "zero_ledger_row = \<lparr>bl_PropertyIds = [uuid_Nil], bl_RoomIds = [uuid_Nil], bl_ReservationIds = [uuid_Nil],
     bl_ReservationItemIds = [uuid_Nil], bl_CalendarDates = [None], bl_Statuses = [[]]\<rparr>"

definition occupancy_error :: "int \<Rightarrow> InventoryRoomType \<Rightarrow> goerr" where
  "occupancy_error n t = ErrorString (''occupancy '' @ dec_int n @ '' is outside room type limits ['' @
     dec_int (rt_min_occupancy t) @ '', '' @ dec_int (rt_max_occupancy t) @ '']'')"

definition insertSingleItem ::
  "env \<Rightarrow> CreateItemInput \<Rightarrow> ReservationStatus \<times> ItemStatus \<Rightarrow> uuid \<Rightarrow> uuid \<Rightarrow> ItemResponse query" where
  "insertSingleItem E item initial p r =
     (let arrival = ArrivalDate item; departure = DepartureDate item;
          totalGuests = int32 (AdultsCount item + ChildrenCount item)
      in bnd (map_err (Wrap ''get room type occupancy: '') (GetRoomTypeOccupancy E (RoomTypeID item) p)) (\<lambda>limits.
         bnd (guard (\<not> (totalGuests < rt_min_occupancy limits \<or>
                       (rt_max_occupancy limits > 0 \<and> totalGuests > rt_max_occupancy limits)))
                (occupancy_error totalGuests limits)) (\<lambda>_.
         let dates = NightsBetween arrival departure
         in bnd (if dates = [] then ret [10000]
                 else resolveRates E p (RoomTypeID item) (RatePlanID item) dates) (\<lambda>baseRatePences.
            bnd (map_err (Wrap ''create item: '') (CreateReservationItem E
                   \<lparr>ci_PropertyID = p, ci_ReservationID = r, ci_BookedRoomTypeID = RoomTypeID item,
                    ci_AssignedRoomID = AssignedRoomID item, ci_GuestID = None, ci_RatePlanID = RatePlanID item,
                    ci_StayPeriod = ToRange arrival departure, ci_BaseRatePence = hd baseRatePences,
                    ci_AdultsCount = int32 (AdultsCount item), ci_ChildrenCount = int32 (ChildrenCount item),
                    ci_Status = snd initial, ci_DoNotMove = False\<rparr>)) (\<lambda>ri.
            bnd (case AssignedRoomID item of
                   Some m \<Rightarrow> ret m
                 | None \<Rightarrow> map_err (Wrap ''auto-pin room: '')
                             (SelectRoomForAutoPin E p (RoomTypeID item) (DatesToPGDates dates))) (\<lambda>roomID.
            bnd (map_err (Wrap ''insert ledger rows: '') (BulkInsertLedgerRows E
                   (if dates = [] then zero_ledger_row else ledger_rows p roomID r (i_id ri) dates))) (\<lambda>_.
            ret (itemToResponse ri))))))))"

definition insertAllItems ::
  "env \<Rightarrow> CreateReservationInput \<Rightarrow> ReservationStatus \<times> ItemStatus \<Rightarrow> uuid \<Rightarrow> uuid \<Rightarrow> ItemResponse list query" where
  "insertAllItems E input initial p r = for_each (\<lambda>item. insertSingleItem E item initial p r) (Items input)"

section \<open>CreateReservation\<close>

definition createReservationInTx ::
  "env \<Rightarrow> ctx \<Rightarrow> CreateReservationInput \<Rightarrow> ReservationStatus \<times> ItemStatus \<Rightarrow> IncludeFlags \<Rightarrow> ReservationResponse query" where
  "createReservationInTx E c input initial include_f =
     (let p = GetPropertyIDFromCtx c; now = app_now E;
          (envLower, envUpper) = computeEnvelope (Items input);
          expiresAt = computeExpiresAt (Source input) (fst initial) now
      in bnd (map_err (Wrap ''resolve guest: '') (resolvePrimaryGuest E input p)) (\<lambda>primaryGuestID.
         bnd (map_err (Wrap ''create reservation: '') (CreateReservation E
                \<lparr>cr_PropertyID = p, cr_PrimaryGuestID = PtrUUID primaryGuestID,
                 cr_StayPeriodEnvelope = ToRange envLower envUpper, cr_Source = Source input,
                 cr_Notes = empty_null (Notes input), cr_Status = fst initial, cr_ExpiresAt = expiresAt\<rparr>)) (\<lambda>res.
         bnd (insertAllItems E input initial p (r_id res)) (\<lambda>itemResponses.
         bnd (map_err (Wrap ''notify reservation_changes: '') (notifyReservationChange ''created'' (r_id res))) (\<lambda>_.
         bnd (if fst initial \<noteq> StatusHold
              then bnd (attempt (Enqueue E EventConfirmationEmail (confirmationEmailPayload (uuid_text (r_id res))))) (\<lambda>_. ret ())
              else ret ()) (\<lambda>_.
         let response = reservationToResponse res;
             response = (if IncludeItems include_f then response\<lparr>rr_Items := itemResponses\<rparr> else response)
         in expandInclude E response include_f p (r_id res) primaryGuestID))))))"

definition checkArrivals :: "env \<Rightarrow> ctx \<Rightarrow> CreateReservationInput \<Rightarrow> unit query" where
  "checkArrivals E c input =
     bnd (map_err (Wrap ''load property timezone: '') (GetPropertyTimezone E (GetPropertyIDFromCtx c))) (\<lambda>tzName.
     case load_location E tzName of
       None \<Rightarrow> throw (Wrap (''invalid property timezone '' @ go_quote tzName @ '': '') (ErrorString ''unknown time zone''))
     | Some midnight_of \<Rightarrow>
         let midnightToday = midnight_of (app_now E)
         in guard (list_all (\<lambda>item. \<not> ArrivalDate item < midnightToday) (Items input))
              (ApiE (WithMessage ErrInvalidDates ''arrival date must be today or later'')))"

definition createReservationTx ::
  "env \<Rightarrow> ctx \<Rightarrow> CreateReservationInput \<Rightarrow> ReservationStatus \<times> ItemStatus \<Rightarrow> IncludeFlags \<Rightarrow> ReservationResponse query" where
  "createReservationTx E c input initial include_f =
     bnd (if SourceIsWalkin (Source input) (IsWalkin input) then ret () else checkArrivals E c input) (\<lambda>_.
     createReservationInTx E c input initial include_f)"

fun invalidate_loop :: "uuid \<Rightarrow> CreateItemInput list \<Rightarrow> uuid list \<Rightarrow> unit query" where
  "invalidate_loop p [] seen = ret ()"
| "invalidate_loop p (item # rest) seen =
     (if RoomTypeID item \<in> set seen then invalidate_loop p rest seen
      else bnd (InvalidateAvailabilityCache p (RoomTypeID item) (ArrivalDate item) (DepartureDate item)) (\<lambda>_.
           invalidate_loop p rest (RoomTypeID item # seen)))"

definition invalidateAvailabilityAfterCreate :: "uuid \<Rightarrow> CreateReservationInput \<Rightarrow> unit query" where
  "invalidateAvailabilityAfterCreate p input = invalidate_loop p (Items input) []"

fun unassigned_index :: "CreateItemInput list \<Rightarrow> nat \<Rightarrow> nat option" where
  "unassigned_index [] i = None"
| "unassigned_index (item # rest) i = (if AssignedRoomID item = None then Some i else unassigned_index rest (Suc i))"

definition CreateReservation_svc ::
  "env \<Rightarrow> ctx \<Rightarrow> CreateReservationInput \<Rightarrow> IncludeFlags \<Rightarrow> ReservationResponse query" where
  "CreateReservation_svc E c input include_f =
     (case SourceToInitialStatus (Source input) of
        None \<Rightarrow> throw (ApiE ErrSourceDeferred)
      | Some initial0 \<Rightarrow>
          let walkin = SourceIsWalkin (Source input) (IsWalkin input);
              initial = (if walkin then (StatusCheckedIn, ItemStatusCheckedIn) else initial0)
          in case (if walkin then unassigned_index (Items input) 0 else None) of
               Some i \<Rightarrow> throw (ApiE (WithMessage ErrUnassignedItems
                           (''item '' @ dec_int (int i) @ '': walk-in requires assigned_room_id'')))
             | None \<Rightarrow>
                 bnd (ExecuteTx c (createReservationTx E c input initial include_f)) (\<lambda>res.
                 bnd (invalidateAvailabilityAfterCreate (GetPropertyIDFromCtx c) input) (\<lambda>_.
                 ret res)))"

section \<open>ConfirmReservation\<close>

definition confirmReservationTx :: "env \<Rightarrow> ctx \<Rightarrow> uuid \<Rightarrow> IncludeFlags \<Rightarrow> ReservationResponse query" where
  "confirmReservationTx E c u include_f =
     bnd (map_err (Wrap ''get reservation: '') (GetReservation E u)) (\<lambda>resRow.
     if r_status resRow = StatusConfirmed
     then expandInclude E (reservationFromRow resRow) include_f (r_property_id resRow) u (Some (r_primary_guest_id resRow))
     else case ValidateReservationTransition (r_status resRow) StatusConfirmed of
       Some e \<Rightarrow> throw (ApiE e)
     | None \<Rightarrow>
         bnd (guard (r_primary_guest_id resRow \<noteq> uuid_Nil) (ApiE ErrGuestNotAttached)) (\<lambda>_.
         bnd (map_err (Wrap ''confirm reservation: '')
                (UpdateReservationStatus E u (GetIfMatchVersion c) StatusConfirmed)) (\<lambda>rowsAffected.
         bnd (guard (rowsAffected \<noteq> 0) (ApiE ErrVersionMismatch)) (\<lambda>_.
         bnd (map_err (Wrap ''re-fetch reservation: '') (GetReservation E u)) (\<lambda>updatedRow.
         bnd (expandInclude E (reservationFromRow updatedRow) include_f (r_property_id resRow) u
                (Some (r_primary_guest_id resRow))) (\<lambda>response.
         bnd (map_err (Wrap ''notify reservation_changes: '') (notifyReservationChange ''confirmed'' u)) (\<lambda>_.
         bnd (attempt (Enqueue E EventConfirmationEmail (confirmationEmailPayload (uuid_text u)))) (\<lambda>_.
         ret response))))))))"

definition ConfirmReservation :: "env \<Rightarrow> ctx \<Rightarrow> uuid \<Rightarrow> IncludeFlags \<Rightarrow> ReservationResponse query" where
  "ConfirmReservation E c u include_f = ExecuteTx c (confirmReservationTx E c u include_f)"

section \<open>What these functions keep\<close>

context store_client
begin

lemma keeps_resolveRates: "preserves I (resolveRates E p rt plan dates)"
  unfolding resolveRates_def by (intro pres_intros keeps_helpers)

lemma keeps_insertSingleItem: "preserves I (insertSingleItem E item initial p r)"
  unfolding insertSingleItem_def Let_def by (intro pres_intros keeps_helpers keeps_resolveRates)

lemma keeps_checkArrivals: "preserves I (checkArrivals E c input)"
  unfolding checkArrivals_def Let_def by (intro pres_intros keeps_helpers)

lemma keeps_resolvePrimaryGuest: "preserves I (resolvePrimaryGuest E input p)"
  unfolding resolvePrimaryGuest_def by (intro pres_intros keeps_helpers)

lemma keeps_createReservationTx: "preserves I (createReservationTx E c input initial include_f)"
  unfolding createReservationTx_def createReservationInTx_def insertAllItems_def Let_def
  by (intro pres_intros keeps_helpers keeps_checkArrivals keeps_resolvePrimaryGuest keeps_insertSingleItem)

lemma keeps_confirmReservationTx: "preserves I (confirmReservationTx E c u include_f)"
  unfolding confirmReservationTx_def by (intro pres_intros keeps_helpers)

end

end
