(* ===== verification/ServiceRead.thy ===== *)
theory ServiceRead
  imports ServiceCreate
begin

text \<open>
  Reading reservations and changing their metadata: \<open>booking/service_read.go\<close>. The two reads use
  the pool directly: each query is a transaction of its own, with no property set.
\<close>

definition GetReservation_svc :: "env \<Rightarrow> ctx \<Rightarrow> uuid \<Rightarrow> IncludeFlags \<Rightarrow> ReservationResponse query" where
  "GetReservation_svc E c u include_f =
     (let p = GetPropertyIDFromCtx c
      in bnd (guard (p \<noteq> uuid_Nil) (ApiE ErrNoPropertyContext)) (\<lambda>_.
         bnd (attempt (auto_commit (GetReservation E u))) (\<lambda>res. case res of
           Inl e \<Rightarrow> throw (if errors_Is_NoRows e then ApiE ErrNotFound else Wrap ''get reservation: '' e)
         | Inr row \<Rightarrow> expandInclude_with (auto_commit (GetReservationItems E u p)) (\<lambda>g. auto_commit (GetGuest E g))
             (reservationFromRow row) include_f (Some (r_primary_guest_id row)))))"

definition ListReservations_svc :: "env \<Rightarrow> ctx \<Rightarrow> ListParams \<Rightarrow> ReservationResponse list query" where
  "ListReservations_svc E c params =
     (let p = GetPropertyIDFromCtx c;
          lim = (if lp_Limit params \<le> 0 \<or> lp_Limit params > 200 then 50 else lp_Limit params)
      in bnd (guard (p \<noteq> uuid_Nil) (ApiE ErrNoPropertyContext)) (\<lambda>_.
         bnd (map_err (Wrap ''list reservations: '') (auto_commit (ListReservations E
                \<lparr>lr_PropertyID = p, lr_Status = (case lp_Status params of Some s \<Rightarrow> s | None \<Rightarrow> []),
                 lr_CursorDate = lp_CursorDate params, lr_CursorID = PtrUUID (lp_CursorID params),
                 lr_StartDate = map_option day_of (lp_StartDate params), lr_EndDate = map_option day_of (lp_EndDate params),
                 lr_Limit = lim\<rparr>))) (\<lambda>rows.
         ret (map reservationToResponse rows))))"

definition updateMetadataTx :: "env \<Rightarrow> ctx \<Rightarrow> uuid \<Rightarrow> UpdateMetadataInput \<Rightarrow> ReservationResponse query" where
  "updateMetadataTx E c u input =
     bnd (case umi_PrimaryGuestID input of
            Some g \<Rightarrow> ret g
          | None \<Rightarrow> bnd (map_err (Wrap ''get current reservation: '') (GetReservation E u)) (\<lambda>current.
                    ret (r_primary_guest_id current))) (\<lambda>guest.
     bnd (map_err (\<lambda>e. if errors_Is_NoRows e then ApiE ErrVersionMismatch else Wrap ''update metadata: '' e)
            (UpdateReservationMetadata E \<lparr>um_Notes = umi_Notes input, um_PrimaryGuestID = guest,
               um_StayPeriodEnvelope = None, um_ID = u, um_Version = GetIfMatchVersion c\<rparr>)) (\<lambda>updated.
     bnd (attempt (notifyReservationChange ''updated'' u)) (\<lambda>_.
     ret (reservationToResponse updated))))"

definition UpdateMetadata :: "env \<Rightarrow> ctx \<Rightarrow> uuid \<Rightarrow> UpdateMetadataInput \<Rightarrow> ReservationResponse query" where
  "UpdateMetadata E c u input = ExecuteTx c (updateMetadataTx E c u input)"

context store_client
begin

lemma keeps_updateMetadataTx: "preserves I (updateMetadataTx E c u input)"
  unfolding updateMetadataTx_def by (intro pres_intros keeps_helpers)

end

end
