(* ===== verification/ServiceLifecycle.thy ===== *)
theory ServiceLifecycle
  imports ServiceRead
begin

text \<open>
  The lifecycle of reservations and items: \<open>booking/service_lifecycle.go\<close>, with the inventory
  helpers of \<open>booking/service_helpers.go\<close>. \<open>...Tx\<close> is the body the Go method passes to \<open>ExecuteTx\<close>.
\<close>

section \<open>Batches\<close>

record BatchResultItem =
  bri_ItemID :: string
  bri_Status :: string
  bri_Item :: "ItemResponse option"
  bri_Error :: "(string \<times> string) option"

type_synonym BatchResult = "BatchResultItem list"

definition batchStatus :: "BatchResult \<Rightarrow> int" where
  "batchStatus r = (if list_ex (\<lambda>i. bri_Error i \<noteq> None) r then 207 else 200)"

definition batch_ok :: "uuid \<Rightarrow> ItemResponse option \<Rightarrow> BatchResultItem" where
  "batch_ok u i = \<lparr>bri_ItemID = uuid_text u, bri_Status = ''ok'', bri_Item = i, bri_Error = None\<rparr>"

definition batch_failed :: "uuid \<Rightarrow> string \<Rightarrow> string \<Rightarrow> BatchResultItem" where
  "batch_failed u code msg =
     \<lparr>bri_ItemID = uuid_text u, bri_Status = ''failed'', bri_Item = None, bri_Error = Some (code, msg)\<rparr>"

section \<open>booking/service\_helpers.go: inventory\<close>

definition insertItemLedger ::
  "env \<Rightarrow> uuid \<Rightarrow> uuid \<Rightarrow> uuid \<Rightarrow> time list \<Rightarrow> uuid \<Rightarrow> uuid option \<Rightarrow> uuid \<Rightarrow> unit query" where
  "insertItemLedger E i r p dates m plan rt =
     (if dates = [] then ret ()
      else bnd (resolveRates E p rt plan dates) (\<lambda>_.
           map_err (Wrap ''insert added ledger: '') (BulkInsertLedgerRows E (ledger_rows p m r i dates))))"

definition stay_lower :: "OperationsReservationItem \<Rightarrow> time" where
  "stay_lower i = TSToTime (Lower (i_stay_period i))"

definition stay_upper :: "OperationsReservationItem \<Rightarrow> time" where
  "stay_upper i = TSToTime (Upper (i_stay_period i))"

definition reactivateItemInventory :: "env \<Rightarrow> OperationsReservationItem \<Rightarrow> unit query" where
  "reactivateItemInventory E item =
     (let p = i_property_id item; dates = NightsBetween (stay_lower item) (stay_upper item)
      in if dates = [] then ret ()
         else bnd (case i_assigned_room_id item of
                Some m \<Rightarrow>
                  bnd (map_err (Wrap ''conflict check on assigned room: '')
                         (ConflictCheckOnLedger E m (DatesToPGDates dates) p uuid_Nil)) (\<lambda>conflicts.
                  if conflicts \<noteq> []
                  then throw (ApiE (WithMessage ErrRoomNotAvailable
                         (''assigned room not available for reactivation on '' @ dec_int (int (length conflicts)) @ '' date(s)'')))
                  else ret m)
              | None \<Rightarrow> map_err (Wrap ''auto-pin room for reactivation: '')
                          (SelectRoomForAutoPin E p (i_room_type_id item) (DatesToPGDates dates))) (\<lambda>roomID.
              insertItemLedger E (i_id item) (i_reservation_id item) p dates roomID (i_rate_plan_id item) (i_room_type_id item)))"

section \<open>booking/service\_lifecycle.go\<close>

definition rollupAndNotify :: "uuid \<Rightarrow> uuid \<Rightarrow> string query" where
  "rollupAndNotify r p = ret []"

definition not_found_or :: "string \<Rightarrow> goerr \<Rightarrow> goerr" where
  "not_found_or msg e = (if errors_Is_NoRows e then ApiE ErrNotFound else Wrap msg e)"

definition mismatch_or :: "string \<Rightarrow> goerr \<Rightarrow> goerr" where
  "mismatch_or msg e = (if errors_Is_NoRows e then ApiE ErrVersionMismatch else Wrap msg e)"

definition require_transition :: "APIError option \<Rightarrow> unit query" where
  "require_transition v = (case v of Some e \<Rightarrow> throw (ApiE e) | None \<Rightarrow> ret ())"

definition with_status :: "OperationsReservationItem \<Rightarrow> int \<Rightarrow> ItemStatus \<Rightarrow> UpdateReservationItemParams" where
  "with_status item v st = \<lparr>ui_BookedRoomTypeID = None, ui_AssignedRoomID = i_assigned_room_id item,
     ui_StayPeriod = i_stay_period item, ui_RatePlanID = i_rate_plan_id item,
     ui_AdultsCount = i_adults_count item, ui_ChildrenCount = i_children_count item,
     ui_Status = st, ui_ID = i_id item, ui_Version = v\<rparr>"

definition cancelReservationTx :: "env \<Rightarrow> ctx \<Rightarrow> uuid \<Rightarrow> CancelInput \<Rightarrow> ReservationResponse query" where
  "cancelReservationTx E c u input =
     (let p = GetPropertyIDFromCtx c
      in bnd (map_err (not_found_or ''get reservation: '') (GetReservation E u)) (\<lambda>res.
         bnd (require_transition (ValidateReservationTransition (r_status res) StatusCancelled)) (\<lambda>_.
         bnd (map_err (Wrap ''get items: '') (GetReservationItems E u p)) (\<lambda>is.
         bnd (case find (\<lambda>i. i_status i = ItemStatusCheckedIn) is of
                Some i \<Rightarrow> throw (ApiE (WithMessage ErrConflict
                  (''cannot cancel reservation with checked-in items (item '' @ uuid_text (i_id i) @ '')'')))
              | None \<Rightarrow> ret ()) (\<lambda>_.
         bnd (map_err (Wrap ''cancel items: '') (CancelReservationItems E u p)) (\<lambda>_.
         bnd (map_err (Wrap ''delete ledger: '') (DeleteLedgerForReservation E u p)) (\<lambda>_.
         bnd (map_err (Wrap ''update status: '')
                (UpdateReservationStatus E u (GetIfMatchVersion c) StatusCancelled)) (\<lambda>rows.
         bnd (guard (rows \<noteq> 0) (ApiE ErrVersionMismatch)) (\<lambda>_.
         bnd (map_err (Wrap ''re-fetch: '') (GetReservation E u)) (\<lambda>updated.
         bnd (map_err (Wrap ''notify: '') (notifyReservationChange ''cancelled'' u)) (\<lambda>_.
         ret (reservationFromRow updated))))))))))))"

definition cancelItemTx :: "env \<Rightarrow> ctx \<Rightarrow> uuid \<Rightarrow> CancelInput \<Rightarrow> ItemResponse query" where
  "cancelItemTx E c u input =
     (let p = GetPropertyIDFromCtx c
      in bnd (map_err (not_found_or ''get item: '') (GetReservationItem E u)) (\<lambda>item.
         bnd (require_transition (ValidateItemTransition (i_status item) ItemStatusCancelled)) (\<lambda>_.
         bnd (map_err (mismatch_or ''cancel item: '') (UpdateReservationItem E
                ((with_status item (GetIfMatchVersion c) ItemStatusCancelled)\<lparr>ui_ID := u\<rparr>))) (\<lambda>updated.
         bnd (map_err (Wrap ''delete ledger: '') (DeleteLedgerRowsByItem E u p)) (\<lambda>_.
         bnd (rollupAndNotify (i_reservation_id item) p) (\<lambda>_.
         ret (itemToResponse updated)))))))"

definition checkin_one :: "env \<Rightarrow> OperationsReservationItem \<Rightarrow> BatchResultItem query" where
  "checkin_one E item =
     (if i_status item \<noteq> ItemStatusBooked
      then ret (batch_failed (i_id item) ''INVALID_STATUS'' ''item must be booked'')
      else if i_assigned_room_id item = None
      then ret (batch_failed (i_id item) ''UNASSIGNED_ITEMS'' ''missing assigned_room_id'')
      else bnd (attempt (UpdateReservationItem E (with_status item (i_version item) ItemStatusCheckedIn))) (\<lambda>r. case r of
             Inl e \<Rightarrow> ret (batch_failed (i_id item) ''UPDATE_FAILED'' (err_text e))
           | Inr updated \<Rightarrow> ret (batch_ok (i_id item) (Some (itemToResponse updated)))))"

definition checkinReservationTx :: "env \<Rightarrow> ctx \<Rightarrow> uuid \<Rightarrow> BatchResult query" where
  "checkinReservationTx E c u =
     (let p = GetPropertyIDFromCtx c
      in bnd (map_err (Wrap ''get items: '') (GetReservationItems E u p)) (\<lambda>is.
         bnd (for_each (checkin_one E) is) (\<lambda>results.
         bnd (if is \<noteq> [] then bnd (rollupAndNotify u p) (\<lambda>_. ret ()) else ret ()) (\<lambda>_.
         ret results))))"

definition checkinItemTx :: "env \<Rightarrow> ctx \<Rightarrow> uuid \<Rightarrow> ItemResponse query" where
  "checkinItemTx E c u =
     bnd (map_err (not_found_or ''get item: '') (GetReservationItem E u)) (\<lambda>item.
     bnd (guard (i_status item = ItemStatusBooked) (ApiE (WithMessage ErrInvalidTransition ''item must be booked''))) (\<lambda>_.
     bnd (guard (i_assigned_room_id item \<noteq> None) (ApiE ErrUnassignedItems)) (\<lambda>_.
     bnd (map_err (mismatch_or ''checkin item: '') (UpdateReservationItem E
            ((with_status item (GetIfMatchVersion c) ItemStatusCheckedIn)\<lparr>ui_ID := u\<rparr>))) (\<lambda>updated.
     bnd (rollupAndNotify (i_reservation_id item) (GetPropertyIDFromCtx c)) (\<lambda>_.
     ret (itemToResponse updated))))))"

definition checkout_one :: "env \<Rightarrow> OperationsReservationItem \<Rightarrow> BatchResultItem query" where
  "checkout_one E item =
     (if i_status item \<in> {ItemStatusCheckedOut, ItemStatusCancelled, ItemStatusArchived}
      then ret (batch_ok (i_id item) None)
      else if i_status item = ItemStatusCheckedIn
      then bnd (attempt (UpdateReservationItem E (with_status item (i_version item) ItemStatusCheckedOut))) (\<lambda>r. case r of
             Inl e \<Rightarrow> ret (batch_failed (i_id item) ''UPDATE_FAILED'' (err_text e))
           | Inr updated \<Rightarrow> ret (batch_ok (i_id item) (Some (itemToResponse updated))))
      else ret (batch_failed (i_id item) ''INVALID_STATUS'' ''item must be checked in''))"

definition checkoutReservationTx :: "env \<Rightarrow> ctx \<Rightarrow> uuid \<Rightarrow> BatchResult query" where
  "checkoutReservationTx E c u =
     (let p = GetPropertyIDFromCtx c
      in bnd (map_err (Wrap ''get items: '') (GetReservationItems E u p)) (\<lambda>is.
         bnd (for_each (checkout_one E) is) (\<lambda>results.
         bnd (if is \<noteq> [] then bnd (rollupAndNotify u p) (\<lambda>_. ret ()) else ret ()) (\<lambda>_.
         ret results))))"

definition checkoutItemTx :: "env \<Rightarrow> ctx \<Rightarrow> uuid \<Rightarrow> ItemResponse query" where
  "checkoutItemTx E c u =
     bnd (map_err (not_found_or ''get item: '') (GetReservationItem E u)) (\<lambda>item.
     bnd (guard (i_status item = ItemStatusCheckedIn) (ApiE (WithMessage ErrInvalidTransition ''item must be checked in''))) (\<lambda>_.
     bnd (map_err (mismatch_or ''checkout item: '') (UpdateReservationItem E
            ((with_status item (GetIfMatchVersion c) ItemStatusCheckedOut)\<lparr>ui_ID := u\<rparr>))) (\<lambda>updated.
     bnd (rollupAndNotify (i_reservation_id item) (GetPropertyIDFromCtx c)) (\<lambda>_.
     ret (itemToResponse updated)))))"

definition markNoShowTx :: "env \<Rightarrow> ctx \<Rightarrow> uuid \<Rightarrow> ItemResponse query" where
  "markNoShowTx E c u =
     (let p = GetPropertyIDFromCtx c
      in bnd (map_err (not_found_or ''get item: '') (GetReservationItem E u)) (\<lambda>item.
         bnd (require_transition (ValidateItemTransition (i_status item) ItemStatusNoShow)) (\<lambda>_.
         bnd (guard (\<not> app_now E < stay_lower item)
                (ApiE (WithMessage ErrInvalidDates ''cannot mark no-show before arrival''))) (\<lambda>_.
         bnd (map_err (mismatch_or ''no-show: '') (UpdateReservationItem E
                ((with_status item (GetIfMatchVersion c) ItemStatusNoShow)\<lparr>ui_ID := u\<rparr>))) (\<lambda>updated.
         bnd (map_err (Wrap ''delete future ledger: '') (DeleteLedgerRowsByItemFromDate E u p
                (day_of (truncate_to (24 * hour_ns) (app_now E))))) (\<lambda>_.
         bnd (rollupAndNotify (i_reservation_id item) p) (\<lambda>_.
         ret (itemToResponse updated))))))))"

definition reactivateReservationTx :: "env \<Rightarrow> ctx \<Rightarrow> uuid \<Rightarrow> ReservationResponse query" where
  "reactivateReservationTx E c u =
     (let p = GetPropertyIDFromCtx c
      in bnd (map_err (not_found_or ''get reservation: '') (GetReservation E u)) (\<lambda>res.
         bnd (require_transition (ValidateReservationTransition (r_status res) StatusConfirmed)) (\<lambda>_.
         bnd (guard (\<not> (RangeValid (r_envelope res)
                       \<and> (case Upper (r_envelope res) of None \<Rightarrow> False | Some t \<Rightarrow> t < app_now E)
                       \<and> \<not> HasPermission c ''reservations:retroactive_create''))
                (ApiE (WithMessage ErrInvalidTransition ''cannot reactivate a past reservation''))) (\<lambda>_.
         bnd (map_err (Wrap ''reactivate: '')
                (UpdateReservationStatus E u (GetIfMatchVersion c) StatusConfirmed)) (\<lambda>rows.
         bnd (guard (rows \<noteq> 0) (ApiE ErrVersionMismatch)) (\<lambda>_.
         bnd (map_err (Wrap ''reactivate items: '') (ReactivateReservationItems E u p)) (\<lambda>_.
         bnd (map_err (Wrap ''get reactivated items: '') (GetReservationItems E u p)) (\<lambda>reactivated.
         bnd (for_each (\<lambda>item. map_err (Wrap (''reactivate inventory for item '' @ uuid_text (i_id item) @ '': ''))
                (reactivateItemInventory E item)) reactivated) (\<lambda>_.
         bnd (map_err (Wrap ''re-fetch after reactivate: '') (GetReservation E u)) (\<lambda>updated.
         bnd (map_err (Wrap ''notify: '') (notifyReservationChange ''reactivated'' u)) (\<lambda>_.
         ret (reservationFromRow updated))))))))))))"

definition ShortenStay :: "env \<Rightarrow> OperationsReservationItem \<Rightarrow> time \<Rightarrow> unit query" where
  "ShortenStay E item newDeparture =
     bnd (guard (stay_lower item < newDeparture)
            (ApiE (WithMessage ErrInvalidDates ''new departure must be after arrival''))) (\<lambda>_.
     map_err (Wrap ''delete future ledger: '')
       (DeleteLedgerRowsByItemFromDate E (i_id item) (i_property_id item) (day_of newDeparture)))"

definition in_property_tx :: "ctx \<Rightarrow> 'a query \<Rightarrow> 'a query" where
  "in_property_tx c fn =
     bnd (guard (GetPropertyIDFromCtx c \<noteq> uuid_Nil) (ApiE ErrNoPropertyContext)) (\<lambda>_. ExecuteTx c fn)"

definition CancelReservation :: "env \<Rightarrow> ctx \<Rightarrow> uuid \<Rightarrow> CancelInput \<Rightarrow> ReservationResponse query" where
  "CancelReservation E c u input = in_property_tx c (cancelReservationTx E c u input)"

definition CancelItem :: "env \<Rightarrow> ctx \<Rightarrow> uuid \<Rightarrow> CancelInput \<Rightarrow> ItemResponse query" where
  "CancelItem E c u input = in_property_tx c (cancelItemTx E c u input)"

definition CheckinReservation :: "env \<Rightarrow> ctx \<Rightarrow> uuid \<Rightarrow> BatchResult query" where
  "CheckinReservation E c u = in_property_tx c (checkinReservationTx E c u)"

definition CheckinItem :: "env \<Rightarrow> ctx \<Rightarrow> uuid \<Rightarrow> ItemResponse query" where
  "CheckinItem E c u = in_property_tx c (checkinItemTx E c u)"

definition CheckoutReservation :: "env \<Rightarrow> ctx \<Rightarrow> uuid \<Rightarrow> BatchResult query" where
  "CheckoutReservation E c u = in_property_tx c (checkoutReservationTx E c u)"

definition CheckoutItem :: "env \<Rightarrow> ctx \<Rightarrow> uuid \<Rightarrow> ItemResponse query" where
  "CheckoutItem E c u = in_property_tx c (checkoutItemTx E c u)"

definition MarkNoShow :: "env \<Rightarrow> ctx \<Rightarrow> uuid \<Rightarrow> ItemResponse query" where
  "MarkNoShow E c u = in_property_tx c (markNoShowTx E c u)"

definition ReactivateReservation :: "env \<Rightarrow> ctx \<Rightarrow> uuid \<Rightarrow> ReservationResponse query" where
  "ReactivateReservation E c u = in_property_tx c (reactivateReservationTx E c u)"

section \<open>What these functions keep\<close>

lemma preserves_require_transition [pres_intros]: "preserves I (require_transition v)"
  unfolding require_transition_def by (intro pres_intros)

lemma preserves_rollupAndNotify [pres_intros]: "preserves I (rollupAndNotify r p)"
  unfolding rollupAndNotify_def by (intro pres_intros)

context store_client
begin

lemma keeps_insertItemLedger: "preserves I (insertItemLedger E i r p dates m plan rt)"
  unfolding insertItemLedger_def by (intro pres_intros keeps_helpers keeps_resolveRates)

lemma keeps_reactivateItemInventory: "preserves I (reactivateItemInventory E item)"
  unfolding reactivateItemInventory_def Let_def by (intro pres_intros keeps_helpers keeps_insertItemLedger)

lemma keeps_ShortenStay: "preserves I (ShortenStay E item t)"
  unfolding ShortenStay_def by (intro pres_intros keeps_helpers)

lemma keeps_batches: "preserves I (checkin_one E item)" "preserves I (checkout_one E item)"
  unfolding checkin_one_def checkout_one_def by (intro pres_intros keeps_helpers)+

lemma keeps_lifecycle:
  "preserves I (cancelReservationTx E c u ci)" "preserves I (cancelItemTx E c u ci)"
  "preserves I (checkinReservationTx E c u)" "preserves I (checkinItemTx E c u)"
  "preserves I (checkoutReservationTx E c u)" "preserves I (checkoutItemTx E c u)"
  "preserves I (markNoShowTx E c u)" "preserves I (reactivateReservationTx E c u)"
  unfolding cancelReservationTx_def cancelItemTx_def checkinReservationTx_def checkinItemTx_def
    checkoutReservationTx_def checkoutItemTx_def markNoShowTx_def reactivateReservationTx_def Let_def
  by (intro pres_intros keeps_helpers keeps_reactivateItemInventory keeps_batches)+

end

end
