(* ===== verification/ServiceUpdate.thy ===== *)
theory ServiceUpdate
  imports ServiceLifecycle
begin

text \<open>
  Changing the items of a reservation: \<open>booking/service_update.go\<close> and \<open>recomputeEnvelope\<close> of
  \<open>booking/service_helpers.go\<close>. \<open>UpdateItem\<close> changes the room type or the rate plan by calling the
  service method for it, which opens a transaction of its own on the pool.
\<close>

section \<open>Helpers\<close>

fun stay_envelope_loop :: "OperationsReservationItem list \<Rightarrow> nat \<Rightarrow> time \<times> time \<Rightarrow> time \<times> time" where
  "stay_envelope_loop [] i env = env"
| "stay_envelope_loop (item # rest) i (lo, up) =
     stay_envelope_loop rest (Suc i)
       (if i = 0 \<or> stay_lower item < lo then stay_lower item else lo,
        if i = 0 \<or> stay_upper item > up then stay_upper item else up)"

definition recomputeEnvelope :: "env \<Rightarrow> uuid \<Rightarrow> uuid \<Rightarrow> unit query" where
  "recomputeEnvelope E r p =
     bnd (map_err (Wrap ''get items for envelope: '') (GetReservationItems E r p)) (\<lambda>is.
     let (lower, upper) = stay_envelope_loop is 0 (0, 0)
     in if lower = 0 \<or> upper = 0 then ret ()
        else bnd (map_err (Wrap ''get reservation for envelope: '') (GetReservation E r)) (\<lambda>res.
             bnd (UpdateReservationMetadata E \<lparr>um_Notes = None, um_PrimaryGuestID = r_primary_guest_id res,
                    um_StayPeriodEnvelope = Some (ToRange lower upper), um_ID = r, um_Version = r_version res\<rparr>) (\<lambda>_.
             ret ())))"

definition requirePostCheckinPermission :: "ctx \<Rightarrow> OperationsReservationItem \<Rightarrow> unit query" where
  "requirePostCheckinPermission c item =
     guard (\<not> (i_status item = ItemStatusCheckedIn \<and> \<not> HasPermission c ''reservations:post_checkin_mutate''))
       (ApiE (WithMessage ErrMissingPermission ''reservations:post_checkin_mutate required for checked-in items''))"

definition fetchAndExpandReservation :: "env \<Rightarrow> uuid \<Rightarrow> uuid \<Rightarrow> ReservationResponse query" where
  "fetchAndExpandReservation E r p =
     bnd (map_err (Wrap ''get reservation: '') (GetReservation E r)) (\<lambda>resRow.
     expandInclude E (reservationFromRow resRow)
       \<lparr>inc_Items = True, inc_Guest = False, inc_FolioSummary = False, inc_None = False\<rparr> p r
       (Some (r_primary_guest_id resRow)))"

definition override_dnm :: "ctx \<Rightarrow> OperationsReservationItem \<Rightarrow> string \<Rightarrow> unit query" where
  "override_dnm c item reason =
     (if i_do_not_move item
      then bnd (guard (HasPermission c ''reservations:override_dnm'') (ApiE ErrDoNotMove)) (\<lambda>_.
           guard (reason \<noteq> []) (ApiE (WithMessage ErrDoNotMove ''override_dnm_reason is required when overriding do-not-move'')))
      else ret ())"

section \<open>Item mutations\<close>

definition updateItemStayPeriodTx :: "env \<Rightarrow> ctx \<Rightarrow> uuid \<Rightarrow> time \<Rightarrow> time \<Rightarrow> ItemResponse query" where
  "updateItemStayPeriodTx E c u arrival departure =
     (let p = GetPropertyIDFromCtx c
      in bnd (map_err (not_found_or ''get item: '') (GetReservationItem E u)) (\<lambda>item.
         bnd (guard (arrival < departure) (ApiE (WithMessage ErrInvalidDates ''departure must be after arrival''))) (\<lambda>_.
         bnd (if i_status item = ItemStatusCheckedIn
              then bnd (requirePostCheckinPermission c item) (\<lambda>_.
                   bnd (guard (truncate_to (24 * hour_ns) arrival = truncate_to (24 * hour_ns) (stay_lower item))
                          (ApiE (WithMessage ErrInvalidDates ''cannot change arrival date for checked-in items''))) (\<lambda>_.
                   ShortenStay E item departure))
              else ret ()) (\<lambda>_.
         bnd (map_err (mismatch_or ''update stay period: '') (UpdateReservationItem E
                ((with_status item (GetIfMatchVersion c) (i_status item))
                   \<lparr>ui_ID := u, ui_StayPeriod := ToRange arrival departure\<rparr>))) (\<lambda>updated.
         bnd (recomputeEnvelope E (i_reservation_id item) p) (\<lambda>_.
         bnd (map_err (Wrap ''notify: '') (notifyReservationChange ''item_updated'' (i_reservation_id item))) (\<lambda>_.
         ret (itemToResponse updated))))))))"

definition assignRoomTx :: "env \<Rightarrow> ctx \<Rightarrow> uuid \<Rightarrow> AssignRoomInput \<Rightarrow> ItemResponse query" where
  "assignRoomTx E c u input =
     bnd (map_err (not_found_or ''get item: '') (GetReservationItem E u)) (\<lambda>item.
     bnd (override_dnm c item (OverrideDnmReason input)) (\<lambda>_.
     bnd (requirePostCheckinPermission c item) (\<lambda>_.
     bnd (map_err (mismatch_or ''assign room: '') (UpdateReservationItem E
            ((with_status item (GetIfMatchVersion c) (i_status item))
               \<lparr>ui_ID := u, ui_AssignedRoomID := Some (ar_RoomID input)\<rparr>))) (\<lambda>updated.
     bnd (map_err (Wrap ''update ledger: '') (UpdateLedgerRowRoom E (ar_RoomID input) u (GetPropertyIDFromCtx c))) (\<lambda>_.
     bnd (map_err (Wrap ''notify: '') (notifyReservationChange ''room_assigned'' (i_reservation_id item))) (\<lambda>_.
     ret (itemToResponse updated)))))))"

definition updateItemRoomTypeTx :: "env \<Rightarrow> ctx \<Rightarrow> uuid \<Rightarrow> uuid \<Rightarrow> bool \<Rightarrow> string \<Rightarrow> ItemResponse query" where
  "updateItemRoomTypeTx E c u newRoomTypeID retainPrice reason =
     bnd (map_err (not_found_or ''get item: '') (GetReservationItem E u)) (\<lambda>item.
     bnd (override_dnm c item reason) (\<lambda>_.
     bnd (requirePostCheckinPermission c item) (\<lambda>_.
     let params = (with_status item (GetIfMatchVersion c) (i_status item))
                    \<lparr>ui_ID := u, ui_BookedRoomTypeID := Some newRoomTypeID\<rparr>;
         params = (if \<not> retainPrice then params\<lparr>ui_RatePlanID := None\<rparr> else params)
     in bnd (map_err (mismatch_or ''update room type: '') (UpdateReservationItem E params)) (\<lambda>updated.
        bnd (map_err (Wrap ''notify: '') (notifyReservationChange ''room_type_changed'' (i_reservation_id item))) (\<lambda>_.
        ret (itemToResponse updated))))))"

definition updateItemRatePlanTx :: "env \<Rightarrow> ctx \<Rightarrow> uuid \<Rightarrow> uuid \<Rightarrow> bool \<Rightarrow> ItemResponse query" where
  "updateItemRatePlanTx E c u newRatePlanID retainPrice =
     bnd (map_err (not_found_or ''get item: '') (GetReservationItem E u)) (\<lambda>item.
     bnd (requirePostCheckinPermission c item) (\<lambda>_.
     bnd (map_err (mismatch_or ''update rate plan: '') (UpdateReservationItem E
            ((with_status item (GetIfMatchVersion c) (i_status item))
               \<lparr>ui_ID := u, ui_RatePlanID := Some newRatePlanID\<rparr>))) (\<lambda>updated.
     bnd (map_err (Wrap ''notify: '') (notifyReservationChange ''rate_plan_changed'' (i_reservation_id item))) (\<lambda>_.
     ret (itemToResponse updated)))))"

definition addItemTx :: "env \<Rightarrow> ctx \<Rightarrow> uuid \<Rightarrow> CreateItemInput \<Rightarrow> ReservationResponse query" where
  "addItemTx E c u input =
     (let p = GetPropertyIDFromCtx c
      in bnd (map_err (not_found_or ''get reservation: '') (GetReservation E u)) (\<lambda>res.
         bnd (guard (\<not> IsTerminalReservationStatus (r_status res)) (ApiE ErrTerminal)) (\<lambda>_.
         bnd (map_err (Wrap ''insert item: '') (insertSingleItem E input (StatusConfirmed, ItemStatusBooked) p u)) (\<lambda>itemResp.
         bnd (recomputeEnvelope E u p) (\<lambda>_.
         bnd (map_err (Wrap ''notify: '') (notifyReservationChange ''item_added'' u)) (\<lambda>_.
         bnd (map_err (Wrap ''get updated reservation: '') (GetReservation E u)) (\<lambda>updatedRes.
         let response = reservationFromRow updatedRes
         in ret (response\<lparr>rr_Items := rr_Items response @ [itemResp]\<rparr>))))))))"

definition UpdateItemStayPeriod :: "env \<Rightarrow> ctx \<Rightarrow> uuid \<Rightarrow> time \<Rightarrow> time \<Rightarrow> ItemResponse query" where
  "UpdateItemStayPeriod E c u arrival departure = in_property_tx c (updateItemStayPeriodTx E c u arrival departure)"

definition AssignRoom :: "env \<Rightarrow> ctx \<Rightarrow> uuid \<Rightarrow> AssignRoomInput \<Rightarrow> ItemResponse query" where
  "AssignRoom E c u input = in_property_tx c (assignRoomTx E c u input)"

definition UpdateItemRoomType :: "env \<Rightarrow> ctx \<Rightarrow> uuid \<Rightarrow> uuid \<Rightarrow> bool \<Rightarrow> string \<Rightarrow> ItemResponse query" where
  "UpdateItemRoomType E c u rt retainPrice reason = in_property_tx c (updateItemRoomTypeTx E c u rt retainPrice reason)"

definition UpdateItemRatePlan :: "env \<Rightarrow> ctx \<Rightarrow> uuid \<Rightarrow> uuid \<Rightarrow> bool \<Rightarrow> ItemResponse query" where
  "UpdateItemRatePlan E c u rp retainPrice = in_property_tx c (updateItemRatePlanTx E c u rp retainPrice)"

definition AddItem :: "env \<Rightarrow> ctx \<Rightarrow> uuid \<Rightarrow> CreateItemInput \<Rightarrow> ReservationResponse query" where
  "AddItem E c u input = in_property_tx c (addItemTx E c u input)"

section \<open>UpdateItem\<close>

definition move_ledger ::
  "env \<Rightarrow> uuid \<Rightarrow> OperationsReservationItem \<Rightarrow> uuid \<Rightarrow> time list \<Rightarrow> time list \<Rightarrow> uuid \<Rightarrow> uuid option \<Rightarrow> unit query" where
  "move_ledger E u item p oldNights newNights roomID plan =
     (let removedNights = RemovedDates oldNights newNights; addedNights = AddedDates oldNights newNights
      in if removedNights \<noteq> [] \<and> addedNights \<noteq> []
         then bnd (map_err (Wrap ''delete all ledger: '') (DeleteLedgerRowsByItem E u p)) (\<lambda>_.
              insertItemLedger E u (i_reservation_id item) p newNights roomID plan (i_room_type_id item))
         else if removedNights \<noteq> []
         then map_err (Wrap ''delete removed ledger: '') (DeleteLedgerRowsByItemFromDate E u p (day_of (hd removedNights)))
         else if addedNights \<noteq> []
         then insertItemLedger E u (i_reservation_id item) p addedNights roomID plan (i_room_type_id item)
         else ret ())"

definition updateItemDatesTx :: "env \<Rightarrow> ctx \<Rightarrow> uuid \<Rightarrow> OperationsReservationItem \<Rightarrow> CreateItemInput \<Rightarrow> ReservationResponse query" where
  "updateItemDatesTx E c u item input =
     (let p = GetPropertyIDFromCtx c; arrival = ArrivalDate input; departure = DepartureDate input;
          oldNights = NightsBetween (stay_lower item) (stay_upper item);
          newNights = NightsBetween arrival departure;
          datesChanged = (arrival \<noteq> stay_lower item \<or> departure \<noteq> stay_upper item);
          roomChanged = (AssignedRoomID input \<noteq> None \<and> i_assigned_room_id item \<noteq> AssignedRoomID input);
          ratePlanID = coalesce_null (RatePlanID input) (i_rate_plan_id item);
          newRoomID = coalesce_null (AssignedRoomID input) (i_assigned_room_id item);
          effectiveRoomID = coalesce (AssignedRoomID input) (PtrUUID (i_assigned_room_id item))
      in bnd (guard (arrival < departure) (ApiE (WithMessage ErrInvalidDates ''departure must be after arrival''))) (\<lambda>_.
         bnd (if datesChanged
              then bnd (move_ledger E u item p oldNights newNights effectiveRoomID ratePlanID) (\<lambda>_.
                   recomputeEnvelope E (i_reservation_id item) p)
              else ret ()) (\<lambda>_.
         bnd (if \<not> datesChanged \<and> roomChanged
              then map_err (Wrap ''update ledger room: '') (UpdateLedgerRowRoom E (PtrUUID (AssignedRoomID input)) u p)
              else ret ()) (\<lambda>_.
         bnd (map_err (mismatch_or ''update item: '') (UpdateReservationItem E
                \<lparr>ui_BookedRoomTypeID = Some (i_room_type_id item), ui_AssignedRoomID = newRoomID,
                 ui_StayPeriod = ToRange arrival departure, ui_RatePlanID = ratePlanID,
                 ui_AdultsCount = int32 (AdultsCount input), ui_ChildrenCount = int32 (ChildrenCount input),
                 ui_Status = i_status item, ui_ID = u, ui_Version = GetIfMatchVersion c\<rparr>)) (\<lambda>_.
         bnd (map_err (Wrap ''notify: '') (notifyReservationChange ''item_updated'' (i_reservation_id item))) (\<lambda>_.
         fetchAndExpandReservation E (i_reservation_id item) p))))))"

definition updateItemTx :: "env \<Rightarrow> ctx \<Rightarrow> uuid \<Rightarrow> CreateItemInput \<Rightarrow> ReservationResponse query" where
  "updateItemTx E c u input =
     (let p = GetPropertyIDFromCtx c
      in bnd (map_err (not_found_or ''get item: '') (GetReservationItem E u)) (\<lambda>item.
         if RoomTypeID input \<noteq> uuid_Nil \<and> RoomTypeID input \<noteq> i_room_type_id item
         then bnd (UpdateItemRoomType E c u (RoomTypeID input) False []) (\<lambda>_.
              fetchAndExpandReservation E (i_reservation_id item) p)
         else if RatePlanID input \<noteq> None \<and> i_rate_plan_id item \<noteq> RatePlanID input
         then bnd (UpdateItemRatePlan E c u (PtrUUID (RatePlanID input)) False) (\<lambda>_.
              fetchAndExpandReservation E (i_reservation_id item) p)
         else updateItemDatesTx E c u item input))"

definition UpdateItem :: "env \<Rightarrow> ctx \<Rightarrow> uuid \<Rightarrow> CreateItemInput \<Rightarrow> ReservationResponse query" where
  "UpdateItem E c u input = in_property_tx c (updateItemTx E c u input)"

section \<open>What these functions keep\<close>

lemma preserves_requirePostCheckinPermission [pres_intros]: "preserves I (requirePostCheckinPermission c item)"
  unfolding requirePostCheckinPermission_def by (intro pres_intros)

lemma preserves_override_dnm [pres_intros]: "preserves I (override_dnm c item reason)"
  unfolding override_dnm_def by (intro pres_intros)

context store_client
begin

lemma keeps_recomputeEnvelope: "preserves I (recomputeEnvelope E r p)"
  unfolding recomputeEnvelope_def Let_def by (intro pres_intros keeps_helpers)

lemma keeps_fetchAndExpandReservation: "preserves I (fetchAndExpandReservation E r p)"
  unfolding fetchAndExpandReservation_def by (intro pres_intros keeps_helpers)

lemma keeps_move_ledger: "preserves I (move_ledger E u item p old new m plan)"
  unfolding move_ledger_def Let_def by (intro pres_intros keeps_helpers keeps_insertItemLedger)

lemma keeps_updates:
  "preserves I (updateItemStayPeriodTx E c u arrival departure)" "preserves I (assignRoomTx E c u ar)"
  "preserves I (updateItemRoomTypeTx E c u rt retain reason)" "preserves I (updateItemRatePlanTx E c u rp retain)"
  "preserves I (addItemTx E c u input)" "preserves I (updateItemDatesTx E c u item input)"
  unfolding updateItemStayPeriodTx_def assignRoomTx_def updateItemRoomTypeTx_def updateItemRatePlanTx_def
    addItemTx_def updateItemDatesTx_def Let_def
  by (intro pres_intros keeps_helpers keeps_recomputeEnvelope keeps_fetchAndExpandReservation
      keeps_move_ledger keeps_insertSingleItem keeps_ShortenStay)+

end

end
