(* ===== verification/Workers.thy ===== *)
theory Workers
  imports ServiceUpdate
begin

text \<open>
  The background sweeps of \<open>booking/workers.go\<close>: expiring holds, reminding of no-shows, marking
  overstays and archiving. A sweep reads its candidates with one query on the pool and then handles
  each in a transaction of its own, from the row it read: the database may have changed since. The
  tickers are left out: a sweep is a step that may happen at any time.
\<close>

section \<open>One transaction of a worker\<close>

datatype outcome = CommitIt | LeaveIt

definition worker_tx :: "uuid \<Rightarrow> outcome query \<Rightarrow> unit query" where
  "worker_tx p body s =
     (case BeginTx s of
        (Inl e, s1) \<Rightarrow> (Inl (Wrap ''begin tx: '' e), s1)
      | (Inr _, s1) \<Rightarrow>
          (case bnd (map_err (Wrap ''set rls: '') (SetCurrentPropertyID p)) (\<lambda>_. body) s1 of
             (Inl e, s2) \<Rightarrow> (Inl e, leave_tx s (snd (pop_fault s2)))
           | (Inr LeaveIt, s2) \<Rightarrow> (Inr (), leave_tx s (snd (pop_fault s2)))
           | (Inr CommitIt, s2) \<Rightarrow> (case Commit s2 of (r, s3) \<Rightarrow> (r, leave_tx s s3))))"

definition notify_action :: "(string \<times> string) list \<Rightarrow> unit query" where
  "notify_action fs = bnd (attempt (NotifyChannel ''reservation_changes'' (json_object fs))) (\<lambda>_. ret ())"

section \<open>Hold expiry\<close>

definition cancelHold_body :: "env \<Rightarrow> OperationsReservation \<Rightarrow> outcome query" where
  "cancelHold_body E res =
     bnd (map_err (Wrap ''cancel items: '') (CancelReservationItems E (r_id res) (r_property_id res))) (\<lambda>_.
     bnd (map_err (Wrap ''delete ledger: '') (DeleteLedgerForReservation E (r_id res) (r_property_id res))) (\<lambda>_.
     bnd (map_err (Wrap ''update status: '')
            (UpdateReservationStatus E (r_id res) (r_version res) StatusCancelled)) (\<lambda>rows.
     if rows = 0 then ret LeaveIt
     else bnd (notify_action [(''action'', json_string ''hold_expired''),
                 (''reservation_id'', json_string (uuid_text (r_id res)))]) (\<lambda>_.
          ret CommitIt))))"

definition cancelHoldTx :: "env \<Rightarrow> OperationsReservation \<Rightarrow> unit query" where
  "cancelHoldTx E res = worker_tx (r_property_id res) (cancelHold_body E res)"

definition expireHolds :: "env \<Rightarrow> unit query" where
  "expireHolds E =
     bnd (attempt (auto_commit (FindExpiredHolds E))) (\<lambda>r. case r of
       Inl e \<Rightarrow> ret ()
     | Inr holds \<Rightarrow> bnd (for_each (\<lambda>h. attempt (cancelHoldTx E h)) holds) (\<lambda>_. ret ()))"

section \<open>No-show reminder\<close>

fun json_list :: "string list \<Rightarrow> string" where
  "json_list [] = []"
| "json_list [x] = x"
| "json_list (x # y # r) = x @ '','' @ json_list (y # r)"

definition checkNoShows :: "env \<Rightarrow> unit query" where
  "checkNoShows E =
     bnd (attempt (auto_commit (FindOverdueCheckins E))) (\<lambda>r. case r of
       Inl e \<Rightarrow> ret ()
     | Inr is \<Rightarrow>
         if is = [] then ret ()
         else bnd (attempt (auto_commit (NotifyChannel ''staff_alerts'' (json_object
                [(''item_ids'', ''['' @ json_list (map (\<lambda>i. json_string (uuid_text (i_id i))) is) @ '']''),
                 (''type'', json_string ''no_show_overdue'')])))) (\<lambda>_. ret ()))"

section \<open>Overstays\<close>

definition markOverstay_body :: "env \<Rightarrow> OperationsReservationItem \<Rightarrow> outcome query" where
  "markOverstay_body E item =
     bnd (attempt (SelectItemStatusForUpdate E (i_id item))) (\<lambda>r. case r of
       Inl e \<Rightarrow> if e = NoRows then ret LeaveIt else throw (Wrap ''re-check item: '' e)
     | Inr currentStatus \<Rightarrow>
         if currentStatus \<noteq> ItemStatusCheckedIn then ret LeaveIt
         else bnd (map_err (Wrap ''update item to overstay: '') (UpdateReservationItem E
                ((with_status item (i_version item) ItemStatusOverstay)\<lparr>ui_BookedRoomTypeID := Some (i_room_type_id item)\<rparr>))) (\<lambda>_.
              bnd (notify_action [(''action'', json_string ''overstay''),
                     (''item_id'', json_string (uuid_text (i_id item)))]) (\<lambda>_.
              ret CommitIt)))"

definition markOverstayTx :: "env \<Rightarrow> OperationsReservationItem \<Rightarrow> unit query" where
  "markOverstayTx E item = worker_tx (i_property_id item) (markOverstay_body E item)"

definition processOverstays :: "env \<Rightarrow> unit query" where
  "processOverstays E =
     bnd (attempt (auto_commit (FindOverstays E))) (\<lambda>r. case r of
       Inl e \<Rightarrow> ret ()
     | Inr is \<Rightarrow> bnd (for_each (\<lambda>i. attempt (markOverstayTx E i)) is) (\<lambda>_. ret ()))"

section \<open>Archival\<close>

definition next_archival :: "time \<Rightarrow> time" where
  "next_archival now =
     (let next_run = truncate_to day_ns now + 2 * hour_ns
      in if \<not> now < next_run then next_run + 24 * hour_ns else next_run)"

definition archiveReservation_body :: "env \<Rightarrow> OperationsReservation \<Rightarrow> outcome query" where
  "archiveReservation_body E res =
     bnd (map_err (Wrap ''archive items: '') (SoftDeleteItems E (r_id res))) (\<lambda>_.
     bnd (map_err (Wrap ''archive reservation: '')
            (UpdateReservationStatus E (r_id res) (r_version res) StatusArchived)) (\<lambda>rows.
     if rows = 0 then ret LeaveIt
     else bnd (notify_action [(''action'', json_string ''archived''),
                 (''reservation_id'', json_string (uuid_text (r_id res)))]) (\<lambda>_.
          ret CommitIt)))"

definition archiveReservationTx :: "env \<Rightarrow> OperationsReservation \<Rightarrow> unit query" where
  "archiveReservationTx E res = worker_tx (r_property_id res) (archiveReservation_body E res)"

definition archiveTerminal :: "env \<Rightarrow> unit query" where
  "archiveTerminal E =
     bnd (attempt (auto_commit (FindArchivableReservations E))) (\<lambda>r. case r of
       Inl e \<Rightarrow> ret ()
     | Inr rs \<Rightarrow> bnd (for_each (\<lambda>x. attempt (archiveReservationTx E x)) rs) (\<lambda>_. ret ()))"

section \<open>What these functions keep\<close>

context store_client
begin

lemma keeps_notify_action: "preserves I (notify_action fs)"
  unfolding notify_action_def by (intro pres_intros keeps_helpers)

lemma keeps_worker_bodies:
  "preserves I (cancelHold_body E res)" "preserves I (markOverstay_body E item)"
  "preserves I (archiveReservation_body E res)"
  unfolding cancelHold_body_def markOverstay_body_def archiveReservation_body_def
  by (intro pres_intros keeps_helpers keeps_notify_action)+

end

end
