(* ===== verification/System.thy ===== *)
theory System
  imports Workers
begin

text \<open>
  The booking system as a whole: every request of the API and every sweep as a step on the shared
  state, in any order, by any caller, at any time, with any failure of the environment in between.

  \<open>serve\<close> runs one request, \<open>sweep\<close> one background job; \<open>step\<close> is one of them under an arbitrary
  environment, context and script of faults. What holds of the committed database after every
  step follows from the interface \<open>store_client\<close>, interpreted for the state of a transaction.
\<close>

section \<open>Requests, sweeps and steps\<close>

datatype request =
    ReqCreate CreateReservationInput IncludeFlags
  | ReqConfirm uuid IncludeFlags
  | ReqGet uuid IncludeFlags
  | ReqList ListParams
  | ReqUpdateMetadata uuid UpdateMetadataInput
  | ReqCancel uuid CancelInput
  | ReqReactivate uuid
  | ReqCheckin uuid
  | ReqCheckout uuid
  | ReqAddItem uuid CreateItemInput
  | ReqUpdateItem uuid CreateItemInput
  | ReqStayPeriod uuid time time
  | ReqRoomType uuid uuid bool string
  | ReqRatePlan uuid uuid bool
  | ReqCheckinItem uuid
  | ReqCheckoutItem uuid
  | ReqAssignRoom uuid AssignRoomInput
  | ReqNoShow uuid
  | ReqCancelItem uuid CancelInput
  | ReqAvailability uuid uuid time time

fun serve :: "env \<Rightarrow> ctx \<Rightarrow> request \<Rightarrow> sess \<Rightarrow> sess" where
  "serve E c (ReqCreate input f) s = snd (CreateReservation_svc E c input f s)"
| "serve E c (ReqConfirm u f) s = snd (ConfirmReservation E c u f s)"
| "serve E c (ReqGet u f) s = snd (GetReservation_svc E c u f s)"
| "serve E c (ReqList lp) s = snd (ListReservations_svc E c lp s)"
| "serve E c (ReqUpdateMetadata u i) s = snd (UpdateMetadata E c u i s)"
| "serve E c (ReqCancel u i) s = snd (CancelReservation E c u i s)"
| "serve E c (ReqReactivate u) s = snd (ReactivateReservation E c u s)"
| "serve E c (ReqCheckin u) s = snd (CheckinReservation E c u s)"
| "serve E c (ReqCheckout u) s = snd (CheckoutReservation E c u s)"
| "serve E c (ReqAddItem u i) s = snd (AddItem E c u i s)"
| "serve E c (ReqUpdateItem u i) s = snd (UpdateItem E c u i s)"
| "serve E c (ReqStayPeriod u a d) s = snd (UpdateItemStayPeriod E c u a d s)"
| "serve E c (ReqRoomType u rt b m) s = snd (UpdateItemRoomType E c u rt b m s)"
| "serve E c (ReqRatePlan u rp b) s = snd (UpdateItemRatePlan E c u rp b s)"
| "serve E c (ReqCheckinItem u) s = snd (CheckinItem E c u s)"
| "serve E c (ReqCheckoutItem u) s = snd (CheckoutItem E c u s)"
| "serve E c (ReqAssignRoom u i) s = snd (AssignRoom E c u i s)"
| "serve E c (ReqNoShow u) s = snd (MarkNoShow E c u s)"
| "serve E c (ReqCancelItem u i) s = snd (CancelItem E c u i s)"
| "serve E c (ReqAvailability p rt a d) s = snd (CheckAvailability E p rt a d s)"

datatype job = ExpireHolds | CheckNoShows | ProcessOverstays | ArchiveTerminal

fun sweep :: "env \<Rightarrow> job \<Rightarrow> sess \<Rightarrow> sess" where
  "sweep E ExpireHolds s = snd (expireHolds E s)"
| "sweep E CheckNoShows s = snd (checkNoShows E s)"
| "sweep E ProcessOverstays s = snd (processOverstays E s)"
| "sweep E ArchiveTerminal s = snd (archiveTerminal E s)"

inductive step :: "sess \<Rightarrow> sess \<Rightarrow> bool" where
  request: "step s (serve E c r (s\<lparr>faults := fs\<rparr>))"
| background: "step s (sweep E j (s\<lparr>faults := fs\<rparr>))"

inductive_cases step_cases: "step s t"

section \<open>Invariants of transactions\<close>

definition in_tx :: "(db \<Rightarrow> bool) \<Rightarrow> uuid \<Rightarrow> sess \<Rightarrow> bool" where
  "in_tx J p s \<longleftrightarrow> J (pool s) \<and> J (data s) \<and> cur_property s = Some p"

definition committed :: "(db \<Rightarrow> bool) \<Rightarrow> sess \<Rightarrow> bool" where
  "committed J s \<longleftrightarrow> J (pool s)"

lemma committedD: "preserves (committed J) m \<Longrightarrow> J (pool s) \<Longrightarrow> J (pool (snd (m s)))"
  by (simp add: preserves_def committed_def)

lemma preserves_conj: "preserves A q \<Longrightarrow> preserves B q \<Longrightarrow> preserves (\<lambda>s. A s \<and> B s) q"
  by (simp add: preserves_def)

lemma store_client_conj:
  assumes a: "store_client A E" and b: "store_client B E"
  shows "store_client (\<lambda>s. A s \<and> B s) E"
proof (rule store_client.intro)
  show "session_invariant (\<lambda>s. A s \<and> B s)"
    using store_client.axioms(1) [OF a] store_client.axioms(1) [OF b]
    by (simp add: session_invariant_def)
  show "store_client_axioms (\<lambda>s. A s \<and> B s) E"
    using store_client.axioms(2) [OF a] store_client.axioms(2) [OF b]
    by (simp add: store_client_axioms_def preserves_conj)
qed

interpretation outside_data: store_client "\<lambda>s. Q (pool s) (cur_property s)" E for Q E
proof -
  have st: "preserves (\<lambda>s. Q (pool s) (cur_property s)) (run_stmt f)" for f :: "sess \<Rightarrow> goerr + 'z \<times> db"
    by (rule session_invariant.preserves_run_stmt) (simp_all add: session_invariant_def)
  show "store_client (\<lambda>s. Q (pool s) (cur_property s)) E"
    by unfold_locales (simp_all add: CreateGuest_def CreateReservation_def CreateReservationItem_def
        UpdateReservationItem_def UpdateReservationMetadata_def UpdateReservationStatus_def
        BulkInsertLedgerRows_def CancelReservationItems_def ReactivateReservationItems_def
        UpdateLedgerRowRoom_def SoftDeleteItems_def DeleteLedgerForReservation_def
        DeleteLedgerRowsByItem_def DeleteLedgerRowsByItemFromDate_def NotifyChannel_def
        CreateOutboxEvent_def query_def st)
qed

interpretation isolation_tx: store_client "in_tx (\<lambda>d. foreign p d = F) p" "with_rls E" for p F E
proof -
  have "in_tx (\<lambda>d. foreign p d = F) p = (\<lambda>s. isolated p F s \<and> foreign p (pool s) = F)"
    by (auto simp: in_tx_def isolated_def)
  then show "store_client (in_tx (\<lambda>d. foreign p d = F) p) (with_rls E)"
    using store_client_conj [OF isolation.store_client_axioms
        outside_data.store_client_axioms [of "\<lambda>d c. foreign p d = F"]] by simp
qed

section \<open>Rules for transactions\<close>

lemma SetCurrentPropertyID_state:
  assumes "SetCurrentPropertyID p s = (r, t)"
  shows "pool t = pool s" "data t = data s" "r = Inr u \<Longrightarrow> cur_property t = Some p"
  using assms by (cases no_effect s rule: run_stmt_cases; auto simp: SetCurrentPropertyID_def no_effect_def)+

lemma SetCurrentUserID_state:
  assumes "SetCurrentUserID u s = (r, t)"
  shows "pool t = pool s" "data t = data s" "cur_property t = cur_property s"
  using assms by (cases no_effect s rule: run_stmt_cases; auto simp: SetCurrentUserID_def no_effect_def)+

lemma in_tx_SetCurrentUserID: "preserves (in_tx J p) (SetCurrentUserID u)"
proof (rule preservesI)
  fix s
  assume s: "in_tx J p s"
  obtain r t where "SetCurrentUserID u s = (r, t)" by fastforce
  with SetCurrentUserID_state [OF this] s show "in_tx J p (snd (SetCurrentUserID u s))"
    by (simp add: in_tx_def)
qed

lemma tx_body_keeps:
  assumes fn: "preserves (in_tx J (GetPropertyIDFromCtx c)) fn"
    and J: "J (pool s)" "J (data s)" and t: "tx_body c fn s = (r, t)"
  shows "J (pool t) \<and> J (data t)"
proof (cases "GetPropertyIDFromCtx c = uuid_Nil")
  case True
  with t J show ?thesis by (auto simp: tx_body_def bnd_def guard_def throw_def)
next
  case False
  let ?p = "GetPropertyIDFromCtx c"
  let ?rest = "bnd (if GetUserIDFromCtx c \<noteq> uuid_Nil
          then map_err (Wrap ''set rls user id: '') (SetCurrentUserID (GetUserIDFromCtx c)) else ret ()) (\<lambda>_.
        map_err tx_error fn)"
  obtain a s1 where s1: "SetCurrentPropertyID ?p s = (a, s1)" by fastforce
  note st = SetCurrentPropertyID_state [OF s1]
  have "preserves (in_tx J ?p) ?rest"
    by (intro pres_intros in_tx_SetCurrentUserID fn)
  moreover have "tx_body c fn s = (case a of Inl e \<Rightarrow> (Inl (Wrap ''set rls property id: '' e), s1) | Inr u \<Rightarrow> ?rest s1)"
    using False s1 by (simp add: tx_body_def bnd_def guard_def ret_def map_err_def split: sum.split)
  ultimately show ?thesis
    using t st J by (cases a) (auto simp: in_tx_def dest: preservesD [of "in_tx J ?p" ?rest s1 r t])
qed

lemma Commit_keeps: "J (pool s) \<Longrightarrow> J (data s) \<Longrightarrow> Commit s = (r, t) \<Longrightarrow> J (pool t)"
  by (auto simp: Commit_def split: if_splits prod.splits option.splits dest!: pop_fault_faults)

lemma ExecuteTx_keeps:
  assumes fn: "preserves (in_tx J (GetPropertyIDFromCtx c)) fn"
    and J: "J (pool s)" and e: "ExecuteTx c fn s = (r, t)"
  shows "J (pool t) \<and> data t = data s \<and> cur_property t = cur_property s"
proof (cases "BeginTx s")
  case (Pair b s1)
  show ?thesis
  proof (cases b)
    case (Inl x)
    with Pair e J show ?thesis
      by (auto simp: ExecuteTx_def BeginTx_def split: prod.splits option.splits dest!: pop_fault_faults)
  next
    case (Inr u)
    obtain a s2 where f: "tx_body c fn s1 = (a, s2)" by fastforce
    from BeginTx_returns Pair Inr J have "J (pool s1)" "J (data s1)" by fastforce+
    with fn f have s2: "J (pool s2)" "J (data s2)" using tx_body_keeps by blast+
    show ?thesis
    proof (cases a)
      case (Inl x)
      with e Pair Inr f s2 show ?thesis
        by (auto simp: ExecuteTx_def split: prod.splits dest!: rolled_back_pool)
    next
      case (Inr y)
      with e Pair \<open>b = Inr u\<close> f s2 Commit_keeps [of J s2] show ?thesis
        by (auto simp: ExecuteTx_def split: prod.splits sum.splits)
    qed
  qed
qed

lemma committed_ExecuteTx:
  "preserves (in_tx J (GetPropertyIDFromCtx c)) fn \<Longrightarrow> preserves (committed J) (ExecuteTx c fn)"
proof (rule preservesI)
  fix s
  assume fn: "preserves (in_tx J (GetPropertyIDFromCtx c)) fn" and s: "committed J s"
  obtain r t where "ExecuteTx c fn s = (r, t)" by fastforce
  with ExecuteTx_keeps [OF fn _ this] s show "committed J (snd (ExecuteTx c fn s))"
    by (simp add: committed_def)
qed

lemma in_tx_ExecuteTx:
  "preserves (in_tx J (GetPropertyIDFromCtx c)) fn \<Longrightarrow> preserves (in_tx J p) (ExecuteTx c fn)"
proof (rule preservesI)
  fix s
  assume fn: "preserves (in_tx J (GetPropertyIDFromCtx c)) fn" and s: "in_tx J p s"
  obtain r t where "ExecuteTx c fn s = (r, t)" by fastforce
  with ExecuteTx_keeps [OF fn _ this] s show "in_tx J p (snd (ExecuteTx c fn s))"
    by (simp add: in_tx_def)
qed

lemma committed_in_property_tx:
  "preserves (in_tx J (GetPropertyIDFromCtx c)) fn \<Longrightarrow> preserves (committed J) (in_property_tx c fn)"
  unfolding in_property_tx_def by (intro pres_intros committed_ExecuteTx)

lemma in_tx_in_property_tx:
  "preserves (in_tx J (GetPropertyIDFromCtx c)) fn \<Longrightarrow> preserves (in_tx J p) (in_property_tx c fn)"
  unfolding in_property_tx_def by (intro pres_intros in_tx_ExecuteTx)

lemma committed_worker_tx:
  assumes fn: "preserves (in_tx J p) body"
  shows "preserves (committed J) (worker_tx p body)"
proof (rule preservesI)
  fix s
  assume J: "committed J s"
  let ?b = "bnd (map_err (Wrap ''set rls: '') (SetCurrentPropertyID p)) (\<lambda>_. body)"
  obtain b s1 where b: "BeginTx s = (b, s1)" by fastforce
  obtain a s2 where f: "?b s1 = (a, s2)" by fastforce
  obtain x s0 where s0: "SetCurrentPropertyID p s1 = (x, s0)" by fastforce
  note st = SetCurrentPropertyID_state [OF s0]
  show "committed J (snd (worker_tx p body s))"
  proof (cases b)
    case (Inl e)
    with b J BeginTx_fails [of s e s1] show ?thesis by (simp add: worker_tx_def committed_def)
  next
    case (Inr u)
    from BeginTx_returns b Inr J have J1: "J (pool s1)" "J (data s1)" by (fastforce simp: committed_def)+
    have J2: "J (pool s2)" "J (data s2)"
      using f s0 st J1 fn by (cases x; auto simp: bnd_def map_err_def in_tx_def dest!: preservesD [of "in_tx J p" body s0 a s2])+
    obtain y s3 where c: "Commit s2 = (y, s3)" by fastforce
    have "pool (snd (pop_fault s2)) = pool s2" by (cases "pop_fault s2") (simp add: pop_fault_fields)
    with J2 b Inr f c Commit_keeps [of J s2 y s3] show ?thesis
      by (auto simp: worker_tx_def committed_def split: sum.split outcome.split)
  qed
qed

section \<open>Rules for the pool and the cache\<close>

definition both :: "(db \<Rightarrow> bool) \<Rightarrow> sess \<Rightarrow> bool" where
  "both J s \<longleftrightarrow> J (pool s) \<and> J (data s)"

interpretation both_session: session_invariant "both J" for J
  by unfold_locales (simp_all add: both_def)

lemma committed_auto_commit: "preserves (both J) q \<Longrightarrow> preserves (committed J) (auto_commit q)"
proof (rule preservesI)
  fix s
  assume q: "preserves (both J) q" and s: "committed J s"
  let ?s = "s\<lparr>snapshot := pool s, data := pool s, cur_property := None, aborted := None\<rparr>"
  obtain r t where t: "q ?s = (r, t)" by fastforce
  have "both J ?s" using s by (simp add: both_def committed_def)
  with q have "both J t" using t by (rule preservesD)
  with t show "committed J (snd (auto_commit q s))"
    by (cases r) (simp_all add: auto_commit_def both_def committed_def)
qed

lemma committed_pool_Query:
  assumes "preserves (both J) q"
  shows "preserves (committed J) (pool_Query q)"
  unfolding preserves_def
proof (intro allI impI)
  fix s assume s: "committed J s"
  obtain f s' where f: "pop_fault s = (f, s')" by fastforce
  with s have "committed J s'" by (auto simp: committed_def dest: pop_fault_fields)
  with committed_auto_commit [OF assms] have "committed J (snd (auto_commit q s'))" by (simp add: preserves_def)
  with f \<open>committed J s'\<close> show "committed J (snd (pool_Query q s))"
    by (auto simp: pool_Query_def split: option.splits prod.splits sum.splits)
qed

lemma committed_redis:
  "preserves (committed J) (redis_MGet E ks)" "preserves (committed J) (redis_SetAll E kvs ttl)"
  "preserves (committed J) (redis_Del k)"
  by (auto simp: preserves_def committed_def redis_MGet_def redis_SetAll_def redis_Del_def
      split: prod.splits option.splits dest: pop_fault_fields)

lemma committed_availability:
  "preserves (committed J) (InvalidateAvailabilityCache p rt a d)"
  "preserves (committed J) (CheckAvailability E p rt a d)"
proof -
  show "preserves (committed J) (InvalidateAvailabilityCache p rt a d)"
    unfolding InvalidateAvailabilityCache_def by (intro pres_intros committed_redis)
  have "preserves (both J) (availQuery E p rt x y)" for x y
    unfolding availQuery_def by (rule both_session.preserves_reading) (auto split: if_splits)
  then have "preserves (committed J) (pool_Query (availQuery E p rt x y))" for x y
    by (intro committed_pool_Query)
  then show "preserves (committed J) (CheckAvailability E p rt a d)"
    unfolding CheckAvailability_def Let_def scan_rows_def by (intro pres_intros committed_redis) (auto intro!: pres_intros split: option.splits)
qed

lemma committed_invalidate: "preserves (committed J) (invalidateAvailabilityAfterCreate p input)"
proof -
  have "preserves (committed J) (invalidate_loop p is seen)" for "is" seen
    by (induction "is" arbitrary: seen) (auto intro!: pres_intros committed_availability)
  then show ?thesis by (simp add: invalidateAvailabilityAfterCreate_def)
qed

lemma committed_reads:
  "preserves (committed J) (GetReservation_svc E c u f)" "preserves (committed J) (ListReservations_svc E c lp)"
  unfolding GetReservation_svc_def ListReservations_svc_def expandInclude_with_def Let_def
  by (intro pres_intros committed_auto_commit both_session.preserves_reads)+

text \<open>
  A property of the committed database that every query keeps inside a transaction of the caller's
  property is kept by every request of that caller.
\<close>

locale request_invariant =
  fixes J :: "db \<Rightarrow> bool" and E :: env and c :: ctx
  assumes client: "store_client (in_tx J (GetPropertyIDFromCtx c)) E"
begin

lemma committed_UpdateItem: "preserves (committed J) (UpdateItem E c u input)"
  unfolding UpdateItem_def
proof (rule committed_in_property_tx)
  show "preserves (in_tx J (GetPropertyIDFromCtx c)) (updateItemTx E c u input)"
    unfolding updateItemTx_def UpdateItemRoomType_def UpdateItemRatePlan_def Let_def
    by (intro pres_intros in_tx_in_property_tx store_client.keeps_updates [OF client]
        store_client.keeps_helpers [OF client] store_client.keeps_fetchAndExpandReservation [OF client])
qed

lemma committed_CreateReservation: "preserves (committed J) (CreateReservation_svc E c input f)"
  unfolding CreateReservation_svc_def Let_def
  by (intro pres_intros committed_ExecuteTx committed_invalidate store_client.keeps_createReservationTx [OF client])

lemma serve_keeps:
  assumes J: "J (pool s)"
  shows "J (pool (serve E c r s))"
  by (cases r; simp only: serve.simps ConfirmReservation_def UpdateMetadata_def CancelReservation_def
      CancelItem_def CheckinReservation_def CheckinItem_def CheckoutReservation_def CheckoutItem_def
      MarkNoShow_def ReactivateReservation_def UpdateItemStayPeriod_def AssignRoom_def
      UpdateItemRoomType_def UpdateItemRatePlan_def AddItem_def;
      rule committedD [of J _ s, OF _ J];
      intro committed_UpdateItem committed_CreateReservation committed_reads committed_availability
        committed_in_property_tx committed_ExecuteTx store_client.keeps_updates [OF client]
        store_client.keeps_lifecycle [OF client] store_client.keeps_confirmReservationTx [OF client]
        store_client.keeps_updateMetadataTx [OF client])

end

interpretation isolation_requests:
  request_invariant "\<lambda>d. foreign (GetPropertyIDFromCtx c) d = F" "with_rls E" c for F E c
  by unfold_locales

text \<open>
  A property of the data that every query keeps, whatever the environment, is kept by every step
  of the system.
\<close>

locale system_invariant =
  fixes J :: "db \<Rightarrow> bool"
  assumes on_data: "store_client (\<lambda>s. J (data s)) E"
begin

lemma in_transactions: "store_client (in_tx J p) E"
proof -
  have "in_tx J p = (\<lambda>s. J (data s) \<and> (J (pool s) \<and> cur_property s = Some p))"
    by (auto simp: in_tx_def)
  then show ?thesis
    using store_client_conj [OF on_data outside_data.store_client_axioms [of "\<lambda>d c. J d \<and> c = Some p"]] by simp
qed

lemma on_the_pool: "store_client (both J) E"
proof -
  have "both J = (\<lambda>s. J (data s) \<and> J (pool s))"
    by (auto simp: both_def)
  then show ?thesis
    using store_client_conj [OF on_data outside_data.store_client_axioms [of "\<lambda>d c. J d"]] by simp
qed

lemma committed_sweeps:
  "preserves (committed J) (expireHolds E)" "preserves (committed J) (checkNoShows E)"
  "preserves (committed J) (processOverstays E)" "preserves (committed J) (archiveTerminal E)"
  unfolding expireHolds_def checkNoShows_def processOverstays_def archiveTerminal_def
    cancelHoldTx_def markOverstayTx_def archiveReservationTx_def
  by (intro pres_intros committed_auto_commit committed_worker_tx both_session.preserves_reads
      store_client.keeps_NotifyChannel [OF on_the_pool] store_client.keeps_worker_bodies [OF in_transactions])+

lemma step_keeps: "step s t \<Longrightarrow> J (pool s) \<Longrightarrow> J (pool t)"
proof (erule step_cases)
  fix E j fs
  assume s: "J (pool s)" and t: "t = sweep E j (s\<lparr>faults := fs\<rparr>)"
  have "J (pool (s\<lparr>faults := fs\<rparr>))" using s by simp
  with t committed_sweeps [of E] show "J (pool t)"
    by (cases j) (auto intro: committedD)
qed (simp add: request_invariant.serve_keeps [OF request_invariant.intro, OF in_transactions])

lemma reachable: "step\<^sup>*\<^sup>* s t \<Longrightarrow> J (pool s) \<Longrightarrow> J (pool t)"
  by (induction rule: rtranclp_induct) (auto intro: step_keeps)

end

interpretation schema_system: system_invariant schema_ok
  using schema.store_client_axioms by (intro system_invariant.intro) (simp add: schema_inv_def [abs_def])

section \<open>What the system guarantees\<close>

lemma schema_ledger_unique: "schema_ok d \<Longrightarrow> inj_on (\<lambda>l. (l_room_id l, l_date l)) (set (ledger d))"
  by (simp add: schema_ok_def violations_def distinct_map)

lemma room_conflict_sym: "room_conflict i j = room_conflict j i"
  by (auto simp: room_conflict_def ranges_overlap_def split: option.splits)

lemma sorted_wrt_sym_pairs:
  assumes "sorted_wrt (\<lambda>x y. \<not> R x y) xs" "\<And>x y. R x y = R y x" "x \<in> set xs" "y \<in> set xs" "x \<noteq> y"
  shows "\<not> R x y"
  using assms(1,3-) by (induction xs) (auto simp: assms(2))

lemma schema_no_room_conflict:
  "schema_ok d \<Longrightarrow> i \<in> set (items d) \<Longrightarrow> j \<in> set (items d) \<Longrightarrow> i \<noteq> j \<Longrightarrow> \<not> room_conflict i j"
  using sorted_wrt_sym_pairs [of room_conflict "items d" i j] room_conflict_sym
  by (auto simp: schema_ok_def violations_def)


text \<open>C2. Tenants are isolated: when the database role is subject to row-level security, no request
  changes a reservation, an item, a ledger row, a guest or a reservation counter of another
  property than the one in the caller's context, nor any room, room type, rate plan, rate or
  property, even when the request names their identifiers.\<close>

theorem tenant_isolation:
  "foreign (GetPropertyIDFromCtx c) (pool (serve (E\<lparr>enforce_rls := True\<rparr>) c r s)) =
   foreign (GetPropertyIDFromCtx c) (pool s)"
  by (rule isolation_requests.serve_keeps) (rule refl)

end
