(* ===== verification/History.thy ===== *)
theory History
  imports System
begin

text \<open>
  The history of rows: what optimistic locking relies on.

  A row of \<open>reservations\<close> or \<open>reservation_items\<close> is never removed, and every statement that changes
  one raises its version. \<open>reservation_succ\<close> and \<open>item_succ\<close> relate a row to a later state of it;
  \<open>evolved F\<close> is the invariant of a database that came from \<open>F\<close>, interpreted as a client of the
  store and hence kept by every step of the system.
\<close>

section \<open>Later states of a row\<close>

definition reservation_succ :: "OperationsReservation \<Rightarrow> OperationsReservation \<Rightarrow> bool" where
  "reservation_succ r r' \<longleftrightarrow> r' = r \<or>
     r_version r < r_version r' \<and> r_id r' = r_id r \<and> r_property_id r' = r_property_id r
     \<and> r_sequential r' = r_sequential r \<and> r_code r' = r_code r \<and> r_source r' = r_source r
     \<and> r_created_at r' = r_created_at r \<and> r_expires_at r' = r_expires_at r"

definition item_succ :: "OperationsReservationItem \<Rightarrow> OperationsReservationItem \<Rightarrow> bool" where
  "item_succ i i' \<longleftrightarrow> i' = i \<or>
     i_version i < i_version i' \<and> i_id i' = i_id i \<and> i_property_id i' = i_property_id i
     \<and> i_reservation_id i' = i_reservation_id i \<and> i_guest_id i' = i_guest_id i
     \<and> i_do_not_move i' = i_do_not_move i \<and> i_base_rate_pence i' = i_base_rate_pence i
     \<and> i_created_at i' = i_created_at i"

definition evolved :: "db \<Rightarrow> db \<Rightarrow> bool" where
  "evolved F d \<longleftrightarrow>
     (\<forall>r\<in>set (reservations F). \<exists>r'\<in>set (reservations d). reservation_succ r r')
     \<and> (\<forall>i\<in>set (items F). \<exists>i'\<in>set (items d). item_succ i i')"

lemma reservation_succ_refl [simp]: "reservation_succ r r"
  by (simp add: reservation_succ_def)

lemma item_succ_refl [simp]: "item_succ i i"
  by (simp add: item_succ_def)

lemma reservation_succ_trans: "reservation_succ a b \<Longrightarrow> reservation_succ b c \<Longrightarrow> reservation_succ a c"
  by (auto simp: reservation_succ_def)

lemma item_succ_trans: "item_succ a b \<Longrightarrow> item_succ b c \<Longrightarrow> item_succ a c"
  by (auto simp: item_succ_def)

lemma kept_rows:
  "r \<in> A \<Longrightarrow> \<exists>r'\<in>A. reservation_succ r r'" "i \<in> B \<Longrightarrow> \<exists>i'\<in>B. item_succ i i'"
  by (blast intro: reservation_succ_refl item_succ_refl)+

lemma evolved_refl [simp]: "evolved d d"
  by (simp add: evolved_def kept_rows)

lemma evolved_trans: "evolved a b \<Longrightarrow> evolved b c \<Longrightarrow> evolved a c"
  unfolding evolved_def by (meson reservation_succ_trans item_succ_trans)

section \<open>Every query respects the history\<close>

lemma evolved_map_reservations:
  "(\<And>r. r \<in> set (reservations d) \<Longrightarrow> hit r \<Longrightarrow> reservation_succ r (f r)) \<Longrightarrow>
   evolved d (d\<lparr>reservations := map (\<lambda>r. if hit r then f r else r) (reservations d)\<rparr>)"
  unfolding evolved_def by (simp add: kept_rows) (metis IntI Un_iff imageI mem_Collect_eq reservation_succ_refl)

lemma evolved_map_items:
  "(\<And>i. i \<in> set (items d) \<Longrightarrow> hit i \<Longrightarrow> item_succ i (f i)) \<Longrightarrow>
   evolved d (d\<lparr>items := map (\<lambda>i. if hit i then f i else i) (items d)\<rparr>)"
  unfolding evolved_def by (simp add: kept_rows) (metis IntI Un_iff imageI mem_Collect_eq item_succ_refl)

lemma succ_updates:
  "reservation_succ r (updated_metadata E um env r)" "reservation_succ r (updated_status E st r)"
  "item_succ i (updated_item E ui stay i)"
  "item_succ i (i\<lparr>i_status := x, i_deleted_at := t, i_version := i_version i + 1\<rparr>)"
  "item_succ i (i\<lparr>i_deleted_at := t, i_version := i_version i + 1\<rparr>)"
  by (simp_all add: reservation_succ_def item_succ_def updated_metadata_def updated_status_def updated_item_def)

lemma evolved_others:
  "evolved d (d\<lparr>ledger := l\<rparr>)" "evolved d (d\<lparr>notifications := n\<rparr>)" "evolved d (d\<lparr>ledger := l, uuid_next := k\<rparr>)"
  "evolved d (d\<lparr>guests := g, uuid_next := k\<rparr>)" "evolved d (d\<lparr>outbox := x, uuid_next := k\<rparr>)"
  "evolved d (d\<lparr>reservations := reservations d @ rs, sequences := q, uuid_next := k\<rparr>)"
  "evolved d (d\<lparr>items := items d @ is, uuid_next := k\<rparr>)"
  unfolding evolved_def by (simp_all add: kept_rows)

interpretation evolved_session: session_invariant "\<lambda>s. evolved F (data s)" for F
  by unfold_locales simp_all

lemma evolved_query:
  assumes "\<And>vis d x d'. f vis d = Inr (x, d') \<Longrightarrow> evolved d d'"
  shows "preserves (\<lambda>s. evolved F (data s)) (query E f)"
  by (rule evolved_session.preserves_query) (auto dest: assms intro: evolved_trans)

lemma evolved_client: "store_client (\<lambda>s. evolved F (data s)) E"
proof unfold_locales
  let ?I = "\<lambda>s. evolved F (data s)"
  fix cg cr ci ui um u v st bl r p x m ch pay ty at
  show "preserves ?I (CreateGuest E cg)" "preserves ?I (CreateReservation E cr)"
    "preserves ?I (CreateReservationItem E ci)" "preserves ?I (BulkInsertLedgerRows E bl)"
    "preserves ?I (DeleteLedgerForReservation E r p)" "preserves ?I (DeleteLedgerRowsByItem E r p)"
    "preserves ?I (DeleteLedgerRowsByItemFromDate E r p x)" "preserves ?I (UpdateLedgerRowRoom E m r p)"
    unfolding CreateGuest_def CreateReservation_def CreateReservationItem_def BulkInsertLedgerRows_def
      DeleteLedgerForReservation_def DeleteLedgerRowsByItem_def DeleteLedgerRowsByItemFromDate_def
      UpdateLedgerRowRoom_def Let_def
    by (rule evolved_query; auto simp: evolved_others split: if_splits sum.splits dest!: checked_ok)+
  show "preserves ?I (UpdateReservationItem E ui)" "preserves ?I (UpdateReservationMetadata E um)"
    "preserves ?I (UpdateReservationStatus E u v st)" "preserves ?I (CancelReservationItems E r p)"
    "preserves ?I (ReactivateReservationItems E r p)" "preserves ?I (SoftDeleteItems E r)"
    unfolding UpdateReservationItem_def UpdateReservationMetadata_def UpdateReservationStatus_def
      CancelReservationItems_def ReactivateReservationItems_def SoftDeleteItems_def Let_def
    by (rule evolved_query; auto simp: succ_updates split: if_splits sum.splits list.splits dest!: checked_ok
        intro!: evolved_map_reservations evolved_map_items)+
  show "preserves ?I (NotifyChannel ch pay)"
    unfolding NotifyChannel_def
    by (rule evolved_session.preserves_run_stmt) (auto intro: evolved_trans evolved_others)
  show "preserves ?I (CreateOutboxEvent E ty pay at)"
    unfolding CreateOutboxEvent_def Let_def
    by (rule evolved_session.preserves_run_stmt) (auto intro: evolved_trans evolved_others dest!: checked_ok)
qed

interpretation history: system_invariant "evolved F" for F
  by (intro system_invariant.intro evolved_client)

end
