(* ===== verification/Contracts.thy ===== *)
theory Contracts
  imports Invariants
begin

text \<open>
  What a query that returns has done: one rule per query, about the data before and after.

  A service is verified by following its successful run statement by statement (\<open>act_returns\<close>) and
  reading each statement through its rule. A query sees the rows of the property the transaction
  is set to, whether or not row-level security is enforced.
\<close>

section \<open>Queries\<close>

definition sees :: "env \<Rightarrow> uuid option \<Rightarrow> uuid \<Rightarrow> bool" where
  "sees E cur = (case rls_view E cur of Inl e \<Rightarrow> (\<lambda>_. False) | Inr vis \<Rightarrow> vis)"

lemma sees_own [simp]: "sees E (Some p) p"
  by (simp add: sees_def rls_view_def)

definition unchanged :: "sess \<Rightarrow> sess \<Rightarrow> bool" where
  "unchanged s t \<longleftrightarrow> data t = data s \<and> cur_property t = cur_property s"

lemma unchanged_refl [simp]: "unchanged s s"
  by (simp add: unchanged_def)

lemma run_stmt_returns:
  "run_stmt f s = (Inr x, t) \<Longrightarrow>
   \<exists>fs. f (s\<lparr>faults := fs\<rparr>) = Inr (x, data t) \<and> cur_property t = cur_property s"
  by (cases f s rule: run_stmt_cases) auto

interpretation unchanged_session: session_invariant "unchanged s" for s
  by unfold_locales (simp_all add: unchanged_def)

lemma query_returns:
  "query E f s = (Inr x, t) \<Longrightarrow>
   f (sees E (cur_property s)) (data s) = Inr (x, data t) \<and> cur_property t = cur_property s"
  unfolding query_def by (drule run_stmt_returns) (auto simp: sees_def split: sum.splits)

lemma one_row_iff: "one_row xs d = Inr (x, d') \<longleftrightarrow> (\<exists>r. xs = x # r) \<and> d' = d"
  by (auto simp: one_row_def split: list.splits)

lemma filter_Cons_iff: "(\<exists>r. filter P xs = x # r) \<Longrightarrow> x \<in> set xs \<and> P x"
  by (metis filter_eq_Cons_iff in_set_conv_decomp_first)

lemma checked_iff: "checked x d = Inr (y, d') \<longleftrightarrow> y = x \<and> d' = d \<and> schema_ok d"
  by (auto simp: checked_def simp flip: first_violation_iff split: option.splits)

named_theorems returned \<open>what a query that returned has done\<close>

lemma GetReservation_returned [returned]:
  "GetReservation E u s = (Inr r, t) \<Longrightarrow>
   unchanged s t \<and> r \<in> set (reservations (data s)) \<and> r_id r = u \<and> r_deleted_at r = None
   \<and> sees E (cur_property s) (r_property_id r)"
  unfolding GetReservation_def by (drule query_returns) (auto simp: one_row_iff unchanged_def dest!: filter_Cons_iff)

lemma GetReservationItem_returned [returned]:
  "GetReservationItem E u s = (Inr i, t) \<Longrightarrow>
   unchanged s t \<and> i \<in> set (items (data s)) \<and> i_id i = u \<and> i_deleted_at i = None
   \<and> sees E (cur_property s) (i_property_id i)"
  unfolding GetReservationItem_def by (drule query_returns) (auto simp: one_row_iff unchanged_def dest!: filter_Cons_iff)

lemma GetReservationItems_returned [returned]:
  "GetReservationItems E r p s = (Inr is, t) \<Longrightarrow>
   unchanged s t \<and> set is = {i \<in> set (items (data s)). sees E (cur_property s) (i_property_id i)
     \<and> i_reservation_id i = r \<and> i_property_id i = p \<and> i_deleted_at i = None}"
  unfolding GetReservationItems_def by (drule query_returns) (auto simp: unchanged_def)

lemma GetRoomTypeOccupancy_returned [returned]:
  "GetRoomTypeOccupancy E u p s = (Inr rt, t) \<Longrightarrow>
   unchanged s t \<and> rt \<in> set (room_types (data s)) \<and> rt_id rt = u \<and> rt_property_id rt = p \<and> rt_deleted_at rt = None"
  unfolding GetRoomTypeOccupancy_def by (drule query_returns) (auto simp: one_row_iff unchanged_def dest!: filter_Cons_iff)

lemma GetBaseRate_returned [returned]: "GetBaseRate E p rt rp dow s = (Inr x, t) \<Longrightarrow> unchanged s t"
  unfolding GetBaseRate_def by (drule query_returns) (auto simp: one_row_iff unchanged_def)

definition free_room :: "env \<Rightarrow> uuid option \<Rightarrow> db \<Rightarrow> uuid \<Rightarrow> date list \<Rightarrow> InventoryRoom \<Rightarrow> bool" where
  "free_room E cur d p ds r \<longleftrightarrow> sees E cur (rm_property_id r) \<and> rm_property_id r = p \<and> \<not> locked E (rm_id r)
     \<and> \<not> (\<exists>l\<in>set (ledger d). sees E cur (l_property_id l) \<and> l_room_id l = rm_id r \<and> l_date l \<in> set ds
            \<and> blocking (l_status l) \<and> l_deleted_at l = None)"

lemma SelectRoomForAutoPin_returned [returned]:
  "SelectRoomForAutoPin E p rt ds s = (Inr m, t) \<Longrightarrow>
   unchanged s t \<and> (\<exists>r\<in>set (rooms (data s)). rm_id r = m \<and> rm_room_type_id r = Some rt
     \<and> free_room E (cur_property s) (data s) p ds r)"
  unfolding SelectRoomForAutoPin_def
proof (drule query_returns)
  let ?v = "sees E (cur_property s)" and ?d = "data s"
  let ?rs = "filter (\<lambda>r. \<not> locked E (rm_id r)) (sort_key (\<lambda>r. name_rank E (rm_name r))
       (filter (\<lambda>r. ?v (rm_property_id r) \<and> rm_property_id r = p \<and> rm_room_type_id r = Some rt
          \<and> \<not> list_ex (\<lambda>l. ?v (l_property_id l) \<and> l_room_id l = rm_id r \<and> l_date l \<in> set ds
                 \<and> blocking (l_status l) \<and> l_deleted_at l = None) (ledger ?d)) (rooms ?d)))"
  assume "one_row (map rm_id ?rs) ?d = Inr (m, data t) \<and> cur_property t = cur_property s"
  then have "unchanged s t" and "m \<in> set (map rm_id ?rs)"
    by (auto simp: one_row_iff unchanged_def simp del: set_map set_filter)
  then show "unchanged s t \<and> (\<exists>r\<in>set (rooms ?d). rm_id r = m \<and> rm_room_type_id r = Some rt
     \<and> free_room E (cur_property s) ?d p ds r)"
    by (auto simp: free_room_def list_ex_iff)
qed

lemma GetPropertyTimezone_returned [returned]: "GetPropertyTimezone E p s = (Inr x, t) \<Longrightarrow> unchanged s t"
  unfolding GetPropertyTimezone_def
  by (drule run_stmt_returns) (auto simp: one_row_iff unchanged_def split: if_splits)

lemma NotifyChannel_returned [returned]:
  "NotifyChannel ch pay s = (Inr x, t) \<Longrightarrow>
   cur_property t = cur_property s \<and> data t = (data s)\<lparr>notifications := notifications (data s) @ [(ch, pay)]\<rparr>"
  unfolding NotifyChannel_def by (drule run_stmt_returns) auto

lemma UpdateReservationItem_returned [returned]:
  "UpdateReservationItem E a s = (Inr x, t) \<Longrightarrow>
   \<exists>i stay. i \<in> set (items (data s)) \<and> sees E (cur_property s) (i_property_id i) \<and> i_id i = ui_ID a
     \<and> i_version i = ui_Version a \<and> range_param (ui_StayPeriod a) = Inr stay \<and> x = updated_item E a stay i
     \<and> data t = (data s)\<lparr>items := map (\<lambda>j. if sees E (cur_property s) (i_property_id j) \<and> i_id j = ui_ID a
           \<and> i_version j = ui_Version a then updated_item E a stay j else j) (items (data s))\<rparr>
     \<and> x \<in> set (items (data t)) \<and> schema_ok (data t) \<and> cur_property t = cur_property s"
  unfolding UpdateReservationItem_def Let_def
  by (drule query_returns) (auto simp: checked_iff dest!: filter_eq_ConsD split: if_splits sum.splits list.splits)

lemma UpdateReservationMetadata_returned [returned]:
  "UpdateReservationMetadata E a s = (Inr x, t) \<Longrightarrow>
   items (data t) = items (data s) \<and> ledger (data t) = ledger (data s) \<and> cur_property t = cur_property s"
  unfolding UpdateReservationMetadata_def Let_def
  by (drule query_returns) (auto simp: checked_iff split: if_splits sum.splits list.splits)

lemma UpdateReservationStatus_returned [returned]:
  "UpdateReservationStatus E u v st s = (Inr n, t) \<Longrightarrow>
   n = int (length (filter (\<lambda>r. sees E (cur_property s) (r_property_id r) \<and> r_id r = u \<and> r_version r = v) (reservations (data s))))
   \<and> data t = (data s)\<lparr>reservations := map (\<lambda>r. if sees E (cur_property s) (r_property_id r) \<and> r_id r = u
         \<and> r_version r = v then updated_status E st r else r) (reservations (data s))\<rparr>
   \<and> schema_ok (data t) \<and> cur_property t = cur_property s"
  unfolding UpdateReservationStatus_def Let_def
  by (drule query_returns) (auto simp: checked_iff split: if_splits)

lemma CancelReservationItems_returned [returned]:
  "CancelReservationItems E r p s = (Inr u, t) \<Longrightarrow>
   data t = (data s)\<lparr>items := map (\<lambda>i. if sees E (cur_property s) (i_property_id i) \<and> cancel_hit r p i
       then i\<lparr>i_status := ItemStatusCancelled, i_deleted_at := Some (pg_now E), i_version := i_version i + 1\<rparr>
       else i) (items (data s))\<rparr>
   \<and> cur_property t = cur_property s"
  unfolding CancelReservationItems_def Let_def
  by (drule query_returns) (auto simp: checked_iff split: if_splits)

lemma DeleteLedgerForReservation_returned [returned]:
  "DeleteLedgerForReservation E r p s = (Inr u, t) \<Longrightarrow>
   data t = (data s)\<lparr>ledger := filter (\<lambda>l. \<not> (sees E (cur_property s) (l_property_id l)
       \<and> l_reservation_id l = Some r \<and> l_property_id l = p)) (ledger (data s))\<rparr>
   \<and> cur_property t = cur_property s"
  unfolding DeleteLedgerForReservation_def by (drule query_returns) auto

lemma DeleteLedgerRowsByItem_returned [returned]:
  "DeleteLedgerRowsByItem E i p s = (Inr u, t) \<Longrightarrow>
   data t = (data s)\<lparr>ledger := filter (\<lambda>l. \<not> (sees E (cur_property s) (l_property_id l)
       \<and> l_item_id l = Some i \<and> l_property_id l = p)) (ledger (data s))\<rparr>
   \<and> cur_property t = cur_property s"
  unfolding DeleteLedgerRowsByItem_def by (drule query_returns) auto

lemma DeleteLedgerRowsByItemFromDate_returned [returned]:
  "DeleteLedgerRowsByItemFromDate E i p x s = (Inr u, t) \<Longrightarrow>
   data t = (data s)\<lparr>ledger := filter (\<lambda>l. \<not> (sees E (cur_property s) (l_property_id l)
       \<and> l_item_id l = Some i \<and> l_property_id l = p \<and> x \<le> l_date l)) (ledger (data s))\<rparr>
   \<and> cur_property t = cur_property s"
  unfolding DeleteLedgerRowsByItemFromDate_def by (drule query_returns) auto

lemma UpdateLedgerRowRoom_returned [returned]:
  "UpdateLedgerRowRoom E m i p s = (Inr u, t) \<Longrightarrow>
   data t = (data s)\<lparr>ledger := map (\<lambda>l. if sees E (cur_property s) (l_property_id l) \<and> l_item_id l = Some i
       \<and> l_property_id l = p then l\<lparr>l_room_id := m\<rparr> else l) (ledger (data s))\<rparr>
   \<and> schema_ok (data t) \<and> cur_property t = cur_property s"
  unfolding UpdateLedgerRowRoom_def by (drule query_returns) (auto simp: checked_iff)

lemma CreateReservation_returned [returned]:
  assumes "CreateReservation E a s = (Inr r, t)"
  shows "\<exists>q k. data t = (data s)\<lparr>reservations := reservations (data s) @ [r], sequences := q, uuid_next := k\<rparr>
     \<and> r_property_id r = cr_PropertyID a \<and> r_status r = cr_Status a \<and> r_source r = cr_Source a \<and> r_version r = 1
     \<and> r_deleted_at r = None \<and> r_expires_at r = map_option pg_ts (cr_ExpiresAt a)
     \<and> r_primary_guest_id r = cr_PrimaryGuestID a \<and> cur_property t = cur_property s"
proof -
  from query_returns [OF assms [unfolded CreateReservation_def Let_def]] show ?thesis
    by (auto simp: checked_iff split: if_splits sum.splits intro!: exI)
qed

lemma CreateReservationItem_returned [returned]:
  assumes "CreateReservationItem E a s = (Inr i, t)"
  shows "\<exists>k. data t = (data s)\<lparr>items := items (data s) @ [i], uuid_next := k\<rparr>
     \<and> i_property_id i = ci_PropertyID a \<and> i_reservation_id i = ci_ReservationID a
     \<and> i_room_type_id i = ci_BookedRoomTypeID a \<and> i_assigned_room_id i = ci_AssignedRoomID a
     \<and> pg_range (ci_StayPeriod a) = Inr (i_stay_period i) \<and> i_status i = ci_Status a \<and> i_version i = 1
     \<and> i_adults_count i = ci_AdultsCount a \<and> i_children_count i = ci_ChildrenCount a
     \<and> i_deleted_at i = None \<and> item_check i \<and> cur_property t = cur_property s"
proof -
  have "schema_ok (d\<lparr>items := xs @ [i], uuid_next := k\<rparr>) \<Longrightarrow> item_check i" for d :: db and xs k
    by (simp add: schema_ok_def violations_def)
  with query_returns [OF assms [unfolded CreateReservationItem_def Let_def]] show ?thesis
    by (auto simp: checked_iff split: if_splits sum.splits intro!: exI)
qed

lemma CreateGuest_returned [returned]:
  "CreateGuest E a s = (Inr g, t) \<Longrightarrow>
   \<exists>gs k. data t = (data s)\<lparr>guests := gs, uuid_next := k\<rparr> \<and> cur_property t = cur_property s"
  unfolding CreateGuest_def Let_def
  by (drule query_returns) (auto simp: checked_iff split: if_splits intro!: exI)

lemma BulkInsertLedgerRows_returned [returned]:
  "BulkInsertLedgerRows E a s = (Inr u, t) \<Longrightarrow>
   \<exists>new. sequence_sum (map (bulk_row E (data s) a) [0..<bulk_length a]) = Inr new
     \<and> data t = (data s)\<lparr>ledger := ledger (data s) @ new, uuid_next := uuid_next (data s) + length new\<rparr>
     \<and> schema_ok (data t) \<and> cur_property t = cur_property s"
  unfolding BulkInsertLedgerRows_def
  by (drule query_returns) (auto simp: checked_iff split: if_splits sum.splits)

lemma sequence_sum_Inr: "sequence_sum xs = Inr ys \<Longrightarrow> xs = map Inr ys"
  by (induction xs arbitrary: ys rule: sequence_sum.induct) (auto split: sum.splits)

section \<open>The tables\<close>

definition tables :: "db \<Rightarrow> OperationsReservation list \<times> OperationsReservationItem list \<times> InventoryRoomInventoryLedger list \<times> InventoryRoom list" where
  "tables d = (reservations d, items d, ledger d, rooms d)"

interpretation tables_session: session_invariant "\<lambda>s. tables (data s) = X" for X
  by unfold_locales simp_all

lemma tables_NotifyChannel: "preserves (\<lambda>s. tables (data s) = X) (NotifyChannel ch pay)"
  unfolding NotifyChannel_def by (rule tables_session.preserves_run_stmt) (auto simp: tables_def)

lemma tables_CreateOutboxEvent: "preserves (\<lambda>s. tables (data s) = X) (CreateOutboxEvent E ty pay at)"
  unfolding CreateOutboxEvent_def Let_def
  by (rule tables_session.preserves_run_stmt) (auto simp: tables_def dest!: checked_ok)

lemmas keeps_tables = pres_intros tables_session.preserves_reads tables_session.preserves_GetPropertyTimezone
  tables_NotifyChannel tables_CreateOutboxEvent

lemma tables_kept:
  assumes "m s = (x, t)" "\<And>X. preserves (\<lambda>s. tables (data s) = X) m"
  shows "tables (data t) = tables (data s)"
  using assms(2) [of "tables (data s)"] assms(1) by (auto dest: preservesD)

end
