(* ===== verification/Demo.thy ===== *)
theory Demo
  imports System Contracts
begin

text \<open>
  A small hotel on which the theorems with hypotheses are exercised: one property with two rooms of
  one type, one guest, and one confirmed reservation of room 1 for the nights of days 10 and 11.
\<close>

definition demo_env :: env where
  "demo_env = \<lparr>pg_now = 5 * day_ns, app_now = 5 * day_ns, uuidv7 = (\<lambda>n. of_nat (1000 + n)),
     enforce_rls = False, locked = (\<lambda>u. False), load_location = (\<lambda>z. Some (truncate_to day_ns)),
     name_rank = (\<lambda>n. int (length n))\<rparr>"

definition demo_ctx :: ctx where
  "demo_ctx = \<lparr>ctxPropertyID = Some 1, ctxPermissions = None, ctxIfMatchVer = Some 1, ctxUserID = None\<rparr>"

definition demo_reservation :: OperationsReservation where
  "demo_reservation = \<lparr>r_id = 20, r_property_id = 1, r_primary_guest_id = 7, r_sequential = 1,
     r_code = ''RES-000001'', r_source = SourceInternal, r_notes = None, r_status = StatusConfirmed,
     r_envelope = ToRange (10 * day_ns) (12 * day_ns), r_version = 1, r_created_at = 0,
     r_updated_at = 0, r_deleted_at = None, r_expires_at = None\<rparr>"

definition demo_item :: OperationsReservationItem where
  "demo_item = \<lparr>i_id = 30, i_property_id = 1, i_reservation_id = 20, i_room_type_id = 2,
     i_assigned_room_id = Some 3, i_guest_id = None, i_rate_plan_id = None,
     i_stay_period = ToRange (10 * day_ns) (12 * day_ns), i_do_not_move = False,
     i_base_rate_pence = 10000, i_adults_count = 2, i_children_count = 0, i_status = ItemStatusBooked,
     i_version = 1, i_created_at = 0, i_updated_at = 0, i_deleted_at = None\<rparr>"

definition demo_ledger :: "uuid \<Rightarrow> date \<Rightarrow> InventoryRoomInventoryLedger" where
  "demo_ledger u x = \<lparr>l_id = u, l_property_id = 1, l_room_id = 3, l_reservation_id = Some 20,
     l_item_id = Some 30, l_block_id = None, l_date = x, l_status = Sold, l_deleted_at = None\<rparr>"

definition demo_room :: "uuid \<Rightarrow> string \<Rightarrow> InventoryRoom" where
  "demo_room u n = \<lparr>rm_id = u, rm_property_id = 1, rm_room_type_id = Some 2, rm_name = n, rm_deleted_at = None\<rparr>"

definition demo_db :: db where
  "demo_db = \<lparr>reservations = [demo_reservation], items = [demo_item],
     ledger = [demo_ledger 40 10, demo_ledger 41 11], rooms = [demo_room 3 ''1'', demo_room 4 ''22''],
     room_types = [\<lparr>rt_id = 2, rt_property_id = 1, rt_std_occupancy = 2, rt_min_occupancy = 1,
                    rt_max_occupancy = 2, rt_deleted_at = None\<rparr>],
     rate_plans = [], base_rates = [],
     guests = [\<lparr>g_id = 7, g_property_id = 1, g_first_name = ''Jane'', g_last_name = ''Doe'',
                g_email = None, g_phone_number = None, g_deleted_at = None\<rparr>],
     properties = [\<lparr>p_id = 1, p_licence_id = 9, p_timezone = ''Europe/London'', p_deleted_at = None\<rparr>],
     sequences = [(1, 2)], outbox = [], notifications = [], uuid_next = 0\<rparr>"

definition demo_sess :: sess where
  "demo_sess = \<lparr>pool = demo_db, snapshot = demo_db, data = demo_db, cur_property = None,
     aborted = None, faults = [], redis = Map.empty\<rparr>"

lemmas demo_defs = demo_env_def demo_ctx_def demo_reservation_def demo_item_def demo_ledger_def
  demo_room_def demo_db_def demo_sess_def

lemmas schema_defs = schema_ok_def first_violation_def violations_def reservation_check_def item_check_def
  ledger_check_def guest_check_def outbox_check_def text_max_def char_length_def reservation_fk_def item_fk_def
  ledger_fk_def guest_fk_def room_conflict_def ranges_overlap_def

lemmas run_defs = bnd_def guard_def map_err_def attempt_def ret_def throw_def BeginTx_def Commit_def pop_fault_def
  leave_tx_def SetCurrentPropertyID_def SetCurrentUserID_def run_stmt_def stmt_effect_def no_effect_def query_def
  rls_view_def one_row_def checked_def range_param_def pg_range_def pg_ts_def truncate_to_def coalesce_def
  coalesce_null_def ToRange_def GetPropertyIDFromCtx_def GetUserIDFromCtx_def GetIfMatchVersion_def
  ExecuteTx_def tx_body_def in_property_tx_def in_int32_def day_ns_def item_status_enum_def status_enum_def

text \<open>A transaction on the demo database, and what it leaves when it commits.\<close>

definition demo_tx :: "(string \<rightharpoonup> string \<times> time) \<Rightarrow> db \<Rightarrow> sess" where
  "demo_tx R d = \<lparr>pool = demo_db, snapshot = demo_db, data = d, cur_property = Some 1,
     aborted = None, faults = [], redis = R\<rparr>"

lemma query_demo:
  "f (\<lambda>q. True) d = Inr (x, d') \<Longrightarrow> query demo_env f (demo_tx R d) = (Inr x, demo_tx R d')"
  by (simp add: demo_tx_def demo_env_def query_def run_stmt_def rls_view_def pop_fault_def stmt_effect_def)

lemma run_stmt_demo: "f (demo_tx R d) = Inr (x, d') \<Longrightarrow> run_stmt f (demo_tx R d) = (Inr x, demo_tx R d')"
  by (simp add: demo_tx_def run_stmt_def pop_fault_def stmt_effect_def)

lemma checked_demo: "schema_ok d \<Longrightarrow> checked x d = Inr (x, d)"
  by (simp add: checked_iff)

lemma ExecuteTx_demo:
  assumes "fn (demo_tx R demo_db) = (Inr x, demo_tx R d)"
  shows "\<exists>t. ExecuteTx demo_ctx fn (demo_sess\<lparr>redis := R\<rparr>) = (Inr x, t) \<and> pool t = d \<and> faults t = []"
proof -
  have "BeginTx (demo_sess\<lparr>redis := R\<rparr>) = (Inr (), (demo_tx R demo_db)\<lparr>cur_property := None\<rparr>)"
    by (simp add: BeginTx_def pop_fault_def demo_sess_def demo_tx_def)
  moreover have "tx_body demo_ctx fn ((demo_tx R demo_db)\<lparr>cur_property := None\<rparr>) = (Inr x, demo_tx R d)"
    using assms by (simp add: tx_body_def demo_ctx_def GetPropertyIDFromCtx_def GetUserIDFromCtx_def bnd_def guard_def ret_def
      map_err_def SetCurrentPropertyID_def run_stmt_def pop_fault_def stmt_effect_def no_effect_def demo_tx_def)
  moreover have "Commit (demo_tx R d) = (Inr (), (demo_tx R d)\<lparr>pool := d\<rparr>)"
    by (simp add: Commit_def demo_tx_def pop_fault_def)
  ultimately show ?thesis by (simp add: ExecuteTx_def) (simp add: demo_tx_def)
qed

lemma demo_sess_empty: "demo_sess\<lparr>redis := Map.empty\<rparr> = demo_sess"
  by (simp add: demo_sess_def)

lemma demo_schema: "schema_ok demo_db"
  by (simp add: schema_defs demo_defs ToRange_def day_ns_def)

lemma demo_reaches_itself: "step\<^sup>*\<^sup>* demo_sess demo_sess" "schema_ok (pool demo_sess)"
  by (simp_all add: demo_sess_def demo_schema)

lemma demo_rows: "demo_reservation \<in> set (reservations (pool demo_sess))" "demo_item \<in> set (items (pool demo_sess))"
  by (simp_all add: demo_sess_def demo_db_def)


end
