(* ===== verification/Locking.thy ===== *)
theory Locking
  imports History Contracts Demo
begin

text \<open>
  Optimistic locking: the version of a row tells its states apart, and a request that carries the
  version the caller has read changes the row only if it is still in that state.
\<close>

section \<open>Versions\<close>

lemma schema_row_ids:
  assumes "schema_ok d"
  shows "inj_on r_id (set (reservations d))" "inj_on i_id (set (items d))"
  using assms by (simp_all add: schema_ok_def violations_def distinct_map)

lemma same_version_same_reservation:
  assumes "evolved d d'" "schema_ok d'" "r \<in> set (reservations d)" "r' \<in> set (reservations d')"
    and "r_id r' = r_id r" "r_version r' = r_version r"
  shows "r' = r"
proof -
  from assms(1,3) obtain q where "q \<in> set (reservations d')" "reservation_succ r q"
    unfolding evolved_def by blast
  with assms schema_row_ids(1) [of d'] show ?thesis by (auto simp: reservation_succ_def inj_on_def)
qed

lemma same_version_same_item:
  assumes "evolved d d'" "schema_ok d'" "i \<in> set (items d)" "i' \<in> set (items d')"
    and "i_id i' = i_id i" "i_version i' = i_version i"
  shows "i' = i"
proof -
  from assms(1,3) obtain q where "q \<in> set (items d')" "item_succ i q"
    unfolding evolved_def by blast
  with assms schema_row_ids(2) [of d'] show ?thesis by (auto simp: item_succ_def inj_on_def)
qed

text \<open>C5. The version of a row identifies its state: after any sequence of requests and sweeps every
  reservation and every item is still there, with its identity, its code and its price, its version
  has not decreased, and if the version is the same then nothing of the row has changed.\<close>

theorem versions_identify_states:
  assumes "step\<^sup>*\<^sup>* s t" and "schema_ok (pool s)"
    and "r \<in> set (reservations (pool s))" and "i \<in> set (items (pool s))"
  shows "(\<exists>r'\<in>set (reservations (pool t)). reservation_succ r r')
    \<and> (\<exists>i'\<in>set (items (pool t)). item_succ i i')
    \<and> (\<forall>r'\<in>set (reservations (pool t)). r_id r' = r_id r \<and> r_version r' = r_version r \<longrightarrow> r' = r)
    \<and> (\<forall>i'\<in>set (items (pool t)). i_id i' = i_id i \<and> i_version i' = i_version i \<longrightarrow> i' = i)"
proof -
  have e: "evolved (pool s) (pool t)" using assms(1) by (rule history.reachable) simp
  have "schema_ok (pool t)" using assms(1,2) by (rule schema_system.reachable)
  with e assms(3,4) show ?thesis
    using same_version_same_reservation same_version_same_item by (fastforce simp: evolved_def)
qed

theorem versions_identify_states_witness:
  "(\<exists>r'\<in>set (reservations (pool demo_sess)). reservation_succ demo_reservation r')
   \<and> (\<exists>i'\<in>set (items (pool demo_sess)). item_succ demo_item i')"
  using versions_identify_states [OF demo_reaches_itself demo_rows] by simp

section \<open>Item operations\<close>

definition locks_item :: "uuid \<Rightarrow> int \<Rightarrow> 'a query \<Rightarrow> bool" where
  "locks_item u v q \<longleftrightarrow> (\<forall>s x t. q s = (Inr x, t) \<longrightarrow>
     (\<exists>i\<in>set (items (data s)). i_id i = u \<and> i_version i = v)
     \<and> (\<exists>i\<in>set (items (data t)). i_id i = u \<and> v < i_version i))"

lemma locks_bnd_left:
  assumes "locks_item u v m" and "\<And>x F. preserves (\<lambda>s. evolved F (data s)) (f x)"
  shows "locks_item u v (bnd m f)"
  unfolding locks_item_def
proof (intro allI impI)
  fix s y t
  assume "bnd m f s = (Inr y, t)"
  then obtain x s' where m: "m s = (Inr x, s')" and f: "f x s' = (Inr y, t)" by (auto simp: act_returns)
  have "evolved (data s') (data t)" using assms(2) _ f by (rule preservesD) simp
  with m assms(1) show "(\<exists>i\<in>set (items (data s)). i_id i = u \<and> i_version i = v)
     \<and> (\<exists>i\<in>set (items (data t)). i_id i = u \<and> v < i_version i)"
    unfolding locks_item_def evolved_def item_succ_def by fastforce
qed

lemma locks_bnd_right:
  assumes "\<And>x. locks_item u v (f x)" and "\<And>X. preserves (\<lambda>s. items (data s) = X) m"
  shows "locks_item u v (bnd m f)"
  unfolding locks_item_def
proof (intro allI impI)
  fix s y t
  assume "bnd m f s = (Inr y, t)"
  then obtain x s' where m: "m s = (Inr x, s')" and f: "f x s' = (Inr y, t)" by (auto simp: act_returns)
  have "items (data s') = items (data s)" using assms(2) _ m by (rule preservesD) simp
  with f assms(1) [of x] show "(\<exists>i\<in>set (items (data s)). i_id i = u \<and> i_version i = v)
     \<and> (\<exists>i\<in>set (items (data t)). i_id i = u \<and> v < i_version i)"
    unfolding locks_item_def by metis
qed

lemma locks_map_err: "locks_item u v m \<Longrightarrow> locks_item u v (map_err g m)"
  by (simp add: locks_item_def)

lemma locks_UpdateReservationItem:
  assumes "ui_ID a = u" "ui_Version a = v"
  shows "locks_item u v (UpdateReservationItem E a)"
  unfolding locks_item_def
proof (intro allI impI)
  fix s x t
  assume "UpdateReservationItem E a s = (Inr x, t)"
  from UpdateReservationItem_returned [OF this] assms obtain i stay where
    i: "i \<in> set (items (data s))" "i_id i = u" "i_version i = v"
    and "updated_item E a stay i \<in> set (items (data t))" by metis
  moreover have "i_id (updated_item E a stay i) = u" "v < i_version (updated_item E a stay i)"
    using i by (simp_all add: updated_item_def)
  ultimately show "(\<exists>i\<in>set (items (data s)). i_id i = u \<and> i_version i = v)
     \<and> (\<exists>i\<in>set (items (data t)). i_id i = u \<and> v < i_version i)" by blast
qed

interpretation items_session: session_invariant "\<lambda>s. items (data s) = X" for X
  by unfold_locales simp_all

lemma items_DeleteFrom: "preserves (\<lambda>s. items (data s) = X) (DeleteLedgerRowsByItemFromDate E i p x)"
  unfolding DeleteLedgerRowsByItemFromDate_def by (rule items_session.preserves_query) auto

lemma items_ShortenStay: "preserves (\<lambda>s. items (data s) = X) (ShortenStay E item t)"
  unfolding ShortenStay_def by (intro pres_intros items_DeleteFrom)

lemmas item_reads = pres_intros items_session.preserves_reads items_ShortenStay
lemmas history_keeps = store_client.keeps_helpers [OF evolved_client]
  store_client.keeps_recomputeEnvelope [OF evolved_client]

lemma locks_update:
  "ui_ID a = u \<Longrightarrow> ui_Version a = v \<Longrightarrow> (\<And>x F. preserves (\<lambda>s. evolved F (data s)) (f x)) \<Longrightarrow>
   locks_item u v (bnd (map_err g (UpdateReservationItem E a)) f)"
  by (intro locks_bnd_left locks_map_err locks_UpdateReservationItem)

lemma item_bodies_lock:
  "locks_item u (GetIfMatchVersion c) (cancelItemTx E c u ci)"
  "locks_item u (GetIfMatchVersion c) (checkinItemTx E c u)"
  "locks_item u (GetIfMatchVersion c) (checkoutItemTx E c u)"
  "locks_item u (GetIfMatchVersion c) (markNoShowTx E c u)"
  "locks_item u (GetIfMatchVersion c) (assignRoomTx E c u ar)"
  "locks_item u (GetIfMatchVersion c) (updateItemStayPeriodTx E c u a d)"
  "locks_item u (GetIfMatchVersion c) (updateItemRoomTypeTx E c u rt retain reason)"
  "locks_item u (GetIfMatchVersion c) (updateItemRatePlanTx E c u rp retain)"
  unfolding cancelItemTx_def checkinItemTx_def checkoutItemTx_def markNoShowTx_def assignRoomTx_def
    updateItemStayPeriodTx_def updateItemRoomTypeTx_def updateItemRatePlanTx_def Let_def
  by (rule locks_update locks_bnd_right | (simp add: with_status_def; fail) | intro item_reads history_keeps)+

lemma locks_in_property_tx:
  assumes "locks_item u v fn" "framed fn" "in_property_tx c fn s = (Inr x, t)"
  shows "(\<exists>i\<in>set (items (pool s)). i_id i = u \<and> i_version i = v)
    \<and> (\<exists>i\<in>set (items (pool t)). i_id i = u \<and> v < i_version i)"
proof -
  from assms(3) have "ExecuteTx c fn s = (Inr x, t)" by (auto simp: in_property_tx_def act_returns)
  with assms(2) obtain s' t' where "fn s' = (Inr x, t')" "data s' = pool s" "pool t = data t'"
    by (rule ExecuteTx_returns)
  with assms(1) show ?thesis unfolding locks_item_def by metis
qed

lemma framed_item_bodies:
  "framed (cancelItemTx E c u ci)" "framed (checkinItemTx E c u)" "framed (checkoutItemTx E c u)"
  "framed (markNoShowTx E c u)" "framed (assignRoomTx E c u ar)" "framed (updateItemStayPeriodTx E c u a d)"
  "framed (updateItemRoomTypeTx E c u rt retain reason)" "framed (updateItemRatePlanTx E c u rp retain)"
  unfolding framed_def by (intro allI frame.keeps_lifecycle frame.keeps_updates)+

definition item_requests ::
  "env \<Rightarrow> ctx \<Rightarrow> uuid \<Rightarrow> CancelInput \<Rightarrow> AssignRoomInput \<Rightarrow> time \<Rightarrow> time \<Rightarrow> uuid \<Rightarrow> bool \<Rightarrow> string \<Rightarrow> ItemResponse query list" where
  "item_requests E c u ci ar a d rt retain reason =
     [CancelItem E c u ci, CheckinItem E c u, CheckoutItem E c u, MarkNoShow E c u, AssignRoom E c u ar,
      UpdateItemStayPeriod E c u a d, UpdateItemRoomType E c u rt retain reason, UpdateItemRatePlan E c u rt retain]"

lemma item_requests_lock:
  assumes "q \<in> set (item_requests E c u ci ar a d rt retain reason)" "q s = (Inr x, t)"
  shows "(\<exists>i\<in>set (items (pool s)). i_id i = u \<and> i_version i = GetIfMatchVersion c)
    \<and> (\<exists>i\<in>set (items (pool t)). i_id i = u \<and> GetIfMatchVersion c < i_version i)"
proof -
  from assms(1) have "\<exists>fn. q = in_property_tx c fn \<and> locks_item u (GetIfMatchVersion c) fn \<and> framed fn"
    unfolding item_requests_def CancelItem_def CheckinItem_def CheckoutItem_def MarkNoShow_def AssignRoom_def
      UpdateItemStayPeriod_def UpdateItemRoomType_def UpdateItemRatePlan_def list.set insert_iff empty_iff
    by (elim disjE) (fastforce intro: item_bodies_lock framed_item_bodies)+
  then obtain fn where "q = in_property_tx c fn" "locks_item u (GetIfMatchVersion c) fn" "framed fn" by blast
  with assms(2) show ?thesis using locks_in_property_tx [of u _ fn c s x t] by simp
qed


lemma demo_checkin: "\<exists>x t. CheckinItem demo_env demo_ctx (i_id demo_item) demo_sess = (Inr x, t)"
  by (simp add: demo_defs run_defs schema_defs CheckinItem_def checkinItemTx_def GetReservationItem_def
      UpdateReservationItem_def with_status_def updated_item_def rollupAndNotify_def)


end
