(* ===== verification/Inventory.thy ===== *)
theory Inventory
  imports Locking
begin

text \<open>
  The inventory: what creating, cancelling and changing a reservation does to the ledger of sold nights.
\<close>

section \<open>Selling nights\<close>

definition sold_row :: "uuid \<Rightarrow> uuid \<Rightarrow> uuid \<Rightarrow> uuid \<Rightarrow> InventoryRoomInventoryLedger \<Rightarrow> bool" where
  "sold_row p m r i l \<longleftrightarrow> l_property_id l = p \<and> l_room_id l = m \<and> l_reservation_id l = Some r
     \<and> l_item_id l = Some i \<and> l_status l = Sold \<and> l_deleted_at l = None"

lemma bulk_row_ledger_rows:
  "k < length dates \<Longrightarrow> bulk_row E d (ledger_rows p m r i dates) k =
     Inr \<lparr>l_id = uuidv7 E (uuid_next d + k), l_property_id = p, l_room_id = m, l_reservation_id = Some r,
          l_item_id = Some i, l_block_id = None, l_date = day_of (dates ! k), l_status = Sold, l_deleted_at = None\<rparr>"
  by (simp add: bulk_row_def ledger_rows_def nth_opt_def inventory_status_of_text_def DatesToPGDates_def)

lemma bulk_length_ledger_rows [simp]: "bulk_length (ledger_rows p m r i dates) = length dates"
  by (simp add: bulk_length_def ledger_rows_def DatesToPGDates_def)

lemma insert_ledger_rows:
  assumes "BulkInsertLedgerRows E (ledger_rows p m r i dates) s = (Inr u, t)"
  shows "\<exists>rows k. data t = (data s)\<lparr>ledger := ledger (data s) @ rows, uuid_next := k\<rparr>
    \<and> list_all (sold_row p m r i) rows \<and> map l_date rows = DatesToPGDates dates
    \<and> schema_ok (data t) \<and> cur_property t = cur_property s"
proof -
  from BulkInsertLedgerRows_returned [OF assms] obtain rows where
    rows: "map (bulk_row E (data s) (ledger_rows p m r i dates)) [0..<length dates] = map Inr rows"
    and d: "data t = (data s)\<lparr>ledger := ledger (data s) @ rows, uuid_next := uuid_next (data s) + length rows\<rparr>"
    "schema_ok (data t)" "cur_property t = cur_property s"
    by (auto dest!: sequence_sum_Inr)
  from rows have len: "length rows = length dates" by (metis length_map length_upt minus_nat.diff_0)
  have nth: "rows ! k = \<lparr>l_id = uuidv7 E (uuid_next (data s) + k), l_property_id = p, l_room_id = m,
      l_reservation_id = Some r, l_item_id = Some i, l_block_id = None, l_date = day_of (dates ! k),
      l_status = Sold, l_deleted_at = None\<rparr>" if "k < length dates" for k
  proof -
    have "map (bulk_row E (data s) (ledger_rows p m r i dates)) [0..<length dates] ! k = map Inr rows ! k"
      using rows by simp
    with that len show ?thesis by (simp add: bulk_row_ledger_rows)
  qed
  have "list_all (sold_row p m r i) rows"
    by (simp add: list_all_length len nth sold_row_def)
  moreover have "map l_date rows = DatesToPGDates dates"
    by (rule nth_equalityI) (simp_all add: len nth DatesToPGDates_def)
  ultimately show ?thesis using d by blast
qed

lemma resolveRates_unchanged: "resolveRates E p rt plan dates s = (Inr x, t) \<Longrightarrow> unchanged s t"
proof -
  have "preserves (unchanged s) (resolveRates E p rt plan dates)"
    unfolding resolveRates_def by (intro pres_intros unchanged_session.preserves_reads)
  then show "resolveRates E p rt plan dates s = (Inr x, t) \<Longrightarrow> unchanged s t"
    by (rule preservesD) simp_all
qed

section \<open>Creating items\<close>

definition booked_as ::
  "InventoryRoom list \<Rightarrow> uuid \<Rightarrow> uuid \<Rightarrow> ItemStatus \<Rightarrow> CreateItemInput \<Rightarrow> OperationsReservationItem
   \<Rightarrow> InventoryRoomInventoryLedger list \<Rightarrow> bool" where
  "booked_as rms p r st inp i rows \<longleftrightarrow>
     i_property_id i = p \<and> i_reservation_id i = r \<and> i_room_type_id i = RoomTypeID inp
     \<and> i_assigned_room_id i = AssignedRoomID inp \<and> i_status i = st \<and> i_version i = 1 \<and> i_deleted_at i = None
     \<and> day_of (ArrivalDate inp) < day_of (DepartureDate inp)
     \<and> (\<exists>m. (case AssignedRoomID inp of Some m' \<Rightarrow> m = m'
            | None \<Rightarrow> \<exists>room\<in>set rms. rm_id room = m \<and> rm_property_id room = p \<and> rm_room_type_id room = Some (RoomTypeID inp))
          \<and> list_all (sold_row p m r (i_id i)) rows
          \<and> map l_date rows = [day_of (ArrivalDate inp)..day_of (DepartureDate inp) - 1])"

lemma zero_ledger_row_fails: "BulkInsertLedgerRows E zero_ledger_row s \<noteq> (Inr u, t)"
proof
  assume "BulkInsertLedgerRows E zero_ledger_row s = (Inr u, t)"
  then obtain new where "sequence_sum (map (bulk_row E (data s) zero_ledger_row) [0..<bulk_length zero_ledger_row]) = Inr new"
    using BulkInsertLedgerRows_returned by blast
  then show False
    by (simp add: zero_ledger_row_def bulk_length_def bulk_row_def nth_opt_def inventory_status_of_text_def)
qed

lemma nights_nonempty: "NightsBetween a d \<noteq> [] \<longleftrightarrow> day_of a < day_of d"
proof -
  have "NightsBetween a d \<noteq> [] \<longleftrightarrow> DatesToPGDates (NightsBetween a d) \<noteq> []"
    by (simp add: DatesToPGDates_def)
  then show ?thesis by (auto simp: DatesToPGDates_NightsBetween)
qed

lemma insertSingleItem_books:
  assumes run: "insertSingleItem E inp initial p r s = (Inr x, t)"
  shows "\<exists>i rows k. data t = (data s)\<lparr>items := items (data s) @ [i], ledger := ledger (data s) @ rows, uuid_next := k\<rparr>
    \<and> booked_as (rooms (data s)) p r (snd initial) inp i rows \<and> cur_property t = cur_property s"
proof -
  let ?dates = "NightsBetween (ArrivalDate inp) (DepartureDate inp)"
  from run obtain lim s1 rates s2 ri s3 m s4 where
    occ: "GetRoomTypeOccupancy E (RoomTypeID inp) p s = (Inr lim, s1)"
    and rates: "(if ?dates = [] then ret [10000] else resolveRates E p (RoomTypeID inp) (RatePlanID inp) ?dates) s1 = (Inr rates, s2)"
    and item: "CreateReservationItem E
       \<lparr>ci_PropertyID = p, ci_ReservationID = r, ci_BookedRoomTypeID = RoomTypeID inp,
        ci_AssignedRoomID = AssignedRoomID inp, ci_GuestID = None, ci_RatePlanID = RatePlanID inp,
        ci_StayPeriod = ToRange (ArrivalDate inp) (DepartureDate inp), ci_BaseRatePence = hd rates,
        ci_AdultsCount = int32 (AdultsCount inp), ci_ChildrenCount = int32 (ChildrenCount inp),
        ci_Status = snd initial, ci_DoNotMove = False\<rparr> s2 = (Inr ri, s3)"
    and room: "(case AssignedRoomID inp of Some m \<Rightarrow> ret m | None \<Rightarrow> map_err (Wrap ''auto-pin room: '')
        (SelectRoomForAutoPin E p (RoomTypeID inp) (DatesToPGDates ?dates))) s3 = (Inr m, s4)"
    and rows: "BulkInsertLedgerRows E (if ?dates = [] then zero_ledger_row else ledger_rows p m r (i_id ri) ?dates) s4 = (Inr (), t)"
    unfolding insertSingleItem_def Let_def by (auto simp: bnd_returns_iff ret_def)
  have ne: "?dates \<noteq> []" using rows zero_ledger_row_fails by (metis (full_types))
  have "unchanged s s1" using GetRoomTypeOccupancy_returned [OF occ] by blast
  moreover have "unchanged s1 s2" using rates ne by (simp add: resolveRates_unchanged)
  ultimately have s2: "unchanged s s2" by (simp add: unchanged_def)
  from CreateReservationItem_returned [OF item] obtain k where
    s3: "data s3 = (data s2)\<lparr>items := items (data s2) @ [ri], uuid_next := k\<rparr>" "cur_property s3 = cur_property s2"
    and ri: "i_property_id ri = p" "i_reservation_id ri = r" "i_room_type_id ri = RoomTypeID inp"
      "i_assigned_room_id ri = AssignedRoomID inp" "i_status ri = snd initial" "i_version ri = 1" "i_deleted_at ri = None"
    by auto
  have s4: "unchanged s3 s4" and m: "case AssignedRoomID inp of Some m' \<Rightarrow> m = m'
      | None \<Rightarrow> \<exists>room\<in>set (rooms (data s3)). rm_id room = m \<and> rm_property_id room = p \<and> rm_room_type_id room = Some (RoomTypeID inp)"
    using room by (auto simp: ret_def free_room_def split: option.splits dest!: SelectRoomForAutoPin_returned)
  from insert_ledger_rows [OF rows [unfolded if_not_P [OF ne]]] obtain new k' where
    t: "data t = (data s4)\<lparr>ledger := ledger (data s4) @ new, uuid_next := k'\<rparr>" "cur_property t = cur_property s4"
    and new: "list_all (sold_row p m r (i_id ri)) new" "map l_date new = DatesToPGDates ?dates" by blast
  have "data t = (data s)\<lparr>items := items (data s) @ [ri], ledger := ledger (data s) @ new, uuid_next := k'\<rparr>"
    "cur_property t = cur_property s" "rooms (data s3) = rooms (data s)"
    using t s4 s3 s2 by (simp_all add: unchanged_def)
  moreover have "booked_as (rooms (data s3)) p r (snd initial) inp ri new"
    using ri m new ne unfolding booked_as_def nights_nonempty DatesToPGDates_NightsBetween by blast
  ultimately show ?thesis by auto
qed

abbreviation all_booked ::
  "InventoryRoom list \<Rightarrow> uuid \<Rightarrow> uuid \<Rightarrow> ItemStatus \<Rightarrow> CreateItemInput list
   \<Rightarrow> (OperationsReservationItem \<times> InventoryRoomInventoryLedger list) list \<Rightarrow> bool" where
  "all_booked rms p r st \<equiv> list_all2 (\<lambda>inp b. booked_as rms p r st inp (fst b) (snd b))"

lemma insertAllItems_books:
  assumes "for_each (\<lambda>item. insertSingleItem E item initial p r) xs s = (Inr ys, t)"
  shows "\<exists>bs k. data t = (data s)\<lparr>items := items (data s) @ map fst bs,
      ledger := ledger (data s) @ concat (map snd bs), uuid_next := k\<rparr>
    \<and> all_booked (rooms (data s)) p r (snd initial) xs bs \<and> cur_property t = cur_property s"
  using assms
proof (induction xs arbitrary: s ys)
  case Nil
  then show ?case by (intro exI [of _ "[]"] exI [of _ "uuid_next (data s)"]) (simp add: ret_def)
next
  case (Cons inp xs)
  from Cons.prems obtain x s1 ys' where one: "insertSingleItem E inp initial p r s = (Inr x, s1)"
    and rest: "for_each (\<lambda>item. insertSingleItem E item initial p r) xs s1 = (Inr ys', t)"
    by (auto simp: act_returns)
  from insertSingleItem_books [OF one] obtain i rows k where
    s1: "data s1 = (data s)\<lparr>items := items (data s) @ [i], ledger := ledger (data s) @ rows, uuid_next := k\<rparr>"
    "cur_property s1 = cur_property s" and i: "booked_as (rooms (data s)) p r (snd initial) inp i rows" by blast
  from Cons.IH [OF rest] obtain bs k' where
    t: "data t = (data s1)\<lparr>items := items (data s1) @ map fst bs, ledger := ledger (data s1) @ concat (map snd bs), uuid_next := k'\<rparr>"
    "cur_property t = cur_property s1" and bs: "all_booked (rooms (data s1)) p r (snd initial) xs bs" by blast
  have "data t = (data s)\<lparr>items := items (data s) @ map fst ((i, rows) # bs),
      ledger := ledger (data s) @ concat (map snd ((i, rows) # bs)), uuid_next := k'\<rparr>"
    "all_booked (rooms (data s)) p r (snd initial) (inp # xs) ((i, rows) # bs)" "cur_property t = cur_property s"
    using t s1 i bs by simp_all
  then show ?case by blast
qed

section \<open>Creating a reservation\<close>

lemma resolvePrimaryGuest_tables:
  assumes "resolvePrimaryGuest E input p s = (Inr g, t)"
  shows "tables (data t) = tables (data s)"
  using assms by (auto simp: resolvePrimaryGuest_def act_returns tables_def split: option.splits dest!: CreateGuest_returned)

lemma checkArrivals_tables: "checkArrivals E c input s = (Inr u, t) \<Longrightarrow> tables (data t) = tables (data s)"
  by (auto simp: checkArrivals_def act_returns tables_def unchanged_def Let_def split: option.splits
      dest!: GetPropertyTimezone_returned)

lemma tail_tables:
  "preserves (\<lambda>s. tables (data s) = X) (notifyReservationChange a u)"
  "preserves (\<lambda>s. tables (data s) = X) (attempt (Enqueue E ty pay))"
  "preserves (\<lambda>s. tables (data s) = X) (expandInclude E resp flags p r g)"
  unfolding notifyReservationChange_def Enqueue_def EnqueueAt_def expandInclude_def expandInclude_with_def
  by (intro keeps_tables)+

lemma createReservationInTx_books:
  assumes "createReservationInTx E c input initial flags s = (Inr x, t)"
  shows "\<exists>r bs. reservations (data t) = reservations (data s) @ [r] \<and> items (data t) = items (data s) @ map fst bs
    \<and> ledger (data t) = ledger (data s) @ concat (map snd bs) \<and> rooms (data t) = rooms (data s)
    \<and> all_booked (rooms (data s)) (GetPropertyIDFromCtx c) (r_id r) (snd initial) (Items input) bs
    \<and> r_property_id r = GetPropertyIDFromCtx c \<and> r_source r = Source input \<and> r_version r = 1 \<and> r_status r = fst initial
    \<and> r_expires_at r = map_option pg_ts (computeExpiresAt (Source input) (fst initial) (app_now E))"
proof -
  obtain lo up where env: "computeEnvelope (Items input) = (lo, up)" by fastforce
  let ?p = "GetPropertyIDFromCtx c"
  from assms obtain g s1 r s2 ys s3 where
    guest: "resolvePrimaryGuest E input ?p s = (Inr g, s1)"
    and res: "CreateReservation E \<lparr>cr_PropertyID = ?p, cr_PrimaryGuestID = PtrUUID g,
         cr_StayPeriodEnvelope = ToRange lo up, cr_Source = Source input, cr_Notes = empty_null (Notes input),
         cr_Status = fst initial, cr_ExpiresAt = computeExpiresAt (Source input) (fst initial) (app_now E)\<rparr> s1 = (Inr r, s2)"
    and its: "for_each (\<lambda>item. insertSingleItem E item initial ?p (r_id r)) (Items input) s2 = (Inr ys, s3)"
    and rest: "bnd (notifyReservationChange ''created'' (r_id r)) (\<lambda>_.
         bnd (if fst initial \<noteq> StatusHold
              then bnd (attempt (Enqueue E EventConfirmationEmail (confirmationEmailPayload (uuid_text (r_id r))))) (\<lambda>_. ret ())
              else ret ()) (\<lambda>_.
         let response = reservationToResponse r;
             response = (if IncludeItems flags then response\<lparr>rr_Items := ys\<rparr> else response)
         in expandInclude E response flags ?p (r_id r) g)) s3 = (Inr x, t)"
    by (auto simp: createReservationInTx_def insertAllItems_def Let_def env bnd_returns_iff)
  have "tables (data t) = tables (data s3)"
    using rest by (rule tables_kept) (intro pres_intros tail_tables)
  moreover from insertAllItems_books [OF its] obtain bs k where
    "data s3 = (data s2)\<lparr>items := items (data s2) @ map fst bs, ledger := ledger (data s2) @ concat (map snd bs), uuid_next := k\<rparr>"
    "all_booked (rooms (data s2)) ?p (r_id r) (snd initial) (Items input) bs" by blast
  moreover from CreateReservation_returned [OF res] obtain q k where
    "data s2 = (data s1)\<lparr>reservations := reservations (data s1) @ [r], sequences := q, uuid_next := k\<rparr>"
    "r_property_id r = ?p" "r_source r = Source input" "r_version r = 1" "r_status r = fst initial"
    "r_expires_at r = map_option pg_ts (computeExpiresAt (Source input) (fst initial) (app_now E))" by auto
  moreover have "tables (data s1) = tables (data s)" using guest by (rule resolvePrimaryGuest_tables)
  ultimately show ?thesis by (intro exI [of _ r] exI [of _ bs]) (simp add: tables_def)
qed

lemma framed_createReservationTx: "framed (createReservationTx E c input initial flags)"
  unfolding framed_def by (intro allI frame.keeps_createReservationTx)

definition initial_status :: "CreateReservationInput \<Rightarrow> ReservationStatus \<times> ItemStatus" where
  "initial_status input =
     (if Source input = SourceInternal \<and> IsWalkin input then (StatusCheckedIn, ItemStatusCheckedIn)
      else if Source input = SourceOTA then (StatusConfirmed, ItemStatusBooked)
      else (StatusHold, ItemStatusBooked))"

lemma invalidation_pool:
  assumes "invalidateAvailabilityAfterCreate p input s = (x, t)"
  shows "pool t = pool s"
  using committedD [OF committed_invalidate, of "\<lambda>d. d = pool s" s p input] assms by simp

lemma creation_run:
  assumes "CreateReservation_svc E c input flags s = (Inr resp, t)"
  obtains s1 where "ExecuteTx c (createReservationTx E c input (initial_status input) flags) s = (Inr resp, s1)"
    "invalidateAvailabilityAfterCreate (GetPropertyIDFromCtx c) input s1 = (Inr (), t)"
proof -
  from assms obtain initial0 where src: "SourceToInitialStatus (Source input) = Some initial0"
    by (cases "SourceToInitialStatus (Source input)") (simp_all add: CreateReservation_svc_def throw_def)
  have init: "(if SourceIsWalkin (Source input) (IsWalkin input) then (StatusCheckedIn, ItemStatusCheckedIn) else initial0)
      = initial_status input"
    using src by (cases "Source input") (auto simp: SourceToInitialStatus_def SourceIsWalkin_def initial_status_def)
  from assms that show thesis
    by (auto simp: CreateReservation_svc_def src Let_def init act_returns split: option.splits)
qed

lemma creation_books:
  assumes "ExecuteTx c (createReservationTx E c input initial flags) s = (Inr x, s1)"
  shows "redis s1 = redis s \<and> rooms (pool s1) = rooms (pool s)
    \<and> (\<exists>r bs. reservations (pool s1) = reservations (pool s) @ [r] \<and> items (pool s1) = items (pool s) @ map fst bs
      \<and> ledger (pool s1) = ledger (pool s) @ concat (map snd bs)
      \<and> all_booked (rooms (pool s)) (GetPropertyIDFromCtx c) (r_id r) (snd initial) (Items input) bs
      \<and> r_property_id r = GetPropertyIDFromCtx c \<and> r_source r = Source input \<and> r_version r = 1 \<and> r_status r = fst initial
      \<and> r_expires_at r = map_option pg_ts (computeExpiresAt (Source input) (fst initial) (app_now E)))"
proof -
  from ExecuteTx_returns [OF framed_createReservationTx assms] obtain u u' where
    body: "createReservationTx E c input initial flags u = (Inr x, u')" "data u = pool s" "pool s1 = data u'" "redis s1 = redis s" .
  then obtain v where "createReservationInTx E c input initial flags v = (Inr x, u')" and v: "tables (data v) = tables (data u)"
    by (auto simp: createReservationTx_def act_returns split: if_splits dest: checkArrivals_tables)
  from createReservationInTx_books [OF this(1)] v body(2-) show ?thesis by (auto simp: tables_def)
qed


section \<open>Cancelling a reservation\<close>

definition cancelled_item :: "env \<Rightarrow> OperationsReservationItem \<Rightarrow> OperationsReservationItem" where
  "cancelled_item E i = i\<lparr>i_status := ItemStatusCancelled, i_deleted_at := Some (pg_now E), i_version := i_version i + 1\<rparr>"

lemma hits_of_the_property:
  "(sees E (Some p) (i_property_id i) \<and> cancel_hit r p i) = cancel_hit r p i"
  "(sees E (Some p) (l_property_id l) \<and> l_reservation_id l = Some r \<and> l_property_id l = p)
     = (l_reservation_id l = Some r \<and> l_property_id l = p)"
  by (auto simp: cancel_hit_def)

lemma one_row_updated:
  assumes "inj_on key (set xs)" "filter (\<lambda>x. P x \<and> key x = k) xs \<noteq> []" "y \<in> set xs" "key y = k"
  shows "P y"
  using assms by (auto simp: filter_empty_conv inj_on_def)

lemma framed_cancelReservationTx: "framed (cancelReservationTx E c u ci)"
  unfolding framed_def by (intro allI frame.keeps_lifecycle)

lemma cancelReservationTx_effect:
  assumes run: "cancelReservationTx E c u ci s = (Inr x, t)" and cur: "cur_property s = Some (GetPropertyIDFromCtx c)"
    and ok: "schema_ok (data s)"
  defines "p \<equiv> GetPropertyIDFromCtx c"
  shows "\<exists>r\<in>set (reservations (data s)). r_id r = u \<and> r_version r = GetIfMatchVersion c
      \<and> r_status r \<in> {StatusHold, StatusConfirmed}
      \<and> updated_status E StatusCancelled r \<in> set (reservations (data t))"
    and "ledger (data t) = filter (\<lambda>l. \<not> (l_reservation_id l = Some u \<and> l_property_id l = p)) (ledger (data s))"
    and "items (data t) = map (\<lambda>i. if cancel_hit u p i then cancelled_item E i else i) (items (data s))"
    and "\<not> (\<exists>i\<in>set (items (data s)). i_reservation_id i = u \<and> i_property_id i = p
           \<and> i_deleted_at i = None \<and> i_status i = ItemStatusCheckedIn)"
proof -
  from run obtain res s1 its s2 s3 s4 n s5 upd s6 s7 where
    g: "GetReservation E u s = (Inr res, s1)"
    and v: "ValidateReservationTransition (r_status res) StatusCancelled = None"
    and i: "GetReservationItems E u p s1 = (Inr its, s2)"
    and none: "find (\<lambda>i. i_status i = ItemStatusCheckedIn) its = None"
    and c: "CancelReservationItems E u p s2 = (Inr (), s3)"
    and d: "DeleteLedgerForReservation E u p s3 = (Inr (), s4)"
    and st: "UpdateReservationStatus E u (GetIfMatchVersion c) StatusCancelled s4 = (Inr n, s5)" "n \<noteq> 0"
    and g2: "GetReservation E u s5 = (Inr upd, s6)"
    and no: "notifyReservationChange ''cancelled'' u s6 = (Inr (), t)"
    unfolding cancelReservationTx_def Let_def p_def
    by (auto simp: act_returns require_transition_def split: option.splits)
  note s1 = GetReservation_returned [OF g] and s2 = GetReservationItems_returned [OF i]
    and s3 = CancelReservationItems_returned [OF c] and s4 = DeleteLedgerForReservation_returned [OF d]
    and s5 = UpdateReservationStatus_returned [OF st(1)] and s6 = GetReservation_returned [OF g2]
    and s7 = NotifyChannel_returned [OF no [unfolded notifyReservationChange_def]]
  have cur2: "cur_property s2 = Some p" "cur_property s3 = Some p" "cur_property s4 = Some p"
    and same: "data s1 = data s" "data s2 = data s" "data s6 = data s5" "cur_property s = Some p"
    using cur s1 s2 s3 s4 s6 by (simp_all add: unchanged_def p_def)
  have d3: "data s3 = (data s)\<lparr>items := map (\<lambda>i. if cancel_hit u p i then cancelled_item E i else i) (items (data s))\<rparr>"
    using s3 unfolding cur2 same hits_of_the_property cancelled_item_def by blast
  have d4: "data s4 = (data s3)\<lparr>ledger := filter (\<lambda>l. \<not> (l_reservation_id l = Some u \<and> l_property_id l = p)) (ledger (data s3))\<rparr>"
    using s4 unfolding cur2 hits_of_the_property by blast
  show "ledger (data t) = filter (\<lambda>l. \<not> (l_reservation_id l = Some u \<and> l_property_id l = p)) (ledger (data s))"
    "items (data t) = map (\<lambda>i. if cancel_hit u p i then cancelled_item E i else i) (items (data s))"
    using s5 s7 by (simp_all add: same d3 d4)
  show "\<not> (\<exists>i\<in>set (items (data s)). i_reservation_id i = u \<and> i_property_id i = p
           \<and> i_deleted_at i = None \<and> i_status i = ItemStatusCheckedIn)"
    using s1 s2 none same by (auto simp: unchanged_def find_None_iff)
  have rows: "reservations (data s4) = reservations (data s)" "reservations (data t) = reservations (data s5)"
    using s7 by (simp_all add: same d3 d4)
  from st(2) s5 have hit: "filter (\<lambda>r. (sees E (Some p) (r_property_id r) \<and> r_version r = GetIfMatchVersion c) \<and> r_id r = u)
      (reservations (data s)) \<noteq> []"
    using rows(1) cur2 by (auto simp: filter_empty_conv)
  have "sees E (Some p) (r_property_id res) \<and> r_version res = GetIfMatchVersion c"
    by (rule one_row_updated [OF schema_row_ids(1) [OF ok] hit]) (use s1 in auto)
  moreover have "r_status res \<in> {StatusHold, StatusConfirmed}"
    using v reservation_step_iff [of "r_status res" StatusCancelled] by (auto simp: reservation_step_def)
  ultimately show "\<exists>r\<in>set (reservations (data s)). r_id r = u \<and> r_version r = GetIfMatchVersion c
      \<and> r_status r \<in> {StatusHold, StatusConfirmed} \<and> updated_status E StatusCancelled r \<in> set (reservations (data t))"
    using s1 s5 rows cur2 by (intro bexI [of _ res]) auto
qed

text \<open>C7. Cancelling a reservation frees its rooms and nothing else: when the request returns, the reservation
  was on hold or confirmed with exactly the version of the \<open>If-Match\<close> header and no live item of it
  was checked in; it is now cancelled with the next version, no ledger row of it is left while every other
  ledger row is, and exactly its items that were not already checked out, cancelled or archived are
  cancelled and soft-deleted.\<close>

theorem cancel_frees_the_rooms:
  assumes "CancelReservation E c u ci s = (Inr x, t)" and "schema_ok (pool s)"
  shows "(\<exists>r\<in>set (reservations (pool s)). r_id r = u \<and> r_version r = GetIfMatchVersion c
        \<and> r_status r \<in> {StatusHold, StatusConfirmed}
        \<and> updated_status E StatusCancelled r \<in> set (reservations (pool t)))
    \<and> ledger (pool t) = filter (\<lambda>l. \<not> (l_reservation_id l = Some u \<and> l_property_id l = GetPropertyIDFromCtx c)) (ledger (pool s))
    \<and> items (pool t) = map (\<lambda>i. if cancel_hit u (GetPropertyIDFromCtx c) i then cancelled_item E i else i) (items (pool s))
    \<and> \<not> (\<exists>i\<in>set (items (pool s)). i_reservation_id i = u \<and> i_property_id i = GetPropertyIDFromCtx c
           \<and> i_deleted_at i = None \<and> i_status i = ItemStatusCheckedIn)"
proof -
  from assms(1) have "ExecuteTx c (cancelReservationTx E c u ci) s = (Inr x, t)"
    by (auto simp: CancelReservation_def in_property_tx_def act_returns)
  with framed_cancelReservationTx obtain v w where "cancelReservationTx E c u ci v = (Inr x, w)" "data v = pool s"
    "cur_property v = Some (GetPropertyIDFromCtx c)" "pool t = data w" by (rule ExecuteTx_returns)
  with assms(2) cancelReservationTx_effect [of E c u ci v x w] show ?thesis by simp
qed

end
