(* ===== verification/Sweeps.thy ===== *)
theory Sweeps
  imports Inventory
begin

text \<open>
  The background sweeps: what a worker transaction commits, and that a sweep acts only on rows that are
  still as it read them.
\<close>

section \<open>The sweeps act on what they have read\<close>

lemma worker_tx_commits:
  assumes "framed body" "pool (snd (worker_tx p body s)) \<noteq> pool s"
  obtains v w where "body v = (Inr CommitIt, w)" "data v = pool s" "cur_property v = Some p"
    "pool (snd (worker_tx p body s)) = data w"
proof -
  let ?b = "bnd (map_err (Wrap ''set rls: '') (SetCurrentPropertyID p)) (\<lambda>_. body)"
  obtain b s1 where b: "BeginTx s = (b, s1)" by fastforce
  with assms(2) obtain u where u: "b = Inr u"
    by (cases b) (auto simp: worker_tx_def dest: BeginTx_fails)
  from BeginTx_returns b u obtain fs where
    s1: "s1 = s\<lparr>faults := fs, snapshot := pool s, data := pool s, cur_property := None, aborted := None\<rparr>" by blast
  obtain r s2 where f: "?b s1 = (r, s2)" by fastforce
  have "preserves (tx_frame (pool s) (redis s)) ?b"
    by (intro pres_intros tx_frame_SetCurrentPropertyID framed_tx_frame assms(1))
  moreover have "tx_frame (pool s) (redis s) s1" using s1 by (simp add: tx_frame_def)
  ultimately have fr: "tx_frame (pool s) (redis s) s2" using f by (rule preservesD)
  have popped: "pool (snd (pop_fault s2)) = pool s"
    using fr by (cases "pop_fault s2") (simp add: pop_fault_fields tx_frame_def)
  obtain co s3 where co: "Commit s2 = (co, s3)" by fastforce
  from assms(2) b u f popped co have r: "r = Inr CommitIt"
    by (cases r) (auto simp: worker_tx_def split: outcome.splits)
  with assms(2) b u f co fr obtain y where y: "co = Inr y"
    by (cases co) (auto simp: worker_tx_def tx_frame_def dest: Commit_fails)
  with Commit_returns [OF co [unfolded y] fr] have "pool s3 = data s2" by simp
  moreover from f r obtain v where "SetCurrentPropertyID p s1 = (Inr (), v)" "body v = (Inr CommitIt, s2)"
    by (auto simp: act_returns)
  ultimately show thesis
    using that [of v s2] SetCurrentPropertyID_returns [of p s1 "()" v] s1 b u f r co y by (auto simp: worker_tx_def)
qed

lemma notify_action_returns: "notify_action fs s = (Inr u, t) \<Longrightarrow> tables (data t) = tables (data s)"
  unfolding notify_action_def by (erule tables_kept) (intro keeps_tables)

lemma framed_worker_bodies:
  "framed (cancelHold_body E res)" "framed (markOverstay_body E item)" "framed (archiveReservation_body E res)"
  unfolding framed_def by (intro allI frame.keeps_worker_bodies)+

lemma updated_rows_exist:
  "n = int (length (filter P xs)) \<Longrightarrow> n \<noteq> 0 \<Longrightarrow> \<exists>x\<in>set xs. P x"
  by (auto simp: filter_empty_conv)

lemma status_written:
  assumes "UpdateReservationStatus E u v st s = (Inr n, t)" "n \<noteq> 0"
  shows "\<exists>r\<in>set (reservations (data s)). r_id r = u \<and> r_version r = v"
  using UpdateReservationStatus_returned [OF assms(1)] updated_rows_exist assms(2) by blast

lemma cancelHold_commits:
  assumes "cancelHold_body E res s = (Inr CommitIt, t)"
  shows "\<exists>r\<in>set (reservations (data s)). r_id r = r_id res \<and> r_version r = r_version res"
proof -
  from assms obtain s1 s2 n s3 where "CancelReservationItems E (r_id res) (r_property_id res) s = (Inr (), s1)"
    "DeleteLedgerForReservation E (r_id res) (r_property_id res) s1 = (Inr (), s2)"
    "UpdateReservationStatus E (r_id res) (r_version res) StatusCancelled s2 = (Inr n, s3)" "n \<noteq> 0"
    by (auto simp: cancelHold_body_def act_returns split: if_splits)
  then show ?thesis
    using status_written CancelReservationItems_returned DeleteLedgerForReservation_returned by fastforce
qed

lemma archive_commits:
  assumes "archiveReservation_body E res s = (Inr CommitIt, t)"
  shows "\<exists>r\<in>set (reservations (data s)). r_id r = r_id res \<and> r_version r = r_version res"
proof -
  from assms obtain s1 n s2 where d: "SoftDeleteItems E (r_id res) s = (Inr (), s1)"
    and "UpdateReservationStatus E (r_id res) (r_version res) StatusArchived s1 = (Inr n, s2)" "n \<noteq> 0"
    by (auto simp: archiveReservation_body_def act_returns split: if_splits)
  moreover have "reservations (data s1) = reservations (data s)"
    using query_returns [OF d [unfolded SoftDeleteItems_def Let_def]] by (auto simp: checked_iff split: if_splits)
  ultimately show ?thesis using status_written by metis
qed

lemma overstay_commits:
  assumes "markOverstay_body E item s = (Inr CommitIt, t)"
  shows "\<exists>i\<in>set (items (data s)). i_id i = i_id item \<and> i_version i = i_version item"
proof -
  have reads: "unchanged s s1" if "SelectItemStatusForUpdate E (i_id item) s = (Inr st, s1)" for st s1
    using query_returns [OF that [unfolded SelectItemStatusForUpdate_def]] by (auto simp: one_row_iff unchanged_def)
  obtain r s1 where r: "SelectItemStatusForUpdate E (i_id item) s = (r, s1)" by fastforce
  obtain x s2 where "isl r = False" and
    "UpdateReservationItem E ((with_status item (i_version item) ItemStatusOverstay)\<lparr>ui_BookedRoomTypeID := Some (i_room_type_id item)\<rparr>) s1 = (Inr x, s2)"
    using assms r by (cases r) (auto simp: markOverstay_body_def act_returns split: if_splits)
  with reads r UpdateReservationItem_returned [of E _ s1 x s2] show ?thesis
    by (cases r) (fastforce simp: with_status_def unchanged_def)+
qed


end
