(* ===== verification/Gaps.thy ===== *)
theory Gaps
  imports Sweeps
begin

text \<open>
  Where the program does not do what its documentation says: each section proves one such behaviour.
\<close>

section \<open>Reads without a property\<close>

lemma never_returns: "(\<And>x t. m s \<noteq> (Inr x, t)) \<Longrightarrow> isl (fst (m s))"
  by (cases "m s"; cases "fst (m s)") auto

lemma no_property_no_rows: "auto_commit (query (with_rls E) f) s \<noteq> (Inr x, t)"
proof
  assume "auto_commit (query (with_rls E) f) s = (Inr x, t)"
  then obtain u where "query (with_rls E) f (s\<lparr>snapshot := pool s, data := pool s, cur_property := None, aborted := None\<rparr>) = (Inr x, u)"
    by (auto simp: auto_commit_def split: prod.splits sum.splits)
  from run_stmt_returns [OF this [unfolded query_def]] show False
    by (auto simp: rls_view_def)
qed

lemma no_timezone: "GetPropertyTimezone (with_rls E) p s \<noteq> (Inr x, t)"
  unfolding GetPropertyTimezone_def using run_stmt_returns by fastforce

lemma no_booking: "createReservationTx (with_rls E) c (input\<lparr>IsWalkin := False\<rparr>) initial flags s \<noteq> (Inr x, t)"
  by (simp add: createReservationTx_def SourceIsWalkin_def checkArrivals_def bnd_returns_iff no_timezone)

text \<open>C19. With the row-level security the migrations force on every table, no reservation can be fetched and no
  reservation other than a walk-in can be created: \<open>GetReservation\<close> queries the pool, where the property
  setting of the policies is never set, and \<open>CreateReservation\<close> reads the time zone from
  \<open>operations.properties\<close>, whose policy needs a licence setting that no code sets.\<close>

theorem rls_blocks_reads_and_bookings:
  "isl (fst (GetReservation_svc (E\<lparr>enforce_rls := True\<rparr>) c u flags s))
   \<and> isl (fst (CreateReservation_svc (E\<lparr>enforce_rls := True\<rparr>) c (input\<lparr>IsWalkin := False\<rparr>) flags s))"
proof (intro conjI never_returns)
  fix x t
  show "GetReservation_svc (with_rls E) c u flags s \<noteq> (Inr x, t)"
    unfolding GetReservation_svc_def GetReservation_def
    by (auto simp: Let_def act_returns no_property_no_rows split: sum.splits)
  have "ExecuteTx c (createReservationTx (with_rls E) c (input\<lparr>IsWalkin := False\<rparr>) initial flags) s \<noteq> (Inr y, v)" for initial y v
    using ExecuteTx_returns [OF framed_createReservationTx] no_booking by metis
  then show "CreateReservation_svc (with_rls E) c (input\<lparr>IsWalkin := False\<rparr>) flags s \<noteq> (Inr x, t)"
    by (auto simp: CreateReservation_svc_def Let_def act_returns SourceIsWalkin_def split: option.splits)
qed

section \<open>The rollup is not wired in\<close>

interpretation reservations_session: session_invariant "in_tx (\<lambda>d. reservations d = R) p" for R p
  by unfold_locales (simp_all add: in_tx_def)

lemma keeps_reservations:
  "preserves (in_tx (\<lambda>d. reservations d = R) p) (UpdateReservationItem E a)"
  "preserves (in_tx (\<lambda>d. reservations d = R) p) (DeleteLedgerRowsByItem E i q)"
  "preserves (in_tx (\<lambda>d. reservations d = R) p) (DeleteLedgerRowsByItemFromDate E i q x)"
  unfolding UpdateReservationItem_def DeleteLedgerRowsByItem_def DeleteLedgerRowsByItemFromDate_def Let_def
  by (rule reservations_session.preserves_query;
      auto simp: in_tx_def split: if_splits sum.splits list.splits dest!: checked_ok)+

lemma reservations_kept:
  "preserves (committed (\<lambda>d. reservations d = reservations (pool s))) m \<Longrightarrow> reservations (pool (snd (m s))) = reservations (pool s)"
  by (simp add: preserves_def committed_def)

lemmas item_only = pres_intros reservations_session.preserves_reads keeps_reservations

text \<open>C20. Checking in, checking out, cancelling an item and marking a no-show never change a reservation,
  whatever the statuses of its items become: \<open>rollupAndNotify\<close> is a stub, so the status rollup of
  ADR-009 is computed by no request.\<close>

theorem checkin_and_checkout_leave_the_reservation:
  "reservations (pool (snd (CheckinReservation E c u s))) = reservations (pool s)
   \<and> reservations (pool (snd (CheckoutReservation E c u s))) = reservations (pool s)
   \<and> reservations (pool (snd (CheckinItem E c u s))) = reservations (pool s)
   \<and> reservations (pool (snd (CheckoutItem E c u s))) = reservations (pool s)
   \<and> reservations (pool (snd (CancelItem E c u ci s))) = reservations (pool s)
   \<and> reservations (pool (snd (MarkNoShow E c u s))) = reservations (pool s)"
proof -
  let ?J = "\<lambda>d. reservations d = reservations (pool s)"
  have batch: "preserves (in_tx ?J p) (checkin_one E i)" "preserves (in_tx ?J p) (checkout_one E i)" for p i
    unfolding checkin_one_def checkout_one_def by (intro item_only)+
  have "preserves (committed ?J) (CheckinReservation E c u)" "preserves (committed ?J) (CheckoutReservation E c u)"
    "preserves (committed ?J) (CheckinItem E c u)" "preserves (committed ?J) (CheckoutItem E c u)"
    "preserves (committed ?J) (CancelItem E c u ci)" "preserves (committed ?J) (MarkNoShow E c u)"
    unfolding CheckinReservation_def CheckoutReservation_def CheckinItem_def CheckoutItem_def CancelItem_def
      MarkNoShow_def checkinReservationTx_def checkoutReservationTx_def checkinItemTx_def checkoutItemTx_def
      cancelItemTx_def markNoShowTx_def Let_def
    by (intro committed_in_property_tx item_only batch)+
  then show ?thesis by (simp add: reservations_kept)
qed

section \<open>Arriving later\<close>

lemma NightsBetween_first:
  "day_of a < day_of d \<Longrightarrow> NightsBetween a d = day_of a * day_ns # NightsBetween ((day_of a + 1) * day_ns) d"
  by (simp add: NightsBetween_upto upto_rec1)

lemma removed_leading_nights:
  assumes "iso_stay a d" "day_of a < day_of a'" "day_of a' < day_of d"
  shows "AddedDates (NightsBetween a d) (NightsBetween a' d) = []"
    and "RemovedDates (NightsBetween a d) (NightsBetween a' d) \<noteq> []"
    and "day_of (hd (RemovedDates (NightsBetween a d) (NightsBetween a' d))) = day_of a"
proof -
  have iso: "iso_stay a' d" using assms by (simp add: iso_stay_def)
  show "AddedDates (NightsBetween a d) (NightsBetween a' d) = []"
    using assms by (auto simp: AddedDates_RemovedDates RemovedDates_iso [OF iso assms(1)] filter_empty_conv set_NightsBetween)
  have first: "day_of a * day_ns \<notin> set (NightsBetween a' d)" "day_of (day_of a * day_ns) = day_of a"
    using assms by (simp_all add: set_NightsBetween)
  have rem: "RemovedDates (NightsBetween a d) (NightsBetween a' d) =
      day_of a * day_ns # filter (\<lambda>t. t \<notin> set (NightsBetween a' d)) (NightsBetween ((day_of a + 1) * day_ns) d)"
    unfolding RemovedDates_iso [OF assms(1) iso] using assms first by (subst NightsBetween_first) simp_all
  show "RemovedDates (NightsBetween a d) (NightsBetween a' d) \<noteq> []"
    "day_of (hd (RemovedDates (NightsBetween a d) (NightsBetween a' d))) = day_of a"
    using first by (simp_all add: rem)
qed

text \<open>C23. Moving the arrival of a stay to a later day, with the departure unchanged, deletes every ledger row
  of the item from the old arrival on: \<open>UpdateItem\<close> deletes from the first removed night, and the
  nights that remain in the stay are no longer marked as sold.\<close>

theorem later_arrival_drops_kept_nights:
  assumes "iso_stay a d" and "day_of a < day_of a'" and "day_of a' < day_of d"
    and "move_ledger E u item p (NightsBetween a d) (NightsBetween a' d) m plan s = (Inr x, t)"
    and "cur_property s = Some p"
  shows "NightsBetween a' d \<noteq> []
    \<and> \<not> (\<exists>l\<in>set (ledger (data t)). l_item_id l = Some u \<and> l_property_id l = p \<and> day_of a \<le> l_date l)"
proof -
  note r = removed_leading_nights [OF assms(1-3)]
  from assms(4) have "DeleteLedgerRowsByItemFromDate E u p (day_of a) s = (Inr x, t)"
    by (simp add: move_ledger_def Let_def r)
  from DeleteLedgerRowsByItemFromDate_returned [OF this] assms(3,5) show ?thesis
    by (auto simp: nights_nonempty)
qed

text \<open>The rollup written in SQL never answers, whatever the items of the reservation are.\<close>

lemma rollup_query_fails: "RollupReservationStatus_sql E r s \<noteq> (Inr x, t)"
proof
  assume "RollupReservationStatus_sql E r s = (Inr x, t)"
  then show False unfolding RollupReservationStatus_sql_def by (auto dest: query_returns)
qed

end
