(* ===== verification/Examples.thy ===== *)
theory Examples
  imports Gaps
begin

text \<open>
  Runs of the services on the demo hotel: the inputs at which the theorems with hypotheses are
  exercised.
\<close>

section \<open>Creating a reservation\<close>

definition demo_input :: CreateReservationInput where
  "demo_input = \<lparr>Source = SourceOTA, IsWalkin = False, PrimaryGuestID = Some 7, Guest = None, Notes = [],
     Items = [\<lparr>RoomTypeID = 2, AssignedRoomID = None, ArrivalDate = 10 * day_ns,
       DepartureDate = 12 * day_ns, RatePlanID = None, AdultsCount = 2, ChildrenCount = 0\<rparr>]\<rparr>"

definition demo_flags :: IncludeFlags where
  "demo_flags = \<lparr>inc_Items = False, inc_Guest = False, inc_FolioSummary = False, inc_None = False\<rparr>"

definition new_reservation :: OperationsReservation where
  "new_reservation = \<lparr>r_id = 1000, r_property_id = 1, r_primary_guest_id = 7, r_sequential = 2,
     r_code = ''RES-000002'', r_source = SourceOTA, r_notes = None, r_status = StatusConfirmed,
     r_envelope = ToRange (10 * day_ns) (12 * day_ns), r_version = 1, r_created_at = 5 * day_ns,
     r_updated_at = 5 * day_ns, r_deleted_at = None, r_expires_at = None\<rparr>"

definition new_item :: OperationsReservationItem where
  "new_item = \<lparr>i_id = 1001, i_property_id = 1, i_reservation_id = 1000, i_room_type_id = 2,
     i_assigned_room_id = None, i_guest_id = None, i_rate_plan_id = None,
     i_stay_period = ToRange (10 * day_ns) (12 * day_ns), i_do_not_move = False,
     i_base_rate_pence = 10000, i_adults_count = 2, i_children_count = 0, i_status = ItemStatusBooked,
     i_version = 1, i_created_at = 5 * day_ns, i_updated_at = 5 * day_ns, i_deleted_at = None\<rparr>"

definition new_row :: "uuid \<Rightarrow> date \<Rightarrow> InventoryRoomInventoryLedger" where
  "new_row u x = \<lparr>l_id = u, l_property_id = 1, l_room_id = 4, l_reservation_id = Some 1000,
     l_item_id = Some 1001, l_block_id = None, l_date = x, l_status = Sold, l_deleted_at = None\<rparr>"

definition create_db1 :: db where
  "create_db1 = demo_db\<lparr>reservations := [demo_reservation, new_reservation], sequences := [(1, 3)], uuid_next := 1\<rparr>"
definition create_db2 :: db where "create_db2 = create_db1\<lparr>items := [demo_item, new_item], uuid_next := 2\<rparr>"
definition create_db3 :: db where
  "create_db3 = create_db2\<lparr>ledger := [demo_ledger 40 10, demo_ledger 41 11, new_row 1002 10, new_row 1003 11], uuid_next := 4\<rparr>"

lemmas new_defs = new_reservation_def new_item_def new_row_def create_db1_def create_db2_def create_db3_def

lemma new_schemas: "schema_ok create_db1" "schema_ok create_db2" "schema_ok create_db3"
  by (simp_all add: schema_defs demo_defs new_defs ToRange_def day_ns_def)

lemma demo_range: "pg_range (ToRange (10 * day_ns) (12 * day_ns)) = Inr (ToRange (10 * day_ns) (12 * day_ns))"
  by (simp add: pg_range_def ToRange_def pg_ts_def truncate_to_def day_ns_def)

lemma demo_nights: "NightsBetween (10 * day_ns) (12 * day_ns) = [10 * day_ns, 11 * day_ns]"
  by (simp add: NightsBetween_def truncate_to_def hour_ns_def day_ns_def nights_loop.simps)

lemma demo_dates: "DatesToPGDates [10 * day_ns, 11 * day_ns] = [10, 11]"
  by (simp add: DatesToPGDates_def day_of_def day_ns_def)

lemma demo_code: "reservation_code 2 = ''RES-000002''"
  by code_simp

lemma demo_create_row: "CreateReservation demo_env \<lparr>cr_PropertyID = 1, cr_PrimaryGuestID = 7,
    cr_StayPeriodEnvelope = ToRange (10 * day_ns) (12 * day_ns), cr_Source = SourceOTA, cr_Notes = None,
    cr_Status = StatusConfirmed, cr_ExpiresAt = None\<rparr> (demo_tx R demo_db) = (Inr new_reservation, demo_tx R create_db1)"
  unfolding CreateReservation_def
proof (rule query_demo)
qed (use new_schemas(1) in \<open>simp add: source_enum_def status_enum_def demo_range in_int64_def next_sequential_def demo_code Let_def
     new_reservation_def create_db1_def demo_env_def demo_db_def checked_iff\<close>)

lemma demo_create_item: "insertSingleItem demo_env (hd (Items demo_input)) (StatusConfirmed, ItemStatusBooked) 1 1000 (demo_tx R create_db1) =
    (Inr (itemToResponse new_item), demo_tx R create_db3)"
proof -
  have "GetRoomTypeOccupancy demo_env 2 1 (demo_tx R create_db1) = (Inr (hd (room_types demo_db)), demo_tx R create_db1)"
    unfolding GetRoomTypeOccupancy_def by (rule query_demo) (simp add: one_row_def create_db1_def demo_db_def)
  moreover have "CreateReservationItem demo_env \<lparr>ci_PropertyID = 1, ci_ReservationID = 1000, ci_BookedRoomTypeID = 2,
      ci_AssignedRoomID = None, ci_GuestID = None, ci_RatePlanID = None,
      ci_StayPeriod = ToRange (10 * day_ns) (12 * day_ns), ci_BaseRatePence = 10000, ci_AdultsCount = 2,
      ci_ChildrenCount = 0, ci_Status = ItemStatusBooked, ci_DoNotMove = False\<rparr> (demo_tx R create_db1) = (Inr new_item, demo_tx R create_db2)"
    unfolding CreateReservationItem_def
  proof (rule query_demo)
  qed (use new_schemas(2) in \<open>simp add: item_status_enum_def demo_range Let_def new_item_def create_db2_def create_db1_def
    demo_env_def demo_db_def checked_iff numeral_2_eq_2\<close>)
  moreover have "SelectRoomForAutoPin demo_env 1 2 [10, 11] (demo_tx R create_db2) = (Inr 4, demo_tx R create_db2)"
    unfolding SelectRoomForAutoPin_def
    by (rule query_demo) (simp add: one_row_def create_db2_def create_db1_def demo_db_def demo_room_def demo_ledger_def demo_env_def blocking_def)
  moreover have "BulkInsertLedgerRows demo_env (ledger_rows 1 4 1000 1001 [10 * day_ns, 11 * day_ns]) (demo_tx R create_db2) = (Inr (), demo_tx R create_db3)"
    unfolding BulkInsertLedgerRows_def
  proof (rule query_demo)
  qed (use new_schemas(3) in \<open>simp add: bulk_row_ledger_rows upt_rec day_of_def day_ns_def demo_env_def create_db3_def new_row_def
     checked_iff create_db2_def create_db1_def demo_db_def\<close>)
  ultimately show ?thesis
    by (simp add: insertSingleItem_def demo_input_def bnd_def map_err_def guard_def ret_def demo_nights demo_dates resolveRates_def demo_db_def new_item_def Let_def in_int32_def)
qed

definition create_db4 :: db where
  "create_db4 = create_db3\<lparr>notifications := [(''reservation_changes'', json_object [(''action'', json_string ''created''), (''reservation_id'', json_string (uuid_text 1000))])]\<rparr>"
definition create_db5 :: db where
  "create_db5 = create_db4\<lparr>outbox := [\<lparr>o_id = 1004, o_event_type = ''smtp.confirmation'', o_payload = confirmationEmailPayload (uuid_text 1000),
          o_status = OutboxPending, o_retry_count = 0, o_last_error = None,
          o_process_at = 5 * day_ns, o_updated_at = 5 * day_ns\<rparr>], uuid_next := 5\<rparr>"

lemma demo_create_notify: "notifyReservationChange ''created'' 1000 (demo_tx R create_db3) = (Inr (), demo_tx R create_db4)"
  unfolding notifyReservationChange_def NotifyChannel_def
  by (rule run_stmt_demo) (simp add: demo_tx_def create_db4_def create_db3_def create_db2_def create_db1_def demo_db_def)

lemma create_schema5: "schema_ok create_db5"
  by (simp add: schema_defs demo_defs new_defs create_db4_def create_db5_def ToRange_def day_ns_def)

lemma demo_create_mail: "Enqueue demo_env EventConfirmationEmail (confirmationEmailPayload (uuid_text 1000)) (demo_tx R create_db4) = (Inr (), demo_tx R create_db5)"
proof -
  have "CreateOutboxEvent demo_env EventConfirmationEmail (confirmationEmailPayload (uuid_text 1000)) (5 * day_ns) (demo_tx R create_db4) = (Inr 1004, demo_tx R create_db5)"
    unfolding CreateOutboxEvent_def
  proof (rule run_stmt_demo)
  qed (use create_schema5 in \<open>simp add: Let_def demo_tx_def demo_env_def EventConfirmationEmail_def checked_iff create_db5_def create_db4_def create_db3_def create_db2_def create_db1_def demo_db_def pg_ts_def truncate_to_def day_ns_def\<close>)
  then show ?thesis by (simp add: Enqueue_def EnqueueAt_def bnd_def map_err_def ret_def demo_env_def)
qed

lemma demo_create_tx: "createReservationTx demo_env demo_ctx demo_input (StatusConfirmed, ItemStatusBooked) demo_flags (demo_tx R demo_db) =
   (Inr (reservationToResponse new_reservation), demo_tx R create_db5)"
proof -
  have "GetPropertyTimezone demo_env 1 (demo_tx R demo_db) = (Inr ''Europe/London'', demo_tx R demo_db)"
    unfolding GetPropertyTimezone_def by (rule run_stmt_demo) (simp add: demo_env_def demo_tx_def demo_db_def one_row_def)
  then have "checkArrivals demo_env demo_ctx demo_input (demo_tx R demo_db) = (Inr (), demo_tx R demo_db)"
    by (simp add: checkArrivals_def demo_ctx_def GetPropertyIDFromCtx_def demo_env_def demo_input_def bnd_def map_err_def guard_def ret_def truncate_to_def day_ns_def)
  moreover have "computeEnvelope (Items demo_input) = (10 * day_ns, 12 * day_ns)"
    by (simp add: computeEnvelope_def demo_input_def)
  moreover have "insertAllItems demo_env demo_input (StatusConfirmed, ItemStatusBooked) 1 1000 (demo_tx R create_db1) = (Inr [itemToResponse new_item], demo_tx R create_db3)"
    using demo_create_item by (simp add: insertAllItems_def demo_input_def bnd_def ret_def)
  moreover have "expandInclude demo_env x demo_flags 1 1000 (Some 7) (demo_tx R d) = (Inr x, demo_tx R d)" for x d
    by (simp add: expandInclude_def expandInclude_with_def demo_flags_def bnd_def ret_def IncludeItems_def)
  moreover note demo_create_row demo_create_notify demo_create_mail
  ultimately show ?thesis
    by (simp add: createReservationTx_def SourceIsWalkin_def demo_input_def createReservationInTx_def bnd_def ret_def map_err_def attempt_def Let_def
       resolvePrimaryGuest_def demo_ctx_def GetPropertyIDFromCtx_def PtrUUID_def empty_null_def computeExpiresAt_def new_reservation_def IncludeItems_def demo_flags_def)
qed

lemma demo_create: "\<exists>t. CreateReservation_svc demo_env demo_ctx demo_input demo_flags (demo_sess\<lparr>redis := R\<rparr>) =
    (Inr (reservationToResponse new_reservation), t)"
proof -
  obtain t where
    tx: "ExecuteTx demo_ctx (createReservationTx demo_env demo_ctx demo_input (StatusConfirmed, ItemStatusBooked) demo_flags) (demo_sess\<lparr>redis := R\<rparr>)
      = (Inr (reservationToResponse new_reservation), t)" "faults t = []"
    using ExecuteTx_demo [where fn = "createReservationTx demo_env demo_ctx demo_input (StatusConfirmed, ItemStatusBooked) demo_flags",
        OF demo_create_tx] by auto
  obtain t' where "invalidateAvailabilityAfterCreate 1 demo_input t = (Inr (), t')"
    using tx(2) by (simp add: invalidateAvailabilityAfterCreate_def demo_input_def InvalidateAvailabilityCache_def
        demo_nights bnd_def ret_def redis_Del_def pop_fault_def attempt_def)
  with tx(1) show ?thesis
    by (simp add: CreateReservation_svc_def demo_input_def SourceToInitialStatus_def SourceIsWalkin_def bnd_def ret_def
        demo_ctx_def GetPropertyIDFromCtx_def)
qed


section \<open>Cancelling a reservation\<close>

definition cancel_db1 :: db where
  "cancel_db1 = demo_db\<lparr>items := [cancelled_item demo_env demo_item]\<rparr>"

definition cancel_db2 :: db where
  "cancel_db2 = cancel_db1\<lparr>ledger := []\<rparr>"

definition cancel_db3 :: db where
  "cancel_db3 = cancel_db2\<lparr>reservations := [updated_status demo_env StatusCancelled demo_reservation]\<rparr>"

lemmas cancel_dbs = cancel_db1_def cancel_db2_def cancel_db3_def

lemma cancel_schemas: "schema_ok cancel_db1" "schema_ok cancel_db3"
  by (simp_all add: schema_defs demo_defs cancel_dbs cancelled_item_def updated_status_def ToRange_def day_ns_def)

lemma demo_cancel_tx: "\<exists>x d. cancelReservationTx demo_env demo_ctx 20 ci (demo_tx Map.empty demo_db) = (Inr x, demo_tx Map.empty d)"
proof -
  have "GetReservation demo_env 20 (demo_tx Map.empty demo_db) = (Inr demo_reservation, demo_tx Map.empty demo_db)"
    unfolding GetReservation_def by (rule query_demo) (simp add: one_row_def demo_db_def demo_reservation_def)
  moreover have "GetReservationItems demo_env 20 1 (demo_tx Map.empty demo_db) = (Inr [demo_item], demo_tx Map.empty demo_db)"
    unfolding GetReservationItems_def by (rule query_demo) (simp add: demo_db_def demo_item_def)
  moreover have "CancelReservationItems demo_env 20 1 (demo_tx Map.empty demo_db) = (Inr (), demo_tx Map.empty cancel_db1)"
    unfolding CancelReservationItems_def Let_def
  proof (rule query_demo)
  qed (use cancel_schemas(1) in \<open>simp add: checked_iff cancel_dbs demo_db_def demo_item_def cancel_hit_def
    cancelled_item_def in_int32_def demo_env_def\<close>)
  moreover have "DeleteLedgerForReservation demo_env 20 1 (demo_tx Map.empty cancel_db1) = (Inr (), demo_tx Map.empty cancel_db2)"
    unfolding DeleteLedgerForReservation_def
    by (rule query_demo) (simp add: cancel_dbs demo_db_def demo_ledger_def)
  moreover have "UpdateReservationStatus demo_env 20 1 StatusCancelled (demo_tx Map.empty cancel_db2) = (Inr 1, demo_tx Map.empty cancel_db3)"
    unfolding UpdateReservationStatus_def Let_def
  proof (rule query_demo)
  qed (use cancel_schemas(2) in \<open>simp add: checked_iff cancel_dbs demo_db_def demo_reservation_def status_enum_def in_int32_def\<close>)
  moreover have "GetReservation demo_env 20 (demo_tx Map.empty cancel_db3) =
      (Inr (updated_status demo_env StatusCancelled demo_reservation), demo_tx Map.empty cancel_db3)"
    unfolding GetReservation_def
    by (rule query_demo) (simp add: one_row_def cancel_dbs demo_db_def demo_reservation_def updated_status_def)
  moreover have "\<exists>d. notifyReservationChange ''cancelled'' 20 (demo_tx Map.empty cancel_db3) = (Inr (), demo_tx Map.empty d)"
    unfolding notifyReservationChange_def NotifyChannel_def by (rule exI, rule run_stmt_demo) (simp add: demo_tx_def)
  moreover have "ValidateReservationTransition (r_status demo_reservation) StatusCancelled = None"
    by (simp add: ValidateReservationTransition_def reservationTransitions_def demo_reservation_def)
  ultimately show ?thesis
    by (auto simp: cancelReservationTx_def demo_ctx_def GetPropertyIDFromCtx_def GetIfMatchVersion_def bnd_def map_err_def
        guard_def ret_def require_transition_def demo_item_def)
qed

theorem cancel_frees_the_rooms_witness:
  "\<exists>x t. CancelReservation demo_env demo_ctx 20 (undefined :: CancelInput) demo_sess = (Inr x, t)
     \<and> ledger (pool t) = [] \<and> items (pool t) = [cancelled_item demo_env demo_item]"
proof -
  obtain x d where tx: "cancelReservationTx demo_env demo_ctx 20 undefined (demo_tx Map.empty demo_db) = (Inr x, demo_tx Map.empty d)"
    using demo_cancel_tx by blast
  from ExecuteTx_demo [where fn = "cancelReservationTx demo_env demo_ctx 20 undefined", OF this, unfolded demo_sess_empty] obtain t where
    t: "CancelReservation demo_env demo_ctx 20 undefined demo_sess = (Inr x, t)"
    by (auto simp: CancelReservation_def in_property_tx_def bnd_def guard_def ret_def demo_ctx_def GetPropertyIDFromCtx_def)
  have "schema_ok (pool demo_sess)" by (rule demo_reaches_itself)
  from cancel_frees_the_rooms [OF t this] t show ?thesis
    by (simp add: demo_sess_def demo_db_def demo_ledger_def demo_item_def demo_ctx_def GetPropertyIDFromCtx_def cancel_hit_def)
qed

section \<open>Sweeping and moving\<close>


theorem later_arrival_drops_kept_nights_witness:
  "\<exists>t. move_ledger demo_env 30 demo_item 1 (NightsBetween (10 * day_ns) (12 * day_ns))
       (NightsBetween (11 * day_ns) (12 * day_ns)) 3 None (demo_tx Map.empty demo_db) = (Inr (), t)
     \<and> NightsBetween (11 * day_ns) (12 * day_ns) \<noteq> []
     \<and> \<not> (\<exists>l\<in>set (ledger (data t)). l_item_id l = Some 30 \<and> l_property_id l = 1 \<and> 10 \<le> l_date l)"
proof -
  have stay: "iso_stay (10 * day_ns) (12 * day_ns)" "day_of (10 * day_ns) < day_of (11 * day_ns)"
    "day_of (11 * day_ns) < day_of (12 * day_ns)"
    by (simp_all add: iso_stay_def year_start_def)
  have "DeleteLedgerRowsByItemFromDate demo_env 30 1 10 (demo_tx Map.empty demo_db) = (Inr (), demo_tx Map.empty (demo_db\<lparr>ledger := []\<rparr>))"
    unfolding DeleteLedgerRowsByItemFromDate_def by (rule query_demo) (simp add: demo_db_def demo_ledger_def)
  then have run: "move_ledger demo_env 30 demo_item 1 (NightsBetween (10 * day_ns) (12 * day_ns))
       (NightsBetween (11 * day_ns) (12 * day_ns)) 3 None (demo_tx Map.empty demo_db) = (Inr (), demo_tx Map.empty (demo_db\<lparr>ledger := []\<rparr>))"
    using removed_leading_nights [OF stay] by (simp add: move_ledger_def Let_def)
  have "cur_property (demo_tx Map.empty demo_db) = Some 1" by (simp add: demo_tx_def)
  from later_arrival_drops_kept_nights [OF stay run this] run show ?thesis by auto
qed

end
