(* ===== verification/Coherence.thy ===== *)
theory Coherence
  imports Inventory
begin

text \<open>
  Availability and its cache: \<open>CheckAvailability\<close> answers with the number of free rooms per night as long as the
  entries of the cache are right (\<open>cache_coherent\<close>), reading keeps the cache right, and so does creating a
  reservation whose items of one room type have one stay. Where the code falls short, two theorems say so: the
  nights of a second stay of a room type stay cached, and a read that fails is answered, and cached, as sold out.

  The cache is read through \<open>known\<close>, the number an unexpired entry of a night holds. Entries are told apart by the
  property, the room type and the night (locale \<open>keyed_cache\<close>, interpreted on the keys of the cache).
\<close>

section \<open>Keys\<close>

lemma availabilityCacheKey_inject:
  assumes "iso_midnight n" "iso_midnight n'"
  shows "availabilityCacheKey p rt n = availabilityCacheKey p' rt' n' \<longleftrightarrow> p = p' \<and> rt = rt' \<and> n = n'"
  using iso_date.enc_inject [OF assms] by (auto simp: availabilityCacheKey_def uuid_text_inject)

interpretation night_key: keyed_cache "\<lambda>(p, rt, n). availabilityCacheKey p rt n" "\<lambda>(p, rt, n). iso_midnight n"
  by unfold_locales (auto simp: availabilityCacheKey_inject)

section \<open>Free rooms\<close>

definition free_rooms :: "db \<Rightarrow> uuid \<Rightarrow> uuid \<Rightarrow> date \<Rightarrow> InventoryRoom list" where
  "free_rooms d p rt x =
     filter (\<lambda>r. rm_property_id r = p \<and> rm_room_type_id r = Some rt
       \<and> \<not> list_ex (\<lambda>l. l_room_id l = rm_id r \<and> l_date l = x \<and> blocking (l_status l)) (ledger d)) (rooms d)"

definition rooms_keyed :: "db \<Rightarrow> bool" where
  "rooms_keyed d \<longleftrightarrow> distinct (map rm_id (rooms d))"

lemma schema_ledger_distinct: "schema_ok d \<Longrightarrow> distinct (map (\<lambda>l. (l_room_id l, l_date l)) (ledger d))"
  by (simp add: schema_ok_def violations_def)

lemma blocked_rows_distinct:
  assumes "schema_ok d"
  shows "distinct (map l_room_id (blocked_rows vis d p rt x))"
proof -
  have "inj_on (\<lambda>l. (l_room_id l, l_date l)) (set (ledger d))" "distinct (ledger d)"
    using schema_ledger_distinct [OF assms] by (simp_all add: distinct_map)
  then show ?thesis by (auto simp: blocked_rows_def distinct_map inj_on_def)
qed

lemma room_availability_bounds:
  assumes "schema_ok d"
  shows "0 \<le> room_availability vis d p rt x" "room_availability vis d p rt x \<le> int (length (rooms d))"
    "int (length (blocked_rows vis d p rt x)) \<le> int (length (rooms d))"
proof -
  let ?ms = "rooms_of_type vis d p rt" and ?bs = "map l_room_id (blocked_rows vis d p rt x)"
  have "card (set ?bs) \<le> card (set ?ms)" by (rule card_mono) (auto simp: blocked_rows_def)
  with distinct_card [OF blocked_rows_distinct [OF assms, of vis p rt x]] card_length [of ?ms]
  have "length (blocked_rows vis d p rt x) \<le> length ?ms" by simp
  moreover have "length ?ms \<le> length (rooms d)" by (simp add: rooms_of_type_def)
  ultimately show "0 \<le> room_availability vis d p rt x" "room_availability vis d p rt x \<le> int (length (rooms d))"
    "int (length (blocked_rows vis d p rt x)) \<le> int (length (rooms d))" by (simp_all add: room_availability_def)
qed

lemma room_availability_counts:
  assumes "schema_ok d" "rooms_keyed d"
  shows "room_availability (\<lambda>_. True) d p rt x = int (length (free_rooms d p rt x))"
proof -
  let ?ms = "rooms_of_type (\<lambda>_. True) d p rt" and ?bs = "map l_room_id (blocked_rows (\<lambda>_. True) d p rt x)"
  have dist: "distinct ?ms" "distinct (map rm_id (free_rooms d p rt x))" "distinct ?bs"
    using assms(2) blocked_rows_distinct [OF assms(1)]
    by (simp_all add: rooms_of_type_def free_rooms_def rooms_keyed_def distinct_map_filter)
  have "set (map rm_id (free_rooms d p rt x)) = set ?ms - set ?bs"
  proof -
    have key: "r = r'" if "r \<in> set (rooms d)" "r' \<in> set (rooms d)" "rm_id r = rm_id r'" for r r'
      using that assms(2) by (auto simp: rooms_keyed_def distinct_map inj_on_def)
    show ?thesis
      by (auto simp: rooms_of_type_def free_rooms_def blocked_rows_def list_ex_iff image_iff dest: key) metis+
  qed
  moreover have "set ?bs \<subseteq> set ?ms" by (auto simp: blocked_rows_def)
  ultimately have "card (set (map rm_id (free_rooms d p rt x))) + card (set ?bs) = card (set ?ms)"
    by (metis List.finite_set card_Diff_subset card_mono le_add_diff_inverse2)
  then show ?thesis
    unfolding distinct_card [OF dist(1)] distinct_card [OF dist(2)] distinct_card [OF dist(3)]
    by (simp add: room_availability_def)
qed

section \<open>Reading through the cache\<close>

definition known :: "env \<Rightarrow> sess \<Rightarrow> uuid \<Rightarrow> uuid \<Rightarrow> time \<Rightarrow> int option" where
  "known E s p rt n = Option.bind (redis_get E s (availabilityCacheKey p rt n)) ParseInt32"

definition cache_coherent :: "env \<Rightarrow> sess \<Rightarrow> bool" where
  "cache_coherent E s \<longleftrightarrow> (\<forall>p rt n i. iso_midnight n \<and> known E s p rt n = Some i \<longrightarrow>
     i = int (length (free_rooms (pool s) p rt (day_of n))))"

lemma cached_values_map:
  "cached_values ns (map f ns) = map (\<lambda>n. (format_date n, the (Option.bind (f n) ParseInt32)))
     (filter (\<lambda>n. Option.bind (f n) ParseInt32 \<noteq> None) ns)"
  unfolding cached_values_def by (induction ns) (auto split: option.splits)

lemma uncached_nights_map: "uncached_nights ns (map f ns) = filter (\<lambda>n. Option.bind (f n) ParseInt32 = None) ns"
  unfolding uncached_nights_def by (induction ns) auto

lemma map_get_stored:
  assumes "iso_midnight n" "list_all iso_midnight ns" "n \<in> set ns"
  shows "map_get (map (\<lambda>n. (format_date n, f n)) ns) (format_date n) = f n"
  using iso_date.keyed.stored_last [OF assms(1,2), of f] assms(3) by (simp add: map_get_def)

lemma map_get_two:
  assumes "iso_midnight n" "list_all iso_midnight ns" "list_all iso_midnight ms" "n \<in> set ns \<union> set ms"
  shows "map_get (map (\<lambda>n. (format_date n, f n)) ns @ map (\<lambda>n. (format_date n, g n)) ms) (format_date n)
     = (if n \<in> set ms then g n else f n)"
  using iso_date.keyed.stored_last [OF assms(1,2), of f] iso_date.keyed.stored_last [OF assms(1,3), of g] assms(4)
  by (auto simp: map_get_def map_add_def)

lemma ParseInt32_dec_int: "in_int32 i \<Longrightarrow> ParseInt32 (dec_int i) = Some i"
  using Atoi_dec_int [of i] by (simp add: ParseInt32_def in_int32_def in_int64_def del: strconv_Atoi.simps)

lemma availQuery_quiet:
  assumes "faults s = []" "\<not> enforce_rls E" "schema_ok (pool s)" "int (length (rooms (pool s))) \<le> max_int32"
  shows "pool_Query (availQuery E p rt x y) s = (Inr (map (\<lambda>z. (z, room_availability (\<lambda>_. True) (pool s) p rt z)) [x..y]), s)"
proof -
  have "list_all (\<lambda>x. in_int32 (int (length (blocked_rows (\<lambda>_. True) (pool s) p rt x)))) [x..y]"
    using room_availability_bounds(3) [OF assms(3), of "\<lambda>_. True" p rt] assms(4)
    by (auto simp: list_all_iff in_int32_def intro: order_trans)
  with assms(1,2) show ?thesis
    by (cases s) (simp add: pool_Query_def pop_fault_def auto_commit_def availQuery_def query_def run_stmt_def
        stmt_effect_def rls_view_def leave_tx_def)
qed

lemma scan_rows_quiet:
  assumes "\<And>z. in_int32 (f z)"
  shows "scan_rows (map (\<lambda>z. (z, f z)) xs) s = (Inr (map (\<lambda>t. (format_date t, f (day_of t))) (map (\<lambda>z. z * day_ns) xs)), s)"
proof -
  have "find (\<lambda>(x, a). \<not> in_int32 a) (map (\<lambda>z. (z, f z)) xs) = None" by (auto simp: find_None_iff assms)
  then show ?thesis by (simp add: scan_rows_def ret_def o_def)
qed

lemma sorted_NightsBetween: "sorted (NightsBetween a b)"
  by (simp add: NightsBetween_upto sorted_map sorted_wrt_mono_rel [OF _ sorted_upto] mult_right_mono)

lemma sorted_ends:
  assumes "sorted xs" "x \<in> set xs"
  shows "hd xs \<le> x" "x \<le> last xs"
  using assms by (induction xs) (auto split: if_splits)

lemma fetched_nights:
  fixes a b :: time and P :: "time \<Rightarrow> bool"
  defines "ns \<equiv> filter P (NightsBetween a b)"
  assumes "iso_stay a b" "ns \<noteq> []"
  shows "set ns \<subseteq> (\<lambda>z. z * day_ns) ` {day_of (hd ns)..day_of (last ns)}"
    and "list_all iso_midnight (map (\<lambda>z. z * day_ns) [day_of (hd ns)..day_of (last ns)])"
proof -
  have mid: "n mod day_ns = 0 \<and> day_of a \<le> day_of n \<and> day_of n < day_of b" if "n \<in> set ns" for n
    using that by (simp add: ns_def set_NightsBetween)
  have so: "sorted ns" by (simp add: ns_def sorted_NightsBetween sorted_wrt_filter)
  show "set ns \<subseteq> (\<lambda>z. z * day_ns) ` {day_of (hd ns)..day_of (last ns)}"
  proof
    fix n assume n: "n \<in> set ns"
    have "day_of (hd ns) \<le> day_of n" "day_of n \<le> day_of (last ns)"
      using sorted_ends [OF so n] by (simp_all add: day_of_def zdiv_mono1)
    moreover have "n = day_of n * day_ns" using mid [OF n] by (simp only: midnight_eq)
    ultimately show "n \<in> (\<lambda>z. z * day_ns) ` {day_of (hd ns)..day_of (last ns)}" by (intro image_eqI) auto
  qed
  have "day_of a \<le> day_of (hd ns)" "day_of (last ns) < day_of b"
    using mid [OF hd_in_set] mid [OF last_in_set] assms(3) by simp_all
  with assms(2) show "list_all iso_midnight (map (\<lambda>z. z * day_ns) [day_of (hd ns)..day_of (last ns)])"
    by (auto simp: list_all_iff iso_midnight_def iso_year_iff iso_stay_def)
qed

section \<open>Answers\<close>

definition availability_of :: "db \<Rightarrow> uuid \<Rightarrow> uuid \<Rightarrow> date \<Rightarrow> DateAvailability" where
  "availability_of d p rt x =
     \<lparr>da_Date = x * day_ns, da_Total = 0, da_Available = int (length (free_rooms d p rt x)), da_Reason = []\<rparr>"

lemma buildAvailabilityResult_of:
  assumes "\<And>n. n \<in> set (NightsBetween a b) \<Longrightarrow> map_get m (format_date n) = int (length (free_rooms d p rt (day_of n)))"
  shows "buildAvailabilityResult (NightsBetween a b) m = map (availability_of d p rt) [day_of a..day_of b - 1]"
proof -
  have "map_get m (format_date (z * day_ns)) = int (length (free_rooms d p rt z))" if "z \<in> set [day_of a..day_of b - 1]" for z
    using assms [of "z * day_ns"] that by (simp add: set_NightsBetween)
  then show ?thesis by (simp add: buildAvailabilityResult_def availability_of_def NightsBetween_upto)
qed

lemma known_stored:
  assumes "iso_midnight n" "list_all iso_midnight ns" "app_now E < ex" "\<And>n. in_int32 (f n)"
    and "redis t = redis s ++ map_of (rev (map (\<lambda>(k, v). (k, (v, ex))) (map (\<lambda>n. (availabilityCacheKey p rt n, dec_int (f n))) ns)))"
  shows "known E t p' rt' n = (if p' = p \<and> rt' = rt \<and> n \<in> set ns then Some (f n) else known E s p' rt' n)"
proof -
  have "map_of (rev (map (\<lambda>(k, v). (k, (v, ex))) (map (\<lambda>n. (availabilityCacheKey p rt n, dec_int (f n))) ns))) (availabilityCacheKey p' rt' n)
      = (if p' = p \<and> rt' = rt \<and> n \<in> set ns then Some (dec_int (f n), ex) else None)"
    using night_key.stored_last [of "(p', rt', n)" "map (\<lambda>n. (p, rt, n)) ns" "\<lambda>(p, rt, n). (dec_int (f n), ex)"] assms(1,2)
    by (auto simp: o_def list_all_iff image_iff)
  then show ?thesis
    using assms(3,4,5) by (simp add: known_def redis_get_def map_add_def ParseInt32_dec_int)
qed

lemma expiry_later: "app_now E < app_now E + availabilityCacheTTL"
  by (simp add: availabilityCacheTTL_def second_ns_def)

text \<open>What the run does with no fault: the cached nights are answered from the cache; with a night
  missing, the rest is fetched, stored and answered.\<close>

definition fetch_and_store :: "env \<Rightarrow> uuid \<Rightarrow> uuid \<Rightarrow> time list \<Rightarrow> (string \<times> int) list \<Rightarrow> time list \<Rightarrow> DateAvailability list query" where
  "fetch_and_store E p rt ns cached u =
     bnd (map_err (Wrap ''availability query: '') (pool_Query (availQuery E p rt (day_of (hd u)) (day_of (last u))))) (\<lambda>rows.
     bnd (scan_rows rows) (\<lambda>m.
     bnd (attempt (redis_SetAll E (map (\<lambda>n. (availabilityCacheKey p rt n, dec_int (map_get m (format_date n)))) u)
        availabilityCacheTTL)) (\<lambda>_.
     ret (buildAvailabilityResult ns (cached @ map (\<lambda>n. (format_date n, map_get m (format_date n))) u)))))"

lemma pop_fault_quiet: "faults s = [] \<Longrightarrow> pop_fault s = (None, s)"
  by (simp add: pop_fault_def)

lemma CheckAvailability_run:
  fixes a b :: time
  defines "ns \<equiv> NightsBetween a b"
  assumes "pop_fault s = (None, s')" "day_of a < day_of b"
  shows "CheckAvailability E p rt a b s =
    (let c = map (\<lambda>n. (format_date n, the (known E s p rt n))) (filter (\<lambda>n. known E s p rt n \<noteq> None) ns);
         u = filter (\<lambda>n. known E s p rt n = None) ns
     in if u = [] then (Inr (buildAvailabilityResult ns c), s') else fetch_and_store E p rt ns c u s')"
proof -
  let ?f = "\<lambda>n. redis_get E s (availabilityCacheKey p rt n)"
  have "a < b" using assms(3) unfolding day_of_def by (metis not_less zdiv_mono1 day_ns_pos)
  then have g: "guard (a < b) e s = (Inr (), s)" for e by (simp add: guard_def ret_def)
  have "redis_get E s' = redis_get E s" using pop_fault_fields(6) [OF assms(2)] by (simp add: redis_get_def fun_eq_iff)
  moreover have "ns \<noteq> []" using assms(3) by (simp add: ns_def nights_nonempty)
  ultimately have m: "map_err h (redis_MGet E (map (availabilityCacheKey p rt) ns)) s = (Inr (map ?f ns), s')" for h
    using assms(2) by (simp add: map_err_def redis_MGet_def o_def)
  show ?thesis
    unfolding CheckAvailability_def ns_def [symmetric] bnd_Inr [of "guard _ _", OF g] Let_def
      bnd_Inr [of "map_err _ (redis_MGet _ _)", OF m] cached_values_map uncached_nights_map known_def fetch_and_store_def
    by (simp add: ret_def)
qed

lemma fetch_and_store_quiet:
  fixes a b :: time and P :: "time \<Rightarrow> bool"
  defines "u \<equiv> filter P (NightsBetween a b)"
  assumes coh: "cache_coherent E s" and quiet: "faults s = []" "\<not> enforce_rls E"
    and schema: "schema_ok (pool s)" "rooms_keyed (pool s)" "int (length (rooms (pool s))) \<le> max_int32"
    and stay: "iso_stay a b" "u \<noteq> []"
  shows "\<exists>t. fetch_and_store E p rt ns c u s
      = (Inr (buildAvailabilityResult ns (c @ map (\<lambda>n. (format_date n, int (length (free_rooms (pool s) p rt (day_of n))))) u)), t)
    \<and> pool t = pool s \<and> cache_coherent E t"
proof -
  let ?avail = "\<lambda>z. int (length (free_rooms (pool s) p rt z))" and ?rows = "map (\<lambda>z. z * day_ns) [day_of (hd u)..day_of (last u)]"
  let ?m = "map (\<lambda>t. (format_date t, ?avail (day_of t))) ?rows"
  let ?kvs = "map (\<lambda>n. (availabilityCacheKey p rt n, dec_int (?avail (day_of n)))) u"
  let ?t = "s\<lparr>redis := redis s ++ map_of (rev (map (\<lambda>(k, v). (k, (v, app_now E + availabilityCacheTTL))) ?kvs))\<rparr>"
  note f = fetched_nights [OF stay(1), of P, folded u_def, OF stay(2)]
  have iso: "list_all iso_midnight u" using NightsBetween_iso [OF stay(1)] by (simp add: u_def list_all_iff)
  have rng: "in_int32 (?avail z)" for z
    using room_availability_bounds [OF schema(1), of "\<lambda>_. True" p rt z] schema(3)
    by (simp add: room_availability_counts [OF schema(1,2)] in_int32_def)
  have "map_get ?m (format_date n) = ?avail (day_of n)" if "n \<in> set u" for n
    using map_get_stored [of n ?rows "\<lambda>t. ?avail (day_of t)"] f that iso by (auto simp: list_all_iff)
  then have kvs: "map (\<lambda>n. (availabilityCacheKey p rt n, dec_int (map_get ?m (format_date n)))) u = ?kvs"
    "map (\<lambda>n. (format_date n, map_get ?m (format_date n))) u = map (\<lambda>n. (format_date n, ?avail (day_of n))) u"
    by (simp_all del: map_map)
  have q: "pool_Query (availQuery E p rt (day_of (hd u)) (day_of (last u))) s
      = (Inr (map (\<lambda>z. (z, ?avail z)) [day_of (hd u)..day_of (last u)]), s)"
    using availQuery_quiet [OF quiet schema(1,3)] by (simp add: room_availability_counts [OF schema(1,2)])
  have "redis_SetAll E ?kvs availabilityCacheTTL s = (Inr (), ?t)" using quiet(1) by (simp add: redis_SetAll_def pop_fault_def)
  then have "fetch_and_store E p rt ns c u s = (Inr (buildAvailabilityResult ns (c @ map (\<lambda>n. (format_date n, ?avail (day_of n))) u)), ?t)"
    unfolding fetch_and_store_def bnd_def map_err_def attempt_def
    by (simp only: ret_def q scan_rows_quiet [OF rng] kvs prod.case sum.case)
  moreover have "known E ?t p' rt' n = (if p' = p \<and> rt' = rt \<and> n \<in> set u then Some (?avail (day_of n)) else known E s p' rt' n)"
    if "iso_midnight n" for p' rt' n
    by (rule known_stored [OF that iso expiry_later]) (simp_all add: rng)
  then have "cache_coherent E ?t" using coh by (auto simp: cache_coherent_def split: if_splits)
  ultimately show ?thesis by (intro exI [of _ ?t]) simp
qed


section \<open>Reads that fail\<close>

definition sold_out :: "date \<Rightarrow> DateAvailability" where
  "sold_out x = \<lparr>da_Date = x * day_ns, da_Total = 0, da_Available = 0, da_Reason = []\<rparr>"

lemma map_get_zero: "map_get (map (\<lambda>n. (k n, 0)) ns) x = 0"
  by (auto simp: map_get_def split: option.split dest!: map_of_SomeD)

lemma failed_read:
  assumes "faults s = [None, Some e] \<or> faults s = [] \<and> enforce_rls E"
  shows "\<exists>fs. pool_Query (availQuery E p rt x y) s = (Inr [], s\<lparr>faults := fs\<rparr>) \<and> pop_fault (s\<lparr>faults := fs\<rparr>) = (None, s\<lparr>faults := fs\<rparr>)"
  using assms
  by (cases s) (auto simp: pool_Query_def pop_fault_def auto_commit_def availQuery_def query_def run_stmt_def
      stmt_effect_def rls_view_def leave_tx_def intro!: exI [of _ "[]"])

text \<open>C22. A failed read is answered as sold out: when the execution of the query fails, because of an error \<open>e\<close> or
  because row-level security is enforced and the pool sets no property, no error is reported (\<open>rows.Err\<close> is never
  called); every night that was not cached is answered with no available room, and the zeros are cached.\<close>

theorem failed_read_reports_sold_out:
  assumes fails: "faults s = [None, None, Some e] \<or> faults s = [] \<and> enforce_rls E"
    and stay: "iso_stay a b" "day_of a < day_of b" and miss: "\<And>n. n \<in> set (NightsBetween a b) \<Longrightarrow> known E s p rt n = None"
  shows "\<exists>t. CheckAvailability E p rt a b s = (Inr (map sold_out [day_of a..day_of b - 1]), t)
    \<and> (\<forall>n\<in>set (NightsBetween a b). known E t p rt n = Some 0)"
proof -
  let ?ns = "NightsBetween a b"
  let ?kvs = "map (\<lambda>n. (availabilityCacheKey p rt n, dec_int 0)) ?ns"
  from fails obtain s' where s': "pop_fault s = (None, s')" "redis s' = redis s"
    "faults s' = [None, Some e] \<or> faults s' = [] \<and> enforce_rls E"
    by (auto simp: pop_fault_def)
  from failed_read [OF s'(3)] obtain fs where
    q: "pool_Query (availQuery E p rt (day_of (hd ?ns)) (day_of (last ?ns))) s' = (Inr [], s'\<lparr>faults := fs\<rparr>)"
    and fs: "pop_fault (s'\<lparr>faults := fs\<rparr>) = (None, s'\<lparr>faults := fs\<rparr>)" by blast
  let ?t = "s'\<lparr>faults := fs, redis := redis s ++ map_of (rev (map (\<lambda>(k, v). (k, (v, app_now E + availabilityCacheTTL))) ?kvs))\<rparr>"
  have u: "filter (\<lambda>n. known E s p rt n = None) ?ns = ?ns" "filter (\<lambda>n. known E s p rt n \<noteq> None) ?ns = []" using miss by simp_all
  have set: "redis_SetAll E ?kvs availabilityCacheTTL (s'\<lparr>faults := fs\<rparr>) = (Inr (), ?t)"
    using fs s'(2) by (simp add: redis_SetAll_def)
  have "buildAvailabilityResult ?ns (map (\<lambda>n. (format_date n, 0)) ?ns) = map sold_out [day_of a..day_of b - 1]"
    unfolding buildAvailabilityResult_def map_get_zero by (simp add: sold_out_def NightsBetween_upto)
  moreover have "fetch_and_store E p rt ?ns [] ?ns s' = (Inr (buildAvailabilityResult ?ns (map (\<lambda>n. (format_date n, 0)) ?ns)), ?t)"
    unfolding fetch_and_store_def bnd_def map_err_def attempt_def scan_rows_def by (simp add: q set map_get_def ret_def)
  ultimately have "CheckAvailability E p rt a b s = (Inr (map sold_out [day_of a..day_of b - 1]), ?t)"
    using CheckAvailability_run [OF s'(1) stay(2), of E p rt, unfolded Let_def u] nights_nonempty [of a b] stay(2) by simp
  moreover have "known E ?t p rt n = Some 0" if n: "n \<in> set ?ns" for n
    using known_stored [where t = ?t and f = "\<lambda>_. 0" and s = s and E = E, OF _ NightsBetween_iso [OF stay(1)] expiry_later] n
      NightsBetween_iso [OF stay(1)] by (simp add: list_all_iff in_int32_def)
  ultimately show ?thesis by (intro exI [of _ ?t]) simp
qed

section \<open>Runs without faults\<close>

abbreviation no_faults :: "sess \<Rightarrow> bool" where
  "no_faults s \<equiv> faults s = []"

lemma no_faults_run_stmt: "preserves no_faults (run_stmt f)"
  by (auto simp: preserves_def run_stmt_def pop_fault_def stmt_effect_def split: option.split sum.split)

lemma no_faults_query: "preserves no_faults (query E f)"
  unfolding query_def by (rule no_faults_run_stmt)

lemma no_faults_createReservationTx: "preserves no_faults (createReservationTx E c input initial flags)"
  unfolding createReservationTx_def createReservationInTx_def insertAllItems_def insertSingleItem_def resolveRates_def
    checkArrivals_def resolvePrimaryGuest_def expandInclude_def expandInclude_with_def notifyReservationChange_def
    Enqueue_def EnqueueAt_def Let_def
  unfolding GetPropertyTimezone_def CreateGuest_def CreateReservation_def CreateReservationItem_def
    GetRoomTypeOccupancy_def GetBaseRate_def SelectRoomForAutoPin_def BulkInsertLedgerRows_def NotifyChannel_def
    CreateOutboxEvent_def GetReservationItems_def GetGuest_def Let_def
  by (intro pres_intros no_faults_query no_faults_run_stmt)

lemma no_faults_ExecuteTx:
  assumes "preserves no_faults fn"
  shows "preserves no_faults (ExecuteTx c fn)"
proof (rule preservesI)
  fix s :: sess
  assume s: "no_faults s"
  let ?b = "s\<lparr>snapshot := pool s, data := pool s, cur_property := None, aborted := None\<rparr>"
  have "preserves no_faults (SetCurrentPropertyID p)" for p
    using no_faults_run_stmt [of no_effect]
    by (auto simp: preserves_def SetCurrentPropertyID_def split: prod.splits sum.splits)
  then have "preserves no_faults (tx_body c fn)"
    unfolding tx_body_def SetCurrentUserID_def using assms by (intro pres_intros no_faults_run_stmt)
  then have body: "no_faults (snd (tx_body c fn ?b))" using s unfolding preserves_def by simp
  have start: "BeginTx s = (Inr (), ?b)" using s by (simp add: BeginTx_def pop_fault_def)
  obtain r t where t: "tx_body c fn ?b = (r, t)" by fastforce
  with body have nf: "faults t = []" by simp
  then have "faults (snd (Commit t)) = []" "faults (snd (rolled_back e t)) = []" for e
    by (simp_all add: Commit_def rolled_back_def pop_fault_def)
  then show "no_faults (snd (ExecuteTx c fn s))"
    unfolding ExecuteTx_def start prod.case sum.case t
    by (cases r; cases "Commit t"; cases "fst (Commit t)") (simp_all add: split_beta)
qed

section \<open>Evicting availability\<close>

lemma Invalidate_evicts:
  assumes "no_faults s"
  shows "InvalidateAvailabilityCache p rt a b s =
    (Inr (), s\<lparr>redis := \<lambda>k. if k \<in> availabilityCacheKey p rt ` set (NightsBetween a b) then None else redis s k\<rparr>)"
proof -
  have "\<exists>ys. for_each (\<lambda>n. attempt (redis_Del (availabilityCacheKey p rt n))) ns s =
      (Inr ys, s\<lparr>redis := \<lambda>k. if k \<in> availabilityCacheKey p rt ` set ns then None else redis s k\<rparr>)" for ns
    using assms
  proof (induction ns arbitrary: s)
    case (Cons n ns)
    let ?s = "s\<lparr>redis := (redis s)(availabilityCacheKey p rt n := None)\<rparr>"
    have "attempt (redis_Del (availabilityCacheKey p rt n)) s = (Inr (Inr ()), ?s)"
      using Cons.prems by (simp add: attempt_def redis_Del_def pop_fault_def)
    moreover from Cons.IH [of ?s] Cons.prems obtain ys where
      "for_each (\<lambda>n. attempt (redis_Del (availabilityCacheKey p rt n))) ns ?s =
        (Inr ys, s\<lparr>redis := \<lambda>k. if k \<in> availabilityCacheKey p rt ` set ns then None else redis ?s k\<rparr>)" by auto
    ultimately have "for_each (\<lambda>n. attempt (redis_Del (availabilityCacheKey p rt n))) (n # ns) s =
        (Inr (Inr () # ys), s\<lparr>redis := \<lambda>k. if k \<in> availabilityCacheKey p rt ` set ns then None else redis ?s k\<rparr>)"
      by (simp only: for_each.simps bnd_def prod.case sum.case ret_def)
    moreover have "(\<lambda>k. if k \<in> availabilityCacheKey p rt ` set ns then None else redis ?s k)
        = (\<lambda>k. if k \<in> availabilityCacheKey p rt ` set (n # ns) then None else redis s k)" by auto
    ultimately show ?case by auto
  qed (simp add: ret_def)
  from this [of "NightsBetween a b"] show ?thesis by (auto simp: InvalidateAvailabilityCache_def bnd_def ret_def)
qed

abbreviation item_keys :: "uuid \<Rightarrow> CreateItemInput \<Rightarrow> string set" where
  "item_keys p i \<equiv> availabilityCacheKey p (RoomTypeID i) ` set (NightsBetween (ArrivalDate i) (DepartureDate i))"

fun first_of_type :: "CreateItemInput list \<Rightarrow> uuid list \<Rightarrow> CreateItemInput list" where
  "first_of_type [] seen = []"
| "first_of_type (i # is) seen =
     (if RoomTypeID i \<in> set seen then first_of_type is seen else i # first_of_type is (RoomTypeID i # seen))"

lemma invalidate_loop_evicts:
  assumes "no_faults s"
  shows "invalidate_loop p is seen s =
    (Inr (), s\<lparr>redis := \<lambda>k. if \<exists>i\<in>set (first_of_type is seen). k \<in> item_keys p i then None else redis s k\<rparr>)"
  using assms
proof (induction "is" arbitrary: seen s)
  case (Cons i "is")
  show ?case
  proof (cases "RoomTypeID i \<in> set seen")
    case False
    let ?s = "s\<lparr>redis := \<lambda>k. if k \<in> item_keys p i then None else redis s k\<rparr>"
    have "no_faults ?s" using Cons.prems by simp
    from Cons.IH [OF this, of "RoomTypeID i # seen"] have "invalidate_loop p (i # is) seen s = (Inr (), s\<lparr>redis :=
        \<lambda>k. if \<exists>j\<in>set (first_of_type is (RoomTypeID i # seen)). k \<in> item_keys p j then None else redis ?s k\<rparr>)"
      using False by (simp add: bnd_def Invalidate_evicts [OF Cons.prems])
    moreover have "(\<lambda>k. if \<exists>j\<in>set (first_of_type is (RoomTypeID i # seen)). k \<in> item_keys p j then None else redis ?s k)
        = (\<lambda>k. if \<exists>j\<in>set (first_of_type (i # is) seen). k \<in> item_keys p j then None else redis s k)"
      using False by auto
    ultimately show ?thesis by simp
  qed (use Cons in simp)
qed (simp add: ret_def)

lemma first_of_type_covers:
  "i \<in> set is \<Longrightarrow> RoomTypeID i \<notin> set seen \<Longrightarrow> \<exists>j\<in>set (first_of_type is seen). RoomTypeID j = RoomTypeID i"
proof (induction "is" arbitrary: seen)
  case (Cons a "is")
  then show ?case by (cases "RoomTypeID a = RoomTypeID i"; cases "RoomTypeID a \<in> set seen") auto
qed simp

lemma first_of_type_subset: "set (first_of_type is seen) \<subseteq> set is"
proof (induction "is" arbitrary: seen)
  case (Cons a "is")
  then show ?case by (cases "RoomTypeID a \<in> set seen") fastforce+
qed simp

lemma first_of_type_fresh: "j \<in> set (first_of_type is seen) \<Longrightarrow> RoomTypeID j \<notin> set seen"
proof (induction "is" arbitrary: seen)
  case (Cons a "is")
  from Cons.prems Cons.IH [of seen] Cons.IH [of "RoomTypeID a # seen"] show ?case by (auto split: if_splits)
qed simp

section \<open>What a booking takes\<close>

definition assigned_as_booked :: "db \<Rightarrow> uuid \<Rightarrow> CreateItemInput \<Rightarrow> bool" where
  "assigned_as_booked d p i \<longleftrightarrow> list_all (\<lambda>r. AssignedRoomID i = Some (rm_id r) \<longrightarrow>
     rm_property_id r = p \<and> rm_room_type_id r = Some (RoomTypeID i)) (rooms d)"

definition same_stays :: "CreateItemInput list \<Rightarrow> bool" where
  "same_stays is \<longleftrightarrow> list_all (\<lambda>i. list_all (\<lambda>j. RoomTypeID i = RoomTypeID j \<longrightarrow>
     day_of (ArrivalDate i) = day_of (ArrivalDate j) \<and> day_of (DepartureDate i) = day_of (DepartureDate j)) is) is"

lemma same_staysD:
  "same_stays is \<Longrightarrow> i \<in> set is \<Longrightarrow> j \<in> set is \<Longrightarrow> RoomTypeID i = RoomTypeID j \<Longrightarrow>
   day_of (ArrivalDate i) = day_of (ArrivalDate j) \<and> day_of (DepartureDate i) = day_of (DepartureDate j)"
  unfolding same_stays_def list_all_iff by blast

lemma free_rooms_after:
  assumes "ledger d' = ledger d @ rows" "rooms d' = rooms d"
  shows "free_rooms d' p rt x = filter (\<lambda>r. \<not> list_ex (\<lambda>l. l_room_id l = rm_id r \<and> l_date l = x \<and> blocking (l_status l)) rows) (free_rooms d p rt x)"
  using assms by (auto simp: free_rooms_def intro!: filter_cong)

lemma sold_blocks: "blocking Sold"
  by (simp add: blocking_def)

text \<open>A night of a booked item takes a room of the type and property that were booked.\<close>

lemma booked_room:
  assumes b: "booked_as (rooms d) p r st inp i rows" and "assigned_as_booked d p inp" "rooms_keyed d"
    and l: "l \<in> set rows" "room \<in> set (rooms d)" "rm_id room = l_room_id l"
  shows "rm_property_id room = p" "rm_room_type_id room = Some (RoomTypeID inp)"
    "day_of (ArrivalDate inp) \<le> l_date l" "l_date l < day_of (DepartureDate inp)"
proof -
  from b obtain m where m: "case AssignedRoomID inp of Some m' \<Rightarrow> m = m'
      | None \<Rightarrow> \<exists>room\<in>set (rooms d). rm_id room = m \<and> rm_property_id room = p \<and> rm_room_type_id room = Some (RoomTypeID inp)"
    and rows: "list_all (sold_row p m r (i_id i)) rows"
    and dates: "map l_date rows = [day_of (ArrivalDate inp)..day_of (DepartureDate inp) - 1]"
    by (auto simp: booked_as_def)
  have id: "rm_id room = m" using rows l by (auto simp: list_all_iff sold_row_def)
  have key: "x = y" if "x \<in> set (rooms d)" "y \<in> set (rooms d)" "rm_id x = rm_id y" for x y
    using assms(3) that by (auto simp: rooms_keyed_def distinct_map inj_on_def)
  have "rm_property_id room = p \<and> rm_room_type_id room = Some (RoomTypeID inp)"
  proof (cases "AssignedRoomID inp")
    case None
    with m obtain room' where "room' \<in> set (rooms d)" "rm_id room' = m" "rm_property_id room' = p"
      "rm_room_type_id room' = Some (RoomTypeID inp)" by auto
    with key [OF l(2) this(1)] id show ?thesis by simp
  next
    case (Some m')
    with m assms(2) l(2) id show ?thesis by (simp add: assigned_as_booked_def list_all_iff)
  qed
  then show "rm_property_id room = p" "rm_room_type_id room = Some (RoomTypeID inp)" by simp_all
  have "l_date l \<in> set [day_of (ArrivalDate inp)..day_of (DepartureDate inp) - 1]"
    using l(1) unfolding dates [symmetric] by simp
  then show "day_of (ArrivalDate inp) \<le> l_date l" "l_date l < day_of (DepartureDate inp)" by simp_all
qed

lemma all_booked_rows:
  assumes "all_booked rms p r st is bs" "l \<in> set (concat (map snd bs))"
  obtains inp i rows where "inp \<in> set is" "booked_as rms p r st inp i rows" "l \<in> set rows"
  using assms that by (induction "is" bs rule: list_all2_induct) auto

lemma all_booked_item:
  assumes "all_booked rms p r st is bs" "inp \<in> set is"
  shows "\<exists>i rows. booked_as rms p r st inp i rows \<and> set rows \<subseteq> set (concat (map snd bs))"
  using assms
proof (induction "is" bs rule: list_all2_induct)
  case (Cons x xs y ys)
  show ?case
  proof (cases "inp = x")
    case True
    with Cons.hyps(1) show ?thesis by (intro exI [of _ "fst y"] exI [of _ "snd y"]) simp
  next
    case False
    with Cons.IH Cons.prems obtain i rows where "booked_as rms p r st inp i rows" "set rows \<subseteq> set (concat (map snd ys))" by auto
    then show ?thesis by (intro exI [of _ i] exI [of _ rows]) auto
  qed
qed simp

lemma untouched_nights:
  assumes "all_booked (rooms d) p r st is bs" "list_all (assigned_as_booked d p) is" "rooms_keyed d"
    and "ledger d' = ledger d @ concat (map snd bs)" "rooms d' = rooms d"
    and out: "\<And>i. i \<in> set is \<Longrightarrow> \<not> (p' = p \<and> rt = RoomTypeID i \<and> day_of (ArrivalDate i) \<le> x \<and> x < day_of (DepartureDate i))"
  shows "free_rooms d' p' rt x = free_rooms d p' rt x"
proof -
  have "\<not> list_ex (\<lambda>l. l_room_id l = rm_id room \<and> l_date l = x \<and> blocking (l_status l)) (concat (map snd bs))"
    if room: "room \<in> set (free_rooms d p' rt x)" for room
  proof
    assume "list_ex (\<lambda>l. l_room_id l = rm_id room \<and> l_date l = x \<and> blocking (l_status l)) (concat (map snd bs))"
    then obtain l where l: "l \<in> set (concat (map snd bs))" "rm_id room = l_room_id l" "l_date l = x"
      unfolding list_ex_iff by metis
    from assms(1) l(1) obtain inp i rows where i: "inp \<in> set is" "booked_as (rooms d) p r st inp i rows" "l \<in> set rows"
      by (rule all_booked_rows)
    have "room \<in> set (rooms d)" "rm_property_id room = p'" "rm_room_type_id room = Some rt" using room by (auto simp: free_rooms_def)
    moreover have "assigned_as_booked d p inp" using assms(2) i(1) by (simp add: list_all_iff)
    ultimately show False using booked_room [OF i(2) _ assms(3) i(3) _ l(2)] out [OF i(1)] l(3) by simp
  qed
  then show ?thesis unfolding free_rooms_after [OF assms(4,5)] by (simp add: filter_id_conv)
qed

lemma creation_outcome:
  assumes run: "CreateReservation_svc E c input flags s = (Inr resp, t)" and quiet: "faults s = []"
  defines "p \<equiv> GetPropertyIDFromCtx c"
  obtains rid bs where "rooms (pool t) = rooms (pool s)" "ledger (pool t) = ledger (pool s) @ concat (map snd bs)"
    "all_booked (rooms (pool s)) p rid (snd (initial_status input)) (Items input) bs"
    "redis t = (\<lambda>k. if \<exists>i\<in>set (first_of_type (Items input) []). k \<in> item_keys p i then None else redis s k)"
proof -
  from run obtain s1 where tx: "ExecuteTx c (createReservationTx E c input (initial_status input) flags) s = (Inr resp, s1)"
    and inv: "invalidateAvailabilityAfterCreate p input s1 = (Inr (), t)" unfolding p_def by (rule creation_run)
  have pool: "pool t = pool s1" using inv by (rule invalidation_pool)
  have "faults s1 = []" using preservesD [OF no_faults_ExecuteTx [OF no_faults_createReservationTx] _ tx] quiet by simp
  from invalidate_loop_evicts [OF this, of p "Items input" "[]"] inv
  have redis: "redis t = (\<lambda>k. if \<exists>i\<in>set (first_of_type (Items input) []). k \<in> item_keys p i then None else redis s1 k)"
    by (auto simp: invalidateAvailabilityAfterCreate_def)
  from creation_books [OF tx, folded p_def] show thesis
  proof (elim conjE exE)
    fix r :: OperationsReservation and bs
    assume "redis s1 = redis s" "rooms (pool s1) = rooms (pool s)" "ledger (pool s1) = ledger (pool s) @ concat (map snd bs)"
      "all_booked (rooms (pool s)) p (r_id r) (snd (initial_status input)) (Items input) bs"
    then show thesis by (intro that [of bs "r_id r"]) (simp_all only: redis pool)
  qed
qed


section \<open>Two stays of one room type\<close>

lemma booked_night:
  assumes b: "booked_as (rooms d) p r st inp i rows" and a: "assigned_as_booked d p inp" and k: "rooms_keyed d"
    and x: "day_of (ArrivalDate inp) \<le> x" "x < day_of (DepartureDate inp)"
    and ok: "schema_ok d'" "rooms d' = rooms d" "ledger d' = ledger d @ new" "set rows \<subseteq> set new"
  shows "length (free_rooms d' p (RoomTypeID inp) x) < length (free_rooms d p (RoomTypeID inp) x)"
proof -
  from b have "map l_date rows = [day_of (ArrivalDate inp)..day_of (DepartureDate inp) - 1]"
    by (auto simp: booked_as_def)
  with x have "x \<in> set (map l_date rows)" by simp
  then obtain l where l: "l \<in> set rows" "l_date l = x" by auto
  with b have sold: "blocking (l_status l)" by (auto simp: booked_as_def list_all_iff sold_row_def blocking_def)
  have new: "l \<in> set new" using l(1) ok(4) by blast
  with ok(1,3) have "ledger_fk d' l" by (simp add: schema_ok_def violations_def list_all_iff)
  then obtain room where room: "room \<in> set (rooms d)" "rm_id room = l_room_id l"
    using ok(2) by (auto simp: ledger_fk_def list_ex_iff)
  note kind = booked_room(1,2) [OF b a k l(1) room]
  have "l' \<noteq> l \<and> (l_room_id l', l_date l') \<noteq> (l_room_id l, l_date l)" if "l' \<in> set (ledger d)" for l'
    using schema_ledger_distinct [OF ok(1)] that new unfolding ok(3) map_append distinct_append by (force simp: image_iff)
  then have "room \<in> set (free_rooms d p (RoomTypeID inp) x)"
    using room kind l(2) by (auto simp: free_rooms_def list_ex_iff)
  moreover have "list_ex (\<lambda>l. l_room_id l = rm_id room \<and> l_date l = x \<and> blocking (l_status l)) new"
    using new room(2) l(2) sold unfolding list_ex_iff by metis
  ultimately show ?thesis
    unfolding free_rooms_after [OF ok(3,2)] by (intro length_filter_less) auto
qed

lemma creation_keeps_schema:
  "CreateReservation_svc E c input flags s = (Inr resp, t) \<Longrightarrow> schema_ok (pool s) \<Longrightarrow> schema_ok (pool t)"
  using preservesD [OF request_invariant.committed_CreateReservation [OF request_invariant.intro, OF schema_system.in_transactions]]
  by (simp add: committed_def)

text \<open>C21. The nights of a second stay of a room type stay cached: \<open>invalidateAvailabilityAfterCreate\<close> skips an item
  whose room type it has seen, so when a later item of a reservation has the room type of the first and other
  nights, the entry of such a night still holds the number from before, although fewer rooms are free.\<close>

theorem second_stay_stays_cached:
  assumes run: "CreateReservation_svc E c input flags s = (Inr resp, t)" and quiet: "faults s = []"
    and schema: "schema_ok (pool s)" "rooms_keyed (pool s)"
    and its: "Items input = first # rest" "i \<in> set rest" "RoomTypeID i = RoomTypeID first"
    and room: "assigned_as_booked (pool s) (GetPropertyIDFromCtx c) i" and stay: "iso_stay (ArrivalDate first) (DepartureDate first)"
    and n: "iso_midnight n" "n \<in> set (NightsBetween (ArrivalDate i) (DepartureDate i))"
      "n \<notin> set (NightsBetween (ArrivalDate first) (DepartureDate first))"
    and cached: "known E s (GetPropertyIDFromCtx c) (RoomTypeID i) n = Some v"
      "v = int (length (free_rooms (pool s) (GetPropertyIDFromCtx c) (RoomTypeID i) (day_of n)))"
  shows "known E t (GetPropertyIDFromCtx c) (RoomTypeID i) n = Some v
    \<and> int (length (free_rooms (pool t) (GetPropertyIDFromCtx c) (RoomTypeID i) (day_of n))) < v"
proof -
  let ?p = "GetPropertyIDFromCtx c"
  from run quiet obtain rid bs where t: "rooms (pool t) = rooms (pool s)" "ledger (pool t) = ledger (pool s) @ concat (map snd bs)"
    "all_booked (rooms (pool s)) ?p rid (snd (initial_status input)) (Items input) bs"
    and redis: "redis t = (\<lambda>k. if \<exists>i\<in>set (first_of_type (Items input) []). k \<in> item_keys ?p i then None else redis s k)"
    by (rule creation_outcome)
  have "availabilityCacheKey ?p (RoomTypeID i) n \<notin> item_keys ?p j" if "j \<in> set (first_of_type (Items input) [])" for j
  proof
    assume k: "availabilityCacheKey ?p (RoomTypeID i) n \<in> item_keys ?p j"
    then have "RoomTypeID j = RoomTypeID first" using its(3) by (auto simp: availabilityCacheKey_def uuid_text_inject)
    with that its(1) have "j = first" using first_of_type_fresh [of j rest "[RoomTypeID first]"] by auto
    with k its(3) n NightsBetween_iso [OF stay] show False
      by (auto simp: availabilityCacheKey_inject list_all_iff)
  qed
  then have "known E t ?p (RoomTypeID i) n = Some v"
    using cached(1) by (simp add: known_def redis_get_def redis)
  moreover from all_booked_item [OF t(3), of i] its obtain it rows where
    b: "booked_as (rooms (pool s)) ?p rid (snd (initial_status input)) i it rows" "set rows \<subseteq> set (concat (map snd bs))" by auto
  have "length (free_rooms (pool t) ?p (RoomTypeID i) (day_of n)) < length (free_rooms (pool s) ?p (RoomTypeID i) (day_of n))"
    using n(2) booked_night [OF b(1) room schema(2) _ _ creation_keeps_schema [OF run schema(1)] t(1,2) b(2)]
    by (simp add: set_NightsBetween)
  ultimately show ?thesis using cached(2) by simp
qed

end
