(* ===== verification/CoherenceExamples.thy ===== *)
theory CoherenceExamples
  imports Examples Coherence
begin

text \<open>
  The availability cache on the demo hotel: a cache that holds one night, a reservation of one stay, a reservation of
  two stays of one room type, and a query that row-level security refuses.
\<close>

section \<open>A cached night\<close>

definition demo_cache :: "string \<rightharpoonup> string \<times> time" where
  "demo_cache = [availabilityCacheKey 1 2 (11 * day_ns) \<mapsto> (''1'', 6 * day_ns)]"

abbreviation demo_cached :: sess where
  "demo_cached \<equiv> demo_sess\<lparr>redis := demo_cache\<rparr>"

lemma demo_iso: "10 \<le> x \<Longrightarrow> x \<le> 13 \<Longrightarrow> iso_midnight (x * day_ns)" "10 \<le> x \<Longrightarrow> y \<le> 13 \<Longrightarrow> iso_stay (x * day_ns) (y * day_ns)"
  by (simp_all add: iso_midnight_def iso_year_iff iso_stay_def year_start_def)

lemma demo_free_rooms: "free_rooms demo_db 1 2 10 = [demo_room 4 ''22'']" "free_rooms demo_db 1 2 11 = [demo_room 4 ''22'']"
  "free_rooms demo_db 1 2 12 = [demo_room 3 ''1'', demo_room 4 ''22'']"
  by (simp_all add: free_rooms_def demo_db_def demo_room_def demo_ledger_def blocking_def)

lemma demo_known:
  "iso_midnight n \<Longrightarrow> known demo_env demo_cached p rt n = (if p = 1 \<and> rt = 2 \<and> n = 11 * day_ns then Some 1 else None)"
proof -
  assume n: "iso_midnight n"
  have "strconv_Atoi ''1'' = Some 1" by code_simp
  then show ?thesis
    using availabilityCacheKey_inject [OF n demo_iso(1) [of 11], of p rt 1 2]
    by (simp add: known_def redis_get_def demo_cache_def demo_env_def ParseInt32_def in_int32_def day_ns_def del: strconv_Atoi.simps)
qed

lemma demo_cached_session: "faults demo_cached = []" "pool demo_cached = demo_db" "\<not> enforce_rls demo_env"
  "rooms_keyed demo_db" "int (length (rooms demo_db)) \<le> max_int32"
  by (simp_all add: demo_sess_def demo_env_def rooms_keyed_def demo_db_def demo_room_def)

lemma demo_coherent: "cache_coherent demo_env demo_cached"
  unfolding cache_coherent_def
  by (auto simp: demo_known demo_cached_session demo_free_rooms split: if_splits)



theorem failed_read_reports_sold_out_witness:
  "\<exists>t. CheckAvailability (demo_env\<lparr>enforce_rls := True\<rparr>) 1 2 (10 * day_ns) (12 * day_ns) demo_sess = (Inr (map sold_out [10, 11]), t)
    \<and> known (demo_env\<lparr>enforce_rls := True\<rparr>) t 1 2 (11 * day_ns) = Some 0"
proof -
  have "faults demo_sess = [None, None, Some (ErrorString [])] \<or> faults demo_sess = [] \<and> enforce_rls (demo_env\<lparr>enforce_rls := True\<rparr>)"
    by (simp add: demo_sess_def)
  moreover have "known (demo_env\<lparr>enforce_rls := True\<rparr>) demo_sess 1 2 n = None" for n
    by (simp add: known_def redis_get_def demo_sess_def)
  moreover have "[10..11] = [10, 11 :: int]" by (simp add: upto.simps)
  ultimately show ?thesis
    using failed_read_reports_sold_out [of demo_sess "ErrorString []" "demo_env\<lparr>enforce_rls := True\<rparr>" "10 * day_ns" "12 * day_ns" 1 2]
    by (auto simp: demo_iso(2) demo_nights)
qed

section \<open>Two stays of one room type\<close>

definition one_night :: "int \<Rightarrow> CreateItemInput" where
  "one_night x = \<lparr>RoomTypeID = 2, AssignedRoomID = None, ArrivalDate = x * day_ns, DepartureDate = (x + 1) * day_ns,
     RatePlanID = None, AdultsCount = 2, ChildrenCount = 0\<rparr>"

definition split_input :: CreateReservationInput where
  "split_input = demo_input\<lparr>Items := [one_night 10, one_night 11]\<rparr>"

definition night_item :: "uuid \<Rightarrow> int \<Rightarrow> OperationsReservationItem" where
  "night_item u x = new_item\<lparr>i_id := u, i_stay_period := ToRange (x * day_ns) ((x + 1) * day_ns)\<rparr>"

definition night_row :: "uuid \<Rightarrow> uuid \<Rightarrow> int \<Rightarrow> InventoryRoomInventoryLedger" where
  "night_row u i x = (new_row u x)\<lparr>l_item_id := Some i\<rparr>"

definition with_night :: "db \<Rightarrow> int \<Rightarrow> db" where
  "with_night d x = d\<lparr>items := items d @ [night_item (of_nat (1000 + uuid_next d)) x], uuid_next := Suc (uuid_next d)\<rparr>"

definition with_row :: "db \<Rightarrow> int \<Rightarrow> db" where
  "with_row d x = (with_night d x)\<lparr>ledger := ledger d @ [night_row (of_nat (1001 + uuid_next d)) (of_nat (1000 + uuid_next d)) x],
     uuid_next := Suc (Suc (uuid_next d))\<rparr>"

lemma night_facts:
  "NightsBetween (x * day_ns) ((x + 1) * day_ns) = [x * day_ns]" "DatesToPGDates [x * day_ns] = [x]"
  "pg_range (ToRange (x * day_ns) ((x + 1) * day_ns)) = Inr (ToRange (x * day_ns) ((x + 1) * day_ns))"
  by (simp_all add: NightsBetween_upto DatesToPGDates_def)
    (simp add: pg_range_def ToRange_def pg_ts_def truncate_to_def day_ns_def)

lemma insert_night:
  assumes "schema_ok (with_night d x)" "schema_ok (with_row d x)"
    and "rooms d = rooms demo_db" "room_types d = room_types demo_db"
    and free: "list_all (\<lambda>l. l_room_id l = 4 \<longrightarrow> l_date l \<noteq> x) (ledger d)" "list_ex (\<lambda>l. l_room_id l = 3 \<and> l_date l = x \<and> l_status l = Sold \<and> l_deleted_at l = None) (ledger d)"
  shows "insertSingleItem demo_env (one_night x) (StatusConfirmed, ItemStatusBooked) 1 1000 (demo_tx R d) =
    (Inr (itemToResponse (night_item (of_nat (1000 + uuid_next d)) x)), demo_tx R (with_row d x))"
proof -
  have "GetRoomTypeOccupancy demo_env 2 1 (demo_tx R d) = (Inr (hd (room_types demo_db)), demo_tx R d)"
    unfolding GetRoomTypeOccupancy_def by (rule query_demo) (simp add: one_row_def assms(4), simp add: demo_db_def)
  moreover have "CreateReservationItem demo_env \<lparr>ci_PropertyID = 1, ci_ReservationID = 1000, ci_BookedRoomTypeID = 2,
      ci_AssignedRoomID = None, ci_GuestID = None, ci_RatePlanID = None,
      ci_StayPeriod = ToRange (x * day_ns) ((x + 1) * day_ns), ci_BaseRatePence = 10000, ci_AdultsCount = 2,
      ci_ChildrenCount = 0, ci_Status = ItemStatusBooked, ci_DoNotMove = False\<rparr> (demo_tx R d)
      = (Inr (night_item (of_nat (1000 + uuid_next d)) x), demo_tx R (with_night d x))"
    unfolding CreateReservationItem_def
  proof (rule query_demo)
  qed (use assms(1) in \<open>simp add: item_status_enum_def night_facts Let_def with_night_def night_item_def new_item_def
    demo_env_def checked_iff\<close>)
  moreover have "SelectRoomForAutoPin demo_env 1 2 [x] (demo_tx R (with_night d x)) = (Inr 4, demo_tx R (with_night d x))"
    unfolding SelectRoomForAutoPin_def
    by (rule query_demo) (use free in \<open>auto simp: one_row_def with_night_def assms(3) demo_db_def demo_room_def demo_env_def blocking_def list_all_iff list_ex_iff\<close>)
  moreover have "BulkInsertLedgerRows demo_env (ledger_rows 1 4 1000 (of_nat (1000 + uuid_next d)) [x * day_ns]) (demo_tx R (with_night d x)) = (Inr (), demo_tx R (with_row d x))"
    unfolding BulkInsertLedgerRows_def
  proof (rule query_demo)
  qed (use assms(2) in \<open>simp add: bulk_row_ledger_rows demo_env_def with_row_def night_row_def new_row_def checked_iff with_night_def\<close>)
  ultimately show ?thesis
    by (simp add: insertSingleItem_def one_night_def bnd_def map_err_def guard_def ret_def night_facts resolveRates_def demo_db_def night_item_def new_item_def Let_def in_int32_def)
qed

definition split_db1 :: db where "split_db1 = with_row create_db1 10"
definition split_db2 :: db where "split_db2 = with_row split_db1 11"
definition split_db3 :: db where
  "split_db3 = split_db2\<lparr>notifications := [(''reservation_changes'', json_object [(''action'', json_string ''created''), (''reservation_id'', json_string (uuid_text 1000))])]\<rparr>"
definition split_db4 :: db where
  "split_db4 = split_db3\<lparr>outbox := [\<lparr>o_id = 1005, o_event_type = ''smtp.confirmation'', o_payload = confirmationEmailPayload (uuid_text 1000),
          o_status = OutboxPending, o_retry_count = 0, o_last_error = None,
          o_process_at = 5 * day_ns, o_updated_at = 5 * day_ns\<rparr>], uuid_next := Suc (uuid_next split_db3)\<rparr>"

lemmas split_dbs = split_db1_def split_db2_def split_db3_def split_db4_def with_night_def with_row_def night_item_def night_row_def

lemma split_schemas:
  "schema_ok (with_night create_db1 10)" "schema_ok (with_row create_db1 10)"
  "schema_ok (with_night split_db1 11)" "schema_ok (with_row split_db1 11)" "schema_ok split_db4"
  by (simp_all add: schema_defs demo_defs new_defs split_dbs ToRange_def day_ns_def)

lemma split_items: "insertAllItems demo_env split_input (StatusConfirmed, ItemStatusBooked) 1 1000 (demo_tx R create_db1) =
    (Inr [itemToResponse (night_item 1001 10), itemToResponse (night_item 1003 11)], demo_tx R split_db2)"
proof -
  have "insertSingleItem demo_env (one_night 10) (StatusConfirmed, ItemStatusBooked) 1 1000 (demo_tx R create_db1) =
      (Inr (itemToResponse (night_item 1001 10)), demo_tx R split_db1)"
    using insert_night [OF split_schemas(1,2), of R]
    by (simp add: split_db1_def create_db1_def demo_db_def demo_ledger_def)
  moreover have "insertSingleItem demo_env (one_night 11) (StatusConfirmed, ItemStatusBooked) 1 1000 (demo_tx R split_db1) =
      (Inr (itemToResponse (night_item 1003 11)), demo_tx R split_db2)"
    using insert_night [OF split_schemas(3,4), of R]
    by (simp add: split_db2_def) (simp add: split_dbs create_db1_def demo_db_def demo_ledger_def new_row_def)
  ultimately show ?thesis by (simp add: insertAllItems_def split_input_def bnd_def ret_def)
qed

lemma split_notify: "notifyReservationChange ''created'' 1000 (demo_tx R split_db2) = (Inr (), demo_tx R split_db3)"
  unfolding notifyReservationChange_def NotifyChannel_def
  by (rule run_stmt_demo) (simp add: demo_tx_def split_dbs create_db1_def demo_db_def)

lemma split_mail: "Enqueue demo_env EventConfirmationEmail (confirmationEmailPayload (uuid_text 1000)) (demo_tx R split_db3) = (Inr (), demo_tx R split_db4)"
proof -
  have "CreateOutboxEvent demo_env EventConfirmationEmail (confirmationEmailPayload (uuid_text 1000)) (5 * day_ns) (demo_tx R split_db3) = (Inr 1005, demo_tx R split_db4)"
    unfolding CreateOutboxEvent_def
  proof (rule run_stmt_demo)
  qed (use split_schemas(5) in \<open>simp add: Let_def demo_tx_def demo_env_def EventConfirmationEmail_def checked_iff split_dbs create_db1_def demo_db_def pg_ts_def truncate_to_def day_ns_def\<close>)
  then show ?thesis by (simp add: Enqueue_def EnqueueAt_def bnd_def map_err_def ret_def demo_env_def)
qed

lemma split_create_tx: "createReservationTx demo_env demo_ctx split_input (StatusConfirmed, ItemStatusBooked) demo_flags (demo_tx R demo_db) =
   (Inr (reservationToResponse new_reservation), demo_tx R split_db4)"
proof -
  have "GetPropertyTimezone demo_env 1 (demo_tx R demo_db) = (Inr ''Europe/London'', demo_tx R demo_db)"
    unfolding GetPropertyTimezone_def by (rule run_stmt_demo) (simp add: demo_env_def demo_tx_def demo_db_def one_row_def)
  then have "checkArrivals demo_env demo_ctx split_input (demo_tx R demo_db) = (Inr (), demo_tx R demo_db)"
    by (simp add: checkArrivals_def demo_ctx_def GetPropertyIDFromCtx_def demo_env_def split_input_def one_night_def bnd_def map_err_def guard_def ret_def truncate_to_def day_ns_def)
  moreover have "computeEnvelope (Items split_input) = (10 * day_ns, 12 * day_ns)"
    by (simp add: computeEnvelope_def split_input_def one_night_def day_ns_def)
  moreover have "expandInclude demo_env x demo_flags 1 1000 (Some 7) (demo_tx R d) = (Inr x, demo_tx R d)" for x d
    by (simp add: expandInclude_def expandInclude_with_def demo_flags_def bnd_def ret_def IncludeItems_def)
  moreover note demo_create_row split_items split_notify split_mail
  moreover have "Source split_input = SourceOTA" "PrimaryGuestID split_input = Some 7" "Notes split_input = []" "Guest split_input = None"
    by (simp_all add: split_input_def demo_input_def)
  ultimately show ?thesis
    by (simp add: createReservationTx_def SourceIsWalkin_def createReservationInTx_def bnd_def ret_def map_err_def attempt_def Let_def
       resolvePrimaryGuest_def demo_ctx_def GetPropertyIDFromCtx_def PtrUUID_def empty_null_def computeExpiresAt_def new_reservation_def IncludeItems_def demo_flags_def)
qed

lemma split_create: "\<exists>t. CreateReservation_svc demo_env demo_ctx split_input demo_flags (demo_sess\<lparr>redis := R\<rparr>) =
    (Inr (reservationToResponse new_reservation), t)"
proof -
  obtain t where tx: "ExecuteTx demo_ctx (createReservationTx demo_env demo_ctx split_input (StatusConfirmed, ItemStatusBooked) demo_flags)
      (demo_sess\<lparr>redis := R\<rparr>) = (Inr (reservationToResponse new_reservation), t)" "faults t = []"
    using ExecuteTx_demo [where fn = "createReservationTx demo_env demo_ctx split_input (StatusConfirmed, ItemStatusBooked) demo_flags",
        OF split_create_tx] by auto
  with invalidate_loop_evicts [OF tx(2), of 1 "Items split_input" "[]"] show ?thesis
    by (simp add: CreateReservation_svc_def split_input_def demo_input_def SourceToInitialStatus_def SourceIsWalkin_def bnd_def ret_def
        invalidateAvailabilityAfterCreate_def demo_ctx_def GetPropertyIDFromCtx_def)
qed

theorem second_stay_stays_cached_witness:
  "\<exists>resp t. CreateReservation_svc demo_env demo_ctx split_input demo_flags demo_cached = (Inr resp, t)
    \<and> known demo_env t 1 2 (11 * day_ns) = Some 1 \<and> free_rooms (pool t) 1 2 11 = []"
proof -
  obtain resp t where t: "CreateReservation_svc demo_env demo_ctx split_input demo_flags demo_cached = (Inr resp, t)"
    using split_create [of demo_cache] by blast
  have p: "GetPropertyIDFromCtx demo_ctx = 1" by (simp add: demo_ctx_def GetPropertyIDFromCtx_def)
  have its: "Items split_input = one_night 10 # [one_night 11]" "one_night 11 \<in> set [one_night 11]" "RoomTypeID (one_night 11) = RoomTypeID (one_night 10)"
    and room: "assigned_as_booked (pool demo_cached) (GetPropertyIDFromCtx demo_ctx) (one_night 11)"
    by (simp_all add: split_input_def one_night_def assigned_as_booked_def list_all_iff)
  have n: "11 * day_ns \<in> set (NightsBetween (ArrivalDate (one_night 11)) (DepartureDate (one_night 11)))"
    "11 * day_ns \<notin> set (NightsBetween (ArrivalDate (one_night 10)) (DepartureDate (one_night 10)))"
    "iso_stay (ArrivalDate (one_night 10)) (DepartureDate (one_night 10))"
    by (simp_all add: one_night_def set_NightsBetween demo_iso(2) [of 10 11, simplified])
  have cached: "known demo_env demo_cached (GetPropertyIDFromCtx demo_ctx) (RoomTypeID (one_night 11)) (11 * day_ns) = Some 1"
    "1 = int (length (free_rooms (pool demo_cached) (GetPropertyIDFromCtx demo_ctx) (RoomTypeID (one_night 11)) (day_of (11 * day_ns))))"
    by (simp_all add: p one_night_def demo_known demo_iso demo_cached_session demo_free_rooms)
  have ok: "schema_ok (pool demo_cached)" "rooms_keyed (pool demo_cached)" by (simp_all only: demo_cached_session demo_schema)
  from second_stay_stays_cached [OF t demo_cached_session(1) ok its room n(3) demo_iso(1) [of 11] n(1,2) cached] t show ?thesis
    by (auto simp: p one_night_def)
qed

end
