(* ===== verification/Outbox.thy ===== *)
theory Outbox
  imports Contracts BookingTypes
begin

text \<open>
  The outbox worker engine (\<open>worker/engine.go\<close>, \<open>worker/handler.go\<close>): claiming a batch of due events,
  running their handlers, and completing, retrying or dead-lettering them.

  A handler is code registered from outside: any action on the system that takes the payload. Every
  database error after a claim is only logged, so an error result of \<open>process\<close> stands for a panic of the
  goroutine. \<open>engine_step\<close> interleaves the polls, the goroutines they start, crashes, the passing of time and
  the requests that enqueue events. A goroutine is taken to start at the claim of its event, which is when the deadline
  of its status updates starts to run; the world keeps that time with every event in flight.
\<close>

section \<open>Configuration and handlers\<close>

record Config =
  cfg_PollInterval :: duration
  cfg_BatchSize :: int
  cfg_MaxRetries :: int

type_synonym Handler = "string \<Rightarrow> unit query"

record Engine =
  handlers :: "string \<rightharpoonup> Handler"
  pollInterval :: duration
  batchSize :: int
  maxRetries :: int

definition New_engine :: "Config \<Rightarrow> Engine" where
  "New_engine cfg = \<lparr>handlers = (\<lambda>_. None),
     pollInterval = (if cfg_PollInterval cfg = 0 then 5 * second_ns else cfg_PollInterval cfg),
     batchSize = (if cfg_BatchSize cfg = 0 then 10 else cfg_BatchSize cfg),
     maxRetries = (if cfg_MaxRetries cfg = 0 then 3 else cfg_MaxRetries cfg)\<rparr>"

definition Register :: "Engine \<Rightarrow> string \<Rightarrow> Handler \<Rightarrow> Engine" where
  "Register eng ty h = eng\<lparr>handlers := (handlers eng)(ty \<mapsto> h)\<rparr>"

section \<open>Claiming a batch\<close>

record claimedRow =
  c_id :: uuid
  c_eventType :: string
  c_payload :: string
  c_retryCount :: int

definition active :: "InternalOutboxEvent \<Rightarrow> bool" where
  "active e \<longleftrightarrow> o_status e = OutboxPending \<or> o_status e = OutboxProcessing"

definition claimable :: "env \<Rightarrow> InternalOutboxEvent \<Rightarrow> bool" where
  "claimable E e \<longleftrightarrow> active e \<and> o_process_at e \<le> pg_now E \<and> \<not> locked E (o_id e)"

definition claimed_ids :: "env \<Rightarrow> int \<Rightarrow> InternalOutboxEvent list \<Rightarrow> uuid list" where
  "claimed_ids E n es = map o_id (take (nat n) (sort_key o_process_at (filter (claimable E) es)))"

definition claim :: "env \<Rightarrow> InternalOutboxEvent \<Rightarrow> InternalOutboxEvent" where
  "claim E e = e\<lparr>o_status := OutboxProcessing, o_process_at := pg_now E + 5 * minute_ns, o_updated_at := pg_now E\<rparr>"

definition claimed_row :: "InternalOutboxEvent \<Rightarrow> claimedRow" where
  "claimed_row e = \<lparr>c_id = o_id e, c_eventType = o_event_type e, c_payload = o_payload e, c_retryCount = o_retry_count e\<rparr>"

definition update_events ::
  "(InternalOutboxEvent \<Rightarrow> bool) \<Rightarrow> (InternalOutboxEvent \<Rightarrow> InternalOutboxEvent) \<Rightarrow> db \<Rightarrow> db" where
  "update_events P f d = d\<lparr>outbox := map (\<lambda>e. if P e then f e else e) (outbox d)\<rparr>"

definition claimBatch :: "env \<Rightarrow> Engine \<Rightarrow> claimedRow list query" where
  "claimBatch E eng = auto_commit (run_stmt (\<lambda>s.
     let ids = claimed_ids E (batchSize eng) (outbox (data s)); hit = (\<lambda>e. o_id e \<in> set ids)
     in if batchSize eng < 0 then Inl (pg_error ''2201W'')
        else Inr (map claimed_row (filter hit (outbox (data s))), update_events hit (claim E) (data s))))"

section \<open>Settling an event\<close>

text \<open>A statement on a context whose deadline has passed (\<open>late\<close>) is not sent; the pool returns the error of the context.\<close>

definition Exec :: "bool \<Rightarrow> unit query \<Rightarrow> unit query" where
  "Exec late q = (if late then throw ContextDeadlineExceeded else auto_commit q)"

definition exec_logged :: "bool \<Rightarrow> unit query \<Rightarrow> unit query" where
  "exec_logged late q = bnd (attempt (Exec late q)) (\<lambda>_. ret ())"

definition markCompleted :: "env \<Rightarrow> bool \<Rightarrow> uuid \<Rightarrow> unit query" where
  "markCompleted E late u = exec_logged late (run_stmt (\<lambda>s. Inr ((), update_events (\<lambda>e. o_id e = u)
     (\<lambda>e. e\<lparr>o_status := OutboxCompleted, o_updated_at := pg_now E\<rparr>) (data s))))"

definition backoffSeconds :: "int \<Rightarrow> goerr + int" where
  "backoffSeconds retryCount =
     (if 11 \<le> retryCount then Inr 1800
      else if retryCount < 0 then Inl (ErrorString ''runtime error: negative shift amount'')
      else Inr (push_bit (nat retryCount) 1))"

definition retried :: "env \<Rightarrow> string \<Rightarrow> int \<Rightarrow> InternalOutboxEvent \<Rightarrow> InternalOutboxEvent" where
  "retried E msg backoff e = e\<lparr>o_status := OutboxPending, o_retry_count := o_retry_count e + 1, o_last_error := Some msg,
     o_process_at := pg_now E + backoff * second_ns, o_updated_at := pg_now E\<rparr>"

definition failed :: "env \<Rightarrow> string \<Rightarrow> bool \<Rightarrow> InternalOutboxEvent \<Rightarrow> InternalOutboxEvent" where
  "failed E msg bumpRetry e = e\<lparr>o_status := OutboxFailed,
     o_retry_count := (if bumpRetry then o_retry_count e + 1 else o_retry_count e), o_last_error := Some msg,
     o_updated_at := pg_now E\<rparr>"

definition overflows :: "uuid \<Rightarrow> db \<Rightarrow> bool" where
  "overflows u d \<longleftrightarrow> list_ex (\<lambda>e. o_id e = u \<and> \<not> in_int32 (o_retry_count e + 1)) (outbox d)"

definition scheduleRetry :: "env \<Rightarrow> bool \<Rightarrow> claimedRow \<Rightarrow> string \<Rightarrow> unit query" where
  "scheduleRetry E late r errMsg = (case backoffSeconds (c_retryCount r) of
     Inl panic \<Rightarrow> throw panic
   | Inr backoff \<Rightarrow> exec_logged late (run_stmt (\<lambda>s.
       if overflows (c_id r) (data s) then Inl (pg_error ''22003'')
       else Inr ((), update_events (\<lambda>e. o_id e = c_id r) (retried E errMsg backoff) (data s)))))"

definition dead_letter_payload :: "claimedRow \<Rightarrow> string \<Rightarrow> string" where
  "dead_letter_payload r errMsg = json_object [(''id'', json_string (uuid_text (c_id r))),
     (''event_type'', json_string (c_eventType r)), (''last_error'', json_string errMsg)]"

definition notify_dead_lettered :: "string \<Rightarrow> unit query" where
  "notify_dead_lettered payload = run_stmt (\<lambda>s.
     if length payload < 8000
     then Inr ((), (data s)\<lparr>notifications := notifications (data s) @ [(''outbox_dead_lettered'', payload)]\<rparr>)
     else Inl (pg_error ''22023''))"

definition markFailed :: "env \<Rightarrow> bool \<Rightarrow> claimedRow \<Rightarrow> string \<Rightarrow> bool \<Rightarrow> unit query" where
  "markFailed E late r errMsg bumpRetry =
     bnd (attempt (Exec late (run_stmt (\<lambda>s.
            if bumpRetry \<and> overflows (c_id r) (data s) then Inl (pg_error ''22003'')
            else Inr ((), update_events (\<lambda>e. o_id e = c_id r) (failed E errMsg bumpRetry) (data s)))))) (\<lambda>res.
     case res of
       Inl e \<Rightarrow> ret ()
     | Inr _ \<Rightarrow> exec_logged late (notify_dead_lettered (dead_letter_payload r errMsg)))"

section \<open>Processing a claimed event\<close>

text \<open>
  The deadline of the status updates is set before the handler is called, so \<open>late\<close> says that the handler took ten
  seconds or more.
\<close>

definition db_timeout :: duration where
  "db_timeout = 10 * second_ns"

definition process :: "env \<Rightarrow> Engine \<Rightarrow> bool \<Rightarrow> claimedRow \<Rightarrow> unit query" where
  "process E eng late r =
     (case handlers eng (c_eventType r) of
        None \<Rightarrow> markFailed E late r (''no handler registered for event_type: '' @ c_eventType r) False
      | Some h \<Rightarrow>
          bnd (attempt (h (c_payload r))) (\<lambda>res. case res of
            Inr _ \<Rightarrow> markCompleted E late (c_id r)
          | Inl err \<Rightarrow>
              if errors_Is_context err then ret ()
              else if c_retryCount r + 1 \<ge> maxRetries eng then markFailed E late r (err_text err) True
              else scheduleRetry E late r (err_text err)))"

section \<open>The engine among its goroutines\<close>

record world =
  clock :: time
  sys :: sess
  inflight :: "(time \<times> claimedRow) list"
  polled :: "uuid list list"

inductive engine_step :: "Engine \<Rightarrow> world \<Rightarrow> world \<Rightarrow> bool" for eng where
  tick: "clock w \<le> t \<Longrightarrow> engine_step eng w (w\<lparr>clock := t\<rparr>)"
| poll: "pg_now E = clock w \<Longrightarrow> locked E = (\<lambda>_. False) \<Longrightarrow> claimBatch E eng ((sys w)\<lparr>faults := fs\<rparr>) = (Inr rows, s) \<Longrightarrow>
    engine_step eng w (w\<lparr>sys := s, inflight := inflight w @ map (Pair (clock w)) rows, polled := polled w @ [map c_id rows]\<rparr>)"
| poll_error: "pg_now E = clock w \<Longrightarrow> claimBatch E eng ((sys w)\<lparr>faults := fs\<rparr>) = (Inl err, s) \<Longrightarrow>
    engine_step eng w (w\<lparr>sys := s\<rparr>)"
| finish: "pg_now E = clock w \<Longrightarrow> (t, r) \<in> set (inflight w) \<Longrightarrow>
    process E eng (t + db_timeout \<le> clock w) r ((sys w)\<lparr>faults := fs\<rparr>) = (res, s) \<Longrightarrow>
    engine_step eng w (w\<lparr>sys := s, inflight := remove1 (t, r) (inflight w)\<rparr>)"
| enqueue: "clock w \<le> pg_ts at \<Longrightarrow> auto_commit (EnqueueAt E ty payload at) ((sys w)\<lparr>faults := fs\<rparr>) = (res, s) \<Longrightarrow>
    engine_step eng w (w\<lparr>sys := s\<rparr>)"
| crash: "engine_step eng w (w\<lparr>inflight := []\<rparr>)"

inductive_cases engine_step_cases: "engine_step eng w w'"

section \<open>Statements on the pool\<close>

lemma auto_commit_run_stmt:
  assumes "auto_commit (run_stmt f) s = (r, t)"
  obtains (failed) e where "r = Inl e" "pool t = pool s"
  | (succeeded) x d s' where "r = Inr x" "data s' = pool s" "f s' = Inr (x, d)" "pool t = d"
proof -
  let ?s = "s\<lparr>snapshot := pool s, data := pool s, cur_property := None, aborted := None\<rparr>"
  show thesis
  proof (cases f ?s rule: run_stmt_cases)
    case (failed e s')
    with assms that(1) show thesis by (auto simp: auto_commit_def leave_tx_def)
  next
    case (succeeded x d fs)
    with assms that(2) [of x "?s\<lparr>faults := fs\<rparr>" d] show thesis by (auto simp: auto_commit_def leave_tx_def)
  qed
qed

lemma Exec_run_stmt:
  assumes "Exec late (run_stmt f) s = (r, t)"
  obtains (failed) e where "r = Inl e" "pool t = pool s"
  | (succeeded) d s' where "\<not> late" "r = Inr ()" "data s' = pool s" "f s' = Inr ((), d)" "pool t = d"
proof (cases late)
  case True
  with assms that(1) [of ContextDeadlineExceeded] show thesis by (simp add: Exec_def throw_def)
next
  case False
  with assms have "auto_commit (run_stmt f) s = (r, t)" by (simp add: Exec_def)
  then show thesis by (rule auto_commit_run_stmt) (use that False in auto)
qed

lemma exec_logged_run_stmt:
  assumes "exec_logged late (run_stmt f) s = (r, t)"
  obtains (failed) "r = Inr ()" "pool t = pool s"
  | (succeeded) d s' where "\<not> late" "r = Inr ()" "data s' = pool s" "f s' = Inr ((), d)" "pool t = d"
proof -
  from assms obtain a where a: "Exec late (run_stmt f) s = (a, t)" and "r = Inr ()"
    by (cases "Exec late (run_stmt f) s") (auto simp: exec_logged_def bnd_def attempt_def ret_def)
  from a show thesis by (rule Exec_run_stmt) (use that \<open>r = Inr ()\<close> in auto)
qed

section \<open>Retries back off\<close>

lemma backoff_doubles: "backoffSeconds n = (if n < 0 then Inl (ErrorString ''runtime error: negative shift amount'')
    else Inr (min (2 ^ nat n) 1800))"
proof -
  have "(2 :: int) ^ nat n \<le> 2 ^ 10" if "n < 11"
    using that by (intro power_increasing) auto
  moreover have "(2 :: int) ^ 11 \<le> 2 ^ nat n" if "11 \<le> n"
    using that by (intro power_increasing) auto
  ultimately show ?thesis by (auto simp: backoffSeconds_def push_bit_eq_mult min_def)
qed

text \<open>C15. The delay before a retry is the power of two of the number of failed attempts, capped at half an hour; the
  test against eleven attempts that stands in for the comparison is exact, and a negative count would
  panic.\<close>

theorem retry_backoff:
  "backoffSeconds n = (if n < 0 then Inl (ErrorString ''runtime error: negative shift amount'') else Inr (min (2 ^ nat n) 1800))"
  by (rule backoff_doubles)

section \<open>Claims\<close>

lemma claimBatch_returns:
  assumes "claimBatch E eng s = (Inr rows, t)"
  defines "hit \<equiv> \<lambda>e. o_id e \<in> set (claimed_ids E (batchSize eng) (outbox (pool s)))"
  shows "rows = map claimed_row (filter hit (outbox (pool s)))
    \<and> outbox (pool t) = map (\<lambda>e. if hit e then claim E e else e) (outbox (pool s))"
  using assms(1) unfolding claimBatch_def
  by (cases rule: auto_commit_run_stmt) (auto simp: Let_def hit_def update_events_def split: if_splits)

lemma claimBatch_fails: "claimBatch E eng s = (Inl e, t) \<Longrightarrow> pool t = pool s"
  unfolding claimBatch_def by (erule auto_commit_run_stmt) auto

section \<open>What processing does to the outbox\<close>

definition quiet_handlers :: "Engine \<Rightarrow> bool" where
  "quiet_handlers eng \<longleftrightarrow> (\<forall>ty h payload s. handlers eng ty = Some h \<longrightarrow>
     outbox (pool (snd (h payload s))) = outbox (pool s))"

definition on_event :: "uuid \<Rightarrow> (InternalOutboxEvent \<Rightarrow> InternalOutboxEvent) \<Rightarrow> InternalOutboxEvent list \<Rightarrow> InternalOutboxEvent list" where
  "on_event u f es = map (\<lambda>e. if o_id e = u then f e else e) es"

inductive settles :: "env \<Rightarrow> Engine \<Rightarrow> claimedRow \<Rightarrow> (InternalOutboxEvent \<Rightarrow> InternalOutboxEvent) \<Rightarrow> bool" for E eng r where
  kept: "settles E eng r (\<lambda>e. e)"
| completed: "settles E eng r (\<lambda>e. e\<lparr>o_status := OutboxCompleted, o_updated_at := pg_now E\<rparr>)"
| unhandled: "settles E eng r (failed E msg False)"
| exhausted: "maxRetries eng \<le> c_retryCount r + 1 \<Longrightarrow> settles E eng r (failed E msg True)"
| again: "c_retryCount r + 1 < maxRetries eng \<Longrightarrow> 1 \<le> b \<Longrightarrow> b \<le> 1800 \<Longrightarrow> settles E eng r (retried E msg b)"

lemma on_event_id [simp]: "on_event u (\<lambda>e. e) es = es"
  by (simp add: on_event_def)

lemma markCompleted_effect:
  assumes "markCompleted E late u s = (res, t)"
  shows "res = Inr () \<and> (outbox (pool t) = outbox (pool s)
    \<or> \<not> late \<and> outbox (pool t) = on_event u (\<lambda>e. e\<lparr>o_status := OutboxCompleted, o_updated_at := pg_now E\<rparr>) (outbox (pool s)))"
  using assms unfolding markCompleted_def
  by (cases rule: exec_logged_run_stmt) (auto simp: update_events_def on_event_def)

lemma notify_effect: "exec_logged late (notify_dead_lettered p) s = (res, t) \<Longrightarrow> res = Inr () \<and> outbox (pool t) = outbox (pool s)"
  unfolding notify_dead_lettered_def by (erule exec_logged_run_stmt) (auto split: if_splits dest!: arg_cong [of _ "pool t" outbox])

lemma markFailed_effect:
  assumes "markFailed E late r msg b s = (res, t)"
  shows "res = Inr () \<and> (outbox (pool t) = outbox (pool s)
    \<or> \<not> late \<and> outbox (pool t) = on_event (c_id r) (failed E msg b) (outbox (pool s)))"
proof -
  let ?f = "\<lambda>s. if b \<and> overflows (c_id r) (data s) then Inl (pg_error ''22003'')
            else Inr ((), update_events (\<lambda>e. o_id e = c_id r) (failed E msg b) (data s))"
  obtain a s1 where a: "Exec late (run_stmt ?f) s = (a, s1)" by fastforce
  then show ?thesis
  proof (cases rule: Exec_run_stmt)
    case (failed e)
    with a assms show ?thesis by (simp add: markFailed_def bnd_def attempt_def ret_def)
  next
    case (succeeded d s')
    with a assms have "exec_logged late (notify_dead_lettered (dead_letter_payload r msg)) s1 = (res, t)"
      by (simp add: markFailed_def bnd_def attempt_def)
    from notify_effect [OF this] succeeded show ?thesis
      by (auto simp: update_events_def on_event_def split: if_splits dest!: arg_cong [of _ "pool s1" outbox])
  qed
qed

lemma scheduleRetry_effect:
  assumes "scheduleRetry E late r msg s = (res, t)"
  shows "(res = Inr () \<or> c_retryCount r < 0) \<and> (outbox (pool t) = outbox (pool s)
    \<or> \<not> late \<and> (\<exists>b. 1 \<le> b \<and> b \<le> 1800 \<and> outbox (pool t) = on_event (c_id r) (retried E msg b) (outbox (pool s))))"
proof (cases "c_retryCount r < 0")
  case True
  with assms show ?thesis by (simp add: scheduleRetry_def backoff_doubles throw_def)
next
  case False
  let ?b = "min (2 ^ nat (c_retryCount r)) (1800 :: int)"
  from False assms have "exec_logged late (run_stmt (\<lambda>s.
       if overflows (c_id r) (data s) then Inl (pg_error ''22003'')
       else Inr ((), update_events (\<lambda>e. o_id e = c_id r) (retried E msg ?b) (data s)))) s = (res, t)"
    by (simp add: scheduleRetry_def backoff_doubles)
  moreover have "1 \<le> ?b" "?b \<le> 1800" by simp_all
  ultimately show ?thesis
    by (cases rule: exec_logged_run_stmt)
      (auto simp: update_events_def on_event_def split: if_splits dest!: arg_cong [of _ "pool t" outbox] intro!: exI [of _ ?b])
qed

lemma process_settles:
  assumes quiet: "quiet_handlers eng" and run: "process E eng late r s = (res, t)"
  shows "(res = Inr () \<or> c_retryCount r < 0) \<and> (\<exists>f. settles E eng r f \<and> (late \<longrightarrow> f = (\<lambda>e. e))
    \<and> outbox (pool t) = on_event (c_id r) f (outbox (pool s)))"
proof (cases "handlers eng (c_eventType r)")
  case None
  with run have "markFailed E late r (''no handler registered for event_type: '' @ c_eventType r) False s = (res, t)"
    by (simp add: process_def)
  from markFailed_effect [OF this] show ?thesis by (metis kept unhandled on_event_id)
next
  case (Some h)
  obtain a s1 where h: "h (c_payload r) s = (a, s1)" by fastforce
  with quiet Some have same: "outbox (pool s1) = outbox (pool s)" unfolding quiet_handlers_def by (metis snd_conv)
  show ?thesis
  proof (cases a)
    case (Inr u)
    with run Some h have "markCompleted E late (c_id r) s1 = (res, t)" by (simp add: process_def bnd_def attempt_def)
    from markCompleted_effect [OF this] same show ?thesis by (metis kept completed on_event_id)
  next
    case (Inl e)
    consider "errors_Is_context e" | "\<not> errors_Is_context e" "maxRetries eng \<le> c_retryCount r + 1"
      | "\<not> errors_Is_context e" "c_retryCount r + 1 < maxRetries eng" by linarith
    then show ?thesis
    proof cases
      case 1
      with run Some h Inl have "res = Inr ()" "t = s1" by (simp_all add: process_def bnd_def attempt_def ret_def)
      with same show ?thesis by (metis kept on_event_id)
    next
      case 2
      with run Some h Inl have "markFailed E late r (err_text e) True s1 = (res, t)"
        by (simp add: process_def bnd_def attempt_def)
      from markFailed_effect [OF this] same 2 show ?thesis by (metis kept exhausted on_event_id)
    next
      case 3
      with run Some h Inl have "scheduleRetry E late r (err_text e) s1 = (res, t)"
        by (simp add: process_def bnd_def attempt_def)
      from scheduleRetry_effect [OF this] same 3 show ?thesis by (metis kept again on_event_id)
    qed
  qed
qed

lemma schema_ok_outbox: "schema_ok d \<Longrightarrow> distinct (map o_id (outbox d))"
  by (simp add: schema_ok_def violations_def)

lemma run_stmt_pool: "run_stmt f s = (r, t) \<Longrightarrow> pool t = pool s"
  by (cases f s rule: run_stmt_cases) auto

lemma remove1_other:
  assumes "distinct (map f xs)" "r \<in> set xs"
  shows "q \<in> set (remove1 r xs) \<Longrightarrow> q \<in> set xs \<and> f q \<noteq> f r"
    and "distinct (map f (remove1 r xs))"
  using assms by (auto simp: distinct_map inj_on_def set_remove1_eq distinct_remove1)

lemma updated_elsewhere: "x \<in> set xs \<Longrightarrow> \<not> P x \<Longrightarrow> x \<in> set (map (\<lambda>y. if P y then f y else y) xs)"
  by force

lemma enqueue_effect:
  assumes "auto_commit (EnqueueAt E ty pay at) s = (res, t)"
  shows "outbox (pool t) = outbox (pool s) \<or> (\<exists>e. outbox (pool t) = outbox (pool s) @ [e] \<and> o_process_at e = pg_ts at
    \<and> o_status e = OutboxPending \<and> o_retry_count e = 0 \<and> distinct (map o_id (outbox (pool t))))"
proof -
  let ?s = "s\<lparr>snapshot := pool s, data := pool s, cur_property := None, aborted := None\<rparr>"
  obtain a u where a: "CreateOutboxEvent E ty pay at ?s = (a, u)" by fastforce
  have frame: "pool u = pool s"
    using run_stmt_pool [OF a [unfolded CreateOutboxEvent_def]] by simp
  show ?thesis
  proof (cases a)
    case (Inl e)
    with a assms frame show ?thesis
      by (auto simp: auto_commit_def EnqueueAt_def bnd_def map_err_def leave_tx_def)
  next
    case (Inr x)
    with a obtain fs where "checked (uuidv7 E (uuid_next (pool s))) ((pool s)\<lparr>outbox := outbox (pool s) @ [\<lparr>o_id = uuidv7 E (uuid_next (pool s)), o_event_type = ty, o_payload = pay,
          o_status = OutboxPending, o_retry_count = 0, o_last_error = None,
          o_process_at = pg_ts at, o_updated_at = pg_now E\<rparr>],
          uuid_next := Suc (uuid_next (pool s))\<rparr>) = Inr (x, data u)"
      unfolding CreateOutboxEvent_def by (auto simp: Let_def dest!: run_stmt_returns)
    moreover have "pool t = data u"
      using Inr a assms by (auto simp: auto_commit_def EnqueueAt_def bnd_def map_err_def ret_def leave_tx_def)
    ultimately show ?thesis
      using schema_ok_outbox [of "data u"] by (auto simp: checked_iff)
  qed
qed

section \<open>Settled events\<close>

abbreviation events :: "world \<Rightarrow> InternalOutboxEvent list" where
  "events w \<equiv> outbox (pool (sys w))"

definition live :: "world \<Rightarrow> (time \<times> claimedRow) list" where
  "live w = filter (\<lambda>(t, r). clock w < t + db_timeout) (inflight w)"

definition retries_left :: "Engine \<Rightarrow> InternalOutboxEvent \<Rightarrow> bool" where
  "retries_left eng e \<longleftrightarrow> 0 \<le> o_retry_count e \<and> o_retry_count e \<le> max 1 (maxRetries eng)
     \<and> (active e \<longrightarrow> o_retry_count e < max 1 (maxRetries eng))"

definition tracked :: "world \<Rightarrow> bool" where
  "tracked w \<longleftrightarrow> distinct (map o_id (events w)) \<and> distinct (map (\<lambda>(t, r). c_id r) (live w))
     \<and> (\<forall>(t, r)\<in>set (live w). \<exists>e\<in>set (events w). o_id e = c_id r \<and> o_status e = OutboxProcessing
          \<and> o_retry_count e = c_retryCount r \<and> o_process_at e = t + 5 * minute_ns)"

lemma trackedD:
  assumes "tracked w" "(t, r) \<in> set (live w)"
  obtains e where "e \<in> set (events w)" "o_id e = c_id r" "o_status e = OutboxProcessing" "o_retry_count e = c_retryCount r"
    "o_process_at e = t + 5 * minute_ns"
  using assms by (auto simp: tracked_def)

lemma map_o_id_on_event [simp]: "(\<And>e. o_id (f e) = o_id e) \<Longrightarrow> map o_id (on_event u f es) = map o_id es"
  by (induction es) (auto simp: on_event_def)

lemma settles_o_id: "settles E eng r f \<Longrightarrow> o_id (f e) = o_id e"
  by (cases rule: settles.cases) (auto simp: failed_def retried_def)

lemma distinct_same: "distinct (map o_id es) \<Longrightarrow> e \<in> set es \<Longrightarrow> e' \<in> set es \<Longrightarrow> o_id e = o_id e' \<Longrightarrow> e = e'"
  by (metis distinct_map inj_onD)

lemma settles_retries_left:
  assumes "settles E eng r f" "retries_left eng e" "o_status e = OutboxProcessing" "o_retry_count e = c_retryCount r"
  shows "retries_left eng (f e)"
  using assms by (cases rule: settles.cases) (auto simp: retries_left_def active_def failed_def retried_def max_def)

lemma live_finish: "live (w\<lparr>sys := s, inflight := remove1 x (inflight w)\<rparr>) = remove1 x (live w)"
  by (simp add: live_def filter_remove1)

lemma not_live: "(t, r) \<in> set (inflight w) \<Longrightarrow> (t, r) \<notin> set (live w) \<Longrightarrow> t + db_timeout \<le> clock w"
  by (simp add: live_def)

lemma finish_tracked:
  assumes w: "tracked w" and f: "settles E eng r f" and late: "(t, r) \<notin> set (live w) \<Longrightarrow> f = (\<lambda>e. e)"
    and s: "outbox (pool s) = on_event (c_id r) f (events w)"
  shows "tracked (w\<lparr>sys := s, inflight := remove1 (t, r) (inflight w)\<rparr>)"
proof (cases "(t, r) \<in> set (live w)")
  case True
  have "distinct (map (\<lambda>(t, r). c_id r) (live w))" using w by (simp add: tracked_def)
  note rest = remove1_other [OF this True]
  have "\<exists>e\<in>set (outbox (pool s)). o_id e = c_id q \<and> o_status e = OutboxProcessing
        \<and> o_retry_count e = c_retryCount q \<and> o_process_at e = t' + 5 * minute_ns"
    if "(t', q) \<in> set (remove1 (t, r) (live w))" for t' q
  proof -
    note q = rest(1) [OF that]
    with w obtain e where e: "e \<in> set (events w)" "o_id e = c_id q" "o_status e = OutboxProcessing" "o_retry_count e = c_retryCount q"
      "o_process_at e = t' + 5 * minute_ns" by (auto elim: trackedD)
    with q have "e \<in> set (outbox (pool s))"
      unfolding s on_event_def by (intro updated_elsewhere) simp_all
    with e show ?thesis by blast
  qed
  moreover have "distinct (map o_id (outbox (pool s)))"
    using w by (simp add: s settles_o_id [OF f] tracked_def)
  ultimately show ?thesis using rest(2) unfolding tracked_def live_finish by auto
next
  case False
  with late s have "outbox (pool s) = events w" by simp
  with w False show ?thesis unfolding tracked_def live_finish by (simp add: remove1_idem)
qed

lemma finish_events:
  assumes w: "tracked w" and f: "settles E eng r f" and late: "(t, r) \<notin> set (live w) \<Longrightarrow> f = (\<lambda>e. e)"
  shows "list_all (retries_left eng) (events w) \<Longrightarrow> list_all (retries_left eng) (on_event (c_id r) f (events w))"
    and "e \<in> set (events w) \<Longrightarrow> \<not> active e \<Longrightarrow> e \<in> set (on_event (c_id r) f (events w))"
proof -
  consider "f = (\<lambda>e. e)" | e' where "e' \<in> set (events w)" "o_id e' = c_id r" "o_status e' = OutboxProcessing" "o_retry_count e' = c_retryCount r"
    using trackedD [OF w] late by metis
  then have "(list_all (retries_left eng) (events w) \<longrightarrow> list_all (retries_left eng) (on_event (c_id r) f (events w)))
    \<and> (e \<in> set (events w) \<longrightarrow> \<not> active e \<longrightarrow> e \<in> set (on_event (c_id r) f (events w)))"
  proof cases
    case (2 e')
    have same: "x = e'" if "x \<in> set (events w)" "o_id x = c_id r" for x
      using that w 2 distinct_same unfolding tracked_def by metis
    show ?thesis
    proof (intro conjI impI)
      show "list_all (retries_left eng) (events w) \<Longrightarrow> list_all (retries_left eng) (on_event (c_id r) f (events w))"
        using settles_retries_left [OF f] 2(3,4) by (auto simp: on_event_def list_all_iff dest: same)
      show "e \<in> set (events w) \<Longrightarrow> \<not> active e \<Longrightarrow> e \<in> set (on_event (c_id r) f (events w))"
        using 2(3) by (auto simp: on_event_def image_iff active_def dest: same intro!: bexI [of _ e])
    qed
  qed simp
  then show "list_all (retries_left eng) (events w) \<Longrightarrow> list_all (retries_left eng) (on_event (c_id r) f (events w))"
    "e \<in> set (events w) \<Longrightarrow> \<not> active e \<Longrightarrow> e \<in> set (on_event (c_id r) f (events w))" by blast+
qed

lemma claimed_idsD:
  assumes "u \<in> set (claimed_ids E n es)"
  shows "\<exists>e\<in>set es. o_id e = u \<and> claimable E e"
  using assms by (auto simp: claimed_ids_def dest!: in_set_takeD)

lemma live_poll: "live (w\<lparr>sys := s, inflight := inflight w @ map (Pair (clock w)) rows, polled := ps\<rparr>) = live w @ map (Pair (clock w)) rows"
  by (auto simp: live_def db_timeout_def second_ns_def filter_id_conv)

lemma poll_tracked:
  assumes w: "tracked w" and now: "pg_now E = clock w"
    and run: "claimBatch E eng ((sys w)\<lparr>faults := fs\<rparr>) = (Inr rows, s)"
  shows "tracked (w\<lparr>sys := s, inflight := inflight w @ map (Pair (clock w)) rows, polled := ps\<rparr>)"
    "list_all (retries_left eng) (events w) \<Longrightarrow> list_all (retries_left eng) (outbox (pool s))"
    "e \<in> set (events w) \<Longrightarrow> \<not> active e \<Longrightarrow> e \<in> set (outbox (pool s))"
proof -
  define hit where "hit = (\<lambda>e :: InternalOutboxEvent. o_id e \<in> set (claimed_ids E (batchSize eng) (events w)))"
  from claimBatch_returns [OF run]
  have rows: "rows = map claimed_row (filter hit (events w))"
    and s: "outbox (pool s) = map (\<lambda>e. if hit e then claim E e else e) (events w)"
    by (simp_all add: hit_def)
  have hitD: "claimable E x" if "x \<in> set (events w)" "hit x" for x
    using that w(1) distinct_same unfolding hit_def tracked_def by (metis claimed_idsD)
  have fresh: "c_id q \<noteq> o_id x" if q: "(t, q) \<in> set (live w)" and x: "x \<in> set (events w)" "hit x" for t q x
  proof
    assume id: "c_id q = o_id x"
    obtain e where e: "e \<in> set (events w)" "o_id e = c_id q" "o_process_at e = t + 5 * minute_ns"
      using trackedD [OF w q] by metis
    with id x(1) w have "e = x" using distinct_same unfolding tracked_def by metis
    moreover have "clock w < t + db_timeout" using q by (simp add: live_def)
    ultimately show False
      using hitD [OF x] e(3) now by (simp add: claimable_def db_timeout_def minute_ns_def second_ns_def)
  qed
  have ids: "map o_id (outbox (pool s)) = map o_id (events w)"
    by (simp add: s claim_def)
  have kept: "\<exists>e\<in>set (outbox (pool s)). o_id e = c_id q \<and> o_status e = OutboxProcessing \<and> o_retry_count e = c_retryCount q
      \<and> o_process_at e = t + 5 * minute_ns" if q: "(t, q) \<in> set (live w)" for t q
  proof -
    from w q obtain x where x: "x \<in> set (events w)" "o_id x = c_id q" "o_status x = OutboxProcessing" "o_retry_count x = c_retryCount q"
      "o_process_at x = t + 5 * minute_ns" by (rule trackedD)
    moreover have "\<not> hit x" using fresh [OF q x(1)] x(2) by metis
    then have "x \<in> set (outbox (pool s))" unfolding s using x(1) by (intro updated_elsewhere)
    ultimately show ?thesis by blast
  qed
  have new: "\<exists>e\<in>set (outbox (pool s)). o_id e = c_id q \<and> o_status e = OutboxProcessing \<and> o_retry_count e = c_retryCount q
      \<and> o_process_at e = clock w + 5 * minute_ns" if "q \<in> set rows" for q
  proof -
    from that obtain x where x: "x \<in> set (events w)" "hit x" "q = claimed_row x" by (auto simp: rows)
    then have "claim E x \<in> set (outbox (pool s))" by (force simp: s)
    with x(3) now show ?thesis by (intro bexI [of _ "claim E x"]) (simp_all add: claim_def claimed_row_def)
  qed
  have rows_distinct: "distinct (map c_id rows)"
    using w(1) by (simp add: rows claimed_row_def comp_def tracked_def distinct_map_filter)
  have apart: "(\<lambda>(t, r). c_id r) ` set (live w) \<inter> c_id ` set rows = {}"
    by (auto simp: rows claimed_row_def dest: fresh)
  show "tracked (w\<lparr>sys := s, inflight := inflight w @ map (Pair (clock w)) rows, polled := ps\<rparr>)"
    unfolding tracked_def live_poll
  proof (intro conjI ballI)
    show "distinct (map o_id (events (w\<lparr>sys := s, inflight := inflight w @ map (Pair (clock w)) rows, polled := ps\<rparr>)))"
      using w ids by (simp add: tracked_def)
    show "distinct (map (\<lambda>(t, r). c_id r) (live w @ map (Pair (clock w)) rows))"
      using w rows_distinct apart by (simp add: tracked_def comp_def image_image)
    fix x assume "x \<in> set (live w @ map (Pair (clock w)) rows)"
    then have "x \<in> set (live w) \<or> x \<in> Pair (clock w) ` set rows" by simp
    then consider t q where "x = (t, q)" "(t, q) \<in> set (live w)" | q where "x = (clock w, q)" "q \<in> set rows" by (cases x) auto
    then show "case x of (t, r) \<Rightarrow> \<exists>e\<in>set (events (w\<lparr>sys := s, inflight := inflight w @ map (Pair (clock w)) rows, polled := ps\<rparr>)).
        o_id e = c_id r \<and> o_status e = OutboxProcessing \<and> o_retry_count e = c_retryCount r \<and> o_process_at e = t + 5 * minute_ns"
      by cases (simp_all add: kept new)
  qed
  show "list_all (retries_left eng) (events w) \<Longrightarrow> list_all (retries_left eng) (outbox (pool s))"
    using hitD by (fastforce simp: s list_all_iff retries_left_def claim_def active_def claimable_def)
  show "e \<in> set (events w) \<Longrightarrow> \<not> active e \<Longrightarrow> e \<in> set (outbox (pool s))"
    using hitD by (auto simp: s image_iff claimable_def intro!: bexI [of _ e])
qed

lemma tracked_more_events:
  assumes "tracked w" "outbox (pool s) = events w \<or> (\<exists>e. outbox (pool s) = events w @ [e] \<and> distinct (map o_id (outbox (pool s))))"
  shows "tracked (w\<lparr>sys := s\<rparr>)"
proof -
  have "live (w\<lparr>sys := s\<rparr>) = live w" by (simp add: live_def)
  then show ?thesis using assms by (auto simp: tracked_def split: prod.split)
qed

lemma tracked_fewer:
  assumes "tracked w" "events w' = events w" "live w' = filter P (live w)"
  shows "tracked w'"
  using assms by (auto simp: tracked_def distinct_map_filter)

lemma live_tick: "clock w \<le> t \<Longrightarrow> live (w\<lparr>clock := t\<rparr>) = filter (\<lambda>(t', r). t < t' + db_timeout) (live w)"
  by (auto simp: live_def intro!: filter_cong)

lemma enqueued_retries_left: "o_retry_count e = 0 \<Longrightarrow> retries_left eng e"
  by (auto simp: retries_left_def max_def)

lemma engine_step_keeps:
  assumes quiet: "quiet_handlers eng" and st: "engine_step eng w w'" and w: "tracked w" "list_all (retries_left eng) (events w)"
  shows "tracked w' \<and> list_all (retries_left eng) (events w') \<and> (\<forall>e\<in>set (events w). \<not> active e \<longrightarrow> e \<in> set (events w'))"
  using st
proof (cases rule: engine_step.cases)
  case (tick t)
  with w tracked_fewer [OF w(1), of w'] live_tick [of w t] show ?thesis by simp
next
  case (poll E fs rows s)
  note p = poll_tracked [OF w(1) poll(2,4)]
  show ?thesis using p(1) p(2) [OF w(2)] p(3) poll(1) by simp
next
  case (poll_error E fs err s)
  then have "pool s = pool (sys w)" using claimBatch_fails by fastforce
  with w tracked_fewer [OF w(1), of w' "\<lambda>_. True"] poll_error(1) show ?thesis by (simp add: live_def)
next
  case (finish E t r fs res s)
  from process_settles [OF quiet finish(4)] obtain f where
    f: "settles E eng r f" "t + db_timeout \<le> clock w \<Longrightarrow> f = (\<lambda>e. e)" "outbox (pool s) = on_event (c_id r) f (events w)" by auto
  have late: "(t, r) \<notin> set (live w) \<Longrightarrow> f = (\<lambda>e. e)" using f(2) not_live [OF finish(3)] by blast
  from finish_tracked [OF w(1) f(1) late f(3)] finish_events [OF w(1) f(1) late] w(2) f(3) finish(1) show ?thesis by simp
next
  case (enqueue at E ty pay fs res s)
  from enqueue_effect [OF enqueue(3)] w enqueue(1) show ?thesis
    by (auto simp: enqueued_retries_left intro!: tracked_more_events)
next
  case crash
  with w tracked_fewer [OF w(1), of w' "\<lambda>_. False"] show ?thesis by (simp add: live_def)
qed

text \<open>C12. A settled event stays settled: every event that is completed or failed remains exactly as it is, whatever
  polls, handlers, crashes, database errors and new events come, and no event is ever retried more often than the
  configured maximum. No handler has to be fast for this: a status update is only sent within ten seconds of the claim,
  and the claim of an event holds for five minutes.\<close>

theorem settled_is_final:
  assumes "(engine_step eng)\<^sup>*\<^sup>* w w'" and "quiet_handlers eng" and "schema_ok (pool (sys w))"
    and "inflight w = []" and "list_all (retries_left eng) (events w)"
  shows "list_all (retries_left eng) (events w')
    \<and> (\<forall>e\<in>set (events w). o_status e = OutboxCompleted \<or> o_status e = OutboxFailed \<longrightarrow> e \<in> set (events w'))"
proof -
  from assms(1) have "tracked w' \<and> list_all (retries_left eng) (events w') \<and> (\<forall>e\<in>set (events w). \<not> active e \<longrightarrow> e \<in> set (events w'))"
  proof (induction rule: rtranclp_induct)
    case base
    from assms(3-5) show ?case by (simp add: tracked_def live_def schema_ok_outbox)
  next
    case (step x y)
    with engine_step_keeps [OF assms(2) step(2)] show ?case by blast
  qed
  then show ?thesis by (auto simp: active_def)
qed

section \<open>Every due event gets its turn\<close>

definition ahead :: "time \<Rightarrow> InternalOutboxEvent list \<Rightarrow> nat" where
  "ahead p es = length (filter (\<lambda>e. active e \<and> o_process_at e \<le> p) es)"

lemma sorted_take_before:
  assumes "sorted (map f xs)" "x \<in> set xs" "x \<notin> set (take n xs)"
  shows "length (take n xs) = n \<and> (\<forall>y\<in>set (take n xs). f y \<le> f x)"
proof -
  from assms(2,3) have d: "x \<in> set (drop n xs)" by (metis Un_iff append_take_drop_id set_append)
  then have "n < length xs" by (metis drop_eq_Nil empty_iff linorder_not_less list.set(1))
  moreover have "sorted (map f (take n xs @ drop n xs))" using assms(1) by simp
  then have "\<forall>y\<in>set (take n xs). f y \<le> f x" using d by (auto simp: sorted_append simp del: append_take_drop_id)
  ultimately show ?thesis by simp
qed

lemma claim_moves_ahead:
  assumes d: "distinct (map o_id es)" and e: "e \<in> set es" "claimable E e" "o_process_at e < pg_now E"
    and miss: "o_id e \<notin> set (claimed_ids E n es)"
  shows "ahead (o_process_at e) (map (\<lambda>x. if o_id x \<in> set (claimed_ids E n es) then claim E x else x) es) + nat n
    = ahead (o_process_at e) es"
proof -
  define T where "T = take (nat n) (sort_key o_process_at (filter (claimable E) es))"
  have ids: "claimed_ids E n es = map o_id T" by (simp add: claimed_ids_def T_def)
  have "e \<notin> set T" using miss by (auto simp: ids)
  moreover have "sorted (map o_process_at (sort_key o_process_at (filter (claimable E) es)))" by simp
  ultimately have T: "length T = nat n" "\<forall>y\<in>set T. o_process_at y \<le> o_process_at e"
    using sorted_take_before [of o_process_at "sort_key o_process_at (filter (claimable E) es)" e "nat n"] e
    by (simp_all add: T_def)
  have sub: "x \<in> set es \<and> active x" if "x \<in> set T" for x
    using that by (auto simp: T_def claimable_def dest!: in_set_takeD)
  have hit: "o_id x \<in> set (map o_id T) \<longleftrightarrow> x \<in> set T" if "x \<in> set es" for x
    using that sub distinct_same [OF d] by auto
  let ?Q = "\<lambda>x. active x \<and> o_process_at x \<le> o_process_at e"
  have late: "\<not> o_process_at (claim E x) \<le> o_process_at e" for x
    using e(3) by (simp add: claim_def minute_ns_def second_ns_def)
  have "ahead (o_process_at e) (map (\<lambda>x. if o_id x \<in> set (claimed_ids E n es) then claim E x else x) es)
      = length (filter (\<lambda>x. ?Q x \<and> x \<notin> set T) es)"
    unfolding ahead_def ids filter_map length_map comp_def
    by (rule arg_cong [of _ _ length], rule filter_cong) (use hit late in auto)
  moreover have "length (filter (\<lambda>x. ?Q x \<and> x \<in> set T) es) = nat n"
  proof -
    have "distinct es" using d by (simp add: distinct_map)
    moreover have "distinct T" using \<open>distinct es\<close> by (simp add: T_def)
    moreover have "set (filter (\<lambda>x. ?Q x \<and> x \<in> set T) es) = set T" using sub T(2) by auto
    ultimately show ?thesis using T(1) by (metis distinct_card distinct_filter)
  qed
  moreover have "length (filter (\<lambda>x. ?Q x \<and> x \<notin> set T) es) + length (filter (\<lambda>x. ?Q x \<and> x \<in> set T) es) = length (filter ?Q es)"
    by (induction es) auto
  ultimately show ?thesis by (simp add: ahead_def)
qed

lemma ahead_on_event:
  assumes "\<And>x. active (f x) \<and> o_process_at (f x) \<le> p \<Longrightarrow> active x \<and> o_process_at x \<le> p"
  shows "ahead p (on_event u f es) \<le> ahead p es"
proof (induction es)
  case (Cons x es)
  with assms [of x] show ?case by (auto simp: ahead_def on_event_def)
qed (simp add: ahead_def on_event_def)

lemma settles_ahead:
  assumes "settles E eng r f" "p < pg_now E"
  shows "ahead p (on_event u f es) \<le> ahead p es"
  using assms
  by (cases rule: settles.cases)
    (auto intro!: ahead_on_event simp: active_def failed_def retried_def second_ns_def)

definition waiting :: "Engine \<Rightarrow> InternalOutboxEvent \<Rightarrow> nat \<Rightarrow> world \<Rightarrow> bool" where
  "waiting eng e N w \<longleftrightarrow> distinct (map o_id (events w)) \<and> o_process_at e < clock w \<and>
     (o_id e \<in> set (concat (polled w)) \<or>
      e \<in> set (events w) \<and> o_id e \<notin> (\<lambda>(t, r). c_id r) ` set (inflight w)
      \<and> ahead (o_process_at e) (events w) + length (polled w) * nat (batchSize eng) \<le> N)"

lemma waiting_poll:
  assumes w: "waiting eng e N w" and e: "active e" and now: "pg_now E = clock w" "locked E = (\<lambda>_. False)"
    and run: "claimBatch E eng ((sys w)\<lparr>faults := fs\<rparr>) = (Inr rows, s)"
  shows "waiting eng e N (w\<lparr>sys := s, inflight := inflight w @ map (Pair (clock w)) rows, polled := polled w @ [map c_id rows]\<rparr>)"
proof -
  let ?ids = "claimed_ids E (batchSize eng) (events w)"
  from claimBatch_returns [OF run]
  have rows: "rows = map claimed_row (filter (\<lambda>e. o_id e \<in> set ?ids) (events w))"
    and s: "outbox (pool s) = map (\<lambda>e. if o_id e \<in> set ?ids then claim E e else e) (events w)" by simp_all
  have ids: "map o_id (outbox (pool s)) = map o_id (events w)" by (simp add: s claim_def)
  consider "o_id e \<in> set (concat (polled w))" | "o_id e \<in> set ?ids" "e \<in> set (events w)" | "o_id e \<notin> set ?ids" "o_id e \<notin> set (concat (polled w))"
    using w by (auto simp: waiting_def)
  then show ?thesis
  proof cases
    case 1
    with w ids show ?thesis by (auto simp: waiting_def)
  next
    case 2
    then have "o_id e \<in> set (map c_id rows)" by (auto simp: rows claimed_row_def)
    with w ids show ?thesis by (simp add: waiting_def)
  next
    case 3
    with w e now have "claimable E e" "o_process_at e < pg_now E" "e \<in> set (events w)"
      by (auto simp: waiting_def claimable_def)
    with claim_moves_ahead [of "events w" e E "batchSize eng"] 3 w
    have "ahead (o_process_at e) (outbox (pool s)) + nat (batchSize eng) = ahead (o_process_at e) (events w)"
      by (simp add: s waiting_def)
    moreover have "e \<in> set (outbox (pool s))" unfolding s
      by (intro updated_elsewhere) (use 3 \<open>e \<in> set (events w)\<close> in auto)
    moreover have "o_id e \<notin> c_id ` set rows" using 3 by (auto simp: rows claimed_row_def)
    ultimately show ?thesis using w ids 3 by (simp add: waiting_def image_Un image_image)
  qed
qed

lemma waiting_finish:
  assumes quiet: "quiet_handlers eng" and w: "waiting eng e N w" and now: "pg_now E = clock w" and r: "(t, r) \<in> set (inflight w)"
    and run: "process E eng late r ((sys w)\<lparr>faults := fs\<rparr>) = (res, s)"
  shows "waiting eng e N (w\<lparr>sys := s, inflight := remove1 (t, r) (inflight w)\<rparr>)"
proof -
  from process_settles [OF quiet run] obtain f where
    f: "settles E eng r f" "outbox (pool s) = on_event (c_id r) f (events w)" by auto
  have "e \<in> set (on_event (c_id r) f (events w))" if "e \<in> set (events w)" "o_id e \<notin> (\<lambda>(t, r). c_id r) ` set (inflight w)"
    unfolding on_event_def using that r by (intro updated_elsewhere) force+
  moreover have "ahead (o_process_at e) (outbox (pool s)) \<le> ahead (o_process_at e) (events w)"
    using settles_ahead [OF f(1), of "o_process_at e" "c_id r" "events w"] w now f(2) by (simp add: waiting_def)
  moreover have "distinct (map o_id (outbox (pool s)))"
    using w f(2) by (simp add: settles_o_id [OF f(1)] waiting_def)
  moreover have "o_id e \<notin> (\<lambda>(t, r). c_id r) ` set (remove1 (t, r) (inflight w))" if "o_id e \<notin> (\<lambda>(t, r). c_id r) ` set (inflight w)"
    using that image_mono [OF set_remove1_subset, of "\<lambda>(t, r). c_id r" "(t, r)" "inflight w"] by blast
  ultimately show ?thesis
    using w f(2) by (cases "o_id e \<in> set (concat (polled w))") (simp_all add: waiting_def del: set_concat)
qed

lemma waiting_enqueue:
  assumes w: "waiting eng e N w" and at: "clock w \<le> pg_ts at"
    and run: "auto_commit (EnqueueAt E ty pay at) ((sys w)\<lparr>faults := fs\<rparr>) = (res, s)"
  shows "waiting eng e N (w\<lparr>sys := s\<rparr>)"
proof -
  have "outbox (pool s) = events w \<or> (\<exists>x. outbox (pool s) = events w @ [x] \<and> o_process_at x = pg_ts at
     \<and> distinct (map o_id (outbox (pool s))))"
    using enqueue_effect [OF run] by auto
  then show ?thesis
  proof
    assume "outbox (pool s) = events w"
    with w show ?thesis by (simp add: waiting_def)
  next
    assume "\<exists>x. outbox (pool s) = events w @ [x] \<and> o_process_at x = pg_ts at \<and> distinct (map o_id (outbox (pool s)))"
    then obtain x where x: "outbox (pool s) = events w @ [x]" "o_process_at x = pg_ts at" "distinct (map o_id (outbox (pool s)))" by blast
    then have "ahead (o_process_at e) (outbox (pool s)) = ahead (o_process_at e) (events w)"
      using w at by (simp add: ahead_def waiting_def)
    with w x show ?thesis by (auto simp: waiting_def)
  qed
qed

lemma waiting_step:
  assumes "quiet_handlers eng" and "engine_step eng w w'" and w: "waiting eng e N w" and "active e"
  shows "waiting eng e N w'"
  using assms(2)
proof (cases rule: engine_step.cases)
  case (poll_error E fs err s)
  then have "pool s = pool (sys w)" using claimBatch_fails by fastforce
  with w poll_error(1) show ?thesis by (simp add: waiting_def)
qed (use assms in \<open>auto simp: waiting_poll waiting_finish waiting_enqueue\<close>, use w in \<open>auto simp: waiting_def\<close>)


section \<open>A handler that keeps failing\<close>

text \<open>Rounds of claiming and processing, with the events each of them handed to their handlers.\<close>

fun rounds :: "Engine \<Rightarrow> bool \<Rightarrow> env list \<Rightarrow> claimedRow list list query" where
  "rounds eng late [] = ret []"
| "rounds eng late (E # Es) = bnd (claimBatch E eng) (\<lambda>rows. bnd (for_each (process E eng late) rows) (\<lambda>_.
     bnd (rounds eng late Es) (\<lambda>rest. ret (rows # rest))))"

lemma auto_commit_exact:
  assumes "faults s = []" and "f (s\<lparr>snapshot := pool s, data := pool s, cur_property := None, aborted := None\<rparr>) = Inr (x, d)"
  shows "auto_commit (run_stmt f) s = (Inr x, s\<lparr>pool := d\<rparr>)"
  using assms by (simp add: auto_commit_def run_stmt_def pop_fault_def stmt_effect_def leave_tx_def)

lemma exec_logged_exact:
  assumes "faults s = []" and "f (s\<lparr>snapshot := pool s, data := pool s, cur_property := None, aborted := None\<rparr>) = Inr ((), d)"
  shows "exec_logged False (run_stmt f) s = (Inr (), s\<lparr>pool := d\<rparr>)"
  using auto_commit_exact [of s f "()", OF assms] by (simp add: exec_logged_def Exec_def bnd_def attempt_def ret_def)

lemma claim_single:
  assumes "faults s = []" "outbox (pool s) = [e]" "claimable E e" "1 \<le> batchSize eng"
  shows "claimBatch E eng s = (Inr [claimed_row e], s\<lparr>pool := (pool s)\<lparr>outbox := [claim E e]\<rparr>\<rparr>)"
proof -
  have "claimed_ids E (batchSize eng) [e] = [o_id e]"
    using assms(3,4) by (simp add: claimed_ids_def)
  with assms show ?thesis
    unfolding claimBatch_def by (intro auto_commit_exact) (auto simp: Let_def update_events_def)
qed

definition failing :: "Engine \<Rightarrow> string \<Rightarrow> goerr \<Rightarrow> bool" where
  "failing eng ty err \<longleftrightarrow> handlers eng ty = Some (\<lambda>payload s. (Inl err, s)) \<and> \<not> errors_Is_context err"

lemma retry_single:
  assumes f: "failing eng (o_event_type e) err" and s: "faults s = []" "outbox (pool s) = [e]"
    and n: "c_retryCount r = n" "0 \<le> n" "o_retry_count e = n" "n + 1 < maxRetries eng" "maxRetries eng \<le> max_int32"
    and r: "c_id r = o_id e" "c_eventType r = o_event_type e"
  shows "process E eng False r s = (Inr (), s\<lparr>pool := (pool s)\<lparr>outbox := [retried E (err_text err) (min (2 ^ nat n) 1800) e]\<rparr>\<rparr>)"
proof -
  have "\<not> overflows (c_id r) (pool s)" using n s by (simp add: overflows_def in_int32_def)
  then have "scheduleRetry E False r (err_text err) s =
      (Inr (), s\<lparr>pool := (pool s)\<lparr>outbox := [retried E (err_text err) (min (2 ^ nat n) 1800) e]\<rparr>\<rparr>)"
    unfolding scheduleRetry_def using n s r
    by (simp add: backoff_doubles) (intro exec_logged_exact, simp_all add: update_events_def)
  with f r n show ?thesis by (simp add: process_def failing_def bnd_def attempt_def)
qed

lemma fail_single:
  assumes f: "failing eng (o_event_type e) err" and s: "faults s = []" "outbox (pool s) = [e]"
    and n: "c_retryCount r = n" "o_retry_count e = n" "0 \<le> n" "n + 1 = maxRetries eng" "maxRetries eng \<le> max_int32"
    and r: "c_id r = o_id e" "c_eventType r = o_event_type e" and len: "length (dead_letter_payload r (err_text err)) < 8000"
  shows "process E eng False r s = (Inr (), s\<lparr>pool := (pool s)\<lparr>outbox := [failed E (err_text err) True e],
    notifications := notifications (pool s) @ [(''outbox_dead_lettered'', dead_letter_payload r (err_text err))]\<rparr>\<rparr>)"
proof -
  let ?d = "(pool s)\<lparr>outbox := [failed E (err_text err) True e]\<rparr>"
  have ov: "\<not> overflows (c_id r) (pool s)" using n s by (simp add: overflows_def in_int32_def)
  have "auto_commit (run_stmt (\<lambda>s. if True \<and> overflows (c_id r) (data s) then Inl (pg_error ''22003'')
            else Inr ((), update_events (\<lambda>e. o_id e = c_id r) (failed E (err_text err) True) (data s)))) s = (Inr (), s\<lparr>pool := ?d\<rparr>)"
    using ov r s by (intro auto_commit_exact) (simp_all add: update_events_def)
  moreover have "exec_logged False (notify_dead_lettered (dead_letter_payload r (err_text err))) (s\<lparr>pool := ?d\<rparr>)
      = (Inr (), s\<lparr>pool := ?d, pool := ?d\<lparr>notifications := notifications (pool s) @ [(''outbox_dead_lettered'', dead_letter_payload r (err_text err))]\<rparr>\<rparr>)"
    unfolding notify_dead_lettered_def using len s by (intro exec_logged_exact) simp_all
  ultimately have "markFailed E False r (err_text err) True s = (Inr (), s\<lparr>pool := ?d\<lparr>notifications := notifications (pool s) @ [(''outbox_dead_lettered'', dead_letter_payload r (err_text err))]\<rparr>\<rparr>)"
    by (simp add: markFailed_def Exec_def bnd_def attempt_def)
  with f r n show ?thesis by (simp add: process_def failing_def bnd_def attempt_def)
qed

lemma rounds_until_failed:
  assumes f: "failing eng (o_event_type e) err" and len: "length (dead_letter_payload (claimed_row e) (err_text err)) < 8000"
    and cfg: "1 \<le> batchSize eng" "maxRetries eng \<le> max_int32"
  shows "faults s = [] \<Longrightarrow> outbox (pool s) = [e'] \<Longrightarrow> active e' \<Longrightarrow> o_id e' = o_id e \<Longrightarrow> o_event_type e' = o_event_type e \<Longrightarrow>
    0 \<le> o_retry_count e' \<Longrightarrow> o_retry_count e' + int (length Es) = maxRetries eng \<Longrightarrow> Es \<noteq> [] \<Longrightarrow>
    sorted_wrt (\<lambda>E E'. pg_now E + 1800 * second_ns \<le> pg_now E') Es \<Longrightarrow> o_process_at e' \<le> pg_now (hd Es) \<Longrightarrow>
    list_all (\<lambda>E. locked E = (\<lambda>_. False)) Es \<Longrightarrow>
    \<exists>hs t e''. rounds eng False Es s = (Inr hs, t) \<and> outbox (pool t) = [e''] \<and> o_id e'' = o_id e \<and> o_status e'' = OutboxFailed \<and> o_retry_count e'' = maxRetries eng
      \<and> o_last_error e'' = Some (err_text err)
      \<and> notifications (pool t) = notifications (pool s) @ [(''outbox_dead_lettered'', dead_letter_payload (claimed_row e) (err_text err))]"
proof (induction Es arbitrary: s e')
  case (Cons E Es)
  let ?r = "claimed_row e'" and ?s = "s\<lparr>pool := (pool s)\<lparr>outbox := [claim E e']\<rparr>\<rparr>"
  have c: "claimBatch E eng s = (Inr [?r], ?s)"
    using Cons.prems cfg by (intro claim_single) (auto simp: claimable_def)
  have pay: "dead_letter_payload ?r (err_text err) = dead_letter_payload (claimed_row e) (err_text err)"
    using Cons.prems by (simp add: dead_letter_payload_def claimed_row_def)
  have len': "length (dead_letter_payload ?r (err_text err)) < 8000" using len pay by simp
  have f': "failing eng (o_event_type (claim E e')) err" using f Cons.prems by (simp add: claim_def)
  show ?case
  proof (cases "Es = []")
    case True
    with Cons.prems have "process E eng False ?r ?s = (Inr (), ?s\<lparr>pool := (pool ?s)\<lparr>outbox := [failed E (err_text err) True (claim E e')],
        notifications := notifications (pool ?s) @ [(''outbox_dead_lettered'', dead_letter_payload ?r (err_text err))]\<rparr>\<rparr>)"
      using cfg len by (intro fail_single [OF f', of _ ?r "o_retry_count e'"] len') (simp_all add: claim_def claimed_row_def)
    with c True Cons.prems show ?thesis
      by (simp add: bnd_def ret_def pay) (simp add: failed_def claim_def)
  next
    case False
    let ?e = "retried E (err_text err) (min (2 ^ nat (o_retry_count e')) 1800) (claim E e')"
    let ?t = "?s\<lparr>pool := (pool ?s)\<lparr>outbox := [?e]\<rparr>\<rparr>"
    have "o_retry_count e' + 1 < maxRetries eng" using Cons.prems(7) False by (cases Es) auto
    with Cons.prems have p: "process E eng False ?r ?s = (Inr (), ?t)"
      using cfg by (intro retry_single [OF f', of _ ?r "o_retry_count e'"]) (simp_all add: claim_def claimed_row_def)
    have "o_process_at ?e \<le> pg_now (hd Es)"
    proof -
      have "pg_now E + 1800 * second_ns \<le> pg_now (hd Es)" using Cons.prems(9) False by (cases Es) auto
      moreover have "min (2 ^ nat (o_retry_count e')) 1800 * second_ns \<le> 1800 * second_ns" by (simp add: second_ns_def)
      ultimately show ?thesis unfolding retried_def by simp
    qed
    have "\<exists>hs t e''. rounds eng False Es ?t = (Inr hs, t) \<and> outbox (pool t) = [e''] \<and> o_id e'' = o_id e \<and> o_status e'' = OutboxFailed
      \<and> o_retry_count e'' = maxRetries eng \<and> o_last_error e'' = Some (err_text err)
      \<and> notifications (pool t) = notifications (pool ?t) @ [(''outbox_dead_lettered'', dead_letter_payload (claimed_row e) (err_text err))]"
      by (rule Cons.IH [of ?t ?e]) (use Cons.prems False \<open>o_process_at ?e \<le> pg_now (hd Es)\<close> in
        \<open>simp_all add: retried_def claim_def active_def\<close>)
    with c p show ?thesis by (auto simp: bnd_def ret_def)
  qed
qed simp


section \<open>A handler that takes ten seconds\<close>

lemma late_process:
  assumes "handlers eng (c_eventType r) = Some h" "\<And>s. snd (h (c_payload r) s) = s" "0 \<le> c_retryCount r"
  shows "process E eng True r s = (Inr (), s)"
proof -
  obtain x where h: "h (c_payload r) s = (x, s)" using assms(2) by (metis prod.collapse)
  have "markCompleted E True (c_id r) s = (Inr (), s)" "markFailed E True r m b s = (Inr (), s)" "scheduleRetry E True r m s = (Inr (), s)" for m b
    using assms(3)
    by (simp_all add: markCompleted_def markFailed_def scheduleRetry_def backoff_doubles exec_logged_def Exec_def throw_def bnd_def attempt_def ret_def)
  with assms(1) h show ?thesis by (cases x) (simp_all add: process_def bnd_def attempt_def ret_def)
qed

lemma claim_again: "claim E (claim E' e) = claim E e" "claimed_row (claim E e) = claimed_row e"
  by (simp_all add: claim_def claimed_row_def)

text \<open>C14. An event whose handler takes ten seconds or more is handled for ever: the deadline of the status updates is set
  before the handler is called, so no outcome of it is recorded, not even success. However many rounds follow, each at
  least the visibility timeout after the one before, every one of them hands the same event to the handler again, and
  the event stays in processing with the same number of retries, so it is never given up either.\<close>

theorem slow_handler_never_settles:
  assumes h: "handlers eng (o_event_type e) = Some h" "\<And>s. snd (h (o_payload e) s) = s"
    and e: "active e" "0 \<le> o_retry_count e" and n: "1 \<le> batchSize eng"
    and "outbox (pool s) = [e]" and "faults s = []" and "Es \<noteq> []" and "o_process_at e \<le> pg_now (hd Es)"
    and "sorted_wrt (\<lambda>E E'. pg_now E + 5 * minute_ns \<le> pg_now E') Es" and "list_all (\<lambda>E. locked E = (\<lambda>_. False)) Es"
  shows "\<exists>t. rounds eng True Es s = (Inr (replicate (length Es) [claimed_row e]), t) \<and> outbox (pool t) = [claim (last Es) e]"
proof -
  have "\<exists>t. rounds eng True Es s = (Inr (replicate (length Es) [claimed_row e]), t) \<and> outbox (pool t) = [claim (last Es) e]"
    if "outbox (pool s) = [e']" "active e'" "claimed_row e' = claimed_row e" "\<And>E. claim E e' = claim E e" "o_process_at e' \<le> pg_now (hd Es)"
    for e' using that assms(7-8,10-)
  proof (induction Es arbitrary: s e')
    case (Cons E Es)
    let ?s = "s\<lparr>pool := (pool s)\<lparr>outbox := [claim E e]\<rparr>\<rparr>"
    have c: "claimBatch E eng s = (Inr [claimed_row e], ?s)"
      using Cons.prems n claim_single [of s e' E eng] by (simp add: claimable_def)
    have p: "process E eng True (claimed_row e) ?s = (Inr (), ?s)"
      using h e(2) by (intro late_process) (simp_all add: claimed_row_def)
    show ?case
    proof (cases Es)
      case Nil
      with c p show ?thesis by (simp add: bnd_def ret_def)
    next
      case (Cons E' Es')
      have "\<exists>t. rounds eng True Es ?s = (Inr (replicate (length Es) [claimed_row e]), t) \<and> outbox (pool t) = [claim (last Es) e]"
        by (rule Cons.IH [of _ "claim E e"])
          (use Cons.prems Cons in \<open>simp_all add: claim_again\<close>, simp_all add: claim_def active_def)
      with c p Cons show ?thesis by (auto simp: bnd_def ret_def)
    qed
  qed simp
  then show ?thesis using assms by blast
qed

end
