(* ===== verification/OutboxExamples.thy ===== *)
theory OutboxExamples
  imports Outbox Demo
begin

text \<open>
  The outbox worker on the demo hotel: one confirmation mail that has been due for a day. The theorems of
  the engine are exercised on it, and a run shows what happens when a handler needs longer than the
  visibility timeout: the event is handed to a second handler while the first still runs.
\<close>

section \<open>One letter\<close>

definition letter :: InternalOutboxEvent where
  "letter = \<lparr>o_id = 50, o_event_type = ''smtp.confirmation'', o_payload = [], o_status = OutboxPending,
     o_retry_count = 0, o_last_error = None, o_process_at = 4 * day_ns, o_updated_at = 0\<rparr>"

definition letter_sess :: "InternalOutboxEvent \<Rightarrow> sess" where
  "letter_sess e = demo_sess\<lparr>pool := demo_db\<lparr>outbox := [e]\<rparr>\<rparr>"

definition letter_world :: "time \<Rightarrow> InternalOutboxEvent \<Rightarrow> (time \<times> claimedRow) list \<Rightarrow> uuid list list \<Rightarrow> world" where
  "letter_world t e rs us = \<lparr>clock = t, sys = letter_sess e, inflight = rs, polled = us\<rparr>"

definition mailer :: Handler where
  "mailer payload s = (case faults s of [] \<Rightarrow> (Inr (), s) | f # fs \<Rightarrow> (Inl (ErrorString ''smtp timeout''), s\<lparr>faults := fs\<rparr>))"

definition mail_engine :: "Handler \<Rightarrow> Engine" where
  "mail_engine h = Register (New_engine \<lparr>cfg_PollInterval = 0, cfg_BatchSize = 0, cfg_MaxRetries = 0\<rparr>) ''smtp.confirmation'' h"

lemma mail_engine_config [simp]:
  "batchSize (mail_engine h) = 10" "maxRetries (mail_engine h) = 3"
  "handlers (mail_engine h) ''smtp.confirmation'' = Some h"
  by (simp_all add: mail_engine_def Register_def New_engine_def)

lemma quiet_mailer: "quiet_handlers (mail_engine mailer)"
  by (auto simp: quiet_handlers_def mail_engine_def Register_def New_engine_def mailer_def split: list.split if_splits)

lemma letter_schema: "schema_ok (pool (letter_sess letter))"
  by (simp add: letter_sess_def letter_def schema_defs demo_defs ToRange_def day_ns_def)

lemma letter_sess_simps [simp]:
  "pool (letter_sess e) = demo_db\<lparr>outbox := [e]\<rparr>" "faults (letter_sess e) = []"
  "(letter_sess e)\<lparr>faults := []\<rparr> = letter_sess e"
  "(letter_sess e)\<lparr>pool := demo_db\<lparr>outbox := [e']\<rparr>\<rparr> = letter_sess e'"
  by (simp_all add: letter_sess_def demo_sess_def)

lemma length_json_string: "length (json_string s) \<le> 6 * length s + 2"
proof -
  have "length (json_char c) \<le> 6" for c by (simp add: json_char_def hex_of_def)
  then have "length (concat (map json_char s)) \<le> 6 * length s" by (induction s) (simp_all add: add_le_mono)
  then show ?thesis by (simp add: json_string_def)
qed

section \<open>Steps on the letter\<close>

lemma poll_letter:
  assumes "active e" "o_process_at e \<le> t"
  shows "engine_step (mail_engine h) (letter_world t e rs us)
    (letter_world t (claim (demo_env\<lparr>pg_now := t\<rparr>) e) (rs @ [(t, claimed_row e)]) (us @ [[o_id e]]))"
proof -
  let ?E = "demo_env\<lparr>pg_now := t\<rparr>"
  have "claimBatch ?E (mail_engine h) (letter_sess e) = (Inr [claimed_row e], letter_sess (claim ?E e))"
    using claim_single [of "letter_sess e" e ?E "mail_engine h"] assms by (simp add: claimable_def demo_env_def)
  then have "claimBatch ?E (mail_engine h) ((sys (letter_world t e rs us))\<lparr>faults := []\<rparr>) = (Inr [claimed_row e], letter_sess (claim ?E e))"
    by (simp add: letter_world_def)
  from engine_step.poll [OF _ _ this] show ?thesis
    by (simp add: letter_world_def demo_env_def claimed_row_def)
qed

lemma tick_letter: "t \<le> t' \<Longrightarrow> engine_step eng (letter_world t e rs us) (letter_world t' e rs us)"
  using engine_step.tick [of "letter_world t e rs us" t' eng] by (simp add: letter_world_def)

section \<open>A slow handler\<close>

text \<open>A claimed event is handed to a second handler while the first still runs, when the first needs longer than the
  visibility timeout of five minutes.\<close>

theorem slow_handler_runs_twice:
  "\<exists>w. (engine_step (mail_engine mailer))\<^sup>*\<^sup>* (letter_world (5 * day_ns) letter [] []) w
     \<and> map (\<lambda>(t, r). c_id r) (inflight w) = [50, 50]"
proof -
  let ?t = "5 * day_ns" let ?u = "?t + 5 * minute_ns"
  let ?e1 = "claim (demo_env\<lparr>pg_now := ?t\<rparr>) letter" let ?r1 = "(?t, claimed_row letter)"
  let ?e2 = "claim (demo_env\<lparr>pg_now := ?u\<rparr>) ?e1" let ?r2 = "(?u, claimed_row ?e1)"
  let ?S = "engine_step (mail_engine mailer)"
  have "?S (letter_world ?t letter [] []) (letter_world ?t ?e1 [?r1] [[50]])"
    using poll_letter [of letter ?t mailer "[]" "[]"] by (simp add: letter_def active_def day_ns_def)
  moreover have "?S (letter_world ?t ?e1 [?r1] [[50]]) (letter_world ?u ?e1 [?r1] [[50]])"
    by (rule tick_letter) (simp add: minute_ns_def second_ns_def)
  moreover have "?S (letter_world ?u ?e1 [?r1] [[50]]) (letter_world ?u ?e2 [?r1, ?r2] [[50], [50]])"
    using poll_letter [of ?e1 ?u mailer "[?r1]" "[[50]]"] by (simp add: claim_def active_def letter_def)
  ultimately have "?S\<^sup>*\<^sup>* (letter_world ?t letter [] []) (letter_world ?u ?e2 [?r1, ?r2] [[50], [50]])"
    by (meson converse_rtranclp_into_rtranclp rtranclp.rtrancl_refl)
  then show ?thesis
    by (intro exI [of _ "letter_world ?u ?e2 [?r1, ?r2] [[50], [50]]"]) (simp add: letter_world_def claimed_row_def claim_def letter_def)
qed

section \<open>Witnesses\<close>


theorem settled_is_final_witness:
  "list_all (retries_left (mail_engine mailer)) [claim (demo_env\<lparr>pg_now := 5 * day_ns\<rparr>) letter]"
proof -
  let ?w = "letter_world (5 * day_ns) letter [] []"
  have "engine_step (mail_engine mailer) ?w
     (letter_world (5 * day_ns) (claim (demo_env\<lparr>pg_now := 5 * day_ns\<rparr>) letter) [(5 * day_ns, claimed_row letter)] [[50]])"
    using poll_letter [of letter "5 * day_ns" mailer "[]" "[]"] by (simp add: letter_def active_def day_ns_def)
  then have "(engine_step (mail_engine mailer))\<^sup>*\<^sup>* ?w
     (letter_world (5 * day_ns) (claim (demo_env\<lparr>pg_now := 5 * day_ns\<rparr>) letter) [(5 * day_ns, claimed_row letter)] [[50]])" ..
  from settled_is_final [OF this quiet_mailer] letter_schema show ?thesis
    by (simp add: letter_world_def) (simp add: letter_def retries_left_def)
qed


theorem slow_handler_never_settles_witness:
  "\<exists>t. rounds (mail_engine (\<lambda>p s. (Inr (), s))) True [demo_env, demo_env\<lparr>pg_now := 6 * day_ns\<rparr>, demo_env\<lparr>pg_now := 7 * day_ns\<rparr>] (letter_sess letter)
      = (Inr [[claimed_row letter], [claimed_row letter], [claimed_row letter]], t)
    \<and> outbox (pool t) = [claim (demo_env\<lparr>pg_now := 7 * day_ns\<rparr>) letter]"
proof -
  let ?Es = "[demo_env, demo_env\<lparr>pg_now := 6 * day_ns\<rparr>, demo_env\<lparr>pg_now := 7 * day_ns\<rparr>]"
  have e: "active letter" "0 \<le> o_retry_count letter" "o_process_at letter \<le> pg_now (hd ?Es)"
    by (simp_all add: letter_def active_def demo_env_def day_ns_def)
  have Es: "sorted_wrt (\<lambda>E E'. pg_now E + 5 * minute_ns \<le> pg_now E') ?Es" "list_all (\<lambda>E. locked E = (\<lambda>_. False)) ?Es"
    by (simp_all add: demo_env_def day_ns_def minute_ns_def second_ns_def)
  have h: "handlers (mail_engine (\<lambda>p s. (Inr (), s))) (o_event_type letter) = Some (\<lambda>p s. (Inr (), s))"
    by (simp add: letter_def)
  from slow_handler_never_settles [OF h _ e(1,2) _ _ _ _ e(3) Es, of "letter_sess letter"] show ?thesis
    by (simp add: numeral_3_eq_3)
qed

end
