(* ===== verification/Json.thy ===== *)
theory Json
  imports Prelude
begin

text \<open>
  What the program uses of \<open>encoding/json\<close>: JSON values, their compact text as \<open>Marshal\<close> writes it, and the
  reading of a text as a value as \<open>Unmarshal\<close> and \<open>Decoder.Decode\<close> do it. Numbers keep their literal;
  texts are byte strings in UTF-8. The readers of objects, arrays and values share one bound on the
  recursion, the length of the text, which the round trip shows to be enough.
\<close>

datatype json =
    JNull
  | JBool bool
  | JNum string
  | JStr string
  | JArr "json list"
  | JObj "(string \<times> json) list"

section \<open>Writing\<close>

fun json_array :: "string list \<Rightarrow> string" where
  "json_array [] = []"
| "json_array [x] = x"
| "json_array (x # y # r) = x @ '','' @ json_array (y # r)"

fun json_write :: "json \<Rightarrow> string" where
  "json_write JNull = ''null''"
| "json_write (JBool b) = (if b then ''true'' else ''false'')"
| "json_write (JNum s) = s"
| "json_write (JStr s) = json_string s"
| "json_write (JArr vs) = CHR ''['' # json_array (map json_write vs) @ '']''"
| "json_write (JObj fs) = json_object (map (\<lambda>(k, v). (k, json_write v)) fs)"

section \<open>Reading\<close>

definition json_space :: "char \<Rightarrow> bool" where
  "json_space c \<longleftrightarrow> c \<in> {CHR 0x20, CHR 0x09, CHR 0x0A, CHR 0x0D}"

definition skip_ws :: "string \<Rightarrow> string" where
  "skip_ws s = dropWhile json_space s"

definition hex_val :: "char \<Rightarrow> nat option" where
  "hex_val c = (let n = of_char c in
     if 48 \<le> n \<and> n \<le> 57 then Some (n - 48)
     else if 97 \<le> n \<and> n \<le> 102 then Some (n - 87)
     else if 65 \<le> n \<and> n \<le> 70 then Some (n - 55) else None)"

definition read_u4 :: "string \<Rightarrow> (nat \<times> string) option" where
  "read_u4 s = (case s of
     a # b # c # d # r \<Rightarrow>
       (case (hex_val a, hex_val b, hex_val c, hex_val d) of
          (Some p, Some q, Some x, Some y) \<Rightarrow> Some (((p * 16 + q) * 16 + x) * 16 + y, r)
        | _ \<Rightarrow> None)
   | _ \<Rightarrow> None)"

definition utf8 :: "nat \<Rightarrow> string" where
  "utf8 n =
     (if n < 128 then [char_of n]
      else if n < 2048 then [char_of (192 + n div 64), char_of (128 + n mod 64)]
      else if n < 65536 then [char_of (224 + n div 4096), char_of (128 + n div 64 mod 64), char_of (128 + n mod 64)]
      else [char_of (240 + n div 262144), char_of (128 + n div 4096 mod 64), char_of (128 + n div 64 mod 64),
            char_of (128 + n mod 64)])"

definition low_surrogate :: "string \<Rightarrow> (nat \<times> string) option" where
  "low_surrogate s = (case s of
     a # b # r \<Rightarrow> if a = CHR 0x5C \<and> b = CHR ''u''
       then (case read_u4 r of Some (n, r') \<Rightarrow> if 56320 \<le> n \<and> n < 57344 then Some (n, r') else None | None \<Rightarrow> None)
       else None
   | _ \<Rightarrow> None)"

definition decode_u :: "nat \<Rightarrow> string \<Rightarrow> string \<times> string" where
  "decode_u n r =
     (if 55296 \<le> n \<and> n < 57344
      then (if n < 56320 then (case low_surrogate r of
              Some (m, r') \<Rightarrow> (utf8 ((n - 55296) * 1024 + (m - 56320) + 65536), r')
            | None \<Rightarrow> (utf8 65533, r))
            else (utf8 65533, r))
      else (utf8 n, r))"

definition read_escape :: "string \<Rightarrow> (string \<times> string) option" where
  "read_escape s = (case s of
     [] \<Rightarrow> None
   | e # r \<Rightarrow>
       if e = CHR 0x22 \<or> e = CHR 0x5C \<or> e = CHR 0x2F then Some ([e], r)
       else if e = CHR ''n'' then Some ([CHR 0x0A], r) else if e = CHR ''r'' then Some ([CHR 0x0D], r)
       else if e = CHR ''t'' then Some ([CHR 0x09], r) else if e = CHR ''b'' then Some ([CHR 0x08], r)
       else if e = CHR ''f'' then Some ([CHR 0x0C], r)
       else if e = CHR ''u'' then map_option (\<lambda>(n, r'). decode_u n r') (read_u4 r)
       else None)"

lemma read_u4_shorter: "read_u4 s = Some (n, r) \<Longrightarrow> length r < length s"
  by (auto simp: read_u4_def split: list.splits option.splits)

lemma low_surrogate_shorter: "low_surrogate s = Some (n, r) \<Longrightarrow> length r < length s"
  by (auto simp: low_surrogate_def split: list.splits option.splits if_splits dest!: read_u4_shorter)

lemma decode_u_shorter: "decode_u n r = (x, r') \<Longrightarrow> length r' \<le> length r"
  by (auto simp: decode_u_def split: if_splits option.splits dest: low_surrogate_shorter)

lemma read_escape_shorter: "read_escape s = Some (x, r) \<Longrightarrow> length r < length s"
  by (fastforce simp: read_escape_def split: list.splits if_splits dest: read_u4_shorter decode_u_shorter)

function read_string :: "string \<Rightarrow> (string \<times> string) option" where
  "read_string s = (case s of
     [] \<Rightarrow> None
   | c # cs \<Rightarrow>
       if c = CHR 0x22 then Some ([], cs)
       else if c = CHR 0x5C
       then (case read_escape cs of None \<Rightarrow> None
             | Some (x, r) \<Rightarrow> map_option (\<lambda>(y, r'). (x @ y, r')) (read_string r))
       else if (of_char c :: nat) < 32 then None
       else map_option (\<lambda>(y, r'). (c # y, r')) (read_string cs))"
  by pat_completeness auto

termination
  by (relation "measure length") (auto dest: read_escape_shorter)

declare read_string.simps [simp del]

definition read_digits :: "string \<Rightarrow> (string \<times> string) option" where
  "read_digits s = (let ds = takeWhile is_digit s in if ds = [] then None else Some (ds, dropWhile is_digit s))"

definition read_fraction :: "string \<Rightarrow> (string \<times> string) option" where
  "read_fraction s = (case s of
     c # r \<Rightarrow> if c = CHR ''.'' then map_option (\<lambda>(ds, r'). (c # ds, r')) (read_digits r) else Some ([], s)
   | [] \<Rightarrow> Some ([], s))"

definition read_exponent :: "string \<Rightarrow> (string \<times> string) option" where
  "read_exponent s = (case s of
     c # r \<Rightarrow> if c = CHR ''e'' \<or> c = CHR ''E''
       then (case r of
           d # r' \<Rightarrow> if d = CHR ''+'' \<or> d = CHR ''-'' then map_option (\<lambda>(ds, r''). (c # d # ds, r'')) (read_digits r')
                     else map_option (\<lambda>(ds, r''). (c # ds, r'')) (read_digits r)
         | [] \<Rightarrow> None)
       else Some ([], s)
   | [] \<Rightarrow> Some ([], s))"

definition read_integer :: "string \<Rightarrow> (string \<times> string) option" where
  "read_integer s = (case s of c # r \<Rightarrow> if c = CHR ''0'' then Some ([c], r) else read_digits s | [] \<Rightarrow> None)"

definition read_number :: "string \<Rightarrow> (string \<times> string) option" where
  "read_number s =
     (let (m, s0) = (case s of c # r \<Rightarrow> if c = CHR ''-'' then ([c], r) else ([], s) | [] \<Rightarrow> ([], s))
      in case read_integer s0 of None \<Rightarrow> None
       | Some (i, s1) \<Rightarrow> (case read_fraction s1 of None \<Rightarrow> None
           | Some (f, s2) \<Rightarrow> (case read_exponent s2 of None \<Rightarrow> None
               | Some (e, s3) \<Rightarrow> Some (m @ i @ f @ e, s3))))"

definition strip_prefix :: "string \<Rightarrow> string \<Rightarrow> string option" where
  "strip_prefix p s = (if take (length p) s = p then Some (drop (length p) s) else None)"

definition read_literal :: "string \<Rightarrow> json \<Rightarrow> string \<Rightarrow> (json \<times> string) option" where
  "read_literal p v s = map_option (\<lambda>r. (v, r)) (strip_prefix p s)"

fun read_value :: "nat \<Rightarrow> string \<Rightarrow> (json \<times> string) option"
  and read_elems :: "nat \<Rightarrow> string \<Rightarrow> (json list \<times> string) option"
  and read_members :: "nat \<Rightarrow> string \<Rightarrow> ((string \<times> json) list \<times> string) option" where
  "read_value 0 s = None"
| "read_value (Suc n) s = (case skip_ws s of
     [] \<Rightarrow> None
   | c # cs \<Rightarrow>
       if c = CHR 0x7B
       then (case strip_prefix [CHR 0x7D] (skip_ws cs) of Some r \<Rightarrow> Some (JObj [], r)
             | None \<Rightarrow> map_option (\<lambda>(fs, r). (JObj fs, r)) (read_members n cs))
       else if c = CHR ''[''
       then (case strip_prefix '']'' (skip_ws cs) of Some r \<Rightarrow> Some (JArr [], r)
             | None \<Rightarrow> map_option (\<lambda>(vs, r). (JArr vs, r)) (read_elems n cs))
       else if c = CHR 0x22 then map_option (\<lambda>(x, r). (JStr x, r)) (read_string cs)
       else if c = CHR ''t'' then read_literal ''true'' (JBool True) (c # cs)
       else if c = CHR ''f'' then read_literal ''false'' (JBool False) (c # cs)
       else if c = CHR ''n'' then read_literal ''null'' JNull (c # cs)
       else map_option (\<lambda>(x, r). (JNum x, r)) (read_number (c # cs)))"
| "read_elems 0 s = None"
| "read_elems (Suc n) s = (case read_value n s of
     None \<Rightarrow> None
   | Some (v, r) \<Rightarrow> (case skip_ws r of
         [] \<Rightarrow> None
       | c # cs \<Rightarrow> if c = CHR '','' then map_option (\<lambda>(vs, r'). (v # vs, r')) (read_elems n cs)
                   else if c = CHR '']'' then Some ([v], cs) else None))"
| "read_members 0 s = None"
| "read_members (Suc n) s = (case strip_prefix [CHR 0x22] (skip_ws s) of
     None \<Rightarrow> None
   | Some s1 \<Rightarrow> (case read_string s1 of
         None \<Rightarrow> None
       | Some (k, s2) \<Rightarrow> (case strip_prefix '':'' (skip_ws s2) of
             None \<Rightarrow> None
           | Some s3 \<Rightarrow> (case read_value n s3 of
                 None \<Rightarrow> None
               | Some (v, r) \<Rightarrow> (case skip_ws r of
                     [] \<Rightarrow> None
                   | c # cs \<Rightarrow> if c = CHR '','' then map_option (\<lambda>(fs, r'). ((k, v) # fs, r')) (read_members n cs)
                               else if c = CHR 0x7D then Some ([(k, v)], cs) else None)))))"

declare read_value.simps(2) [simp del] read_elems.simps(2) [simp del] read_members.simps(2) [simp del]

definition json_decode :: "string \<Rightarrow> json option" where
  "json_decode s = map_option fst (read_value (Suc (length s)) s)"

definition json_unmarshal :: "string \<Rightarrow> json option" where
  "json_unmarshal s = (case read_value (Suc (length s)) s of
     Some (v, r) \<Rightarrow> if skip_ws r = [] then Some v else None | None \<Rightarrow> None)"

section \<open>Decoding into structs\<close>

text \<open>
  Decoding assigns the members of an object one after the other to the fields of a struct, whose names match
  exactly or up to the case of ASCII letters. \<open>null\<close> leaves a field that is no pointer as it is.
\<close>

type_synonym 'a assign = "json \<Rightarrow> 'a \<Rightarrow> 'a option"

definition lower_char :: "char \<Rightarrow> char" where
  "lower_char c = (let n = of_char c :: nat in if 65 \<le> n \<and> n \<le> 90 then char_of (n + 32) else c)"

definition find_field :: "(string \<times> 'f) list \<Rightarrow> string \<Rightarrow> 'f option" where
  "find_field fs k = (case map_of fs k of Some f \<Rightarrow> Some f
     | None \<Rightarrow> map_of (map (\<lambda>(n, f). (map lower_char n, f)) fs) (map lower_char k))"

fun assign_fields :: "bool \<Rightarrow> (string \<times> 'a assign) list \<Rightarrow> (string \<times> json) list \<Rightarrow> 'a \<Rightarrow> 'a option" where
  "assign_fields strict fs [] x = Some x"
| "assign_fields strict fs ((k, v) # kvs) x = (case find_field fs k of
     None \<Rightarrow> if strict then None else assign_fields strict fs kvs x
   | Some f \<Rightarrow> (case f v x of None \<Rightarrow> None | Some y \<Rightarrow> assign_fields strict fs kvs y))"

definition as_struct :: "bool \<Rightarrow> (string \<times> 'a assign) list \<Rightarrow> 'a assign" where
  "as_struct strict fs v x = (case v of
     JObj kvs \<Rightarrow> assign_fields strict fs kvs x | JNull \<Rightarrow> Some x | _ \<Rightarrow> None)"

definition as_string :: "(string \<Rightarrow> 'a \<Rightarrow> 'a) \<Rightarrow> 'a assign" where
  "as_string upd v x = (case v of JStr s \<Rightarrow> Some (upd s x) | JNull \<Rightarrow> Some x | _ \<Rightarrow> None)"

definition as_bool :: "(bool \<Rightarrow> 'a \<Rightarrow> 'a) \<Rightarrow> 'a assign" where
  "as_bool upd v x = (case v of JBool b \<Rightarrow> Some (upd b x) | JNull \<Rightarrow> Some x | _ \<Rightarrow> None)"

definition as_int :: "(int \<Rightarrow> bool) \<Rightarrow> (int \<Rightarrow> 'a \<Rightarrow> 'a) \<Rightarrow> 'a assign" where
  "as_int fits upd v x = (case v of
     JNum s \<Rightarrow> (case strconv_Atoi s of Some i \<Rightarrow> if fits i then Some (upd i x) else None | None \<Rightarrow> None)
   | JNull \<Rightarrow> Some x | _ \<Rightarrow> None)"

definition as_parsed :: "(string \<Rightarrow> 'b option) \<Rightarrow> ('b \<Rightarrow> 'a \<Rightarrow> 'a) \<Rightarrow> 'a assign" where
  "as_parsed parse upd v x = (case v of
     JStr s \<Rightarrow> map_option (\<lambda>b. upd b x) (parse s) | JNull \<Rightarrow> Some x | _ \<Rightarrow> None)"

definition as_pointer :: "(json \<Rightarrow> 'b option) \<Rightarrow> ('b option \<Rightarrow> 'a \<Rightarrow> 'a) \<Rightarrow> 'a assign" where
  "as_pointer dec upd v x = (case v of
     JNull \<Rightarrow> Some (upd None x) | _ \<Rightarrow> map_option (\<lambda>b. upd (Some b) x) (dec v))"

section \<open>Reading what was written\<close>

fun json_wf :: "json \<Rightarrow> bool" where
  "json_wf (JNum s) \<longleftrightarrow> (\<exists>i. s = dec_int i)"
| "json_wf (JArr vs) \<longleftrightarrow> list_all json_wf vs"
| "json_wf (JObj fs) \<longleftrightarrow> list_all (\<lambda>(k, v). json_wf v) fs"
| "json_wf _ \<longleftrightarrow> True"

definition json_delim :: "string \<Rightarrow> bool" where
  "json_delim r \<longleftrightarrow> (case r of [] \<Rightarrow> True | c # cs \<Rightarrow> c \<in> {CHR '','', CHR '']'', CHR 0x7D, CHR 0x0A})"

lemma hex_val_digit: "n < 16 \<Longrightarrow> hex_val (hex_digit n) = Some n"
  by (auto simp: hex_val_def hex_digit_def Let_def)

lemma hex_of_4: "hex_of 4 n = [hex_digit (n div 4096 mod 16), hex_digit (n div 256 mod 16), hex_digit (n div 16 mod 16), hex_digit (n mod 16)]"
  by (simp add: hex_of_def upt_conv_Cons)

lemma hex_4_digits:
  assumes "n < 65536"
  shows "((n div 4096 mod 16 * 16 + n div 256 mod 16) * 16 + n div 16 mod 16) * 16 + n mod 16 = (n :: nat)"
proof -
  define a b c where "a = n div 16" and "b = a div 16" and "c = b div 16"
  have "n div 4096 = c" "n div 256 = b" by (simp_all add: a_def b_def c_def div_mult2_eq [symmetric])
  moreover have "c mod 16 = c" using assms by (simp add: a_def b_def c_def div_mult2_eq [symmetric])
  moreover have "c * 16 + b mod 16 = b" "b * 16 + a mod 16 = a" "a * 16 + n mod 16 = n"
    by (simp_all add: a_def b_def c_def)
  ultimately show ?thesis by (simp add: a_def [symmetric])
qed

lemma read_u4_hex: "n < 65536 \<Longrightarrow> read_u4 (hex_of 4 n @ r) = Some (n, r)"
  using hex_4_digits [of n] by (simp add: read_u4_def hex_of_4 hex_val_digit del: mod_mult_self4)

lemma read_string_char: "read_string (json_char c @ r) = map_option (\<lambda>(y, r'). (c # y, r')) (read_string r)"
proof -
  define P where "P = {CHR 0x22, CHR 0x5C, CHR 0x0A, CHR 0x0D, CHR 0x09, CHR 0x08, CHR 0x0C}"
  define Q where "Q \<longleftrightarrow> (of_char c :: nat) < 32 \<or> c \<in> {CHR ''<'', CHR ''>'', CHR ''&''}"
  consider "c \<in> P" | "c \<notin> P" Q | "c \<notin> P" "\<not> Q" by blast
  then show ?thesis
  proof cases
    case 1
    then show ?thesis
      by (auto simp: P_def json_char_def read_string.simps [of "c # x" for c x] read_escape_def split: option.split)
  next
    case 2
    then have "json_char c = CHR 0x5C # ''u'' @ hex_of 4 (of_char c)" by (simp add: json_char_def P_def Q_def)
    moreover have "(of_char c :: nat) < 128" using 2(2) by (auto simp: Q_def)
    then have "read_escape (CHR ''u'' # hex_of 4 (of_char c) @ r) = Some ([c], r)"
      by (simp add: read_escape_def read_u4_hex decode_u_def utf8_def)
    ultimately show ?thesis by (simp add: read_string.simps [of "CHR 0x5C # x" for x] split: option.split)
  next
    case 3
    then have "json_char c = [c]" by (simp add: json_char_def P_def Q_def)
    with 3 show ?thesis by (simp add: P_def Q_def read_string.simps [of "c # r"])
  qed
qed

lemma read_string_written: "read_string (concat (map json_char s) @ CHR 0x22 # r) = Some (s, r)"
  by (induction s) (simp_all add: read_string_char read_string.simps [of "CHR 0x22 # r"])

lemma read_digits_written:
  assumes "list_all is_digit ds" "ds \<noteq> []" "json_delim r"
  shows "read_digits (ds @ r) = Some (ds, r)"
proof -
  have "takeWhile is_digit r = [] \<and> dropWhile is_digit r = r"
    using assms(3) by (cases r) (auto simp: json_delim_def is_digit_def)
  with assms(1,2) show ?thesis
    by (simp add: read_digits_def list_all_iff takeWhile_append2 dropWhile_append2)
qed

lemma dec_nat_leading_zero: "dec_nat n = CHR ''0'' # cs \<Longrightarrow> cs = []"
proof (induction n arbitrary: cs rule: dec_nat.induct)
  case (1 n)
  show ?case
  proof (cases "n < 10")
    case True
    with 1(2) show ?thesis by (simp add: dec_nat.simps [of n])
  next
    case False
    with 1(2) obtain ds where ds: "dec_nat (n div 10) = CHR ''0'' # ds"
      by (cases "dec_nat (n div 10)") (auto simp: dec_nat.simps [of n])
    with 1(1) False have "ds = []" by blast
    with ds have "read_nat (dec_nat (n div 10)) = 0" by (simp add: read_nat_def digit_val_def)
    with False show ?thesis by (simp only: read_dec_nat)
  qed
qed

lemma read_integer_written: "json_delim r \<Longrightarrow> read_integer (dec_nat n @ r) = Some (dec_nat n, r)"
proof (cases "dec_nat n")
  case (Cons c cs)
  assume "json_delim r"
  with Cons read_digits_written [of "dec_nat n" r] dec_nat_digits [of n] dec_nat_leading_zero [of n cs] show ?thesis
    by (auto simp: read_integer_def)
qed simp

lemma read_number_written: "json_delim r \<Longrightarrow> read_number (dec_int i @ r) = Some (dec_int i, r)"
proof -
  assume r: "json_delim r"
  obtain c cs where c: "dec_nat (nat i) = c # cs" "c \<noteq> CHR ''-''" using dec_nat_no_sign by blast
  have "read_fraction r = Some ([], r)" "read_exponent r = Some ([], r)"
    using r by (cases r; auto simp: read_fraction_def read_exponent_def json_delim_def)+
  with r c read_integer_written [of r "nat i"] read_integer_written [of r "nat (- i)"] show ?thesis
    by (simp add: read_number_def dec_int_def)
qed

lemma skip_ws_Cons [simp]: "\<not> json_space c \<Longrightarrow> skip_ws (c # s) = c # s"
  by (simp add: skip_ws_def)

lemma strip_prefix_Cons [simp]: "strip_prefix [c] (d # s) = (if c = d then Some s else None)"
  by (auto simp: strip_prefix_def)

lemma strip_prefix_append: "strip_prefix p (p @ s) = Some s"
  by (simp add: strip_prefix_def)

lemma json_write_head:
  assumes "json_wf v"
  shows "\<exists>c cs. json_write v = c # cs \<and> c \<notin> {CHR 0x20, CHR 0x09, CHR 0x0A, CHR 0x0D, CHR 0x7D, CHR '']''}"
proof (cases v)
  case (JNum s)
  with assms obtain i where i: "s = dec_int i" by auto
  obtain c cs where c: "dec_nat (nat i) = c # cs" by (cases "dec_nat (nat i)") auto
  with dec_nat_digits [of "nat i"] have "is_digit c" by simp
  with JNum i c show ?thesis by (auto simp: dec_int_def is_digit_def)
qed (auto simp: json_string_def json_object_def split: if_splits)

lemma skip_ws_written: "json_wf v \<Longrightarrow> skip_ws (json_write v @ r) = json_write v @ r"
  using json_write_head [of v] by (auto simp: skip_ws_def json_space_def)

lemma strip_prefix_written: "json_wf v \<Longrightarrow> strip_prefix '']'' (json_write v @ r) = None"
  using json_write_head [of v] by auto

lemma read_scalars:
  "json_delim r \<Longrightarrow> read_value (Suc n) (dec_int i @ r) = Some (JNum (dec_int i), r)"
  "read_value (Suc n) (json_string s @ r) = Some (JStr s, r)"
  "read_value (Suc n) (''true'' @ r) = Some (JBool True, r)"
  "read_value (Suc n) (''false'' @ r) = Some (JBool False, r)"
  "read_value (Suc n) (''null'' @ r) = Some (JNull, r)"
proof -
  assume r: "json_delim r"
  obtain c cs where c: "dec_int i = c # cs" "is_digit c \<or> c = CHR ''-''"
  proof (cases "i < 0")
    case True
    with that show thesis by (auto simp: dec_int_def)
  next
    case False
    obtain c cs where "dec_nat (nat i) = c # cs" by (cases "dec_nat (nat i)") auto
    with False that dec_nat_digits [of "nat i"] show thesis by (auto simp: dec_int_def)
  qed
  then have "\<not> json_space c" "c \<noteq> CHR 0x7B" "c \<noteq> CHR ''[''" "c \<noteq> CHR 0x22" "c \<noteq> CHR ''t''" "c \<noteq> CHR ''f''" "c \<noteq> CHR ''n''"
    by (auto simp: is_digit_def json_space_def)
  with c(1) read_number_written [OF r, of i] show "read_value (Suc n) (dec_int i @ r) = Some (JNum (dec_int i), r)"
    by (simp add: read_value.simps(2))
qed (simp_all add: read_value.simps(2) read_literal_def strip_prefix_def json_space_def json_string_def read_string_written)

definition reads :: "json \<Rightarrow> bool" where
  "reads v \<longleftrightarrow> (\<forall>n r. json_delim r \<longrightarrow> length (json_write v) \<le> n \<longrightarrow> read_value n (json_write v @ r) = Some (v, r))"

lemma readsD: "reads v \<Longrightarrow> json_delim r \<Longrightarrow> length (json_write v) \<le> n \<Longrightarrow> read_value n (json_write v @ r) = Some (v, r)"
  by (simp add: reads_def)

lemma json_delims [simp]: "json_delim (CHR '','' # r)" "json_delim (CHR '']'' # r)" "json_delim (CHR 0x7D # r)" "json_delim []"
  by (simp_all add: json_delim_def)

lemma read_elems_written:
  "vs \<noteq> [] \<Longrightarrow> list_all reads vs \<Longrightarrow> length (json_array (map json_write vs)) < n \<Longrightarrow>
    read_elems n (json_array (map json_write vs) @ CHR '']'' # r) = Some (vs, r)"
proof (induction vs arbitrary: n)
  case (Cons v vs)
  from Cons.prems(3) obtain m where n: "n = Suc m" by (cases n) auto
  show ?case
  proof (cases vs)
    case Nil
    with Cons.prems n show ?thesis by (simp add: read_elems.simps(2) readsD json_space_def)
  next
    case (Cons y ys)
    with Cons.prems n Cons.IH [of m] show ?thesis by (simp add: read_elems.simps(2) readsD json_space_def)
  qed
qed simp

lemma read_members_written:
  "fs \<noteq> [] \<Longrightarrow> list_all (\<lambda>(k, v). reads v) fs \<Longrightarrow> length (json_fields (map (\<lambda>(k, v). (k, json_write v)) fs)) < n \<Longrightarrow>
    read_members n (json_fields (map (\<lambda>(k, v). (k, json_write v)) fs) @ CHR 0x7D # r) = Some (fs, r)"
proof (induction fs arbitrary: n)
  case (Cons f fs)
  obtain k v where f: "f = (k, v)" by fastforce
  from Cons.prems(3) obtain m where n: "n = Suc m" by (cases n) auto
  show ?case
  proof (cases fs)
    case Nil
    with Cons.prems n f show ?thesis
      by (simp add: read_members.simps(2) json_string_def json_space_def read_string_written readsD)
  next
    case (Cons y ys)
    obtain k' v' where "y = (k', v')" by fastforce
    with Cons Cons.prems n f Cons.IH [of m] show ?thesis
      by (simp add: read_members.simps(2) json_string_def [of k] json_space_def read_string_written readsD)
  qed
qed simp

lemma json_fields_head: "fs \<noteq> [] \<Longrightarrow> \<exists>cs. json_fields fs = CHR 0x22 # cs"
  by (cases fs rule: json_fields.cases) (auto simp: json_string_def)

lemma json_array_head: "vs \<noteq> [] \<Longrightarrow> \<exists>cs. json_array (map json_write vs) = json_write (hd vs) @ cs"
  by (cases "map json_write vs" rule: json_array.cases; cases vs) auto

lemma readsI:
  assumes "\<And>n r. json_delim r \<Longrightarrow> length (json_write v) \<le> Suc n \<Longrightarrow> read_value (Suc n) (json_write v @ r) = Some (v, r)"
    and "json_write v \<noteq> []"
  shows "reads v"
  unfolding reads_def
proof (intro allI impI)
  fix n r assume "json_delim r" "length (json_write v) \<le> n"
  with assms show "read_value n (json_write v @ r) = Some (v, r)" by (cases n) auto
qed

lemma reads_array:
  assumes "list_all reads vs" "list_all json_wf vs"
  shows "reads (JArr vs)"
proof (rule readsI)
  fix n r assume n: "length (json_write (JArr vs)) \<le> Suc n"
  show "read_value (Suc n) (json_write (JArr vs) @ r) = Some (JArr vs, r)"
  proof (cases "vs = []")
    case True
    then show ?thesis by (simp add: read_value.simps(2) json_space_def)
  next
    case False
    then obtain cs where cs: "json_array (map json_write vs) = json_write (hd vs) @ cs" using json_array_head by blast
    have "json_wf (hd vs)" using assms(2) False by (simp add: list_all_iff)
    with cs have "strip_prefix '']'' (skip_ws (json_array (map json_write vs) @ CHR '']'' # r)) = None"
      by (simp add: skip_ws_written strip_prefix_written)
    with read_elems_written [OF False assms(1), of n r] n show ?thesis
      by (simp add: read_value.simps(2) json_space_def)
  qed
qed simp

lemma reads_object:
  assumes "list_all (\<lambda>(k, v). reads v) fs"
  shows "reads (JObj fs)"
proof (rule readsI)
  fix n r assume n: "length (json_write (JObj fs)) \<le> Suc n"
  show "read_value (Suc n) (json_write (JObj fs) @ r) = Some (JObj fs, r)"
  proof (cases "fs = []")
    case True
    then show ?thesis by (simp add: read_value.simps(2) json_space_def json_object_def)
  next
    case False
    then obtain cs where "json_fields (map (\<lambda>(k, v). (k, json_write v)) fs) = CHR 0x22 # cs" using json_fields_head by force
    with read_members_written [OF False assms, of n r] n show ?thesis
      by (simp add: read_value.simps(2) json_space_def json_object_def)
  qed
qed (simp add: json_object_def)

lemma read_written: "json_wf v \<Longrightarrow> reads v"
proof (induction v)
  case (JNum s)
  then obtain i where "s = dec_int i" by auto
  then show ?case by (intro readsI) (simp_all add: read_scalars(1), simp add: dec_int_def)
next
  case (JBool b)
  then show ?case using read_scalars(3,4) by (intro readsI) auto
next
  case (JArr vs)
  then show ?case by (intro reads_array) (simp_all add: list_all_iff)
next
  case (JObj fs)
  then show ?case by (intro reads_object) (fastforce simp: list_all_iff)
next
  case JNull
  then show ?case using read_scalars(5) by (intro readsI) auto
qed (intro readsI, simp_all add: read_scalars(2), simp add: json_string_def)

lemma json_roundtrip: "json_wf v \<Longrightarrow> json_unmarshal (json_write v) = Some v"
  using readsD [OF read_written, of v "[]" "Suc (length (json_write v))"] by (simp add: json_unmarshal_def skip_ws_def)

interpretation json_text: codec json_write json_unmarshal json_wf
  by unfold_locales (rule json_roundtrip)

end
