(* ===== verification/Http.thy ===== *)
theory Http
  imports Json BookingTypes
begin

text \<open>
  Requests, responses and the middleware: \<open>platform/json\<close>, \<open>platform/httputil\<close> and, of \<open>platform/middleware\<close>,
  \<open>auth.go\<close>, \<open>permission.go\<close> and \<open>ifmatch.go\<close>.

  A request carries its headers and query parameters with their first values, its body (or the error of
  reading it), the URL parameters the router found and its context. A response writer is the connection or
  the capturing writer of the idempotency middleware around it. A handler takes the request, the writer and the
  system state to a new writer and state. The parser of \<open>google/uuid\<close> is a parameter.
\<close>

section \<open>Requests\<close>

record http_request =
  rq_Method :: string
  rq_Path :: string
  rq_URI :: string
  rq_Header :: "string \<rightharpoonup> string"
  rq_Query :: "string \<rightharpoonup> string"
  rq_Body :: "goerr + string"
  rq_Params :: "string \<rightharpoonup> string"
  rq_ctx :: ctx

definition Get_value :: "(string \<rightharpoonup> string) \<Rightarrow> string \<Rightarrow> string" where
  "Get_value m k = (case m k of Some v \<Rightarrow> v | None \<Rightarrow> [])"

abbreviation Header_Get :: "http_request \<Rightarrow> string \<Rightarrow> string" where
  "Header_Get r k \<equiv> Get_value (rq_Header r) k"

abbreviation Query_Get :: "http_request \<Rightarrow> string \<Rightarrow> string" where
  "Query_Get r k \<equiv> Get_value (rq_Query r) k"

section \<open>Response writers\<close>

type_synonym headers = "(string \<times> string) list"

record conn =
  cn_Header :: headers
  cn_Status :: "int option"
  cn_Sent :: headers
  cn_Body :: string

record responseCapture =
  rc_conn :: conn
  rc_status :: int
  rc_body :: string
  rc_written :: bool
  rc_headersCopy :: headers

datatype ResponseWriter = Conn conn | Capture responseCapture

definition fresh_conn :: "headers \<Rightarrow> conn" where
  "fresh_conn hs = \<lparr>cn_Header = hs, cn_Status = None, cn_Sent = [], cn_Body = []\<rparr>"

definition conn_WriteHeader :: "int \<Rightarrow> conn \<Rightarrow> conn" where
  "conn_WriteHeader st c = (case cn_Status c of
     Some _ \<Rightarrow> c | None \<Rightarrow> c\<lparr>cn_Status := Some st, cn_Sent := cn_Header c\<rparr>)"

definition conn_Write :: "string \<Rightarrow> conn \<Rightarrow> conn" where
  "conn_Write b c = (let c' = conn_WriteHeader 200 c in c'\<lparr>cn_Body := cn_Body c' @ b\<rparr>)"

definition newResponseCapture :: "conn \<Rightarrow> responseCapture" where
  "newResponseCapture c = \<lparr>rc_conn = c, rc_status = 0, rc_body = [], rc_written = False, rc_headersCopy = []\<rparr>"

definition capture_WriteHeader :: "int \<Rightarrow> responseCapture \<Rightarrow> responseCapture" where
  "capture_WriteHeader st rc =
     (if rc_written rc then rc
      else rc\<lparr>rc_conn := conn_WriteHeader st (rc_conn rc), rc_status := st, rc_written := True,
              rc_headersCopy := cn_Header (rc_conn rc)\<rparr>)"

definition capture_Write :: "string \<Rightarrow> responseCapture \<Rightarrow> responseCapture" where
  "capture_Write b rc =
     (let rc' = (if rc_written rc then rc else capture_WriteHeader 200 rc)
      in rc'\<lparr>rc_conn := conn_Write b (rc_conn rc'), rc_body := rc_body rc' @ b\<rparr>)"

fun rw_SetHeader :: "string \<Rightarrow> string \<Rightarrow> ResponseWriter \<Rightarrow> ResponseWriter" where
  "rw_SetHeader k v (Conn c) = Conn (c\<lparr>cn_Header := AList.update k v (cn_Header c)\<rparr>)"
| "rw_SetHeader k v (Capture rc) =
     Capture (rc\<lparr>rc_conn := (rc_conn rc)\<lparr>cn_Header := AList.update k v (cn_Header (rc_conn rc))\<rparr>\<rparr>)"

fun rw_WriteHeader :: "int \<Rightarrow> ResponseWriter \<Rightarrow> ResponseWriter" where
  "rw_WriteHeader st (Conn c) = Conn (conn_WriteHeader st c)"
| "rw_WriteHeader st (Capture rc) = Capture (capture_WriteHeader st rc)"

fun rw_Write :: "string \<Rightarrow> ResponseWriter \<Rightarrow> ResponseWriter" where
  "rw_Write b (Conn c) = Conn (conn_Write b c)"
| "rw_Write b (Capture rc) = Capture (capture_Write b rc)"

fun rw_conn :: "ResponseWriter \<Rightarrow> conn" where
  "rw_conn (Conn c) = c"
| "rw_conn (Capture rc) = rc_conn rc"

definition http_Error :: "string \<Rightarrow> int \<Rightarrow> ResponseWriter \<Rightarrow> ResponseWriter" where
  "http_Error msg code w =
     rw_Write (msg @ [CHR 0x0A]) (rw_WriteHeader code
       (rw_SetHeader ''X-Content-Type-Options'' ''nosniff'' (rw_SetHeader ''Content-Type'' ''text/plain; charset=utf-8'' w)))"

type_synonym handler = "http_request \<Rightarrow> ResponseWriter \<Rightarrow> sess \<Rightarrow> ResponseWriter \<times> sess"

section \<open>platform/json/json.go\<close>

definition WriteJSON :: "int \<Rightarrow> json \<Rightarrow> ResponseWriter \<Rightarrow> ResponseWriter" where
  "WriteJSON status v w =
     rw_Write (json_write v @ [CHR 0x0A]) (rw_WriteHeader status (rw_SetHeader ''Content-Type'' ''application/json'' w))"

definition APIError_json :: "APIError \<Rightarrow> json" where
  "APIError_json a = JObj ([(''code'', JStr (ErrCode a)), (''message'', JStr (ErrMessage a))]
     @ (if Suggestions a = [] then [] else [(''suggestions'', JArr (map JStr (Suggestions a)))]))"

definition response_error :: "goerr \<Rightarrow> APIError" where
  "response_error err = (case err of ApiE a \<Rightarrow> a | _ \<Rightarrow> MapPostgresError err)"

definition WriteError :: "goerr \<Rightarrow> ResponseWriter \<Rightarrow> ResponseWriter" where
  "WriteError err w = (let a = response_error err
     in rw_Write (json_write (APIError_json a) @ [CHR 0x0A])
          (rw_WriteHeader (ErrStatus a) (rw_SetHeader ''Content-Type'' ''application/json'' w)))"

definition ReadJSON :: "http_request \<Rightarrow> (json \<Rightarrow> 'a option) \<Rightarrow> APIError + 'a" where
  "ReadJSON r dec =
     (let bad = WithMessage ErrBadRequest ''request body is not valid JSON or contains unknown fields''
      in case rq_Body r of
           Inl e \<Rightarrow> Inl bad
         | Inr body \<Rightarrow> (case Option.bind (json_decode body) dec of None \<Rightarrow> Inl bad | Some x \<Rightarrow> Inr x))"

section \<open>platform/httputil/httputil.go\<close>

definition ParseUUIDParam :: "(string \<Rightarrow> uuid option) \<Rightarrow> http_request \<Rightarrow> string \<Rightarrow> APIError + uuid" where
  "ParseUUIDParam uuid_Parse r param = (case uuid_Parse (Get_value (rq_Params r) param) of
     None \<Rightarrow> Inl (WithMessage ErrBadRequest (param @ '' must be a valid UUID'')) | Some u \<Rightarrow> Inr u)"

definition ParseDateParam :: "http_request \<Rightarrow> string \<Rightarrow> APIError + time" where
  "ParseDateParam r param =
     (if Query_Get r param = [] then Inl (WithMessage ErrBadRequest (param @ '' is required''))
      else case parse_date (Query_Get r param) of
        None \<Rightarrow> Inl (WithMessage ErrBadRequest (param @ '' must be YYYY-MM-DD'')) | Some t \<Rightarrow> Inr t)"

section \<open>middleware/permission.go\<close>

definition RequirePermission :: "string \<Rightarrow> handler \<Rightarrow> handler" where
  "RequirePermission perm next r w s =
     (if \<not> HasPermission (rq_ctx r) perm
      then (WriteError (ApiE (New ''MISSING_PERMISSION'' (''missing permission: '' @ perm) 403)) w, s)
      else next r w s)"

section \<open>middleware/ifmatch.go\<close>

definition Trim_quotes :: "string \<Rightarrow> string" where
  "Trim_quotes s = rev (dropWhile (\<lambda>c. c = CHR 0x22) (rev (dropWhile (\<lambda>c. c = CHR 0x22) s)))"

definition RequireIfMatch :: "handler \<Rightarrow> handler" where
  "RequireIfMatch next r w s =
     (if rq_Method r \<noteq> ''PATCH'' \<and> rq_Method r \<noteq> ''POST'' then next r w s
      else let raw = Header_Get r ''If-Match''
        in if raw = [] then (WriteError (ApiE (WithMessage ErrBadRequest ''If-Match header is required for mutating requests'')) w, s)
           else case strconv_Atoi (Trim_quotes raw) of
             None \<Rightarrow> (WriteError (ApiE (WithMessage ErrBadRequest ''If-Match must be a positive integer version number'')) w, s)
           | Some v \<Rightarrow>
               if v < 1 then (WriteError (ApiE (WithMessage ErrBadRequest ''If-Match must be a positive integer version number'')) w, s)
               else next (r\<lparr>rq_ctx := SetIfMatchVersion (rq_ctx r) (int32 v)\<rparr>) w s)"

section \<open>middleware/auth.go\<close>

definition split_permissions :: "string \<Rightarrow> string list" where
  "split_permissions raw = (if raw = [] then [] else filter (\<lambda>t. t \<noteq> []) (map TrimSpace (split_commas raw)))"

definition StubAuth :: "(string \<Rightarrow> uuid option) \<Rightarrow> handler \<Rightarrow> handler" where
  "StubAuth uuid_Parse next r w s =
     (if take 8 (rq_Path r) = ''/swagger'' then next r w s
      else let pid = Header_Get r ''X-Property-ID''
        in if pid = [] then (WriteError (ApiE (WithMessage ErrBadRequest ''X-Property-ID header is required'')) w, s)
           else case uuid_Parse pid of
             None \<Rightarrow> (WriteError (ApiE (WithMessage ErrBadRequest ''X-Property-ID must be a valid UUID'')) w, s)
           | Some u \<Rightarrow>
               next (r\<lparr>rq_ctx := SetPermissionsInCtx (SetPropertyIDInCtx (rq_ctx r) u)
                        (split_permissions (Header_Get r ''X-User-Permissions''))\<rparr>) w s)"

end
