(* ===== verification/Logging.thy ===== *)
theory Logging
  imports Http
begin

text \<open>
  The request logger (\<open>middleware/logger.go\<close>): the writer it wraps around the response, the address it logs and the
  line it writes. A writer is a plain one or the logger's; only a plain one can be flushed, because the
  logger's struct embeds the interface \<open>http.ResponseWriter\<close>, which has no \<open>Flush\<close>.
\<close>

section \<open>Writers\<close>

record responseWriter =
  lw_ResponseWriter :: ResponseWriter
  lw_status :: int
  lw_bytesWritten :: nat

datatype writer = Plain ResponseWriter | Logged responseWriter

definition logged_WriteHeader :: "int \<Rightarrow> responseWriter \<Rightarrow> responseWriter" where
  "logged_WriteHeader st lw = lw\<lparr>lw_status := st, lw_ResponseWriter := rw_WriteHeader st (lw_ResponseWriter lw)\<rparr>"

definition logged_Write :: "string \<Rightarrow> responseWriter \<Rightarrow> responseWriter" where
  "logged_Write b lw =
     (let lw' = (if lw_status lw = 0 then lw\<lparr>lw_status := 200\<rparr> else lw)
      in lw'\<lparr>lw_ResponseWriter := rw_Write b (lw_ResponseWriter lw'), lw_bytesWritten := lw_bytesWritten lw' + length b\<rparr>)"

fun w_SetHeader :: "string \<Rightarrow> string \<Rightarrow> writer \<Rightarrow> writer" where
  "w_SetHeader k v (Plain w) = Plain (rw_SetHeader k v w)"
| "w_SetHeader k v (Logged lw) = Logged (lw\<lparr>lw_ResponseWriter := rw_SetHeader k v (lw_ResponseWriter lw)\<rparr>)"

fun w_WriteHeader :: "int \<Rightarrow> writer \<Rightarrow> writer" where
  "w_WriteHeader st (Plain w) = Plain (rw_WriteHeader st w)"
| "w_WriteHeader st (Logged lw) = Logged (logged_WriteHeader st lw)"

fun w_Write :: "string \<Rightarrow> writer \<Rightarrow> writer" where
  "w_Write b (Plain w) = Plain (rw_Write b w)"
| "w_Write b (Logged lw) = Logged (logged_Write b lw)"

fun is_Flusher :: "writer \<Rightarrow> bool" where
  "is_Flusher (Plain (Conn c)) = True"
| "is_Flusher (Plain (Capture rc)) = False"
| "is_Flusher (Logged lw) = False"

fun w_conn :: "writer \<Rightarrow> conn" where
  "w_conn (Plain w) = rw_conn w"
| "w_conn (Logged lw) = rw_conn (lw_ResponseWriter lw)"

definition w_WriteError :: "goerr \<Rightarrow> writer \<Rightarrow> writer" where
  "w_WriteError err w = (let a = response_error err
     in w_Write (json_write (APIError_json a) @ [CHR 0x0A])
          (w_WriteHeader (ErrStatus a) (w_SetHeader ''Content-Type'' ''application/json'' w)))"

section \<open>The address of the client\<close>

definition parseCSV :: "string \<Rightarrow> string list" where
  "parseCSV s = filter (\<lambda>t. t \<noteq> []) (map TrimSpace (split_commas s))"

definition after_last :: "char \<Rightarrow> string \<Rightarrow> (string \<times> string) option" where
  "after_last c s = (if c \<in> set s
     then Some (rev (tl (dropWhile (\<lambda>x. x \<noteq> c) (rev s))), rev (takeWhile (\<lambda>x. x \<noteq> c) (rev s))) else None)"

definition SplitHostPort :: "string \<Rightarrow> (string \<times> string) option" where
  "SplitHostPort hp = (case after_last (CHR '':'') hp of
     None \<Rightarrow> None
   | Some (before, port) \<Rightarrow>
       if hd hp = CHR ''[''
       then (let host = takeWhile (\<lambda>c. c \<noteq> CHR '']'') (tl hp)
             in if before = CHR ''['' # host @ '']'' \<and> CHR ''['' \<notin> set (host @ port) \<and> CHR '']'' \<notin> set port then Some (host, port) else None)
       else if CHR '':'' \<in> set before \<or> CHR ''['' \<in> set hp \<or> CHR '']'' \<in> set hp then None
       else Some (before, port))"

definition getClientIP :: "string \<Rightarrow> http_request \<Rightarrow> string" where
  "getClientIP remoteAddr r =
     (let forwarded = Header_Get r ''X-Forwarded-For''; ips = parseCSV forwarded; realIP = Header_Get r ''X-Real-IP''
      in if forwarded \<noteq> [] \<and> ips \<noteq> [] then hd ips
         else if realIP \<noteq> [] then realIP
         else if remoteAddr \<noteq> [] then (case SplitHostPort remoteAddr of Some (ip, _) \<Rightarrow> ip | None \<Rightarrow> remoteAddr)
         else ''unknown'')"

section \<open>The middleware\<close>

record log_line =
  ll_request_id :: string
  ll_method :: string
  ll_path :: string
  ll_remote_ip :: string
  ll_status :: int
  ll_bytes_written :: nat

definition RequestLogger ::
  "string \<Rightarrow> (http_request \<Rightarrow> writer \<Rightarrow> 's \<Rightarrow> writer \<times> 's) \<Rightarrow> http_request \<Rightarrow> ResponseWriter \<Rightarrow> 's \<Rightarrow> (ResponseWriter \<times> 's) \<times> log_line option" where
  "RequestLogger remoteAddr next r w s =
     (case next r (Logged \<lparr>lw_ResponseWriter = w, lw_status = 0, lw_bytesWritten = 0\<rparr>) s of
        (Logged lw, s') \<Rightarrow> ((lw_ResponseWriter lw, s'), Some
          \<lparr>ll_request_id = (if Header_Get r ''X-Request-ID'' = [] then ''unknown'' else Header_Get r ''X-Request-ID''),
           ll_method = rq_Method r, ll_path = rq_URI r, ll_remote_ip = getClientIP remoteAddr r,
           ll_status = lw_status lw, ll_bytes_written = lw_bytesWritten lw\<rparr>)
      | (Plain w', s') \<Rightarrow> ((w', s'), None))"

end
