(* ===== verification/Digest.thy ===== *)
theory Digest
  imports Prelude
begin

text \<open>
  What the program uses of \<open>crypto/sha256\<close>, \<open>encoding/hex\<close> and \<open>encoding/base64\<close>, on byte strings. The digest only has
  to be a function of its input here; base64 is shown to be undone by its decoder.
\<close>

unbundle bit_operations_syntax

section \<open>SHA-256\<close>

definition sha_K :: "32 word list" where
  "sha_K = [
     0x428A2F98, 0x71374491, 0xB5C0FBCF, 0xE9B5DBA5, 0x3956C25B, 0x59F111F1, 0x923F82A4, 0xAB1C5ED5,
     0xD807AA98, 0x12835B01, 0x243185BE, 0x550C7DC3, 0x72BE5D74, 0x80DEB1FE, 0x9BDC06A7, 0xC19BF174,
     0xE49B69C1, 0xEFBE4786, 0x0FC19DC6, 0x240CA1CC, 0x2DE92C6F, 0x4A7484AA, 0x5CB0A9DC, 0x76F988DA,
     0x983E5152, 0xA831C66D, 0xB00327C8, 0xBF597FC7, 0xC6E00BF3, 0xD5A79147, 0x06CA6351, 0x14292967,
     0x27B70A85, 0x2E1B2138, 0x4D2C6DFC, 0x53380D13, 0x650A7354, 0x766A0ABB, 0x81C2C92E, 0x92722C85,
     0xA2BFE8A1, 0xA81A664B, 0xC24B8B70, 0xC76C51A3, 0xD192E819, 0xD6990624, 0xF40E3585, 0x106AA070,
     0x19A4C116, 0x1E376C08, 0x2748774C, 0x34B0BCB5, 0x391C0CB3, 0x4ED8AA4A, 0x5B9CCA4F, 0x682E6FF3,
     0x748F82EE, 0x78A5636F, 0x84C87814, 0x8CC70208, 0x90BEFFFA, 0xA4506CEB, 0xBEF9A3F7, 0xC67178F2]"

definition sha_H0 :: "32 word list" where
  "sha_H0 = [0x6A09E667, 0xBB67AE85, 0x3C6EF372, 0xA54FF53A, 0x510E527F, 0x9B05688C, 0x1F83D9AB, 0x5BE0CD19]"

definition be_word :: "string \<Rightarrow> 32 word" where
  "be_word bs = foldl (\<lambda>w c. w * 256 + of_nat (of_char c)) 0 bs"

fun words_of :: "nat \<Rightarrow> string \<Rightarrow> 32 word list" where
  "words_of 0 bs = []"
| "words_of (Suc n) bs = be_word (take 4 bs) # words_of n (drop 4 bs)"

definition sha_next :: "32 word list \<Rightarrow> 32 word" where
  "sha_next ws = (let n = length ws; a = ws ! (n - 15); b = ws ! (n - 2)
     in ws ! (n - 16) + (word_rotr 7 a XOR word_rotr 18 a XOR drop_bit 3 a)
        + ws ! (n - 7) + (word_rotr 17 b XOR word_rotr 19 b XOR drop_bit 10 b))"

definition sha_schedule :: "string \<Rightarrow> 32 word list" where
  "sha_schedule block = ((\<lambda>ws. ws @ [sha_next ws]) ^^ 48) (words_of 16 block)"

fun sha_round :: "32 word \<times> 32 word \<Rightarrow> 32 word list \<Rightarrow> 32 word list" where
  "sha_round (k, w) [a, b, c, d, e, f, g, h] =
     (let t1 = h + (word_rotr 6 e XOR word_rotr 11 e XOR word_rotr 25 e) + ((e AND f) XOR (NOT e AND g)) + k + w;
          t2 = (word_rotr 2 a XOR word_rotr 13 a XOR word_rotr 22 a) + ((a AND b) XOR (a AND c) XOR (b AND c))
      in [t1 + t2, a, b, c, d + t1, e, f, g])"
| "sha_round kw hs = hs"

definition sha_block :: "string \<Rightarrow> 32 word list \<Rightarrow> 32 word list" where
  "sha_block block hs = map2 (+) hs (fold sha_round (zip sha_K (sha_schedule block)) hs)"

fun sha_blocks :: "nat \<Rightarrow> string \<Rightarrow> 32 word list \<Rightarrow> 32 word list" where
  "sha_blocks 0 bs hs = hs"
| "sha_blocks (Suc n) bs hs = sha_blocks n (drop 64 bs) (sha_block (take 64 bs) hs)"

definition be_bytes :: "nat \<Rightarrow> nat \<Rightarrow> string" where
  "be_bytes w n = map (\<lambda>k. char_of (n div 256 ^ (w - 1 - k) mod 256)) [0..<w]"

definition sha_pad :: "string \<Rightarrow> string" where
  "sha_pad bs = bs @ [CHR 0x80] @ replicate ((119 - length bs mod 64) mod 64) (CHR 0x00) @ be_bytes 8 (8 * length bs)"

definition sha256_Sum256 :: "string \<Rightarrow> string" where
  "sha256_Sum256 bs = (let p = sha_pad bs
     in concat (map (\<lambda>w. be_bytes 4 (unat w)) (sha_blocks (length p div 64) p sha_H0)))"

section \<open>Hexadecimal\<close>

definition hex_EncodeToString :: "string \<Rightarrow> string" where
  "hex_EncodeToString bs = concat (map (\<lambda>c. hex_of 2 (of_char c)) bs)"

section \<open>Base64\<close>

definition b64_digit :: "nat \<Rightarrow> char" where
  "b64_digit n =
     (if n < 26 then char_of (65 + n) else if n < 52 then char_of (71 + n) else if n < 62 then char_of (n - 4)
      else if n = 62 then CHR ''+'' else CHR ''/'')"

definition b64_val :: "char \<Rightarrow> nat option" where
  "b64_val c = (let n = of_char c in
     if 65 \<le> n \<and> n \<le> 90 then Some (n - 65) else if 97 \<le> n \<and> n \<le> 122 then Some (n - 71)
     else if 48 \<le> n \<and> n \<le> 57 then Some (n + 4) else if n = 43 then Some 62 else if n = 47 then Some 63 else None)"

fun b64_encode :: "string \<Rightarrow> string" where
  "b64_encode [] = []"
| "b64_encode [a] = (let x = of_char a in [b64_digit (x div 4), b64_digit (x mod 4 * 16), CHR ''='', CHR ''=''])"
| "b64_encode [a, b] = (let x = of_char a; y = of_char b in
     [b64_digit (x div 4), b64_digit (x mod 4 * 16 + y div 16), b64_digit (y mod 16 * 4), CHR ''=''])"
| "b64_encode (a # b # c # r) = (let x = of_char a; y = of_char b; z = of_char c in
     [b64_digit (x div 4), b64_digit (x mod 4 * 16 + y div 16), b64_digit (y mod 16 * 4 + z div 64), b64_digit (z mod 64)]
     @ b64_encode r)"

fun b64_decode :: "string \<Rightarrow> string option" where
  "b64_decode [] = Some []"
| "b64_decode (p # q # u # v # r) =
     (case (b64_val p, b64_val q) of
        (Some i, Some j) \<Rightarrow>
          (if u = CHR ''='' then (if v = CHR ''='' \<and> r = [] then Some [char_of (i * 4 + j div 16)] else None)
           else case b64_val u of None \<Rightarrow> None
             | Some k \<Rightarrow>
                 (if v = CHR ''='' then (if r = [] then Some [char_of (i * 4 + j div 16), char_of (j mod 16 * 16 + k div 4)] else None)
                  else case b64_val v of None \<Rightarrow> None
                    | Some l \<Rightarrow> map_option (\<lambda>x. char_of (i * 4 + j div 16) # char_of (j mod 16 * 16 + k div 4)
                                                 # char_of (k mod 4 * 64 + l) # x) (b64_decode r)))
      | _ \<Rightarrow> None)"
| "b64_decode _ = None"

lemma b64_val_digit: "n < 64 \<Longrightarrow> b64_val (b64_digit n) = Some n"
  by (auto simp: b64_val_def b64_digit_def Let_def)

lemma b64_digit_not_pad: "n < 64 \<Longrightarrow> b64_digit n \<noteq> CHR ''=''"
  using b64_val_digit [of n] by (auto simp: b64_val_def)

lemma b64_parts:
  fixes x y z :: nat
  assumes "x < 256" "y < 256" "z < 256"
  shows "x div 4 < 64" "x mod 4 * 16 + y div 16 < 64" "y mod 16 * 4 + z div 64 < 64" "x mod 4 * 16 < 64" "y mod 16 * 4 < 64"
    "y div 16 div 16 = 0" "y div 16 mod 16 = y div 16" "z div 64 div 4 = 0" "z div 64 mod 4 = z div 64"
proof -
  have "x mod 4 < 4" "y mod 16 < 16" "y div 16 < 16" "z div 64 < 4" using assms by (simp_all add: less_mult_imp_div_less)
  then show "x mod 4 * 16 + y div 16 < 64" "y mod 16 * 4 + z div 64 < 64" "x mod 4 * 16 < 64" "y mod 16 * 4 < 64"
    "y div 16 div 16 = 0" "y div 16 mod 16 = y div 16" "z div 64 div 4 = 0" "z div 64 mod 4 = z div 64" by simp_all
qed (use assms in \<open>simp add: less_mult_imp_div_less\<close>)

lemma b64_roundtrip: "b64_decode (b64_encode bs) = Some bs"
proof (induction bs rule: b64_encode.induct)
  case (2 a)
  have "(of_char a :: nat) < 256" by simp
  note p = b64_parts [OF this this this]
  show ?case by (simp add: Let_def b64_val_digit p)
next
  case (3 a b)
  have "(of_char a :: nat) < 256" "(of_char b :: nat) < 256" by simp_all
  note p = b64_parts [OF this this(2)]
  show ?case by (simp add: Let_def b64_val_digit b64_digit_not_pad p)
next
  case (4 a b c r)
  have "(of_char a :: nat) < 256" "(of_char b :: nat) < 256" "(of_char c :: nat) < 256" by simp_all
  note p = b64_parts [OF this]
  show ?case by (simp add: Let_def b64_val_digit b64_digit_not_pad p 4)
qed simp

interpretation base64: codec b64_encode b64_decode "\<lambda>_. True"
  by unfold_locales (rule b64_roundtrip)

end
