(* ===== verification/Idempotency.thy ===== *)
theory Idempotency
  imports Http Digest Availability "HOL-Library.List_Lexorder" "HOL-Library.Char_ord"
begin

text \<open>
  The idempotency middleware (\<open>middleware/idempotency.go\<close>) on the shared Redis cache.

  A duplicate request polls the record of the first one. What happens between its polls is the list of
  ticks: each tick brings a new clock and what the rest of the world has done to the system since, or the
  deadline, or the end of the request's context.
\<close>

section \<open>Redis commands\<close>

definition redis_Get :: "env \<Rightarrow> string \<Rightarrow> string option query" where
  "redis_Get E k s = (case pop_fault s of
     (Some e, s') \<Rightarrow> (Inl e, s') | (None, s') \<Rightarrow> (Inr (redis_get E s' k), s'))"

definition redis_SetNX :: "env \<Rightarrow> string \<Rightarrow> string \<Rightarrow> duration \<Rightarrow> bool query" where
  "redis_SetNX E k v ttl s = (case pop_fault s of
     (Some e, s') \<Rightarrow> (Inl e, s')
   | (None, s') \<Rightarrow> if redis_get E s' k = None then (Inr True, s'\<lparr>redis := (redis s')(k \<mapsto> (v, app_now E + ttl))\<rparr>)
                   else (Inr False, s'))"

section \<open>Records\<close>

definition idempotencyPrefix :: string where "idempotencyPrefix = ''idempotency:''"
definition idempotencyTTL :: duration where "idempotencyTTL = 24 * hour_ns"
definition idempotencyLockTTL :: duration where "idempotencyLockTTL = 2 * minute_ns"

record idempotencyResponse =
  ip_Status :: int
  ip_Headers :: headers
  ip_Body :: string

record idempotencyRecord =
  ik_State :: string
  ik_Fingerprint :: string
  ik_Response :: "idempotencyResponse option"

definition response_json :: "idempotencyResponse \<Rightarrow> json" where
  "response_json p = JObj [(''status'', JNum (dec_int (ip_Status p))),
     (''headers'', JObj (map (\<lambda>(k, v). (k, JStr v)) (sort_key fst (ip_Headers p)))), (''body'', JStr (ip_Body p))]"

definition record_json :: "idempotencyRecord \<Rightarrow> json" where
  "record_json rec = JObj ([(''state'', JStr (ik_State rec)), (''fingerprint'', JStr (ik_Fingerprint rec))]
     @ (case ik_Response rec of None \<Rightarrow> [] | Some p \<Rightarrow> [(''response'', response_json p)]))"

fun header_map :: "(string \<times> json) list \<Rightarrow> headers \<Rightarrow> headers option" where
  "header_map [] hs = Some hs"
| "header_map ((k, v) # r) hs = (case v of
     JStr x \<Rightarrow> header_map r (AList.update k x hs) | JNull \<Rightarrow> header_map r (AList.update k [] hs) | _ \<Rightarrow> None)"

definition as_headers :: "idempotencyResponse assign" where
  "as_headers v p = (case v of
     JObj kvs \<Rightarrow> map_option (\<lambda>hs. p\<lparr>ip_Headers := hs\<rparr>) (header_map kvs (ip_Headers p))
   | JNull \<Rightarrow> Some (p\<lparr>ip_Headers := []\<rparr>) | _ \<Rightarrow> None)"

definition response_fields :: "(string \<times> idempotencyResponse assign) list" where
  "response_fields = [(''status'', as_int in_int64 (\<lambda>i p. p\<lparr>ip_Status := i\<rparr>)), (''headers'', as_headers),
     (''body'', as_string (\<lambda>b p. p\<lparr>ip_Body := b\<rparr>))]"

definition record_fields :: "(string \<times> idempotencyRecord assign) list" where
  "record_fields = [(''state'', as_string (\<lambda>x rec. rec\<lparr>ik_State := x\<rparr>)),
     (''fingerprint'', as_string (\<lambda>x rec. rec\<lparr>ik_Fingerprint := x\<rparr>)),
     (''response'', as_pointer (\<lambda>v. as_struct False response_fields v \<lparr>ip_Status = 0, ip_Headers = [], ip_Body = []\<rparr>)
        (\<lambda>p rec. rec\<lparr>ik_Response := p\<rparr>))]"

definition unmarshal_record :: "string \<Rightarrow> idempotencyRecord option" where
  "unmarshal_record raw = Option.bind (json_unmarshal raw)
     (\<lambda>v. as_struct False record_fields v \<lparr>ik_State = [], ik_Fingerprint = [], ik_Response = None\<rparr>)"

section \<open>The fingerprint of a request\<close>

definition requestFingerprint :: "http_request \<Rightarrow> goerr + string" where
  "requestFingerprint r = (case rq_Body r of
     Inl e \<Rightarrow> Inl e
   | Inr body \<Rightarrow>
       let bodyHash = sha256_Sum256 body; authHash = sha256_Sum256 (Header_Get r ''Authorization'')
       in Inr (hex_EncodeToString (sha256_Sum256 (rq_Method r @ [CHR 0x00] @ rq_URI r @ [CHR 0x00]
            @ hex_EncodeToString authHash @ [CHR 0x00] @ hex_EncodeToString bodyHash))))"

section \<open>Reserving, waiting, replaying and storing\<close>

definition processing_record :: "string \<Rightarrow> idempotencyRecord" where
  "processing_record fp = \<lparr>ik_State = ''processing'', ik_Fingerprint = fp, ik_Response = None\<rparr>"

definition reserveIdempotencyKey :: "env \<Rightarrow> string \<Rightarrow> string \<Rightarrow> bool query" where
  "reserveIdempotencyKey E redisKey fp =
     redis_SetNX E redisKey (json_write (record_json (processing_record fp))) idempotencyLockTTL"

definition replayCachedResponse :: "idempotencyResponse \<Rightarrow> ResponseWriter \<Rightarrow> ResponseWriter" where
  "replayCachedResponse cached w =
     (let w' = fold (\<lambda>(k, v). rw_SetHeader k v) (ip_Headers cached) w
      in case b64_decode (ip_Body cached) of
           None \<Rightarrow> http_Error ''{\"code\":\"INTERNAL_ERROR\",\"message\":\"cached body is corrupted\"}'' 500 w'
         | Some body \<Rightarrow> rw_Write body (rw_WriteHeader (ip_Status cached) w'))"

definition corrupted :: "ResponseWriter \<Rightarrow> ResponseWriter" where
  "corrupted w = http_Error ''{\"code\":\"INTERNAL_ERROR\",\"message\":\"cached response is corrupted\"}'' 500 w"

definition checkExistingIdempotencyKey ::
  "env \<Rightarrow> string \<Rightarrow> string \<Rightarrow> ResponseWriter \<Rightarrow> sess \<Rightarrow> (goerr + bool \<times> bool) \<times> ResponseWriter \<times> sess" where
  "checkExistingIdempotencyKey E redisKey fp w s = (case redis_Get E redisKey s of
     (Inl e, s1) \<Rightarrow> (Inl e, w, s1)
   | (Inr None, s1) \<Rightarrow> (case reserveIdempotencyKey E redisKey fp s1 of
         (Inl e, s2) \<Rightarrow> (Inl e, w, s2) | (Inr acquired, s2) \<Rightarrow> (Inr (False, \<not> acquired), w, s2))
   | (Inr (Some raw), s1) \<Rightarrow> (case unmarshal_record raw of
         None \<Rightarrow> (Inr (True, False), corrupted w, s1)
       | Some rec \<Rightarrow>
           if ik_Fingerprint rec \<noteq> fp
           then (Inr (True, False), http_Error ''{\"code\":\"CONFLICT\",\"message\":\"Idempotency-Key was already used for a different request\"}'' 409 w, s1)
           else if ik_State rec = ''completed''
           then (case ik_Response rec of
                   None \<Rightarrow> (Inr (True, False), corrupted w, s1)
                 | Some p \<Rightarrow> (Inr (True, False), replayCachedResponse p w, s1))
           else if ik_State rec = ''processing'' then (Inr (False, True), w, s1)
           else (Inr (True, False), corrupted w, s1)))"

datatype tick = Tick env "sess \<Rightarrow> sess" | Deadline | CtxDone goerr

definition still_processing :: "ResponseWriter \<Rightarrow> ResponseWriter" where
  "still_processing w = http_Error ''{\"code\":\"CONFLICT\",\"message\":\"request with this Idempotency-Key is still processing\"}'' 409 w"

fun handleExistingIdempotencyKey ::
  "env \<Rightarrow> tick list \<Rightarrow> string \<Rightarrow> string \<Rightarrow> ResponseWriter \<Rightarrow> sess \<Rightarrow> (goerr + bool) \<times> ResponseWriter \<times> sess" where
  "handleExistingIdempotencyKey E ticks redisKey fp w s = (case checkExistingIdempotencyKey E redisKey fp w s of
     (Inl e, w1, s1) \<Rightarrow> (Inl e, w1, s1)
   | (Inr (handled, wait), w1, s1) \<Rightarrow>
       if handled \<or> \<not> wait then (Inr handled, w1, s1)
       else (case ticks of
           [] \<Rightarrow> (Inr True, still_processing w1, s1)
         | Deadline # ts \<Rightarrow> (Inr True, still_processing w1, s1)
         | CtxDone e # ts \<Rightarrow> (Inl e, w1, s1)
         | Tick E' others # ts \<Rightarrow> handleExistingIdempotencyKey E' ts redisKey fp w1 (others s1)))"

declare handleExistingIdempotencyKey.simps [simp del]

definition completed_record :: "string \<Rightarrow> responseCapture \<Rightarrow> idempotencyRecord" where
  "completed_record fp rc = \<lparr>ik_State = ''completed'', ik_Fingerprint = fp,
     ik_Response = Some \<lparr>ip_Status = rc_status rc, ip_Headers = rc_headersCopy rc, ip_Body = b64_encode (rc_body rc)\<rparr>\<rparr>"

definition cacheResponse :: "env \<Rightarrow> string \<Rightarrow> string \<Rightarrow> responseCapture \<Rightarrow> sess \<Rightarrow> sess" where
  "cacheResponse E redisKey fp rc s =
     snd (redis_SetAll E [(redisKey, json_write (record_json (completed_record fp rc)))] idempotencyTTL s)"

section \<open>The middleware\<close>

definition serve_and_cache :: "env \<Rightarrow> handler \<Rightarrow> string \<Rightarrow> string \<Rightarrow> handler" where
  "serve_and_cache E next redisKey fp r w s =
     (case next r (Capture (newResponseCapture (rw_conn w))) s of
        (Capture rc, s1) \<Rightarrow>
          (Conn (rc_conn rc),
           if 200 \<le> rc_status rc \<and> rc_status rc < 300 then cacheResponse E redisKey fp rc s1
           else snd (redis_Del redisKey s1))
      | (Conn c, s1) \<Rightarrow> (Conn c, snd (redis_Del redisKey s1)))"

definition Idempotency :: "env \<Rightarrow> tick list \<Rightarrow> env \<Rightarrow> handler \<Rightarrow> handler" where
  "Idempotency E ticks E' next r w s =
     (if rq_Method r \<noteq> ''POST'' \<and> rq_Method r \<noteq> ''PATCH'' then next r w s
      else let key = Header_Get r ''Idempotency-Key''
        in if key = [] then (http_Error ''{\"code\":\"BAD_REQUEST\",\"message\":\"Idempotency-Key header is required\"}'' 400 w, s)
           else case requestFingerprint r of
             Inl e \<Rightarrow> (http_Error ''{\"code\":\"BAD_REQUEST\",\"message\":\"failed to read request body\"}'' 400 w, s)
           | Inr fp \<Rightarrow>
               let redisKey = idempotencyPrefix @ key
               in case reserveIdempotencyKey E redisKey fp s of
                    (Inl e, s1) \<Rightarrow> next r w s1
                  | (Inr True, s1) \<Rightarrow> serve_and_cache E' next redisKey fp r w s1
                  | (Inr False, s1) \<Rightarrow>
                      (case handleExistingIdempotencyKey E ticks redisKey fp w s1 of
                         (Inl e, w2, s2) \<Rightarrow> if errors_Is_context e then (w2, s2) else next r w2 s2
                       | (Inr True, w2, s2) \<Rightarrow> (w2, s2)
                       | (Inr False, w2, s2) \<Rightarrow> serve_and_cache E' next redisKey fp r w2 s2))"

section \<open>What a captured response records\<close>

inductive writes_to :: "ResponseWriter \<Rightarrow> ResponseWriter \<Rightarrow> bool" where
  refl: "writes_to w w"
| header: "writes_to w w' \<Longrightarrow> writes_to w (rw_SetHeader k v w')"
| status: "writes_to w w' \<Longrightarrow> writes_to w (rw_WriteHeader st w')"
| body: "writes_to w w' \<Longrightarrow> writes_to w (rw_Write b w')"

definition in_step :: "responseCapture \<Rightarrow> bool" where
  "in_step rc \<longleftrightarrow> distinct (map fst (cn_Header (rc_conn rc))) \<and> distinct (map fst (rc_headersCopy rc))
     \<and> (if rc_written rc then cn_Status (rc_conn rc) = Some (rc_status rc) \<and> cn_Body (rc_conn rc) = rc_body rc
            \<and> cn_Sent (rc_conn rc) = rc_headersCopy rc
        else cn_Status (rc_conn rc) = None \<and> cn_Body (rc_conn rc) = [] \<and> rc_body rc = [] \<and> rc_status rc = 0)"

lemma in_step_new: "distinct (map fst hs) \<Longrightarrow> in_step (newResponseCapture (fresh_conn hs))"
  by (simp add: in_step_def newResponseCapture_def fresh_conn_def)

lemma in_step_WriteHeader: "in_step rc \<Longrightarrow> in_step (capture_WriteHeader st rc) \<and> rc_written (capture_WriteHeader st rc)"
  by (auto simp: in_step_def capture_WriteHeader_def conn_WriteHeader_def)

lemma in_step_Write: "in_step rc \<Longrightarrow> in_step (capture_Write b rc)"
  using in_step_WriteHeader [of rc 200]
  by (auto simp: in_step_def capture_Write_def conn_Write_def conn_WriteHeader_def Let_def)

lemma writes_to_in_step:
  assumes "writes_to w w'" "w = Capture rc" "in_step rc"
  shows "\<exists>rc'. w' = Capture rc' \<and> in_step rc'"
  using assms
proof (induction rule: writes_to.induct)
  case (header w w' k v)
  then obtain rc' where rc': "w' = Capture rc'" "in_step rc'" by blast
  then have "distinct (map fst (AList.update k v (cn_Header (rc_conn rc'))))"
    by (intro AList.distinct_update) (simp add: in_step_def)
  with rc' show ?case by (auto simp: in_step_def)
qed (auto simp: in_step_WriteHeader in_step_Write)

section \<open>Stored records\<close>

lemma header_map_distinct:
  "distinct (map fst kvs) \<Longrightarrow> set (map fst kvs) \<inter> set (map fst hs) = {} \<Longrightarrow>
   header_map (map (\<lambda>(k, v). (k, JStr v)) kvs) hs = Some (hs @ kvs)"
proof (induction kvs arbitrary: hs)
  case (Cons kv kvs)
  obtain k v where kv: "kv = (k, v)" by fastforce
  have "AList.update k v hs = hs @ [(k, v)]" if "k \<notin> fst ` set hs"
    using that by (induction hs) auto
  with Cons kv show ?case by (auto simp: image_iff)
qed simp

lemma sorted_headers_distinct: "distinct (map fst hs) \<Longrightarrow> distinct (map fst (sort_key fst hs))"
  by (metis distinct_map distinct_sort inj_on_subset set_sort subset_refl)

lemma as_struct_JObj [simp]: "as_struct strict fs (JObj kvs) x = assign_fields strict fs kvs x"
  by (simp add: as_struct_def)

lemma as_pointer_not_null: "v \<noteq> JNull \<Longrightarrow> as_pointer dec upd v x = map_option (\<lambda>b. upd (Some b) x) (dec v)"
  by (cases v) (simp_all add: as_pointer_def)

lemma unmarshal_write:
  "json_wf v \<Longrightarrow> unmarshal_record (json_write v) =
     as_struct False record_fields v \<lparr>ik_State = [], ik_Fingerprint = [], ik_Response = None\<rparr>"
  by (simp add: unmarshal_record_def json_roundtrip)

lemma unmarshal_processing: "unmarshal_record (json_write (record_json (processing_record fp))) = Some (processing_record fp)"
proof -
  have "json_wf (record_json (processing_record fp))" by (simp add: record_json_def processing_record_def)
  note w = unmarshal_write [OF this]
  show ?thesis
    unfolding w by (simp add: record_json_def processing_record_def record_fields_def find_field_def as_string_def)
qed

lemma unmarshal_completed:
  assumes "distinct (map fst (rc_headersCopy rc))" "in_int64 (rc_status rc)"
  shows "unmarshal_record (json_write (record_json (completed_record fp rc))) =
    Some \<lparr>ik_State = ''completed'', ik_Fingerprint = fp, ik_Response = Some
      \<lparr>ip_Status = rc_status rc, ip_Headers = sort_key fst (rc_headersCopy rc), ip_Body = b64_encode (rc_body rc)\<rparr>\<rparr>"
proof -
  define p where "p = \<lparr>ip_Status = rc_status rc, ip_Headers = rc_headersCopy rc, ip_Body = b64_encode (rc_body rc)\<rparr>"
  have "json_wf (record_json (completed_record fp rc))"
    by (auto simp: record_json_def completed_record_def response_json_def list_all_iff)
  note w = unmarshal_write [OF this]
  have "as_struct False response_fields (response_json p) \<lparr>ip_Status = 0, ip_Headers = [], ip_Body = []\<rparr>
      = Some (p\<lparr>ip_Headers := sort_key fst (rc_headersCopy rc)\<rparr>)"
    using header_map_distinct [OF sorted_headers_distinct [OF assms(1)], of "[]"] Atoi_dec_int [OF assms(2)] assms(2)
    by (simp add: p_def response_json_def response_fields_def find_field_def as_int_def as_headers_def as_string_def)
  moreover have "response_json p \<noteq> JNull" by (simp add: response_json_def)
  ultimately show ?thesis
    unfolding w by (simp add: record_json_def completed_record_def p_def [symmetric] record_fields_def find_field_def
        as_string_def as_pointer_not_null) (simp add: p_def)
qed

lemma replay_response:
  "\<exists>c'. replayCachedResponse \<lparr>ip_Status = st, ip_Headers = hs, ip_Body = b64_encode b\<rparr> (Conn (fresh_conn hs0)) = Conn c'
     \<and> cn_Status c' = Some st \<and> cn_Body c' = b \<and> map_of (cn_Sent c') = map_of (fold (\<lambda>(k, v). AList.update k v) hs hs0)"
proof -
  have "fold (\<lambda>(k, v). rw_SetHeader k v) hs (Conn (fresh_conn hs0)) = Conn (fresh_conn (fold (\<lambda>(k, v). AList.update k v) hs hs0))"
    by (induction hs arbitrary: hs0) (auto simp: fresh_conn_def)
  then show ?thesis
    by (simp add: replayCachedResponse_def b64_roundtrip conn_Write_def conn_WriteHeader_def fresh_conn_def Let_def)
qed

lemma map_of_update_all:
  assumes "distinct (map fst hs)" "(k, v) \<in> set hs"
  shows "map_of (fold (\<lambda>(k, v). AList.update k v) hs hs0) k = Some v"
proof -
  have "map_of (fold (\<lambda>(k, v). AList.update k v) hs hs0) = map_of hs0 ++ map_of (rev hs)"
    by (induction hs arbitrary: hs0) (auto simp: AList.update_conv' map_add_def fun_eq_iff split: option.splits)
  moreover have "map_of (rev hs) k = Some v"
    using assms by (simp add: rev_map [symmetric])
  ultimately show ?thesis by (simp add: map_add_def)
qed

section \<open>Runs of the middleware\<close>

definition keyed :: "http_request \<Rightarrow> string \<Rightarrow> string \<Rightarrow> bool" where
  "keyed r key fp \<longleftrightarrow> (rq_Method r = ''POST'' \<or> rq_Method r = ''PATCH'') \<and> Header_Get r ''Idempotency-Key'' = key
     \<and> key \<noteq> [] \<and> requestFingerprint r = Inr fp"

definition reserved :: "env \<Rightarrow> string \<Rightarrow> string \<Rightarrow> sess \<Rightarrow> sess" where
  "reserved E key fp s = s\<lparr>redis := (redis s)(idempotencyPrefix @ key \<mapsto>
     (json_write (record_json (processing_record fp)), app_now E + idempotencyLockTTL))\<rparr>"

lemma no_fault: "faults s = [] \<Longrightarrow> pop_fault s = (None, s)"
  by (simp add: pop_fault_def)

lemma Idempotency_free:
  assumes "keyed r key fp" "faults s = []" "redis_get E s (idempotencyPrefix @ key) = None"
  shows "Idempotency E ticks E' next r w s = serve_and_cache E' next (idempotencyPrefix @ key) fp r w (reserved E key fp s)"
  using assms by (auto simp: Idempotency_def keyed_def Let_def reserveIdempotencyKey_def redis_SetNX_def no_fault reserved_def)

lemma Idempotency_taken:
  assumes "keyed r key fp" "faults s = []" "redis_get E s (idempotencyPrefix @ key) = Some v"
  shows "Idempotency E ticks E' next r w s =
    (case handleExistingIdempotencyKey E ticks (idempotencyPrefix @ key) fp w s of
       (Inl e, w2, s2) \<Rightarrow> if errors_Is_context e then (w2, s2) else next r w2 s2
     | (Inr True, w2, s2) \<Rightarrow> (w2, s2)
     | (Inr False, w2, s2) \<Rightarrow> serve_and_cache E' next (idempotencyPrefix @ key) fp r w2 s2)"
  using assms by (auto simp: Idempotency_def keyed_def Let_def reserveIdempotencyKey_def redis_SetNX_def no_fault)

lemma check_completed:
  assumes "faults s = []" "redis_get E s k = Some raw"
    "unmarshal_record raw = Some \<lparr>ik_State = ''completed'', ik_Fingerprint = fp, ik_Response = Some p\<rparr>"
  shows "handleExistingIdempotencyKey E ticks k fp w s = (Inr True, replayCachedResponse p w, s)"
  using assms by (simp add: handleExistingIdempotencyKey.simps [of E ticks] checkExistingIdempotencyKey_def redis_Get_def no_fault)

lemma replay_completed:
  assumes r: "keyed r key fp" and s: "faults s = []" "redis s (idempotencyPrefix @ key) = Some (json_write (record_json (completed_record fp rc)), ex)"
    "app_now E < ex" and rc: "distinct (map fst (rc_headersCopy rc))" "in_int64 (rc_status rc)"
  shows "\<exists>c. Idempotency E ticks E' next r (Conn (fresh_conn hs)) s = (Conn c, s) \<and> cn_Status c = Some (rc_status rc)
    \<and> cn_Body c = rc_body rc \<and> list_all (\<lambda>(k, v). map_of (cn_Sent c) k = Some v) (rc_headersCopy rc)"
proof -
  let ?p = "\<lparr>ip_Status = rc_status rc, ip_Headers = sort_key fst (rc_headersCopy rc), ip_Body = b64_encode (rc_body rc)\<rparr>"
  have get: "redis_get E s (idempotencyPrefix @ key) = Some (json_write (record_json (completed_record fp rc)))"
    using s(2,3) by (simp add: redis_get_def)
  obtain c where c: "replayCachedResponse ?p (Conn (fresh_conn hs)) = Conn c" "cn_Status c = Some (rc_status rc)" "cn_Body c = rc_body rc"
    "map_of (cn_Sent c) = map_of (fold (\<lambda>(k, v). AList.update k v) (sort_key fst (rc_headersCopy rc)) hs)"
    using replay_response by blast
  moreover have "list_all (\<lambda>(k, v). map_of (cn_Sent c) k = Some v) (rc_headersCopy rc)"
    using map_of_update_all [OF sorted_headers_distinct [OF rc(1)]] c(4) by (auto simp: list_all_iff)
  moreover have "Idempotency E ticks E' next r (Conn (fresh_conn hs)) s = (replayCachedResponse ?p (Conn (fresh_conn hs)), s)"
    by (simp add: Idempotency_taken [OF r s(1) get] check_completed [OF s(1) get unmarshal_completed [OF rc]])
  ultimately show ?thesis by auto
qed

lemma serve_and_cache_stores:
  assumes "f r (Capture (newResponseCapture c)) s = (Capture rc, s')" "faults s' = []" "200 \<le> rc_status rc" "rc_status rc < 300"
  shows "serve_and_cache E f k fp r (Conn c) s = (Conn (rc_conn rc),
    s'\<lparr>redis := (redis s')(k \<mapsto> (json_write (record_json (completed_record fp rc)), app_now E + idempotencyTTL))\<rparr>)"
  using assms by (simp add: serve_and_cache_def cacheResponse_def redis_SetAll_def no_fault)

text \<open>A request that is repeated with its idempotency key is carried out once: when the first one was answered with a
  2xx status, any request with the same key and fingerprint in the following 24 hours gets the same status, the same
  body and the same headers, and its handler is not run.\<close>

lemma retry_replays_the_response:
  assumes "keyed r key fp" and "keyed r' key fp"
    and "faults s = []" and "redis_get E s (idempotencyPrefix @ key) = None" and "distinct (map fst hs)"
    and "next r (Capture (newResponseCapture (fresh_conn hs))) (reserved E key fp s) = (w1, s1)" and "faults s1 = []"
    and "writes_to (Capture (newResponseCapture (fresh_conn hs))) w1"
    and "Idempotency E ticks E1 next r (Conn (fresh_conn hs)) s = (Conn c, s2)"
    and "cn_Status c = Some st" and "200 \<le> st" and "st < 300"
    and "redis t (idempotencyPrefix @ key) = redis s2 (idempotencyPrefix @ key)" and "faults t = []"
    and "app_now E2 < app_now E1 + 24 * hour_ns"
  shows "\<exists>c'. Idempotency E2 ticks' E3 next' r' (Conn (fresh_conn hs')) t = (Conn c', t) \<and> cn_Status c' = cn_Status c
    \<and> cn_Body c' = cn_Body c \<and> list_all (\<lambda>(k, v). map_of (cn_Sent c') k = Some v) (cn_Sent c)"
proof -
  obtain rc where rc: "w1 = Capture rc" "in_step rc"
    using writes_to_in_step [OF assms(8) _ in_step_new [OF assms(5)]] by blast
  have run: "serve_and_cache E1 next (idempotencyPrefix @ key) fp r (Conn (fresh_conn hs)) (reserved E key fp s) = (Conn c, s2)"
    using assms(9) by (simp add: Idempotency_free [OF assms(1,3,4)])
  then have c: "c = rc_conn rc" using assms(6) rc(1) by (simp add: serve_and_cache_def)
  have st: "rc_status rc = st" "cn_Body c = rc_body rc" "cn_Sent c = rc_headersCopy rc" "distinct (map fst (rc_headersCopy rc))"
    using rc(2) c assms(10) by (auto simp: in_step_def split: if_splits)
  have ok: "200 \<le> rc_status rc" "rc_status rc < 300" "in_int64 (rc_status rc)" using st(1) assms(11,12) by (auto simp: in_int64_def)
  have "redis t (idempotencyPrefix @ key) = Some (json_write (record_json (completed_record fp rc)), app_now E1 + idempotencyTTL)"
    using serve_and_cache_stores [where f = "next" and r = r and c = "fresh_conn hs", OF assms(6) [unfolded rc(1)] assms(7) ok(1,2), of E1 "idempotencyPrefix @ key" fp] run assms(13) by auto
  from replay_completed [OF assms(2,14) this _ st(4) ok(3)] assms(10,15) st show ?thesis
    by (simp add: idempotencyTTL_def)
qed

section \<open>Duplicates\<close>

definition live :: "env \<Rightarrow> string \<Rightarrow> sess \<Rightarrow> bool" where
  "live E key s \<longleftrightarrow> faults s = [] \<and> redis_get E s (idempotencyPrefix @ key) \<noteq> None"

definition stays_live :: "string \<Rightarrow> tick \<Rightarrow> bool" where
  "stays_live key t = (case t of Tick E f \<Rightarrow> \<forall>s. live E key (f s) | Deadline \<Rightarrow> True | CtxDone e \<Rightarrow> errors_Is_context e)"

lemma check_live:
  assumes "live E key s"
  shows "\<exists>w' h. checkExistingIdempotencyKey E (idempotencyPrefix @ key) fp w s = (Inr (h, \<not> h), w', s)"
  using assms
  by (auto simp: live_def checkExistingIdempotencyKey_def redis_Get_def no_fault split: option.splits if_splits)

lemma handle_live:
  "live E key s \<Longrightarrow> list_all (stays_live key) ticks \<Longrightarrow>
   \<exists>res w' s'. handleExistingIdempotencyKey E ticks (idempotencyPrefix @ key) fp w s = (res, w', s')
     \<and> (res = Inr True \<or> (\<exists>e. res = Inl e \<and> errors_Is_context e))"
proof (induction ticks arbitrary: E w s)
  case Nil
  with check_live [OF Nil(1), of fp w] show ?case by (auto simp: handleExistingIdempotencyKey.simps [of _ "[]"])
next
  case (Cons t ts)
  from check_live [OF Cons.prems(1), of fp w] obtain w' h where
    c: "checkExistingIdempotencyKey E (idempotencyPrefix @ key) fp w s = (Inr (h, \<not> h), w', s)" by blast
  show ?case
  proof (cases t)
    case (Tick E' f)
    with Cons.prems have "live E' key (f s)" "list_all (stays_live key) ts" by (simp_all add: stays_live_def [of key "Tick E' f"])
    from Cons.IH [OF this, of w'] c Tick show ?thesis
      by (cases h) (simp_all add: handleExistingIdempotencyKey.simps [of _ "Tick E' f # ts"])
  qed (use Cons.prems c in \<open>auto simp: handleExistingIdempotencyKey.simps [of _ "x # ts" for x] stays_live_def\<close>)
qed

text \<open>C25. A duplicate never runs beside the request it duplicates: while the record of a key is in the cache, in progress
  or completed, a request with that key is answered without running its handler, however long it waits and whatever the
  rest of the system does meanwhile.\<close>

theorem duplicate_never_runs:
  assumes "keyed r key fp" and "live E key s" and "list_all (stays_live key) ticks"
  shows "Idempotency E ticks E' next r w s = Idempotency E ticks E' next' r w s"
proof -
  obtain v where v: "redis_get E s (idempotencyPrefix @ key) = Some v" and f: "faults s = []"
    using assms(2) by (auto simp: live_def)
  from handle_live [OF assms(2,3), of fp w] show ?thesis
    by (auto simp: Idempotency_taken [OF assms(1) f v])
qed

section \<open>Replays across tenants\<close>

text \<open>C32. A replay ignores who asks: the fingerprint covers the method, the URI, the Authorization header and the body,
  but neither the property nor the permissions of the request, and the middleware runs before the authentication. A
  request with the key of another tenant's request gets that tenant's stored response, whatever its own property and
  permissions.\<close>

theorem replay_crosses_tenants:
  assumes "keyed r key fp" and "faults s = []"
    and "redis s (idempotencyPrefix @ key) = Some (json_write (record_json (completed_record fp rc)), ex)"
    and "app_now E < ex" and "distinct (map fst (rc_headersCopy rc))" and "in_int64 (rc_status rc)"
  shows "\<exists>c. Idempotency E ticks E' (StubAuth uuid_Parse next)
      (r\<lparr>rq_Header := (rq_Header r)(''X-Property-ID'' := pid, ''X-User-Permissions'' := perms)\<rparr>) (Conn (fresh_conn hs)) s = (Conn c, s)
    \<and> cn_Status c = Some (rc_status rc) \<and> cn_Body c = rc_body rc"
proof -
  have "keyed (r\<lparr>rq_Header := (rq_Header r)(''X-Property-ID'' := pid, ''X-User-Permissions'' := perms)\<rparr>) key fp"
    using assms(1) by (cases "rq_Body r") (simp_all add: keyed_def requestFingerprint_def Get_value_def)
  from replay_completed [OF this assms(2-6)] show ?thesis by blast
qed

end
