(* ===== verification/Realtime.thy ===== *)
theory Realtime
  imports Logging Idempotency
begin

text \<open>
  Server-sent events: the listener for PostgreSQL notifications (\<open>events/listener.go\<close>) and the hub that passes them to
  browsers (\<open>realtime/hub.go\<close>).

  A client of the hub is its property, its buffered messages and what was written to its connection. The goroutines of
  clients take messages while the hub sends: \<open>taken\<close> says how many each client takes between the two attempts to send
  to a full buffer. The text of an event's time is part of the event; numbers in a payload pass through \<open>float64\<close> by a
  parameter. The connection to PostgreSQL is the list of what its waits return.
\<close>

section \<open>events/listener.go: events and handlers\<close>

record Event =
  ev_Channel :: string
  ev_Data :: "(string \<times> json) list"
  ev_Timestamp :: string

definition Data_get :: "Event \<Rightarrow> string \<Rightarrow> json option" where
  "Data_get e k = map_of (rev (ev_Data e)) k"

definition Data_string :: "Event \<Rightarrow> string \<Rightarrow> string option" where
  "Data_string e k = (case Data_get e k of Some (JStr s) \<Rightarrow> Some s | _ \<Rightarrow> None)"

type_synonym 'w event_handler = "Event \<Rightarrow> 'w \<Rightarrow> goerr option \<times> 'w"

record 'w Listener =
  ls_handlers :: "string \<rightharpoonup> 'w event_handler list"
  ls_onReconnect :: "('w \<Rightarrow> 'w) option"

definition New_listener :: "('w \<Rightarrow> 'w) option \<Rightarrow> 'w Listener" where
  "New_listener onReconnect = \<lparr>ls_handlers = Map.empty, ls_onReconnect = onReconnect\<rparr>"

definition handlers_of :: "'w Listener \<Rightarrow> string \<Rightarrow> 'w event_handler list" where
  "handlers_of l ch = (case ls_handlers l ch of None \<Rightarrow> [] | Some hs \<Rightarrow> hs)"

definition On :: "string \<Rightarrow> 'w event_handler \<Rightarrow> 'w Listener \<Rightarrow> 'w Listener" where
  "On channel handler l = l\<lparr>ls_handlers := (ls_handlers l)(channel \<mapsto> handlers_of l channel @ [handler])\<rparr>"

record Notification =
  nt_Channel :: string
  nt_Payload :: string

definition parse_payload :: "string \<Rightarrow> (string \<times> json) list option" where
  "parse_payload p = (case json_unmarshal p of Some (JObj kvs) \<Rightarrow> Some kvs | Some JNull \<Rightarrow> Some [] | _ \<Rightarrow> None)"

definition dispatch :: "'w Listener \<Rightarrow> string \<Rightarrow> ('w event_handler list \<Rightarrow> 'w event_handler list) \<Rightarrow> Notification \<Rightarrow> 'w \<Rightarrow> 'w" where
  "dispatch l now order n w = (case parse_payload (nt_Payload n) of
     None \<Rightarrow> w
   | Some kvs \<Rightarrow>
       let e = \<lparr>ev_Channel = nt_Channel n, ev_Data = kvs, ev_Timestamp = now\<rparr>
       in fold (\<lambda>h w. snd (h e w)) (order (handlers_of l (nt_Channel n))) w)"

datatype 'w wait =
    Notified string "'w event_handler list \<Rightarrow> 'w event_handler list" Notification
  | TimedOut "goerr option"
  | WaitFailed goerr
  | ShutDown

fun processNotifications :: "'w Listener \<Rightarrow> 'w wait list \<Rightarrow> 'w \<Rightarrow> goerr option \<times> 'w" where
  "processNotifications l [] w = (None, w)"
| "processNotifications l (Notified now order n # r) w = processNotifications l r (dispatch l now order n w)"
| "processNotifications l (TimedOut None # r) w = processNotifications l r w"
| "processNotifications l (TimedOut (Some e) # r) w = (Some (Wrap ''connection lost: '' e), w)"
| "processNotifications l (WaitFailed e # r) w = (Some (Wrap ''wait for notification: '' e), w)"
| "processNotifications l (ShutDown # r) w = (None, w)"

definition reconnect :: "'w Listener \<Rightarrow> 'w \<Rightarrow> 'w" where
  "reconnect l w = (case ls_onReconnect l of None \<Rightarrow> w | Some f \<Rightarrow> f w)"

record 'w connection =
  cx_connect :: "goerr option"
  cx_listen :: "(string \<times> goerr) option"
  cx_waits :: "'w wait list"

definition connect :: "'w Listener \<Rightarrow> 'w connection \<Rightarrow> bool \<Rightarrow> 'w \<Rightarrow> goerr option \<times> 'w" where
  "connect l cn isReconnect w = (case cx_connect cn of
     Some e \<Rightarrow> (Some (Wrap ''connect: '' e), w)
   | None \<Rightarrow> (case cx_listen cn of
       Some (ch, e) \<Rightarrow> (Some (Wrap (''listen '' @ ch @ '': '') e), w)
     | None \<Rightarrow> processNotifications l (cx_waits cn) (if isReconnect then reconnect l w else w)))"

record run_state =
  rs_backoff :: duration
  rs_isReconnect :: bool

definition run_start :: run_state where
  "run_start = \<lparr>rs_backoff = second_ns, rs_isReconnect = False\<rparr>"

definition run_iteration :: "'w Listener \<Rightarrow> 'w connection \<Rightarrow> run_state \<Rightarrow> 'w \<Rightarrow> run_state \<times> 'w" where
  "run_iteration l cn rs w = (case connect l cn (rs_isReconnect rs) w of
     (Some e, w') \<Rightarrow> (\<lparr>rs_backoff = (if rs_backoff rs < minute_ns then rs_backoff rs * 2 else rs_backoff rs), rs_isReconnect = True\<rparr>, w')
   | (None, w') \<Rightarrow> (\<lparr>rs_backoff = second_ns, rs_isReconnect = True\<rparr>, w'))"

fun run_listener :: "'w Listener \<Rightarrow> 'w connection list \<Rightarrow> run_state \<Rightarrow> 'w \<Rightarrow> run_state \<times> 'w" where
  "run_listener l [] rs w = (rs, w)"
| "run_listener l (cn # r) rs w = (case run_iteration l cn rs w of (rs', w') \<Rightarrow> run_listener l r rs' w')"

section \<open>realtime/hub.go\<close>

definition maxSSEClients :: nat where "maxSSEClients = 1000"
definition bufferSize :: nat where "bufferSize = 64"

record SSEMessage =
  sm_Event :: string
  sm_Data :: string

datatype frame = Message SSEMessage | Ping

record client =
  cl_id :: nat
  cl_property :: uuid
  cl_buffer :: "SSEMessage list"
  cl_frames :: "frame list"

record Hub =
  hb_clients :: "client list"
  hb_next :: nat

definition NewHub :: Hub where
  "NewHub = \<lparr>hb_clients = [], hb_next = 0\<rparr>"

definition resync :: SSEMessage where
  "resync = \<lparr>sm_Event = ''resync'', sm_Data = ''{}''\<rparr>"

fun frame_bytes :: "frame \<Rightarrow> string" where
  "frame_bytes (Message m) = (if sm_Event m = [] then [] else ''event: '' @ sm_Event m @ [CHR 0x0A])
     @ ''data: '' @ sm_Data m @ [CHR 0x0A, CHR 0x0A]"
| "frame_bytes Ping = '': ping'' @ [CHR 0x0A, CHR 0x0A]"

definition resolvePropertyID :: "(string \<Rightarrow> uuid option) \<Rightarrow> http_request \<Rightarrow> APIError + uuid" where
  "resolvePropertyID uuid_Parse r =
     (let raw = Query_Get r ''property_id''; cp = GetPropertyIDFromCtx (rq_ctx r)
      in if raw = [] then Inl (WithMessage ErrBadRequest ''property_id query parameter is required'')
         else case uuid_Parse raw of
           None \<Rightarrow> Inl (WithMessage ErrBadRequest ''property_id must be a valid UUID'')
         | Some p \<Rightarrow>
             if cp = uuid_Nil then Inl (WithMessage ErrUnauthorized ''no authenticated session'')
             else if cp \<noteq> p then Inl (WithMessage ErrForbidden ''property access denied'')
             else Inr p)"

definition sse_headers :: "writer \<Rightarrow> writer" where
  "sse_headers w = w_SetHeader ''X-Accel-Buffering'' ''no'' (w_SetHeader ''Connection'' ''keep-alive''
     (w_SetHeader ''Cache-Control'' ''no-cache'' (w_SetHeader ''Content-Type'' ''text/event-stream'' w)))"

definition Subscribe :: "(string \<Rightarrow> uuid option) \<Rightarrow> http_request \<Rightarrow> writer \<Rightarrow> Hub \<Rightarrow> writer \<times> Hub" where
  "Subscribe uuid_Parse r w h = (case resolvePropertyID uuid_Parse r of
     Inl a \<Rightarrow> (w_WriteError (ApiE a) w, h)
   | Inr p \<Rightarrow>
       let w' = sse_headers w
       in if \<not> is_Flusher w' then (w_WriteError (ApiE (WithMessage ErrInternal ''streaming unsupported'')) w', h)
          else if maxSSEClients \<le> length (hb_clients h)
          then (w_WriteError (ApiE (New ''SERVICE_UNAVAILABLE'' ''sse at capacity'' 503)) w', h)
          else (w', h\<lparr>hb_clients := hb_clients h @ [\<lparr>cl_id = hb_next h, cl_property = p, cl_buffer = [], cl_frames = []\<rparr>],
                       hb_next := hb_next h + 1\<rparr>))"

definition on_client :: "nat \<Rightarrow> (client \<Rightarrow> client) \<Rightarrow> Hub \<Rightarrow> Hub" where
  "on_client i f h = h\<lparr>hb_clients := map (\<lambda>c. if cl_id c = i then f c else c) (hb_clients h)\<rparr>"

definition receive :: "client \<Rightarrow> client" where
  "receive c = (case cl_buffer c of [] \<Rightarrow> c | m # r \<Rightarrow> c\<lparr>cl_buffer := r, cl_frames := cl_frames c @ [Message m]\<rparr>)"

definition heartbeat :: "client \<Rightarrow> client" where
  "heartbeat c = c\<lparr>cl_frames := cl_frames c @ [Ping]\<rparr>"

definition disconnect :: "nat \<Rightarrow> Hub \<Rightarrow> Hub" where
  "disconnect i h = h\<lparr>hb_clients := filter (\<lambda>c. cl_id c \<noteq> i) (hb_clients h)\<rparr>"

definition send :: "SSEMessage \<Rightarrow> client \<Rightarrow> client option" where
  "send m c = (if length (cl_buffer c) < bufferSize then Some (c\<lparr>cl_buffer := cl_buffer c @ [m]\<rparr>) else None)"

definition try_send :: "SSEMessage \<Rightarrow> client \<Rightarrow> client" where
  "try_send m c = (case send m c of Some c' \<Rightarrow> c' | None \<Rightarrow> c)"

definition fanOut :: "(nat \<Rightarrow> nat) \<Rightarrow> uuid \<Rightarrow> SSEMessage \<Rightarrow> Hub \<Rightarrow> Hub" where
  "fanOut taken p msg h = h\<lparr>hb_clients := map (\<lambda>c.
     if cl_property c \<noteq> p then c
     else case send msg c of Some c' \<Rightarrow> c' | None \<Rightarrow> try_send resync ((receive ^^ taken (cl_id c)) c)) (hb_clients h)\<rparr>"

definition Resync :: "Hub \<Rightarrow> Hub" where
  "Resync h = h\<lparr>hb_clients := map (try_send resync) (hb_clients h)\<rparr>"

fun through_any :: "(string \<Rightarrow> string) \<Rightarrow> json \<Rightarrow> json" where
  "through_any num (JNum s) = JNum (num s)"
| "through_any num (JArr vs) = JArr (map (through_any num) vs)"
| "through_any num (JObj kvs) = JObj (sort_key fst (AList.clearjunk (rev (map (\<lambda>(k, v). (k, through_any num v)) kvs))))"
| "through_any num v = v"

definition event_name :: "string \<Rightarrow> string" where
  "event_name table =
     (if table \<in> {''reservations'', ''reservation_items''} then ''reservation.changed''
      else if table = ''room_inventory_ledger'' then ''availability.changed''
      else if table = ''booked_daily_rates'' then ''rate.changed''
      else ''change'')"

definition ConvertEventToSSEMessage :: "(string \<Rightarrow> string) \<Rightarrow> Event \<Rightarrow> SSEMessage" where
  "ConvertEventToSSEMessage num e =
     (let str = (\<lambda>k. case Data_string e k of Some s \<Rightarrow> s | None \<Rightarrow> [])
      in \<lparr>sm_Event = event_name (str ''table''),
          sm_Data = json_write (JObj ([(''at'', JStr (ev_Timestamp e)), (''op'', JStr (str ''op'')),
            (''property_id'', JStr (str ''property_id'')), (''record_id'', JStr (str ''id''))]
            @ (case Data_get e ''version'' of None \<Rightarrow> [] | Some v \<Rightarrow> [(''version'', through_any num v)])))\<rparr>)"

definition event_property :: "(string \<Rightarrow> uuid option) \<Rightarrow> Event \<Rightarrow> uuid option" where
  "event_property uuid_Parse e = (case Data_string e ''property_id'' of None \<Rightarrow> None | Some s \<Rightarrow> uuid_Parse s)"

definition OnEvent :: "(string \<Rightarrow> uuid option) \<Rightarrow> (string \<Rightarrow> string) \<Rightarrow> (nat \<Rightarrow> nat) \<Rightarrow> Event \<Rightarrow> Hub \<Rightarrow> goerr option \<times> Hub" where
  "OnEvent uuid_Parse num taken e h = (case event_property uuid_Parse e of
     None \<Rightarrow> (None, h)
   | Some p \<Rightarrow> (None, fanOut taken p (ConvertEventToSSEMessage num e) h))"

section \<open>Runs of the hub\<close>

inductive hub_step :: "(string \<Rightarrow> uuid option) \<Rightarrow> (string \<Rightarrow> string) \<Rightarrow> Hub \<Rightarrow> Hub \<Rightarrow> bool" for up num where
  subscribe: "hub_step up num h (snd (Subscribe up r w h))"
| event: "hub_step up num h (snd (OnEvent up num taken e h))"
| resync: "hub_step up num h (Resync h)"
| receive: "hub_step up num h (on_client i receive h)"
| heartbeat: "hub_step up num h (on_client i heartbeat h)"
| disconnect: "hub_step up num h (disconnect i h)"

definition for_property :: "(string \<Rightarrow> uuid option) \<Rightarrow> (string \<Rightarrow> string) \<Rightarrow> uuid \<Rightarrow> SSEMessage \<Rightarrow> bool" where
  "for_property up num p m \<longleftrightarrow> m = resync \<or> (\<exists>e. event_property up e = Some p \<and> m = ConvertEventToSSEMessage num e)"

fun frame_messages :: "frame list \<Rightarrow> SSEMessage list" where
  "frame_messages [] = []"
| "frame_messages (Message m # r) = m # frame_messages r"
| "frame_messages (Ping # r) = frame_messages r"

definition sent_to :: "client \<Rightarrow> SSEMessage list" where
  "sent_to c = frame_messages (cl_frames c) @ cl_buffer c"

definition client_ok :: "(string \<Rightarrow> uuid option) \<Rightarrow> (string \<Rightarrow> string) \<Rightarrow> client \<Rightarrow> bool" where
  "client_ok up num c \<longleftrightarrow> length (cl_buffer c) \<le> bufferSize \<and> list_all (for_property up num (cl_property c)) (sent_to c)"

definition hub_ok :: "(string \<Rightarrow> uuid option) \<Rightarrow> (string \<Rightarrow> string) \<Rightarrow> Hub \<Rightarrow> bool" where
  "hub_ok up num h \<longleftrightarrow> length (hb_clients h) \<le> maxSSEClients \<and> list_all (client_ok up num) (hb_clients h)"

lemma frame_messages_append [simp]: "frame_messages (xs @ ys) = frame_messages xs @ frame_messages ys"
  by (induction xs rule: frame_messages.induct) auto

lemma receive_sent [simp]: "sent_to (receive c) = sent_to c" "cl_property (receive c) = cl_property c" "cl_id (receive c) = cl_id c"
  by (auto simp: receive_def sent_to_def split: list.split)

lemma heartbeat_sent [simp]: "sent_to (heartbeat c) = sent_to c" "cl_property (heartbeat c) = cl_property c" "cl_buffer (heartbeat c) = cl_buffer c"
  by (auto simp: heartbeat_def sent_to_def)

lemma receives_sent [simp]:
  "sent_to ((receive ^^ n) c) = sent_to c" "cl_property ((receive ^^ n) c) = cl_property c" "cl_id ((receive ^^ n) c) = cl_id c"
  by (induction n) auto

lemma receive_buffer: "length (cl_buffer (receive c)) = length (cl_buffer c) - 1"
  by (auto simp: receive_def split: list.split)

lemma receives_buffer: "length (cl_buffer ((receive ^^ n) c)) = length (cl_buffer c) - n"
  by (induction n) (auto simp: receive_buffer)

lemma send_ok: "client_ok up num c \<Longrightarrow> for_property up num (cl_property c) m \<Longrightarrow> send m c = Some c' \<Longrightarrow> client_ok up num c'"
  by (auto simp: client_ok_def send_def sent_to_def split: if_splits)

lemma client_ok_try_send: "client_ok up num c \<Longrightarrow> for_property up num (cl_property c) m \<Longrightarrow> client_ok up num (try_send m c)"
  by (auto simp: try_send_def split: option.split intro: send_ok)

lemma client_ok_receives: "client_ok up num c \<Longrightarrow> client_ok up num ((receive ^^ n) c)"
  by (auto simp: client_ok_def receives_buffer)

lemma resync_for [simp]: "for_property up num p resync"
  by (simp add: for_property_def)

lemma hub_step_ok:
  assumes "hub_step up num h h'" "hub_ok up num h"
  shows "hub_ok up num h'"
  using assms
proof cases
  case (subscribe r w)
  with assms(2) show ?thesis
    by (auto simp: hub_ok_def Subscribe_def Let_def client_ok_def sent_to_def list_all_iff split: sum.split)
next
  case (event taken e)
  have "client_ok up num c \<Longrightarrow> event_property up e = Some (cl_property c) \<Longrightarrow>
      client_ok up num (case send (ConvertEventToSSEMessage num e) c of Some c' \<Rightarrow> c' | None \<Rightarrow> try_send resync ((receive ^^ n) c))" for c n
    using send_ok [of up num c "ConvertEventToSSEMessage num e"]
    by (auto split: option.split intro!: client_ok_try_send client_ok_receives simp: for_property_def)
  with event assms(2) show ?thesis
    by (auto simp: hub_ok_def OnEvent_def fanOut_def list_all_iff split: option.split)
next
  case resync
  with assms(2) show ?thesis by (auto simp: hub_ok_def Resync_def list_all_iff intro!: client_ok_try_send)
next
  case (receive i)
  with assms(2) client_ok_receives [of up num _ 1] show ?thesis by (auto simp: hub_ok_def on_client_def list_all_iff)
next
  case (heartbeat i)
  with assms(2) show ?thesis by (auto simp: hub_ok_def on_client_def list_all_iff client_ok_def)
next
  case (disconnect i)
  with assms(2) show ?thesis
    using length_filter_le [of "\<lambda>c. cl_id c \<noteq> i" "hb_clients h"] by (auto simp: hub_ok_def disconnect_def list_all_iff simp del: length_filter_le)
qed

lemma hub_reachable_ok: "(hub_step up num)\<^sup>*\<^sup>* NewHub h \<Longrightarrow> hub_ok up num h"
proof (induction rule: rtranclp_induct)
  case base
  show ?case by (simp add: hub_ok_def NewHub_def)
qed (rule hub_step_ok)

text \<open>C34. A browser only sees the events of the property it subscribed to: after any subscriptions, events, resyncs, slow
  and fast readers and disconnections, every message that was written to a client or waits for it is a resync or an
  event of its own property; no client has more than 64 messages waiting, and there are at most 1000 clients.\<close>

theorem clients_see_their_property:
  assumes "(hub_step up num)\<^sup>*\<^sup>* NewHub h" and "c \<in> set (hb_clients h)" and "m \<in> set (sent_to c)"
  shows "for_property up num (cl_property c) m \<and> length (cl_buffer c) \<le> 64 \<and> length (hb_clients h) \<le> 1000"
proof -
  from hub_reachable_ok [OF assms(1)] have "hub_ok up num h" .
  with assms(2,3) show ?thesis by (auto simp: hub_ok_def client_ok_def list_all_iff bufferSize_def maxSSEClients_def)
qed

text \<open>C35. What an event adds to a client's stream: the event itself, in order and once, when the client subscribed to its
  property and has room for it; nothing for the clients of other properties. A client whose buffer is full loses the
  event, and gets the resync that should replace it only if it takes a message at that very moment.\<close>

theorem event_delivery:
  assumes "event_property up e = Some p" and "i < length (hb_clients h)" and "length (cl_buffer (hb_clients h ! i)) \<le> bufferSize"
  shows "sent_to (hb_clients (snd (OnEvent up num taken e h)) ! i) = sent_to (hb_clients h ! i) @
    (if cl_property (hb_clients h ! i) \<noteq> p then []
     else if length (cl_buffer (hb_clients h ! i)) < bufferSize then [ConvertEventToSSEMessage num e]
     else if taken (cl_id (hb_clients h ! i)) = 0 then [] else [resync])"
proof -
  let ?c = "hb_clients h ! i"
  have "sent_to (try_send resync ((receive ^^ n) ?c)) = sent_to ?c @ (if length (cl_buffer ?c) - n < bufferSize then [resync] else [])" for n
    using receives_sent(1) [of n ?c] by (auto simp: try_send_def send_def receives_buffer sent_to_def)
  with assms show ?thesis
    by (auto simp: OnEvent_def fanOut_def send_def sent_to_def bufferSize_def)
qed

text \<open>C38. The event stream never starts: the request logger hands its handlers a writer that cannot be flushed, so a
  subscription that passes every check is answered with 500 and no client is ever registered.\<close>

theorem streaming_never_starts:
  assumes "resolvePropertyID up r = Inr p"
  shows "\<exists>c line. RequestLogger addr (Subscribe up) r (Conn (fresh_conn hs)) h = ((Conn c, h), Some line) \<and> cn_Status c = Some 500 \<and> ll_status line = 500"
proof -
  have "ErrStatus (WithMessage ErrInternal m) = 500" for m by (simp add: WithMessage_def ErrInternal_def New_def)
  with assms show ?thesis
    by (simp add: RequestLogger_def Subscribe_def sse_headers_def w_WriteError_def Let_def response_error_def logged_Write_def logged_WriteHeader_def
        fresh_conn_def conn_Write_def conn_WriteHeader_def)
qed

section \<open>Reconnecting\<close>

lemma listener_backoff_doubles:
  "cx_connect cn = Some e \<Longrightarrow> rs_backoff (fst (run_iteration l cn rs w)) =
     (if rs_backoff rs < minute_ns then rs_backoff rs * 2 else rs_backoff rs)"
  by (simp add: run_iteration_def connect_def)

lemma backoff_sequence:
  "list_all (\<lambda>cn. cx_connect cn \<noteq> None) cns \<Longrightarrow> rs_backoff rs = 2 ^ k * second_ns \<Longrightarrow> k \<le> 6 \<Longrightarrow>
   rs_backoff (fst (run_listener l cns rs w)) = 2 ^ min (k + length cns) 6 * second_ns"
proof (induction cns arbitrary: rs w k)
  case (Cons cn cns)
  then obtain e where e: "cx_connect cn = Some e" by auto
  obtain rs' w' where it: "run_iteration l cn rs w = (rs', w')" by fastforce
  show ?case
  proof (cases "k < 6")
    case True
    then have "k \<in> {0, 1, 2, 3, 4, 5}" by auto
    then have "rs_backoff rs' = 2 ^ (k + 1) * second_ns"
      using listener_backoff_doubles [OF e, of l rs w] it Cons.prems(2) by (auto simp: minute_ns_def second_ns_def)
    from Cons.IH [OF _ this, of w'] True Cons.prems(1) it show ?thesis by simp
  next
    case False
    with Cons.prems(3) have "k = 6" by simp
    then have "rs_backoff rs' = 2 ^ 6 * second_ns"
      using listener_backoff_doubles [OF e, of l rs w] it Cons.prems(2) by (auto simp: minute_ns_def second_ns_def)
    from Cons.IH [OF _ this, of w'] \<open>k = 6\<close> Cons.prems(1) it show ?thesis by simp
  qed
qed simp

text \<open>The listener backs off exponentially: after n failed connections in a row it waits min (2^n) 64 seconds before the
  next one, so the wait grows to 64 seconds.\<close>

theorem listener_backoff:
  assumes "list_all (\<lambda>cn. cx_connect cn \<noteq> None) cns"
  shows "rs_backoff (fst (run_listener l cns run_start w)) = min (2 ^ length cns) 64 * second_ns"
proof -
  have "rs_backoff (fst (run_listener l cns run_start w)) = 2 ^ min (length cns) 6 * second_ns"
    using backoff_sequence [OF assms, of run_start 0 l w] by (simp add: run_start_def)
  moreover have "2 ^ min (length cns) 6 = min (2 ^ length cns) (64 :: int)"
    using power_increasing [of 6 "length cns" "2 :: int"] power_increasing [of "length cns" 6 "2 :: int"] by (cases "length cns \<le> 6") (auto simp: min_def)
  ultimately show ?thesis by simp
qed

end
