(* ===== verification/Cache.thy ===== *)
theory Cache
  imports Realtime "HOL-Library.Multiset"
begin

text \<open>
  The cache client (\<open>cache/cache.go\<close>) and the invalidation of cached availability, reservations and planner ranges when a
  reservation changes (\<open>cache/invalidation.go\<close>).

  Redis decides which keys a SCAN returns: \<open>scan\<close> takes the pattern and the session at the start of an iteration to the
  pages the iteration returns. What Redis documents of it is the predicate \<open>scans\<close>: the keys in a page match
  the pattern, and every stored key that matches is in some page.
\<close>

section \<open>cache/cache.go\<close>

type_synonym scanner = "string \<Rightarrow> sess \<Rightarrow> string list list"

definition redis_Scan :: "string list \<Rightarrow> string list query" where
  "redis_Scan page s = (case pop_fault s of (Some e, s') \<Rightarrow> (Inl e, s') | (None, s') \<Rightarrow> (Inr page, s'))"

definition redis_DelAll :: "string list \<Rightarrow> unit query" where
  "redis_DelAll ks s = (case pop_fault s of
     (Some e, s') \<Rightarrow> (Inl e, s') | (None, s') \<Rightarrow> (Inr (), s'\<lparr>redis := (\<lambda>k. if k \<in> set ks then None else redis s' k)\<rparr>))"

datatype cache_error = CacheMiss | CacheFailed goerr | NotDecoded | LoaderFailed goerr

definition cache_Set :: "env \<Rightarrow> string \<Rightarrow> string \<Rightarrow> json \<Rightarrow> duration \<Rightarrow> unit query" where
  "cache_Set E prefix key v ttl = redis_SetAll E [(prefix @ key, json_write v)] ttl"

definition cache_Get :: "env \<Rightarrow> string \<Rightarrow> string \<Rightarrow> (json \<Rightarrow> 'a option) \<Rightarrow> sess \<Rightarrow> (cache_error + 'a) \<times> sess" where
  "cache_Get E prefix key dec s = (case redis_Get E (prefix @ key) s of
     (Inl e, s') \<Rightarrow> (Inl (CacheFailed (Wrap ''redis error: '' e)), s')
   | (Inr None, s') \<Rightarrow> (Inl CacheMiss, s')
   | (Inr (Some raw), s') \<Rightarrow> (case Option.bind (json_unmarshal raw) dec of None \<Rightarrow> (Inl NotDecoded, s') | Some x \<Rightarrow> (Inr x, s')))"

definition cache_Delete :: "string \<Rightarrow> string \<Rightarrow> unit query" where
  "cache_Delete prefix key = redis_Del (prefix @ key)"

fun scan_loop :: "(string \<Rightarrow> bool) \<Rightarrow> string list list \<Rightarrow> unit query" where
  "scan_loop shouldDelete [] s = (Inr (), s)"
| "scan_loop shouldDelete (page # pages) s = (case map_err (Wrap ''scan error: '') (redis_Scan page) s of
     (Inl e, s1) \<Rightarrow> (Inl e, s1)
   | (Inr keys, s1) \<Rightarrow>
       let toDelete = filter shouldDelete keys
       in if toDelete = [] then scan_loop shouldDelete pages s1
          else (case map_err (Wrap ''delete error: '') (redis_DelAll toDelete) s1 of
                  (Inl e, s2) \<Rightarrow> (Inl e, s2) | (Inr _, s2) \<Rightarrow> scan_loop shouldDelete pages s2))"

definition Invalidate :: "scanner \<Rightarrow> string \<Rightarrow> unit query" where
  "Invalidate scan pattern s = scan_loop (\<lambda>k. True) (scan pattern s) s"

definition InvalidateIf :: "scanner \<Rightarrow> string \<Rightarrow> (string \<Rightarrow> bool) \<Rightarrow> unit query" where
  "InvalidateIf scan pattern shouldDelete s = scan_loop shouldDelete (scan pattern s) s"

definition GetOrSet :: "env \<Rightarrow> string \<Rightarrow> string \<Rightarrow> (json \<Rightarrow> 'a option) \<Rightarrow> duration \<Rightarrow> json query \<Rightarrow> sess \<Rightarrow> (cache_error + 'a) \<times> sess" where
  "GetOrSet E prefix key dec ttl loader s = (case cache_Get E prefix key dec s of
     (Inr x, s1) \<Rightarrow> (Inr x, s1)
   | (Inl _, s1) \<Rightarrow> (case loader s1 of
       (Inl e, s2) \<Rightarrow> (Inl (LoaderFailed (Wrap ''loader error: '' e)), s2)
     | (Inr v, s2) \<Rightarrow> (case Option.bind (json_unmarshal (json_write v)) dec of
         None \<Rightarrow> (Inl NotDecoded, snd (cache_Set E prefix key v ttl s2))
       | Some x \<Rightarrow> (Inr x, snd (cache_Set E prefix key v ttl s2)))))"

section \<open>cache/invalidation.go\<close>

record reservationChangePayload =
  rp_Operation :: string
  rp_PropertyID :: string
  rp_RecordID :: string
  rp_CheckInDate :: string
  rp_CheckOutDate :: string
  rp_Table :: string

definition payload_fields :: "(string \<times> reservationChangePayload assign) list" where
  "payload_fields = [(''operation'', as_string (\<lambda>x p. p\<lparr>rp_Operation := x\<rparr>)), (''property_id'', as_string (\<lambda>x p. p\<lparr>rp_PropertyID := x\<rparr>)),
     (''record_id'', as_string (\<lambda>x p. p\<lparr>rp_RecordID := x\<rparr>)), (''check_in_date'', as_string (\<lambda>x p. p\<lparr>rp_CheckInDate := x\<rparr>)),
     (''check_out_date'', as_string (\<lambda>x p. p\<lparr>rp_CheckOutDate := x\<rparr>)), (''table'', as_string (\<lambda>x p. p\<lparr>rp_Table := x\<rparr>))]"

record parsedChange = reservationChangePayload +
  pc_CheckIn :: time
  pc_CheckOut :: time

definition zero_payload :: reservationChangePayload where
  "zero_payload = \<lparr>rp_Operation = [], rp_PropertyID = [], rp_RecordID = [], rp_CheckInDate = [], rp_CheckOutDate = [], rp_Table = []\<rparr>"

definition parseReservationChange :: "(string \<Rightarrow> string) \<Rightarrow> Event \<Rightarrow> string + parsedChange" where
  "parseReservationChange num e =
     (case Option.bind (json_unmarshal (json_write (through_any num (JObj (ev_Data e))))) (\<lambda>v. as_struct False payload_fields v zero_payload) of
        None \<Rightarrow> Inl ''unmarshal payload''
      | Some p \<Rightarrow> (case parse_date (rp_CheckInDate p) of
          None \<Rightarrow> Inl ''parse check_in_date''
        | Some a \<Rightarrow> (case parse_date (rp_CheckOutDate p) of
            None \<Rightarrow> Inl ''parse check_out_date''
          | Some b \<Rightarrow> Inr (reservationChangePayload.extend p \<lparr>pc_CheckIn = a, pc_CheckOut = b\<rparr>))))"

definition plannerKeyOverlaps :: "string \<Rightarrow> string \<Rightarrow> time \<Rightarrow> time \<Rightarrow> bool option" where
  "plannerKeyOverlaps key propertyID checkIn checkOut =
     (let pre = ''yop:planner:'' @ propertyID @ '':''
      in if take (length pre) key \<noteq> pre then Some False
         else let rest = drop (length pre) key
           in if CHR '':'' \<notin> set rest then None
              else case parse_date (takeWhile (\<lambda>c. c \<noteq> CHR '':'') rest) of
                None \<Rightarrow> None
              | Some keyStart \<Rightarrow> (case parse_date (tl (dropWhile (\<lambda>c. c \<noteq> CHR '':'') rest)) of
                  None \<Rightarrow> None
                | Some keyEnd \<Rightarrow> Some (checkIn < keyEnd \<and> keyStart < checkOut)))"

definition availability_pattern :: "string \<Rightarrow> time \<Rightarrow> string" where
  "availability_pattern propertyID d = ''yop:availability:'' @ propertyID @ '':*:'' @ format_date d"

fun invalidate_all :: "scanner \<Rightarrow> string list \<Rightarrow> sess \<Rightarrow> sess" where
  "invalidate_all scan [] s = s"
| "invalidate_all scan (p # ps) s = invalidate_all scan ps (snd (Invalidate scan p s))"

definition invalidateAvailability :: "scanner \<Rightarrow> parsedChange \<Rightarrow> sess \<Rightarrow> sess" where
  "invalidateAvailability scan c s =
     invalidate_all scan (map (availability_pattern (rp_PropertyID c)) (nights_loop (pc_CheckIn c) (pc_CheckOut c))
       @ [''yop:reservation:'' @ rp_RecordID c]) s"

definition invalidatePlanner :: "scanner \<Rightarrow> parsedChange \<Rightarrow> sess \<Rightarrow> sess" where
  "invalidatePlanner scan c s =
     snd (InvalidateIf scan (''yop:planner:'' @ rp_PropertyID c @ '':*'')
       (\<lambda>key. plannerKeyOverlaps key (rp_PropertyID c) (pc_CheckIn c) (pc_CheckOut c) = Some True) s)"

definition NewReservationChangeHandler :: "scanner \<Rightarrow> (string \<Rightarrow> string) \<Rightarrow> Event \<Rightarrow> sess \<Rightarrow> string option \<times> sess" where
  "NewReservationChangeHandler scan num e s = (case parseReservationChange num e of
     Inl err \<Rightarrow> (Some err, s)
   | Inr c \<Rightarrow> (None, invalidatePlanner scan c (invalidateAvailability scan c s)))"

section \<open>What an invalidation removes\<close>

definition scans :: "(string \<Rightarrow> string \<Rightarrow> bool) \<Rightarrow> scanner \<Rightarrow> bool" where
  "scans glob scan \<longleftrightarrow> (\<forall>pattern s. finite (dom (redis s)) \<longrightarrow> (\<forall>k \<in> set (concat (scan pattern s)). glob pattern k)
     \<and> (\<forall>k. redis s k \<noteq> None \<and> glob pattern k \<longrightarrow> k \<in> set (concat (scan pattern s))))"

lemma finite_evicted: "finite (dom m) \<Longrightarrow> finite (dom (\<lambda>k. if P k then None else m k))"
  by (rule finite_subset [of _ "dom m"]) (auto split: if_splits)

lemma scan_loop_redis:
  "faults s = [] \<Longrightarrow> scan_loop del pages s =
    (Inr (), s\<lparr>redis := (\<lambda>k. if k \<in> set (concat pages) \<and> del k then None else redis s k)\<rparr>)"
proof (induction pages arbitrary: s)
  case Nil
  show ?case by simp
next
  case (Cons page pages)
  show ?case
  proof (cases "filter del page = []")
    case True
    with Cons show ?thesis
      by (auto simp: redis_Scan_def map_err_def no_fault Let_def filter_empty_conv intro!: arg_cong [where f = "\<lambda>m. s\<lparr>redis := m\<rparr>"] ext)
  next
    case False
    have "redis_DelAll (filter del page) s = (Inr (), s\<lparr>redis := (\<lambda>k. if k \<in> set (filter del page) then None else redis s k)\<rparr>)"
      using Cons.prems by (simp add: redis_DelAll_def no_fault)
    with False Cons show ?thesis
      by (auto simp: redis_Scan_def map_err_def no_fault Let_def simp del: filter_empty_conv intro!: arg_cong [where f = "\<lambda>m. s\<lparr>redis := m\<rparr>"] ext)
  qed
qed

lemma Invalidate_redis:
  assumes "faults s = []" "scans glob scan" "finite (dom (redis s))"
  shows "Invalidate scan p s = (Inr (), s\<lparr>redis := (\<lambda>k. if glob p k then None else redis s k)\<rparr>)"
proof -
  have "(\<lambda>k. if k \<in> set (concat (scan p s)) then None else redis s k) = (\<lambda>k. if glob p k then None else redis s k)"
    using assms(2,3) by (fastforce simp: scans_def simp del: set_concat)
  then show ?thesis using assms(1) by (simp add: Invalidate_def scan_loop_redis del: set_concat)
qed

lemma invalidate_all_redis:
  "faults s = [] \<Longrightarrow> scans glob scan \<Longrightarrow> finite (dom (redis s)) \<Longrightarrow>
   invalidate_all scan ps s = s\<lparr>redis := (\<lambda>k. if \<exists>p\<in>set ps. glob p k then None else redis s k)\<rparr>"
  by (induction ps arbitrary: s) (auto simp: Invalidate_redis finite_evicted intro!: arg_cong [where f = "\<lambda>m. s\<lparr>redis := m\<rparr>" for s] ext)

definition globs :: "(string \<Rightarrow> string \<Rightarrow> bool) \<Rightarrow> bool" where
  "globs glob \<longleftrightarrow> (\<forall>x z. list_all (\<lambda>c. c \<notin> {CHR ''*'', CHR ''?'', CHR ''['', CHR 0x5C}) x \<longrightarrow> glob (x @ ''*'') (x @ z))"

definition stale :: "(string \<Rightarrow> string \<Rightarrow> bool) \<Rightarrow> parsedChange \<Rightarrow> string \<Rightarrow> bool" where
  "stale glob c k \<longleftrightarrow> (\<exists>d\<in>set (nights_loop (pc_CheckIn c) (pc_CheckOut c)). glob (availability_pattern (rp_PropertyID c) d) k)
     \<or> glob (''yop:reservation:'' @ rp_RecordID c) k
     \<or> plannerKeyOverlaps k (rp_PropertyID c) (pc_CheckIn c) (pc_CheckOut c) = Some True"


section \<open>cmd/server/main.go: the listener\<close>

definition cache_handler :: "scanner \<Rightarrow> (string \<Rightarrow> string) \<Rightarrow> (Hub \<times> sess) event_handler" where
  "cache_handler scan num e w = (case NewReservationChangeHandler scan num e (snd w) of
     (err, s) \<Rightarrow> (map_option ErrorString err, (fst w, s)))"

definition hub_handler :: "(string \<Rightarrow> uuid option) \<Rightarrow> (string \<Rightarrow> string) \<Rightarrow> (nat \<Rightarrow> nat) \<Rightarrow> (Hub \<times> sess) event_handler" where
  "hub_handler up num taken e w = (case OnEvent up num taken e (fst w) of (err, h) \<Rightarrow> (err, (h, snd w)))"

definition onReconnect :: "scanner \<Rightarrow> Hub \<times> sess \<Rightarrow> Hub \<times> sess" where
  "onReconnect scan w = (Resync (fst w), snd (Invalidate scan ''yop:*'' (snd w)))"

definition eventListener :: "(string \<Rightarrow> uuid option) \<Rightarrow> (string \<Rightarrow> string) \<Rightarrow> scanner \<Rightarrow> (nat \<Rightarrow> nat) \<Rightarrow> (Hub \<times> sess) Listener" where
  "eventListener up num scan taken = On ''reservation_changes'' (hub_handler up num taken)
     (On ''reservation_changes'' (cache_handler scan num) (New_listener (Some (onReconnect scan))))"

lemma change_payload_read:
  "parse_payload (json_object [(''action'', json_string a), (''reservation_id'', json_string b)]) =
   Some [(''action'', JStr a), (''reservation_id'', JStr b)]"
  using json_roundtrip [of "JObj [(''action'', JStr a), (''reservation_id'', JStr b)]"] by (simp add: parse_payload_def)

lemma change_not_parsed:
  assumes "ev_Data e = [(''action'', JStr a), (''reservation_id'', JStr b)]"
  shows "parseReservationChange num e = Inl ''parse check_in_date''"
proof -
  have "through_any num (JObj (ev_Data e)) = JObj [(''action'', JStr a), (''reservation_id'', JStr b)]"
    by (simp add: assms)
  moreover have "json_unmarshal (json_write (JObj [(''action'', JStr a), (''reservation_id'', JStr b)])) =
      Some (JObj [(''action'', JStr a), (''reservation_id'', JStr b)])"
    by (rule json_roundtrip) simp
  moreover have "find_field payload_fields ''action'' = None" "find_field payload_fields ''reservation_id'' = None"
    by (simp_all add: find_field_def payload_fields_def lower_char_def)
  ultimately show ?thesis
    by (simp add: parseReservationChange_def zero_payload_def parse_date_def)
qed

lemma fold_no_effect: "(\<And>h. h \<in> set hs \<Longrightarrow> snd (h e w) = w) \<Longrightarrow> fold (\<lambda>h w. snd (h e w)) hs w = w"
  by (induction hs) auto

text \<open>C37. The notifications of the services reach nobody: the payload a service sends on \<open>reservation_changes\<close> has neither
  a property nor the dates of the stay, so the hub drops it and the cache handler rejects it. No browser is told of a
  change, and no cached entry is evicted, in whatever order the handlers run.\<close>

theorem service_notifications_are_lost:
  assumes "notifyReservationChange action rid s = (Inr (), t)" and "mset (order (handlers_of (eventListener up num scan taken) ''reservation_changes''))
      = mset (handlers_of (eventListener up num scan taken) ''reservation_changes'')"
  shows "\<exists>payload. notifications (data t) = notifications (data s) @ [(''reservation_changes'', payload)]
    \<and> dispatch (eventListener up num scan taken) now order \<lparr>nt_Channel = ''reservation_changes'', nt_Payload = payload\<rparr> w = w"
proof -
  let ?l = "eventListener up num scan taken" and ?d = "[(''action'', JStr action), (''reservation_id'', JStr (uuid_text rid))]"
  let ?p = "json_object [(''action'', json_string action), (''reservation_id'', json_string (uuid_text rid))]"
  let ?e = "\<lparr>ev_Channel = ''reservation_changes'', ev_Data = ?d, ev_Timestamp = now\<rparr>"
  have "set (order (handlers_of ?l ''reservation_changes'')) = set (handlers_of ?l ''reservation_changes'')"
    using assms(2) by (rule mset_eq_setD)
  moreover have "set (handlers_of ?l ''reservation_changes'') = {cache_handler scan num, hub_handler up num taken}"
    by (auto simp: eventListener_def On_def handlers_of_def New_listener_def)
  moreover have "snd (cache_handler scan num ?e w) = w" "snd (hub_handler up num taken ?e w) = w"
    by (simp_all add: cache_handler_def NewReservationChangeHandler_def change_not_parsed hub_handler_def OnEvent_def event_property_def
        Data_string_def Data_get_def)
  ultimately have "dispatch ?l now order \<lparr>nt_Channel = ''reservation_changes'', nt_Payload = ?p\<rparr> w = w"
    by (auto simp: dispatch_def change_payload_read intro!: fold_no_effect)
  moreover have "notifications (data t) = notifications (data s) @ [(''reservation_changes'', ?p)]"
    using assms(1) unfolding notifyReservationChange_def NotifyChannel_def
    by (auto simp: run_stmt_def stmt_effect_def split: prod.splits option.splits dest: pop_fault_fields)
  ultimately show ?thesis by blast
qed

end
