(* ===== verification/Validation.thy ===== *)
theory Validation
  imports Schema
begin

text \<open>
  The struct validator (\<open>validation/validate.go\<close>) and the constraints it reads (\<open>constraints/constraints.go\<close>,
  \<open>config/constraints.g.yml\<close>).

  A Go value is what \<open>reflect\<close> shows of it: its kind, its content and, for a struct, its fields with their \<open>json\<close>
  and \<open>constraints\<close> tags. Validation returns the texts of its errors; a panic of \<open>reflect\<close> or of a missing table is
  the left result. Regular expressions are matched by a parameter.
\<close>

section \<open>Constraints\<close>

record JsonbSubField =
  js_Required :: bool
  js_Pattern :: "string option"
  js_Min :: "int option"
  js_Max :: "int option"

record Field =
  fc_Required :: bool
  fc_MaxLength :: "int option"
  fc_MinLength :: "int option"
  fc_ExactLength :: "int option"
  fc_Min :: "int option"
  fc_Max :: "int option"
  fc_Pattern :: "string option"
  fc_Jsonb :: "(string \<times> JsonbSubField) list"

type_synonym TableEntry = "(string \<times> Field) list"

definition no_rules :: Field where
  "no_rules = \<lparr>fc_Required = False, fc_MaxLength = None, fc_MinLength = None, fc_ExactLength = None, fc_Min = None,
     fc_Max = None, fc_Pattern = None, fc_Jsonb = []\<rparr>"

definition required :: Field where
  "required = no_rules\<lparr>fc_Required := True\<rparr>"

definition reservation_constraints :: TableEntry where
  "reservation_constraints = [(''code'', required\<lparr>fc_Pattern := Some ''^RES-[0-9]{6}$''\<rparr>),
     (''notes'', no_rules\<lparr>fc_MaxLength := Some 2500\<rparr>), (''primary_guest_id'', required), (''property_id'', required),
     (''sequential'', required), (''source'', required), (''status'', required), (''stay_period_envelope'', required),
     (''version'', required)]"

definition item_constraints :: TableEntry where
  "item_constraints = [(''adults_count'', required\<lparr>fc_Min := Some 1\<rparr>), (''base_rate_pence'', required\<lparr>fc_Min := Some 0\<rparr>),
     (''booked_room_type_id'', required), (''children_count'', required), (''do_not_move'', required),
     (''property_id'', required), (''reservation_id'', required), (''status'', required), (''stay_period'', required),
     (''version'', required)]"

definition Table :: "string \<Rightarrow> TableEntry option" where
  "Table key = map_of [(''operations.reservations'', reservation_constraints),
     (''operations.reservation_items'', item_constraints)] key"

section \<open>Values as reflect shows them\<close>

datatype reflect_value =
    RString string
  | RInt int
  | RUint int
  | RFloat bool
  | RBool bool
  | RUUID uuid
  | RArray
  | RStruct "(string \<times> string option \<times> bool \<times> reflect_value) list"
  | RSlice "reflect_value list"
  | RMap nat
  | RPtr "reflect_value option"

definition jsonFieldName :: "string \<Rightarrow> string" where
  "jsonFieldName tag = (if tag = [] \<or> tag = ''-'' then [] else takeWhile (\<lambda>c. c \<noteq> CHR '','') tag)"

fun isZero :: "reflect_value \<Rightarrow> bool" where
  "isZero (RString s) = (s = [])"
| "isZero (RInt i) = (i = 0)"
| "isZero (RUint i) = (i = 0)"
| "isZero (RFloat z) = z"
| "isZero (RBool b) = (\<not> b)"
| "isZero (RSlice vs) = (vs = [])"
| "isZero (RMap n) = (n = 0)"
| "isZero (RUUID u) = (u = uuid_Nil)"
| "isZero _ = False"

fun isSignedInt :: "reflect_value \<Rightarrow> bool" where
  "isSignedInt (RInt i) = True"
| "isSignedInt _ = False"

fun isUnsignedInt :: "reflect_value \<Rightarrow> bool" where
  "isUnsignedInt (RUint i) = True"
| "isUnsignedInt _ = False"

definition isNumeric :: "reflect_value \<Rightarrow> bool" where
  "isNumeric v \<longleftrightarrow> isSignedInt v \<or> isUnsignedInt v"

definition fieldErr :: "string \<Rightarrow> string \<Rightarrow> string" where
  "fieldErr name msg = name @ '' '' @ msg"

section \<open>Checks of one field\<close>

definition exceeds :: "int option \<Rightarrow> (int \<Rightarrow> bool) \<Rightarrow> bool" where
  "exceeds bound p = (case bound of None \<Rightarrow> False | Some b \<Rightarrow> p b)"

definition checkString :: "(string \<Rightarrow> string \<Rightarrow> bool) \<Rightarrow> Field \<Rightarrow> string \<Rightarrow> string \<Rightarrow> string option" where
  "checkString MatchPattern fc name value =
     (let n = int (length value)
      in if exceeds (fc_MaxLength fc) (\<lambda>b. b < n)
         then Some (fieldErr name (''must be at most '' @ dec_int (the (fc_MaxLength fc)) @ '' characters''))
         else if exceeds (fc_MinLength fc) (\<lambda>b. n < b)
         then Some (fieldErr name (''must be at least '' @ dec_int (the (fc_MinLength fc)) @ '' characters''))
         else if exceeds (fc_ExactLength fc) (\<lambda>b. n \<noteq> b)
         then Some (fieldErr name (''must be exactly '' @ dec_int (the (fc_ExactLength fc)) @ '' characters''))
         else case fc_Pattern fc of
           Some p \<Rightarrow> if MatchPattern p value then None else Some (fieldErr name ''does not match required pattern'')
         | None \<Rightarrow> None)"

definition checkInt :: "Field \<Rightarrow> string \<Rightarrow> int \<Rightarrow> string option" where
  "checkInt fc name n =
     (if exceeds (fc_Min fc) (\<lambda>b. n < b) then Some (fieldErr name (''must be at least '' @ dec_int (the (fc_Min fc))))
      else if exceeds (fc_Max fc) (\<lambda>b. b < n) then Some (fieldErr name (''must be at most '' @ dec_int (the (fc_Max fc))))
      else None)"

definition list_of_option :: "'a option \<Rightarrow> 'a list" where
  "list_of_option x = (case x of None \<Rightarrow> [] | Some y \<Rightarrow> [y])"

definition check_value :: "(string \<Rightarrow> string \<Rightarrow> bool) \<Rightarrow> Field \<Rightarrow> string \<Rightarrow> reflect_value \<Rightarrow> string + string list" where
  "check_value MatchPattern fc name v =
     (let req = (if fc_Required fc \<and> \<not> isNumeric v \<and> isZero v then [fieldErr name ''is required''] else [])
      in case v of
           RString s \<Rightarrow> Inr (req @ list_of_option (checkString MatchPattern fc name s))
         | RInt i \<Rightarrow> Inr (req @ list_of_option (checkInt fc name i))
         | RUint i \<Rightarrow> Inl ''reflect: call of reflect.Value.Int on uint Value''
         | _ \<Rightarrow> Inr req)"

definition checkField :: "(string \<Rightarrow> string \<Rightarrow> bool) \<Rightarrow> Field \<Rightarrow> string \<Rightarrow> reflect_value \<Rightarrow> string + string list" where
  "checkField MatchPattern fc name v = (case v of
     RPtr None \<Rightarrow> Inr (if fc_Required fc then [fieldErr name ''is required''] else [])
   | RPtr (Some v') \<Rightarrow> check_value MatchPattern fc name v'
   | _ \<Rightarrow> check_value MatchPattern fc name v)"

definition checkJSONBSubField :: "(string \<Rightarrow> string \<Rightarrow> bool) \<Rightarrow> JsonbSubField \<Rightarrow> string \<Rightarrow> reflect_value \<Rightarrow> string list" where
  "checkJSONBSubField MatchPattern jsf name v = (case v of
     RPtr None \<Rightarrow> []
   | _ \<Rightarrow> let u = (case v of RPtr (Some v') \<Rightarrow> v' | _ \<Rightarrow> v)
     in (if js_Required jsf \<and> isZero u then [fieldErr name ''is required''] else [])
        @ (case (u, js_Pattern jsf) of
             (RString s, Some p) \<Rightarrow> if MatchPattern p s then [] else [fieldErr name ''does not match required pattern'']
           | _ \<Rightarrow> [])
        @ (case u of
             RInt n \<Rightarrow> (if exceeds (js_Min jsf) (\<lambda>b. n < b) then [fieldErr name (''must be at least '' @ dec_int (the (js_Min jsf)))] else [])
               @ (if exceeds (js_Max jsf) (\<lambda>b. b < n) then [fieldErr name (''must be at most '' @ dec_int (the (js_Max jsf)))] else [])
           | _ \<Rightarrow> []))"

type_synonym rfield = "string \<times> string option \<times> bool \<times> reflect_value"

definition checkJSONB :: "(string \<Rightarrow> string \<Rightarrow> bool) \<Rightarrow> rfield list \<Rightarrow> TableEntry \<Rightarrow> string list" where
  "checkJSONB MatchPattern fs entry =
     concat (map (\<lambda>(col, fc). concat (map (\<lambda>(key, jsf).
        concat (map (\<lambda>(tag, ct, exported, v). if exported \<and> jsonFieldName tag = key
          then checkJSONBSubField MatchPattern jsf key v else []) fs)) (fc_Jsonb fc))) entry)"

section \<open>Structs\<close>

fun joinErrs :: "string list \<Rightarrow> string" where
  "joinErrs [] = []"
| "joinErrs [m] = m"
| "joinErrs (m # n # r) = m @ ''; '' @ joinErrs (n # r)"

definition both_errs :: "string + string list \<Rightarrow> string + string list \<Rightarrow> string + string list" where
  "both_errs x y = (case x of Inl p \<Rightarrow> Inl p | Inr errs \<Rightarrow> (case y of Inl p \<Rightarrow> Inl p | Inr rest \<Rightarrow> Inr (errs @ rest)))"

definition own_errs :: "(string \<Rightarrow> string \<Rightarrow> bool) \<Rightarrow> TableEntry \<Rightarrow> string \<Rightarrow> reflect_value \<Rightarrow> string + string list" where
  "own_errs mp e name v = (case map_of e name of None \<Rightarrow> Inr [] | Some fc \<Rightarrow> checkField mp fc name v)"

definition elem_errs :: "string \<Rightarrow> nat \<Rightarrow> string + string list \<Rightarrow> string + string list" where
  "elem_errs name j x = map_sum id (\<lambda>errs. if errs = [] then [] else [name @ ''['' @ dec_int (int j) @ '']: '' @ joinErrs errs]) x"

fun elem_of :: "reflect_value \<Rightarrow> reflect_value" where
  "elem_of (RPtr (Some v)) = v"
| "elem_of v = v"

fun elems_of :: "reflect_value \<Rightarrow> reflect_value list" where
  "elems_of (RSlice vs) = vs"
| "elems_of v = []"

fun fields_of :: "reflect_value \<Rightarrow> rfield list option" where
  "fields_of (RStruct fs) = Some fs"
| "fields_of v = None"

lemma size_elem_of: "size (elem_of v) \<le> size v"
  by (cases v rule: elem_of.cases) auto

lemma size_elems_of: "v' \<in> set (elems_of v) \<Longrightarrow> size v' < size v"
  by (cases v rule: elems_of.cases) (auto simp: less_Suc_eq_le size_list_estimation')

lemma size_fields_of: "fields_of v = Some fs \<Longrightarrow> (tag, ct, ex, u) \<in> set fs \<Longrightarrow> size u < size v"
proof (cases v)
  case (RStruct gs)
  assume "fields_of v = Some fs" "(tag, ct, ex, u) \<in> set fs"
  with RStruct have "(tag, ct, ex, u) \<in> set gs" by simp
  then have "size_prod (\<lambda>_. 0) (size_prod (\<lambda>_. 0) (size_prod (\<lambda>_. 0) size)) (tag, ct, ex, u)
      \<le> size_list (size_prod (\<lambda>_. 0) (size_prod (\<lambda>_. 0) (size_prod (\<lambda>_. 0) size))) gs"
    by (rule size_list_estimation') simp
  with RStruct show ?thesis by simp
qed simp_all

lemma size_nested:
  assumes "fields_of v = Some fs" "(tag, ct, ex, u) \<in> set fs" "(j, w) \<in> set (enumerate n (elems_of u))"
  shows "size (elem_of w) < size v"
proof -
  have "w \<in> set (elems_of u)" using assms(3) by (auto simp: enumerate_eq_zip dest: set_zip_rightD)
  then have "size w < size u" by (rule size_elems_of)
  with size_elem_of [of w] size_fields_of [OF assms(1,2)] show ?thesis by simp
qed

function validateStruct :: "(string \<Rightarrow> string \<Rightarrow> bool) \<Rightarrow> TableEntry option \<Rightarrow> reflect_value \<Rightarrow> string + string list" where
  "validateStruct mp entry v = (case fields_of v of
     None \<Rightarrow> Inl ''reflect: NumField of non-struct type''
   | Some fs \<Rightarrow> (case entry of
         None \<Rightarrow> Inl ''invalid memory address or nil pointer dereference''
       | Some e \<Rightarrow>
           both_errs (foldr both_errs (map (\<lambda>(tag, ct, exported, u).
               if \<not> exported then Inr []
               else both_errs (own_errs mp e (jsonFieldName tag) u)
                 (case ct of None \<Rightarrow> Inr []
                  | Some t \<Rightarrow> foldr both_errs (map (\<lambda>(j, w). elem_errs (jsonFieldName tag) j (validateStruct mp (Table t) (elem_of w)))
                      (enumerate 0 (elems_of u))) (Inr []))) fs) (Inr []))
             (Inr (checkJSONB mp fs e))))"
  by pat_completeness auto

termination
proof (relation "measure (\<lambda>(mp, entry, v). size v)", goal_cases)
  case (2 mp entry v fs e f tag y ct y' ex u t jw j w)
  then show ?case using size_nested [of v fs tag ct ex u j w 0] by simp
qed simp

declare validateStruct.simps [simp del]

definition Struct :: "(string \<Rightarrow> string \<Rightarrow> bool) \<Rightarrow> reflect_value \<Rightarrow> string \<Rightarrow> string + string list" where
  "Struct mp v tableKey = (case Table tableKey of
     None \<Rightarrow> Inr []
   | Some entry \<Rightarrow>
       (let u = (case v of RPtr (Some v') \<Rightarrow> v' | _ \<Rightarrow> v)
        in case u of
             RStruct fs \<Rightarrow> validateStruct mp (Some entry) u
           | _ \<Rightarrow> Inr [''validation: expected struct'']))"

end
