(* ===== verification/Wire.thy ===== *)
theory Wire
  imports Http Validation Availability ServiceUpdate
begin

text \<open>
  The JSON of the booking API: how request bodies are read into the inputs of \<open>booking/types.go\<close>, what \<open>reflect\<close>
  shows of these inputs to the validator, and how the responses are written. A date in a body is read from its
  decoded text. The guest of a single item is read but, as no service uses it, not kept.
\<close>

section \<open>Reading inputs\<close>

definition json_uuid :: "(string \<Rightarrow> uuid option) \<Rightarrow> json \<Rightarrow> uuid option" where
  "json_uuid uuid_Parse v = (case v of JStr s \<Rightarrow> uuid_Parse s | _ \<Rightarrow> None)"

definition json_text :: "json \<Rightarrow> string option" where
  "json_text v = (case v of JStr s \<Rightarrow> Some s | _ \<Rightarrow> None)"

definition as_date :: "(time \<Rightarrow> 'a \<Rightarrow> 'a) \<Rightarrow> 'a assign" where
  "as_date upd v x = map_option (\<lambda>t. upd t x) (ISO8601Date_UnmarshalJSON (json_write v))"

definition as_slice :: "(json \<Rightarrow> 'b option) \<Rightarrow> ('b list \<Rightarrow> 'a \<Rightarrow> 'a) \<Rightarrow> 'a assign" where
  "as_slice dec upd v x = (case v of
     JArr vs \<Rightarrow> map_option (\<lambda>bs. upd bs x) (those (map dec vs)) | JNull \<Rightarrow> Some (upd [] x) | _ \<Rightarrow> None)"

definition zero_guest :: GuestInlinePayload where
  "zero_guest = \<lparr>gp_ID = None, gp_FirstName = [], gp_LastName = [], gp_Email = [], gp_Phone = []\<rparr>"

definition guest_fields :: "(string \<Rightarrow> uuid option) \<Rightarrow> (string \<times> GuestInlinePayload assign) list" where
  "guest_fields up = [(''id'', as_pointer (json_uuid up) (\<lambda>u g. g\<lparr>gp_ID := u\<rparr>)),
     (''first_name'', as_string (\<lambda>s g. g\<lparr>gp_FirstName := s\<rparr>)), (''last_name'', as_string (\<lambda>s g. g\<lparr>gp_LastName := s\<rparr>)),
     (''email'', as_string (\<lambda>s g. g\<lparr>gp_Email := s\<rparr>)), (''phone'', as_string (\<lambda>s g. g\<lparr>gp_Phone := s\<rparr>))]"

definition json_guest :: "(string \<Rightarrow> uuid option) \<Rightarrow> json \<Rightarrow> GuestInlinePayload option" where
  "json_guest up v = as_struct True (guest_fields up) v zero_guest"

definition zero_item :: CreateItemInput where
  "zero_item = \<lparr>RoomTypeID = uuid_Nil, AssignedRoomID = None, ArrivalDate = 0, DepartureDate = 0, RatePlanID = None,
     AdultsCount = 0, ChildrenCount = 0\<rparr>"

definition item_fields :: "(string \<Rightarrow> uuid option) \<Rightarrow> (string \<times> CreateItemInput assign) list" where
  "item_fields up = [(''room_type_id'', as_parsed up (\<lambda>u i. i\<lparr>RoomTypeID := u\<rparr>)),
     (''assigned_room_id'', as_pointer (json_uuid up) (\<lambda>u i. i\<lparr>AssignedRoomID := u\<rparr>)),
     (''arrival_date'', as_date (\<lambda>t i. i\<lparr>ArrivalDate := t\<rparr>)), (''departure_date'', as_date (\<lambda>t i. i\<lparr>DepartureDate := t\<rparr>)),
     (''rate_plan_id'', as_pointer (json_uuid up) (\<lambda>u i. i\<lparr>RatePlanID := u\<rparr>)),
     (''adults_count'', as_int in_int64 (\<lambda>n i. i\<lparr>AdultsCount := n\<rparr>)),
     (''children_count'', as_int in_int64 (\<lambda>n i. i\<lparr>ChildrenCount := n\<rparr>)),
     (''guest'', as_pointer (json_guest up) (\<lambda>g i. i))]"

definition json_item :: "(string \<Rightarrow> uuid option) \<Rightarrow> json \<Rightarrow> CreateItemInput option" where
  "json_item up v = as_struct True (item_fields up) v zero_item"

record CreateReservationWire = CreateReservationInput +
  w_PropertyID :: uuid
  w_GroupID :: "uuid option"
  w_TravelAgentID :: "uuid option"

definition zero_create :: CreateReservationWire where
  "zero_create = \<lparr>Source = SourceOther [], IsWalkin = False, PrimaryGuestID = None, Guest = None, Notes = [], Items = [],
     w_PropertyID = uuid_Nil, w_GroupID = None, w_TravelAgentID = None\<rparr>"

definition create_fields :: "(string \<Rightarrow> uuid option) \<Rightarrow> (string \<times> CreateReservationWire assign) list" where
  "create_fields up = [(''source'', as_string (\<lambda>s x. x\<lparr>Source := source_of_text s\<rparr>)),
     (''is_walkin'', as_bool (\<lambda>b x. x\<lparr>IsWalkin := b\<rparr>)), (''property_id'', as_parsed up (\<lambda>u x. x\<lparr>w_PropertyID := u\<rparr>)),
     (''primary_guest_id'', as_pointer (json_uuid up) (\<lambda>u x. x\<lparr>PrimaryGuestID := u\<rparr>)),
     (''guest'', as_pointer (json_guest up) (\<lambda>g x. x\<lparr>Guest := g\<rparr>)), (''notes'', as_string (\<lambda>s x. x\<lparr>Notes := s\<rparr>)),
     (''items'', as_slice (json_item up) (\<lambda>xs x. x\<lparr>Items := xs\<rparr>)),
     (''group_id'', as_pointer (json_uuid up) (\<lambda>u x. x\<lparr>w_GroupID := u\<rparr>)),
     (''travel_agent_id'', as_pointer (json_uuid up) (\<lambda>u x. x\<lparr>w_TravelAgentID := u\<rparr>))]"

definition json_create :: "(string \<Rightarrow> uuid option) \<Rightarrow> json \<Rightarrow> CreateReservationWire option" where
  "json_create up v = as_struct True (create_fields up) v zero_create"

definition cancel_fields :: "(string \<times> CancelInput assign) list" where
  "cancel_fields = [(''reason_code'', as_string (\<lambda>s x. x\<lparr>ReasonCode := s\<rparr>)),
     (''fee_pence'', as_int in_int32 (\<lambda>n x. x\<lparr>FeePence := n\<rparr>)), (''waive_fee'', as_bool (\<lambda>b x. x\<lparr>WaiveFee := b\<rparr>)),
     (''fee_override_reason'', as_string (\<lambda>s x. x)), (''refund_action'', as_string (\<lambda>s x. x)),
     (''shorten_stay'', as_bool (\<lambda>b x. x\<lparr>ShortenStayFlag := b\<rparr>))]"

definition json_cancel :: "json \<Rightarrow> CancelInput option" where
  "json_cancel v = as_struct True cancel_fields v \<lparr>ReasonCode = [], FeePence = 0, WaiveFee = False, ShortenStayFlag = False\<rparr>"

definition json_assign_room :: "(string \<Rightarrow> uuid option) \<Rightarrow> json \<Rightarrow> AssignRoomInput option" where
  "json_assign_room up v = as_struct True [(''room_id'', as_parsed up (\<lambda>u x. x\<lparr>ar_RoomID := u\<rparr>)),
     (''override_dnm_reason'', as_string (\<lambda>s x. x\<lparr>OverrideDnmReason := s\<rparr>))] v \<lparr>ar_RoomID = uuid_Nil, OverrideDnmReason = []\<rparr>"

definition json_metadata :: "(string \<Rightarrow> uuid option) \<Rightarrow> json \<Rightarrow> UpdateMetadataInput option" where
  "json_metadata up v = as_struct True [(''notes'', as_pointer json_text (\<lambda>s x. x\<lparr>umi_Notes := s\<rparr>)),
     (''travel_agent_id'', as_pointer (json_uuid up) (\<lambda>u x. x\<lparr>umi_TravelAgentID := u\<rparr>)),
     (''group_id'', as_pointer (json_uuid up) (\<lambda>u x. x\<lparr>umi_GroupID := u\<rparr>)),
     (''primary_guest_id'', as_pointer (json_uuid up) (\<lambda>u x. x\<lparr>umi_PrimaryGuestID := u\<rparr>))] v
     \<lparr>umi_Notes = None, umi_TravelAgentID = None, umi_GroupID = None, umi_PrimaryGuestID = None\<rparr>"

section \<open>What the validator sees\<close>

definition reflect_ptr :: "uuid option \<Rightarrow> reflect_value" where
  "reflect_ptr u = RPtr (map_option RUUID u)"

definition reflect_guest :: "GuestInlinePayload \<Rightarrow> reflect_value" where
  "reflect_guest g = RStruct [(''id,omitempty'', None, True, reflect_ptr (gp_ID g)), (''first_name'', None, True, RString (gp_FirstName g)),
     (''last_name'', None, True, RString (gp_LastName g)), (''email'', None, True, RString (gp_Email g)),
     (''phone'', None, True, RString (gp_Phone g))]"

definition reflect_item :: "CreateItemInput \<Rightarrow> reflect_value" where
  "reflect_item i = RStruct [(''room_type_id'', None, True, RUUID (RoomTypeID i)),
     (''assigned_room_id,omitempty'', None, True, reflect_ptr (AssignedRoomID i)), (''arrival_date'', None, True, RStruct []),
     (''departure_date'', None, True, RStruct []), (''rate_plan_id,omitempty'', None, True, reflect_ptr (RatePlanID i)),
     (''adults_count'', None, True, RInt (AdultsCount i)), (''children_count'', None, True, RInt (ChildrenCount i))]"

definition reflect_create :: "CreateReservationWire \<Rightarrow> reflect_value" where
  "reflect_create x = RStruct [(''source'', None, True, RString (source_text (Source x))), (''is_walkin'', None, True, RBool (IsWalkin x)),
     (''property_id'', None, True, RUUID (w_PropertyID x)), (''primary_guest_id,omitempty'', None, True, reflect_ptr (PrimaryGuestID x)),
     (''guest,omitempty'', None, True, RPtr (map_option reflect_guest (Guest x))), (''notes'', None, True, RString (Notes x)),
     (''items'', Some ''operations.reservation_items'', True, RSlice (map reflect_item (Items x))),
     (''group_id,omitempty'', None, True, reflect_ptr (w_GroupID x)), (''travel_agent_id,omitempty'', None, True, reflect_ptr (w_TravelAgentID x))]"

definition reflect_cancel :: "CancelInput \<Rightarrow> reflect_value" where
  "reflect_cancel x = RStruct [(''reason_code'', None, True, RString (ReasonCode x)), (''fee_pence'', None, True, RInt (FeePence x)),
     (''waive_fee'', None, True, RBool (WaiveFee x)), (''fee_override_reason'', None, True, RString []),
     (''refund_action'', None, True, RString []), (''shorten_stay'', None, True, RBool (ShortenStayFlag x))]"

definition reflect_assign_room :: "AssignRoomInput \<Rightarrow> reflect_value" where
  "reflect_assign_room x = RStruct [(''room_id'', None, True, RUUID (ar_RoomID x)),
     (''override_dnm_reason,omitempty'', None, True, RString (OverrideDnmReason x))]"

definition reflect_add_item :: "CreateItemInput \<Rightarrow> reflect_value" where
  "reflect_add_item i = RStruct [([], None, True, reflect_item i)]"

section \<open>Writing responses\<close>

definition format_RFC3339Nano :: "time \<Rightarrow> string" where
  "format_RFC3339Nano t = (let f = t mod second_ns
     in if f = 0 then format_RFC3339 t
        else butlast (format_RFC3339 t) @ ''.'' @ rev (dropWhile (\<lambda>c. c = CHR ''0'') (rev (pad0 9 (dec_nat (nat f))))) @ ''Z'')"

definition omitempty :: "string \<Rightarrow> ('a \<Rightarrow> json) \<Rightarrow> 'a option \<Rightarrow> (string \<times> json) list" where
  "omitempty name enc x = (case x of None \<Rightarrow> [] | Some v \<Rightarrow> [(name, enc v)])"

abbreviation uuid_json :: "uuid \<Rightarrow> json" where "uuid_json u \<equiv> JStr (uuid_text u)"
abbreviation time_json :: "time \<Rightarrow> json" where "time_json t \<equiv> JStr (format_RFC3339Nano t)"
abbreviation int_json :: "int \<Rightarrow> json" where "int_json i \<equiv> JNum (dec_int i)"

definition text_option :: "string \<Rightarrow> string option" where
  "text_option s = (if s = [] then None else Some s)"

definition guest_json :: "GuestResponse \<Rightarrow> json" where
  "guest_json g = JObj ([(''id'', uuid_json (gr_ID g)), (''property_id'', uuid_json (gr_PropertyID g)),
     (''first_name'', JStr (gr_FirstName g)), (''last_name'', JStr (gr_LastName g))]
     @ omitempty ''email'' JStr (text_option (gr_Email g)) @ omitempty ''phone'' JStr (text_option (gr_Phone g)))"

definition item_json :: "ItemResponse \<Rightarrow> json" where
  "item_json i = JObj ([(''id'', uuid_json (ir_ID i)), (''property_id'', uuid_json (ir_PropertyID i)),
     (''reservation_id'', uuid_json (ir_ReservationID i)), (''booked_room_type_id'', uuid_json (ir_BookedRoomTypeID i))]
     @ omitempty ''assigned_room_id'' uuid_json (ir_AssignedRoomID i) @ omitempty ''guest_id'' uuid_json (ir_GuestID i)
     @ omitempty ''rate_plan_id'' uuid_json (ir_RatePlanID i)
     @ [(''stay_period'', JStr (ir_StayPeriod i)), (''base_rate_pence'', int_json (ir_BaseRatePence i)),
        (''adults_count'', int_json (ir_AdultsCount i)), (''children_count'', int_json (ir_ChildrenCount i)),
        (''status'', JStr (item_status_text (ir_Status i))), (''version'', int_json (ir_Version i)),
        (''do_not_move'', JBool (ir_DoNotMove i)), (''created_at'', time_json (ir_CreatedAt i)),
        (''updated_at'', time_json (ir_UpdatedAt i))] @ omitempty ''deleted_at'' time_json (ir_DeletedAt i))"

definition reservation_json :: "ReservationResponse \<Rightarrow> json" where
  "reservation_json r = JObj ([(''id'', uuid_json (rr_ID r)), (''property_id'', uuid_json (rr_PropertyID r))]
     @ omitempty ''primary_guest_id'' uuid_json (rr_PrimaryGuestID r)
     @ [(''source'', JStr (source_text (rr_Source r))), (''notes'', JStr (rr_Notes r)), (''status'', JStr (status_text (rr_Status r))),
        (''version'', int_json (rr_Version r)), (''created_at'', time_json (rr_CreatedAt r)), (''updated_at'', time_json (rr_UpdatedAt r))]
     @ omitempty ''deleted_at'' time_json (rr_DeletedAt r)
     @ [(''sequential'', int_json (rr_Sequential r)), (''code'', JStr (rr_Code r)), (''stay_period_envelope'', JStr (rr_StayPeriodEnvelope r))]
     @ omitempty ''expires_at'' time_json (rr_ExpiresAt r) @ omitempty ''guest'' guest_json (rr_Guest r)
     @ (if rr_Items r = [] then [] else [(''items'', JArr (map item_json (rr_Items r)))]))"

definition batch_json :: "BatchResult \<Rightarrow> json" where
  "batch_json b = JObj [(''results'', if b = [] then JNull else JArr (map (\<lambda>i. JObj (
     [(''item_id'', JStr (bri_ItemID i)), (''status'', JStr (bri_Status i))] @ omitempty ''reservation_item'' item_json (bri_Item i)
     @ omitempty ''error'' (\<lambda>(c, m). JObj [(''code'', JStr c), (''message'', JStr m)]) (bri_Error i))) b))]"

definition availability_json :: "DateAvailability list \<Rightarrow> json" where
  "availability_json ds = JArr (map (\<lambda>d. JObj ([(''date'', JStr (ISO8601Date_String (da_Date d))), (''total'', int_json (da_Total d)),
     (''available'', int_json (da_Available d))] @ omitempty ''reason'' JStr (text_option (da_Reason d)))) ds)"

end
