(* ===== verification/Handlers.thy ===== *)
theory Handlers
  imports Wire Idempotency System
begin

text \<open>
  The HTTP handlers of the booking API (\<open>booking/create.go\<close>, \<open>booking/lifecycle.go\<close>, \<open>booking/update.go\<close>), their routes
  (\<open>booking/router.go\<close>) and the middleware around them (\<open>cmd/server/api.go\<close>).

  A handler parses, validates, calls one service and answers. The libraries it calls are the record \<open>lib\<close>. Which route a
  request takes is decided by \<open>go-chi\<close>: every statement is about an arbitrary route of the table, with arbitrary URL
  parameters in the request.
\<close>

record lib =
  uuid_Parse :: "string \<Rightarrow> uuid option"
  MatchPattern :: "string \<Rightarrow> string \<Rightarrow> bool"

section \<open>Parts of a handler\<close>

definition with_param :: "lib \<Rightarrow> string \<Rightarrow> (uuid \<Rightarrow> handler) \<Rightarrow> handler" where
  "with_param L param k r w s = (case ParseUUIDParam (uuid_Parse L) r param of
     Inl a \<Rightarrow> (WriteError (ApiE a) w, s) | Inr u \<Rightarrow> k u r w s)"

definition with_body :: "(json \<Rightarrow> 'a option) \<Rightarrow> ('a \<Rightarrow> handler) \<Rightarrow> handler" where
  "with_body dec k r w s = (case ReadJSON r dec of Inl a \<Rightarrow> (WriteError (ApiE a) w, s) | Inr x \<Rightarrow> k x r w s)"

definition validated :: "lib \<Rightarrow> reflect_value \<Rightarrow> string \<Rightarrow> handler \<Rightarrow> handler" where
  "validated L v tableKey k r w s = (case Struct (MatchPattern L) v tableKey of
     Inl panic \<Rightarrow> (rw_WriteHeader 500 w, s)
   | Inr [] \<Rightarrow> k r w s
   | Inr (e # es) \<Rightarrow> (WriteError (ApiE (WithMessage ErrUnprocessable e)) w, s))"

definition respond :: "('a \<Rightarrow> int) \<Rightarrow> ('a \<Rightarrow> json) \<Rightarrow> (ctx \<Rightarrow> 'a query) \<Rightarrow> handler" where
  "respond status enc svc r w s = (case svc (rq_ctx r) s of
     (Inl e, s') \<Rightarrow> (WriteError e w, s') | (Inr x, s') \<Rightarrow> (WriteJSON (status x) (enc x) w, s'))"

section \<open>booking/create.go\<close>

definition Create_h :: "lib \<Rightarrow> env \<Rightarrow> handler" where
  "Create_h L E = with_body (json_create (uuid_Parse L)) (\<lambda>x. validated L (reflect_create x) ''operations.reservations''
     (\<lambda>r. respond (\<lambda>_. 201) reservation_json
        (\<lambda>c. CreateReservation_svc E c (CreateReservationInput.truncate x) (ParseIncludeFlags (Query_Get r ''include''))) r))"

definition Get_h :: "lib \<Rightarrow> env \<Rightarrow> handler" where
  "Get_h L E = with_param L ''id'' (\<lambda>u r. respond (\<lambda>_. 200) reservation_json
     (\<lambda>c. GetReservation_svc E c u (ParseIncludeFlags (Query_Get r ''include''))) r)"

definition two_digits :: "string \<Rightarrow> int option" where
  "two_digits s = (if length s = 2 then map_option int (parse_digits s) else None)"

definition fraction_ns :: "string \<Rightarrow> int" where
  "fraction_ns ds = int (read_nat (take 9 (ds @ replicate 9 (CHR ''0''))))"

definition zone_offset :: "string \<Rightarrow> int option" where
  "zone_offset s =
     (if s = ''Z'' then Some 0
      else if length s = 6 \<and> (hd s = CHR ''+'' \<or> hd s = CHR ''-'') \<and> s ! 3 = CHR '':'' then
        (case (two_digits (take 2 (tl s)), two_digits (drop 4 s)) of
           (Some h, Some m) \<Rightarrow> if h \<le> 24 \<and> m \<le> 60
             then Some ((if hd s = CHR ''-'' then -1 else 1) * (h * 3600 + m * 60) * second_ns) else None
         | _ \<Rightarrow> None)
      else None)"

definition parse_RFC3339 :: "string \<Rightarrow> time option" where
  "parse_RFC3339 s =
     (if length s < 20 \<or> s ! 10 \<noteq> CHR ''T'' \<or> s ! 13 \<noteq> CHR '':'' \<or> s ! 16 \<noteq> CHR '':'' then None
      else let r = drop 19 s;
               (ds, z) = (if (hd r = CHR ''.'' \<or> hd r = CHR '','') \<and> takeWhile is_digit (tl r) \<noteq> []
                          then (takeWhile is_digit (tl r), dropWhile is_digit (tl r)) else ([], r))
      in case (parse_date (take 10 s), two_digits (take 2 (drop 11 s)), two_digits (take 2 (drop 14 s)), two_digits (take 2 (drop 17 s)), zone_offset z) of
           (Some d, Some h, Some m, Some sec, Some off) \<Rightarrow>
             if h < 24 \<and> m < 60 \<and> sec < 60
             then Some (d + (h * 3600 + m * 60 + sec) * second_ns + fraction_ns ds - off) else None
         | _ \<Rightarrow> None)"

definition list_params :: "lib \<Rightarrow> http_request \<Rightarrow> ListParams" where
  "list_params L r =
     \<lparr>lp_Status = text_option (Query_Get r ''status''),
      lp_CursorDate = parse_RFC3339 (Query_Get r ''cursor_date''),
      lp_CursorID = (if Query_Get r ''cursor_id'' = [] then None else uuid_Parse L (Query_Get r ''cursor_id'')),
      lp_StartDate = None, lp_EndDate = None,
      lp_Limit = (case strconv_Atoi (Query_Get r ''limit'') of Some n \<Rightarrow> if 0 < n then int32 n else 0 | None \<Rightarrow> 0)\<rparr>"

definition List_h :: "lib \<Rightarrow> env \<Rightarrow> handler" where
  "List_h L E r = respond (\<lambda>_. 200) (\<lambda>rs. JArr (map reservation_json rs)) (\<lambda>c. ListReservations_svc E c (list_params L r)) r"

section \<open>booking/lifecycle.go\<close>

definition Confirm_h :: "lib \<Rightarrow> env \<Rightarrow> handler" where
  "Confirm_h L E = with_param L ''id'' (\<lambda>u r. respond (\<lambda>_. 200) reservation_json
     (\<lambda>c. ConfirmReservation E c u (ParseIncludeFlags (Query_Get r ''include''))) r)"

definition Cancel_h :: "lib \<Rightarrow> env \<Rightarrow> handler" where
  "Cancel_h L E = with_param L ''id'' (\<lambda>u. with_body json_cancel (\<lambda>x. validated L (reflect_cancel x) ''operations.reservations''
     (respond (\<lambda>_. 200) reservation_json (\<lambda>c. CancelReservation E c u x))))"

definition Reactivate_h :: "lib \<Rightarrow> env \<Rightarrow> handler" where
  "Reactivate_h L E = with_param L ''id'' (\<lambda>u. respond (\<lambda>_. 200) reservation_json (\<lambda>c. ReactivateReservation E c u))"

definition CheckinReservation_h :: "lib \<Rightarrow> env \<Rightarrow> handler" where
  "CheckinReservation_h L E = with_param L ''id'' (\<lambda>u. respond batchStatus batch_json (\<lambda>c. CheckinReservation E c u))"

definition CheckinItem_h :: "lib \<Rightarrow> env \<Rightarrow> handler" where
  "CheckinItem_h L E = with_param L ''item_id'' (\<lambda>u. respond (\<lambda>_. 200) item_json (\<lambda>c. CheckinItem E c u))"

definition CheckoutReservation_h :: "lib \<Rightarrow> env \<Rightarrow> handler" where
  "CheckoutReservation_h L E = with_param L ''id'' (\<lambda>u. respond batchStatus batch_json (\<lambda>c. CheckoutReservation E c u))"

definition CheckoutItem_h :: "lib \<Rightarrow> env \<Rightarrow> handler" where
  "CheckoutItem_h L E = with_param L ''item_id'' (\<lambda>u. respond (\<lambda>_. 200) item_json (\<lambda>c. CheckoutItem E c u))"

definition MarkNoShow_h :: "lib \<Rightarrow> env \<Rightarrow> handler" where
  "MarkNoShow_h L E = with_param L ''item_id'' (\<lambda>u. respond (\<lambda>_. 200) item_json (\<lambda>c. MarkNoShow E c u))"

definition CancelItem_h :: "lib \<Rightarrow> env \<Rightarrow> handler" where
  "CancelItem_h L E = with_param L ''item_id'' (\<lambda>u. with_body json_cancel (\<lambda>x.
     respond (\<lambda>_. 200) item_json (\<lambda>c. CancelItem E c u x)))"

section \<open>booking/update.go\<close>

definition UpdateMetadata_h :: "lib \<Rightarrow> env \<Rightarrow> handler" where
  "UpdateMetadata_h L E = with_param L ''id'' (\<lambda>u. with_body (json_metadata (uuid_Parse L)) (\<lambda>x r w s.
     if (case umi_Notes x of None \<Rightarrow> False | Some n \<Rightarrow> 2500 < length n)
     then (WriteError (ApiE (WithMessage ErrUnprocessable ''notes must be at most 2500 characters'')) w, s)
     else respond (\<lambda>_. 200) reservation_json (\<lambda>c. UpdateMetadata E c u x) r w s))"

definition AddItem_h :: "lib \<Rightarrow> env \<Rightarrow> handler" where
  "AddItem_h L E = with_param L ''id'' (\<lambda>u. with_body (json_item (uuid_Parse L)) (\<lambda>x.
     validated L (reflect_add_item x) ''operations.reservation_items''
     (respond (\<lambda>_. 201) reservation_json (\<lambda>c. AddItem E c u x))))"

definition UpdateItem_h :: "lib \<Rightarrow> env \<Rightarrow> handler" where
  "UpdateItem_h L E = with_param L ''item_id'' (\<lambda>u. with_body (json_item (uuid_Parse L)) (\<lambda>x.
     validated L (reflect_item x) ''operations.reservation_items''
     (respond (\<lambda>_. 200) reservation_json (\<lambda>c. UpdateItem E c u x))))"

definition AssignRoom_h :: "lib \<Rightarrow> env \<Rightarrow> handler" where
  "AssignRoom_h L E = with_param L ''item_id'' (\<lambda>u. with_body (json_assign_room (uuid_Parse L)) (\<lambda>x.
     validated L (reflect_assign_room x) ''operations.reservation_items''
     (respond (\<lambda>_. 200) item_json (\<lambda>c. AssignRoom E c u x))))"

definition Availability_h :: "lib \<Rightarrow> env \<Rightarrow> handler" where
  "Availability_h L E r w s = (case uuid_Parse L (Query_Get r ''room_type_id'') of
     None \<Rightarrow> (WriteError (ApiE (WithMessage ErrBadRequest ''room_type_id must be a valid UUID'')) w, s)
   | Some rt \<Rightarrow> (case ParseDateParam r ''start_date'' of
         Inl a \<Rightarrow> (WriteError (ApiE a) w, s)
       | Inr a \<Rightarrow> (case ParseDateParam r ''end_date'' of
             Inl e \<Rightarrow> (WriteError (ApiE e) w, s)
           | Inr d \<Rightarrow> respond (\<lambda>_. 200) availability_json (\<lambda>c. CheckAvailability E (GetPropertyIDFromCtx c) rt a d) r w s)))"

section \<open>booking/router.go and cmd/server/api.go\<close>

record route =
  rt_method :: string
  rt_pattern :: string
  rt_ifMatch :: bool
  rt_perm :: "string option"
  rt_handler :: handler

definition Routes :: "lib \<Rightarrow> env \<Rightarrow> route list" where
  "Routes L E = map (\<lambda>(m, p, im, perm, h). \<lparr>rt_method = m, rt_pattern = p, rt_ifMatch = im, rt_perm = perm, rt_handler = h\<rparr>)
    [(''GET'', ''/availability'', False, None, Availability_h L E),
     (''POST'', ''/'', False, Some ''reservations:create'', Create_h L E),
     (''GET'', ''/'', False, Some ''reservations:read'', List_h L E),
     (''GET'', ''/{id}/'', False, Some ''reservations:read'', Get_h L E),
     (''PATCH'', ''/{id}/'', True, Some ''reservations:update'', UpdateMetadata_h L E),
     (''POST'', ''/{id}/confirm'', True, Some ''reservations:confirm'', Confirm_h L E),
     (''POST'', ''/{id}/cancel'', True, Some ''reservations:cancel'', Cancel_h L E),
     (''POST'', ''/{id}/reactivate'', True, Some ''reservations:reactivate'', Reactivate_h L E),
     (''PATCH'', ''/{id}/checkin'', False, Some ''reservations:checkin'', CheckinReservation_h L E),
     (''PATCH'', ''/{id}/checkout'', False, Some ''reservations:checkout'', CheckoutReservation_h L E),
     (''POST'', ''/{id}/items'', True, Some ''reservations:add_item'', AddItem_h L E),
     (''PATCH'', ''/{id}/items/{item_id}/'', True, Some ''reservations:update_item'', UpdateItem_h L E),
     (''PATCH'', ''/{id}/items/{item_id}/checkin'', True, Some ''reservations:checkin'', CheckinItem_h L E),
     (''PATCH'', ''/{id}/items/{item_id}/checkout'', True, Some ''reservations:checkout'', CheckoutItem_h L E),
     (''PATCH'', ''/{id}/items/{item_id}/assign-room'', True, Some ''reservations:assign_room'', AssignRoom_h L E),
     (''PATCH'', ''/{id}/items/{item_id}/no-show'', True, Some ''reservations:mark_no_show'', MarkNoShow_h L E),
     (''POST'', ''/{id}/items/{item_id}/cancel'', True, Some ''reservations:cancel'', CancelItem_h L E)]"

definition route_chain :: "route \<Rightarrow> handler" where
  "route_chain x = (if rt_ifMatch x then RequireIfMatch else id)
     ((case rt_perm x of None \<Rightarrow> id | Some p \<Rightarrow> RequirePermission p) (rt_handler x))"

definition v1 :: "lib \<Rightarrow> env \<Rightarrow> tick list \<Rightarrow> env \<Rightarrow> route \<Rightarrow> handler" where
  "v1 L E ticks E' x = Idempotency E ticks E' (StubAuth (uuid_Parse L) (route_chain x))"

end
