(* ===== verification/Accepted.thy ===== *)
theory Accepted
  imports Wire
begin

text \<open>
  What the validator accepts: its errors on the inputs of the booking API, compared with the conditions the
  constraints state for them.
\<close>

section \<open>Collecting errors\<close>

lemma both_errs_Inr [simp]: "both_errs (Inr xs) (Inr ys) = Inr (xs @ ys)"
  by (simp add: both_errs_def)

lemma foldr_both_errs [simp]: "foldr both_errs (map (\<lambda>x. Inr (f x)) xs) (Inr ys) = Inr (concat (map f xs) @ ys)"
  by (induction xs) auto

lemmas validate_simps = own_errs_def jsonFieldName_def checkField_def check_value_def isNumeric_def checkInt_def checkString_def
  exceeds_def list_of_option_def checkJSONB_def required_def no_rules_def

section \<open>The inputs\<close>

definition adults_error :: string where
  "adults_error = fieldErr ''adults_count'' (''must be at least '' @ dec_int 1)"

lemma item_errs:
  "validateStruct mp (Some item_constraints) (reflect_item i) = Inr (if AdultsCount i < 1 then [adults_error] else [])"
  by (simp add: validateStruct.simps [of mp _ "RStruct fs" for fs] reflect_item_def item_constraints_def validate_simps
      adults_error_def)

lemma items_errs:
  "foldr both_errs (map (\<lambda>(j, w). elem_errs name j (validateStruct mp (Some item_constraints) (elem_of w)))
     (enumerate n (map reflect_item xs))) (Inr []) =
   Inr (concat (map (\<lambda>(j, i). if AdultsCount i < 1 then [name @ ''['' @ dec_int (int j) @ '']: '' @ adults_error] else []) (enumerate n xs)))"
proof (induction xs arbitrary: n)
  case (Cons i xs)
  have "elem_of (reflect_item i) = reflect_item i" by (simp add: reflect_item_def)
  with Cons.IH [of "Suc n"] show ?case by (simp add: item_errs elem_errs_def)
qed simp

definition valid_create :: "CreateReservationWire \<Rightarrow> bool" where
  "valid_create x \<longleftrightarrow> source_text (Source x) \<noteq> [] \<and> w_PropertyID x \<noteq> uuid_Nil
     \<and> (case PrimaryGuestID x of None \<Rightarrow> False | Some u \<Rightarrow> u \<noteq> uuid_Nil) \<and> length (Notes x) \<le> 2500
     \<and> list_all (\<lambda>i. 1 \<le> AdultsCount i) (Items x)"

definition missing :: "string \<Rightarrow> bool \<Rightarrow> string list" where
  "missing name b = (if b then [fieldErr name ''is required''] else [])"

definition create_errors :: "CreateReservationWire \<Rightarrow> string list" where
  "create_errors x = missing ''source'' (source_text (Source x) = []) @ missing ''property_id'' (w_PropertyID x = uuid_Nil)
     @ missing ''primary_guest_id'' (PrimaryGuestID x = None \<or> PrimaryGuestID x = Some uuid_Nil)
     @ (if 2500 < length (Notes x) then [fieldErr ''notes'' (''must be at most '' @ dec_int 2500 @ '' characters'')] else [])
     @ concat (map (\<lambda>(j, i). if AdultsCount i < 1 then [''items'' @ ''['' @ dec_int (int j) @ '']: '' @ adults_error] else []) (enumerate 0 (Items x)))"

lemma reservation_field_errs:
  "own_errs mp reservation_constraints ''source'' (RString t) = Inr (missing ''source'' (t = []))"
  "own_errs mp reservation_constraints ''property_id'' (RUUID u) = Inr (missing ''property_id'' (u = uuid_Nil))"
  "own_errs mp reservation_constraints ''primary_guest_id'' (reflect_ptr g) = Inr (missing ''primary_guest_id'' (g = None \<or> g = Some uuid_Nil))"
  "own_errs mp reservation_constraints ''notes'' (RString t) =
     Inr (if 2500 < length t then [fieldErr ''notes'' (''must be at most '' @ dec_int 2500 @ '' characters'')] else [])"
  by (cases g; simp add: own_errs_def reservation_constraints_def checkField_def check_value_def isNumeric_def checkString_def
      exceeds_def list_of_option_def required_def no_rules_def reflect_ptr_def missing_def Let_def)+

lemma reservation_field_free:
  "name \<notin> {''code'', ''notes'', ''primary_guest_id'', ''property_id'', ''sequential'', ''source'', ''status'', ''stay_period_envelope'', ''version''}
   \<Longrightarrow> own_errs mp reservation_constraints name v = Inr []"
  by (simp add: own_errs_def reservation_constraints_def)

lemma reservation_no_jsonb: "checkJSONB mp fs reservation_constraints = []"
  by (simp add: checkJSONB_def reservation_constraints_def required_def no_rules_def)

lemma create_errs: "Struct mp (reflect_create x) ''operations.reservations'' = Inr (create_errors x)"
  by (simp add: Struct_def Table_def reflect_create_def validateStruct.simps [of mp _ "RStruct fs" for fs] items_errs
      jsonFieldName_def reservation_no_jsonb reservation_field_errs reservation_field_free create_errors_def)

lemma cancel_errs: "Struct mp (reflect_cancel x) ''operations.reservations'' = Inr []"
  by (simp add: Struct_def Table_def reflect_cancel_def validateStruct.simps [of mp _ "RStruct fs" for fs]
      jsonFieldName_def reservation_no_jsonb reservation_field_free)

lemma item_struct_errs:
  "Struct mp (reflect_item i) ''operations.reservation_items'' = Inr (if AdultsCount i < 1 then [adults_error] else [])"
  using item_errs [of mp i] by (simp add: Struct_def Table_def reflect_item_def)

lemma unruled_item_errs:
  "Struct mp (reflect_add_item i) ''operations.reservation_items'' = Inr []"
  "Struct mp (reflect_assign_room y) ''operations.reservation_items'' = Inr []"
  by (simp_all add: Struct_def Table_def reflect_add_item_def reflect_assign_room_def validateStruct.simps [of mp _ "RStruct fs" for fs]
      jsonFieldName_def item_constraints_def own_errs_def checkJSONB_def required_def no_rules_def)

lemma enumerated_Nil:
  "(\<forall>z\<in>set (enumerate n xs). (case z of (j, i) \<Rightarrow> if P i then [f j] else []) = []) = list_all (\<lambda>i. \<not> P i) xs"
  by (induction xs arbitrary: n) auto

lemma create_errors_Nil: "(create_errors x = []) = valid_create x"
  by (simp add: create_errors_def valid_create_def missing_def enumerated_Nil not_less split: option.splits)

text \<open>C31. The validator decides what the constraints say: it accepts a new reservation exactly when its source, property
  and primary guest are given, its notes have at most 2500 bytes and each of its items has an adult, and a changed item
  exactly when it has an adult; otherwise it returns errors, never a panic.\<close>

theorem validator_decides_the_constraints:
  "\<exists>errs errs'. Struct mp (reflect_create x) ''operations.reservations'' = Inr errs \<and> (errs = [] \<longleftrightarrow> valid_create x)
   \<and> Struct mp (reflect_item i) ''operations.reservation_items'' = Inr errs' \<and> (errs' = [] \<longleftrightarrow> 1 \<le> AdultsCount i)"
  by (auto simp: create_errs create_errors_Nil item_struct_errs)

end
