(* ===== verification/Api.thy ===== *)
theory Api
  imports Handlers Accepted
begin

text \<open>
  What the booking API guarantees of any HTTP request, whatever its bytes: the routes under their middleware
  (\<open>Handlers\<close>) against the services (\<open>System\<close>).

  A handler answers with an error and changes nothing, or it runs one request of the system and answers with its result.
  The interface \<open>route_outcome\<close> states this of the handlers' outcomes, so that a property of outcomes that holds in
  these cases holds on every route.
\<close>

section \<open>Outcomes of handlers\<close>

locale route_outcome =
  fixes E :: env and P :: "http_request \<Rightarrow> ResponseWriter \<Rightarrow> sess \<Rightarrow> ResponseWriter \<times> sess \<Rightarrow> bool"
  assumes refused: "P r w s (WriteError e w, s)"
    and failed: "P r w s (WriteError e w, serve E (rq_ctx r) req s)"
    and answered: "P r w s (WriteJSON st v w, serve E (rq_ctx r) req s)"
begin

lemma with_param_outcome: "(\<And>u. P r w s (k u r w s)) \<Longrightarrow> P r w s (with_param L param k r w s)"
  by (simp add: with_param_def refused split: sum.split)

lemma with_body_outcome: "(\<And>x. P r w s (k x r w s)) \<Longrightarrow> P r w s (with_body dec k r w s)"
  by (simp add: with_body_def refused split: sum.split)

lemma validated_outcome: "Struct (MatchPattern L) v t = Inr errs \<Longrightarrow> P r w s (k r w s) \<Longrightarrow> P r w s (validated L v t k r w s)"
  by (simp add: validated_def refused split: list.split)

lemma respond_outcome: "snd (svc (rq_ctx r) s) = serve E (rq_ctx r) req s \<Longrightarrow> P r w s (respond st enc svc r w s)"
  using failed [of r w s _ req] answered [of r w s _ _ req]
  by (auto simp: respond_def split: prod.split sum.split)

lemmas outcomes = with_param_outcome with_body_outcome validated_outcome [OF create_errs] validated_outcome [OF cancel_errs]
  validated_outcome [OF item_struct_errs] validated_outcome [OF unruled_item_errs(1)] validated_outcome [OF unruled_item_errs(2)]

lemma metadata_outcome: "P r w s (UpdateMetadata_h L E r w s)"
  unfolding UpdateMetadata_h_def
  by (intro outcomes) (auto simp: refused intro: respond_outcome [of _ r s "ReqUpdateMetadata _ _"])

lemma availability_outcome: "P r w s (Availability_h L E r w s)"
  unfolding Availability_h_def
  by (auto simp: refused intro: respond_outcome [of _ r s "ReqAvailability (GetPropertyIDFromCtx (rq_ctx r)) _ _ _"] split: option.split sum.split)

lemma plain_outcomes:
  "P r w s (Create_h L E r w s)" "P r w s (List_h L E r w s)" "P r w s (Get_h L E r w s)" "P r w s (Confirm_h L E r w s)"
  "P r w s (Cancel_h L E r w s)" "P r w s (Reactivate_h L E r w s)" "P r w s (CheckinReservation_h L E r w s)"
  "P r w s (CheckoutReservation_h L E r w s)" "P r w s (AddItem_h L E r w s)" "P r w s (UpdateItem_h L E r w s)"
  "P r w s (CheckinItem_h L E r w s)" "P r w s (CheckoutItem_h L E r w s)" "P r w s (AssignRoom_h L E r w s)"
  "P r w s (MarkNoShow_h L E r w s)" "P r w s (CancelItem_h L E r w s)"
  unfolding Create_h_def List_h_def Get_h_def Confirm_h_def Cancel_h_def Reactivate_h_def CheckinReservation_h_def
    CheckoutReservation_h_def AddItem_h_def UpdateItem_h_def CheckinItem_h_def CheckoutItem_h_def AssignRoom_h_def
    MarkNoShow_h_def CancelItem_h_def
  by ((intro outcomes)?; rule respond_outcome; rule serve.simps [symmetric])+

lemma route_keeps: "x \<in> set (Routes L E) \<Longrightarrow> P r w s (rt_handler x r w s)"
  by (auto simp: Routes_def intro: plain_outcomes metadata_outcome availability_outcome)

end

section \<open>The two sides of an outcome\<close>

interpretation effect: route_outcome E "\<lambda>r w s out. snd out = s \<or> (\<exists>req. snd out = serve E (rq_ctx r) req s)" for E
  by unfold_locales auto

definition finished :: "ResponseWriter \<Rightarrow> ResponseWriter \<Rightarrow> bool" where
  "finished w w' \<longleftrightarrow> writes_to w w' \<and> cn_Status (rw_conn w') \<noteq> None"

lemma status_of_write [simp]:
  "cn_Status (rw_conn (rw_SetHeader k v w)) = cn_Status (rw_conn w)"
  "cn_Status (rw_conn (rw_Write b w)) = Some (case cn_Status (rw_conn w) of None \<Rightarrow> 200 | Some st \<Rightarrow> st)"
  by (cases w; auto simp: conn_Write_def capture_Write_def conn_WriteHeader_def capture_WriteHeader_def Let_def split: option.splits)+

lemma finished_answers:
  "finished w (WriteError e w)" "finished w (WriteJSON st v w)" "finished w (http_Error msg code w)"
  by (auto simp: finished_def WriteError_def WriteJSON_def http_Error_def Let_def intro!: writes_to.intros)

interpretation response: route_outcome E "\<lambda>r w s out. finished w (fst out)" for E
  by unfold_locales (simp_all add: finished_answers)

section \<open>The chain of a route\<close>

lemma ctx_property [simp]:
  "GetPropertyIDFromCtx (SetIfMatchVersion c v) = GetPropertyIDFromCtx c"
  "GetPropertyIDFromCtx (SetPermissionsInCtx c ps) = GetPropertyIDFromCtx c"
  "GetPropertyIDFromCtx (SetPropertyIDInCtx c u) = u"
  by (simp_all add: GetPropertyIDFromCtx_def SetIfMatchVersion_def SetPermissionsInCtx_def SetPropertyIDInCtx_def)

definition if_match_ctx :: "http_request \<Rightarrow> APIError + ctx" where
  "if_match_ctx r =
     (if rq_Method r \<noteq> ''PATCH'' \<and> rq_Method r \<noteq> ''POST'' then Inr (rq_ctx r)
      else if Header_Get r ''If-Match'' = [] then Inl (WithMessage ErrBadRequest ''If-Match header is required for mutating requests'')
      else case strconv_Atoi (Trim_quotes (Header_Get r ''If-Match'')) of
        None \<Rightarrow> Inl (WithMessage ErrBadRequest ''If-Match must be a positive integer version number'')
      | Some v \<Rightarrow> if v < 1 then Inl (WithMessage ErrBadRequest ''If-Match must be a positive integer version number'')
          else Inr (SetIfMatchVersion (rq_ctx r) (int32 v)))"

lemma RequireIfMatch_eq:
  "RequireIfMatch h r w s = (case if_match_ctx r of Inl a \<Rightarrow> (WriteError (ApiE a) w, s) | Inr c \<Rightarrow> h (r\<lparr>rq_ctx := c\<rparr>) w s)"
  by (simp add: RequireIfMatch_def if_match_ctx_def Let_def split: option.split)

lemma status_400 [simp]: "ErrStatus (WithMessage ErrBadRequest m) = 400"
  by (simp add: WithMessage_def ErrBadRequest_def New_def)

lemma if_match_ctx_Inl: "if_match_ctx r = Inl a \<Longrightarrow> ErrStatus a = 400"
  by (auto simp: if_match_ctx_def split: if_splits option.splits)

lemma if_match_ctx_Inr:
  assumes "if_match_ctx r = Inr c"
  shows "GetPropertyIDFromCtx c = GetPropertyIDFromCtx (rq_ctx r)" "HasPermission c p = HasPermission (rq_ctx r) p"
  using assms by (auto simp: if_match_ctx_def HasPermission_def GetPermissionsFromCtx_def SetIfMatchVersion_def GetPropertyIDFromCtx_def
      split: if_splits option.splits)

lemma route_chain_cases:
  obtains (refused) a where "route_chain x r w s = (WriteError (ApiE a) w, s)" "ErrStatus a \<in> {400, 403}"
  | (through) c where "route_chain x r w s = rt_handler x (r\<lparr>rq_ctx := c\<rparr>) w s"
      "GetPropertyIDFromCtx c = GetPropertyIDFromCtx (rq_ctx r)"
      "rt_ifMatch x \<Longrightarrow> if_match_ctx r = Inr c" "case rt_perm x of None \<Rightarrow> True | Some p \<Rightarrow> HasPermission (rq_ctx r) p"
proof -
  define c where "c = (if rt_ifMatch x then if_match_ctx r else Inr (rq_ctx r))"
  show thesis
  proof (cases c)
    case (Inl a)
    with c_def have "if_match_ctx r = Inl a" "rt_ifMatch x" by (auto split: if_splits)
    with if_match_ctx_Inl [OF this(1)] show thesis
      by (intro refused [of a]) (simp_all add: route_chain_def RequireIfMatch_eq)
  next
    case (Inr c')
    have keep: "GetPropertyIDFromCtx c' = GetPropertyIDFromCtx (rq_ctx r)" "HasPermission c' p = HasPermission (rq_ctx r) p" for p
      using Inr c_def if_match_ctx_Inr [of r c'] by (auto split: if_splits)
    have run: "route_chain x r w s =
        (case rt_perm x of None \<Rightarrow> id | Some p \<Rightarrow> RequirePermission p) (rt_handler x) (r\<lparr>rq_ctx := c'\<rparr>) w s"
      using Inr c_def by (auto simp: route_chain_def RequireIfMatch_eq split: if_splits)
    show thesis
    proof (cases "case rt_perm x of None \<Rightarrow> True | Some p \<Rightarrow> HasPermission (rq_ctx r) p")
      case True
      with run keep Inr c_def show thesis
        by (intro through [of c']) (auto simp: RequirePermission_def split: option.splits)
    next
      case False
      with run keep show thesis by (auto simp: RequirePermission_def New_def split: option.splits intro: refused)
    qed
  qed
qed

section \<open>The database behind the API\<close>

definition keeps :: "(db \<Rightarrow> bool) \<Rightarrow> handler \<Rightarrow> http_request \<Rightarrow> bool" where
  "keeps J h r \<longleftrightarrow> (\<forall>w s. J (pool s) \<longrightarrow> J (pool (snd (h r w s))))"

lemma keepsD:
  assumes "keeps J h r" "J (pool s)" "h r w s = (w', t)"
  shows "J (pool t)"
proof -
  from assms(1,2) have "J (pool (snd (h r w s)))" by (simp add: keeps_def)
  with assms(3) show ?thesis by simp
qed

lemma keeps_route_chain:
  assumes x: "x \<in> set (Routes L E)"
    and J: "\<And>c req s. GetPropertyIDFromCtx c = GetPropertyIDFromCtx (rq_ctx r) \<Longrightarrow> J (pool s) \<Longrightarrow> J (pool (serve E c req s))"
  shows "keeps J (route_chain x) r"
  unfolding keeps_def
proof (intro allI impI)
  fix w and s :: sess
  assume s: "J (pool s)"
  show "J (pool (snd (route_chain x r w s)))"
  proof (cases x r w s rule: route_chain_cases)
    case (through c)
    with effect.route_keeps [OF x, where r = "r\<lparr>rq_ctx := c\<rparr>" and w = w and s = s] s J [of c s] show ?thesis by auto
  qed (simp add: s)
qed

lemma keeps_StubAuth:
  assumes "\<And>u c. up (Header_Get r ''X-Property-ID'') = Some u \<Longrightarrow> GetPropertyIDFromCtx c = u \<Longrightarrow> keeps J h (r\<lparr>rq_ctx := c\<rparr>)"
    and "take 8 (rq_Path r) \<noteq> ''/swagger''"
  shows "keeps J (StubAuth up h) r"
  using assms by (auto simp: keeps_def StubAuth_def Let_def split: option.split)

definition tick_keeps :: "(db \<Rightarrow> bool) \<Rightarrow> tick \<Rightarrow> bool" where
  "tick_keeps J t = (case t of Tick E f \<Rightarrow> \<forall>s. J (pool s) \<longrightarrow> J (pool (f s)) | _ \<Rightarrow> True)"

lemma redis_commands_pool [simp]:
  "pool (snd (redis_Get E k s)) = pool s" "pool (snd (redis_SetNX E k v ttl s)) = pool s"
  "pool (snd (redis_SetAll E kvs ttl s)) = pool s" "pool (snd (redis_Del k s)) = pool s"
  by (auto simp: redis_Get_def redis_SetNX_def redis_SetAll_def redis_Del_def split: prod.split option.split dest: pop_fault_fields)

lemma redis_pools:
  "redis_Get E k s = (x, t) \<Longrightarrow> pool t = pool s" "redis_SetNX E k v ttl s = (y, t) \<Longrightarrow> pool t = pool s"
  using redis_commands_pool(1) [of E k s] redis_commands_pool(2) [of E k v ttl s] by auto

lemma checkExisting_pool: "pool (snd (snd (checkExistingIdempotencyKey E k fp w s))) = pool s"
  by (auto simp: checkExistingIdempotencyKey_def reserveIdempotencyKey_def split: prod.splits sum.splits option.splits
      dest!: redis_pools)

lemma handleExisting_pool:
  "list_all (tick_keeps J) ticks \<Longrightarrow> J (pool s) \<Longrightarrow> J (pool (snd (snd (handleExistingIdempotencyKey E ticks k fp w s))))"
proof (induction ticks arbitrary: E w s)
  case Nil
  with checkExisting_pool [of E k fp w s] show ?case
    by (auto simp: handleExistingIdempotencyKey.simps [of _ "[]"] split: prod.split sum.split)
next
  case (Cons t ts)
  have "J (pool (snd (snd (checkExistingIdempotencyKey E k fp w s))))" using Cons.prems by (simp add: checkExisting_pool)
  with Cons show ?case
    by (cases t) (auto simp: handleExistingIdempotencyKey.simps [of _ "y # ts" for y] tick_keeps_def split: prod.split sum.split)
qed

lemma serve_and_cache_pool: "keeps J h r \<Longrightarrow> J (pool s) \<Longrightarrow> J (pool (snd (serve_and_cache E h k fp r w s)))"
  by (auto simp: serve_and_cache_def cacheResponse_def split: prod.split ResponseWriter.split dest: keepsD)

lemma keeps_Idempotency:
  assumes h: "keeps J h r" and t: "list_all (tick_keeps J) ticks"
  shows "keeps J (Idempotency E ticks E' h) r"
  unfolding keeps_def
proof (intro allI impI)
  fix w and s :: sess
  assume s: "J (pool s)"
  have *: "J (pool s1) \<Longrightarrow> J (pool (snd (h r w1 s1)))" "J (pool s1) \<Longrightarrow> J (pool (snd (serve_and_cache E' h k fp r w1 s1)))"
    "J (pool s1) \<Longrightarrow> J (pool (snd (snd (handleExistingIdempotencyKey E ticks k fp w1 s1))))" for k fp w1 s1
    using h serve_and_cache_pool [OF h] handleExisting_pool [OF t] by (simp_all add: keeps_def)
  show "J (pool (snd (Idempotency E ticks E' h r w s)))"
  proof (cases "\<exists>key fp. keyed r key fp")
    case True
    then obtain key fp where r: "keyed r key fp" by blast
    obtain a s1 where s1: "reserveIdempotencyKey E (idempotencyPrefix @ key) fp s = (a, s1)" by fastforce
    with s have "J (pool s1)" by (auto simp: reserveIdempotencyKey_def dest: redis_pools)
    then show ?thesis
      using r s1 *(1,2) [of s1] *(3) [of s1 "idempotencyPrefix @ key" fp w] *(1,2)
      by (auto simp: Idempotency_def keyed_def Let_def split: sum.split bool.split prod.split)
  next
    case False
    then show ?thesis using s *(1) by (auto simp: Idempotency_def keyed_def Let_def split: sum.split)
  qed
qed

lemma not_swagger: "take 3 p = ''/v1'' \<Longrightarrow> take 8 p \<noteq> ''/swagger''"
proof
  assume a: "take 3 p = ''/v1''" "take 8 p = ''/swagger''"
  have "take 3 p = take 3 (take 8 p)" by (simp only: take_take min_def) simp
  with a show False by simp
qed

lemma keeps_v1:
  assumes "x \<in> set (Routes L E)" "take 3 (rq_Path r) = ''/v1''" "list_all (tick_keeps J) ticks"
    and "\<And>c req s. uuid_Parse L (Header_Get r ''X-Property-ID'') = Some (GetPropertyIDFromCtx c) \<Longrightarrow> J (pool s) \<Longrightarrow> J (pool (serve E c req s))"
  shows "keeps J (v1 L E1 ticks E2 x) r"
proof -
  have "keeps J (StubAuth (uuid_Parse L) (route_chain x)) r"
    using assms by (intro keeps_StubAuth keeps_route_chain) (auto simp: not_swagger)
  then have "keeps J (Idempotency E1 ticks E2 (StubAuth (uuid_Parse L) (route_chain x))) r"
    using assms(3) by (rule keeps_Idempotency)
  then show ?thesis by (simp add: keeps_def v1_def)
qed


text \<open>C27. A client only reaches the property it names: when the database role is subject to row-level security, no HTTP
  request to any route changes a row of another property than the one in its X-Property-ID header, and a request whose
  header is missing or malformed changes no row at all.\<close>

theorem api_isolates_tenants:
  assumes "x \<in> set (Routes L (E\<lparr>enforce_rls := True\<rparr>))" and "take 3 (rq_Path r) = ''/v1''"
    and "uuid_Parse L (Header_Get r ''X-Property-ID'') \<in> {None, Some p}"
    and "list_all (tick_keeps (\<lambda>d. foreign p d = F)) ticks"
    and "foreign p (pool s) = F" and "v1 L E1 ticks E2 x r w s = (w', t)"
  shows "foreign p (pool t) = F"
proof -
  have "keeps (\<lambda>d. foreign p d = F) (v1 L E1 ticks E2 x) r"
    using assms(1-4) isolation_requests.serve_keeps [where E = E and F = F]
    by (intro keeps_v1 [OF assms(1)]) auto
  from keepsD [OF this assms(5,6)] show ?thesis .
qed

section \<open>Guards\<close>

lemma WriteError_fresh:
  "\<exists>c. WriteError (ApiE a) (Conn (fresh_conn hs)) = Conn c \<and> cn_Status c = Some (ErrStatus a)"
  by (simp add: WriteError_def Let_def response_error_def fresh_conn_def conn_Write_def conn_WriteHeader_def)

abbreviation auth_ctx :: "http_request \<Rightarrow> uuid \<Rightarrow> ctx" where
  "auth_ctx r u \<equiv> SetPermissionsInCtx (SetPropertyIDInCtx (rq_ctx r) u) (split_permissions (Header_Get r ''X-User-Permissions''))"

lemma StubAuth_cases [consumes 1, case_names refused through]:
  assumes "take 3 (rq_Path r) = ''/v1''"
  obtains (refused) a where "StubAuth up h r w s = (WriteError (ApiE a) w, s)" "ErrStatus a = 400"
  | (through) u where "up (Header_Get r ''X-Property-ID'') = Some u" "StubAuth up h r w s = h (r\<lparr>rq_ctx := auth_ctx r u\<rparr>) w s"
proof (cases "Header_Get r ''X-Property-ID'' = [] \<or> up (Header_Get r ''X-Property-ID'') = None")
  case True
  with not_swagger [OF assms] have "\<exists>m. StubAuth up h r w s = (WriteError (ApiE (WithMessage ErrBadRequest m)) w, s)"
    by (auto simp: StubAuth_def Let_def)
  then show thesis using refused by fastforce
next
  case False
  with not_swagger [OF assms] through show thesis by (auto simp: StubAuth_def Let_def)
qed


lemma Atoi_Nil [simp]: "strconv_Atoi [] = None"
  by (simp add: parse_digits_def)

lemma if_match_ctx_version:
  assumes "if_match_ctx r = Inr c" "rq_Method r = ''PATCH'' \<or> rq_Method r = ''POST''"
  obtains v where "strconv_Atoi (Trim_quotes (Header_Get r ''If-Match'')) = Some v" "1 \<le> v" "GetIfMatchVersion c = int32 v"
  using assms by (auto simp: if_match_ctx_def GetIfMatchVersion_def SetIfMatchVersion_def split: if_splits option.splits)

text \<open>C29. A guarded route only works on a version the client names: whatever a route that asks for If-Match changes is done
  by one request of the system whose context carries the version of the header, a positive integer. Without such a
  header nothing changes.\<close>

theorem version_required:
  assumes "x \<in> set (Routes L E)" and "rt_ifMatch x" and "rq_Method r = rt_method x" and "take 3 (rq_Path r) = ''/v1''"
    and "StubAuth (uuid_Parse L) (route_chain x) r w s = (w', t)" and "t \<noteq> s"
  shows "\<exists>v c req. strconv_Atoi (Trim_quotes (Header_Get r ''If-Match'')) = Some v \<and> 1 \<le> v \<and> GetIfMatchVersion c = int32 v
     \<and> uuid_Parse L (Header_Get r ''X-Property-ID'') = Some (GetPropertyIDFromCtx c) \<and> t = serve E c req s"
  using assms(4)
proof (cases rule: StubAuth_cases [where up = "uuid_Parse L" and h = "route_chain x" and w = w and s = s])
  case (through u)
  note auth = through
  let ?r = "r\<lparr>rq_ctx := auth_ctx r u\<rparr>"
  have m: "rq_Method ?r = ''PATCH'' \<or> rq_Method ?r = ''POST''" using assms(1-3) by (auto simp: Routes_def)
  show ?thesis
  proof (cases x ?r w s rule: route_chain_cases)
    case (through c)
    with assms(2) have c: "if_match_ctx ?r = Inr c" by simp
    from if_match_ctx_version [OF c m] obtain v where
      "strconv_Atoi (Trim_quotes (Header_Get r ''If-Match'')) = Some v" "1 \<le> v" "GetIfMatchVersion c = int32 v" by auto
    moreover have "rt_handler x (?r\<lparr>rq_ctx := c\<rparr>) w s = (w', t)" using through(1) auth(2) assms(5) by simp
    then have "\<exists>req. t = serve E c req s"
      using effect.route_keeps [OF assms(1), where r = "?r\<lparr>rq_ctx := c\<rparr>" and w = w and s = s] assms(6)
      by auto
    moreover have "GetPropertyIDFromCtx c = u" using through(2) by simp
    ultimately show ?thesis using auth(1) by auto
  qed (use auth(2) assms(5,6) in auto)
qed (use assms in auto)

text \<open>Versions wrap: the header is parsed as a 64-bit integer and narrowed to 32 bits, so a request with the
  version 2^32 + 1 passes for one that names the version 1.\<close>

theorem large_versions_wrap:
  "RequireIfMatch h (r\<lparr>rq_Method := ''PATCH'', rq_Header := [''If-Match'' \<mapsto> ''4294967297'']\<rparr>) w s =
   h (r\<lparr>rq_Method := ''PATCH'', rq_Header := [''If-Match'' \<mapsto> ''4294967297''], rq_ctx := SetIfMatchVersion (rq_ctx r) 1\<rparr>) w s"
  by (simp add: RequireIfMatch_def Get_value_def Trim_quotes_def parse_digits_def is_digit_def digit_val_def in_int64_def int32_def read_nat_def Let_def)

section \<open>Answers\<close>

lemma writes_to_trans: "writes_to w' w'' \<Longrightarrow> writes_to w w' \<Longrightarrow> writes_to w w''"
  by (induction rule: writes_to.induct) (auto intro: writes_to.intros)

lemma writes_to_Capture: "writes_to w w' \<Longrightarrow> w = Capture rc \<Longrightarrow> \<exists>rc'. w' = Capture rc'"
  by (induction rule: writes_to.induct) auto

lemma writes_to_Conn: "writes_to w w' \<Longrightarrow> w = Conn c \<Longrightarrow> \<exists>c'. w' = Conn c'"
  by (induction rule: writes_to.induct) auto

lemma chain_finished:
  assumes "x \<in> set (Routes L E)" "take 3 (rq_Path r) = ''/v1''"
  shows "finished w (fst (StubAuth up (route_chain x) r w s))"
  using assms(2)
proof (cases rule: StubAuth_cases [where up = up and h = "route_chain x" and w = w and s = s])
  case (through u)
  show ?thesis
  proof (cases x "r\<lparr>rq_ctx := auth_ctx r u\<rparr>" w s rule: route_chain_cases)
    case run: (through c)
    have "finished w (fst (rt_handler x (r\<lparr>rq_ctx := c\<rparr>) w s))" by (rule response.route_keeps [OF assms(1)])
    with run(1) through(2) show ?thesis by simp
  qed (simp add: through(2) finished_answers)
qed (simp add: finished_answers)

lemma check_handled_status:
  "checkExistingIdempotencyKey E k fp w s = (Inr (True, wait), w', s') \<Longrightarrow> cn_Status (rw_conn w') \<noteq> None"
  by (auto simp: checkExistingIdempotencyKey_def corrupted_def replayCachedResponse_def http_Error_def Let_def
      split: prod.splits sum.splits option.splits if_splits)

definition calm :: "sess \<Rightarrow> bool" where
  "calm s = list_all (\<lambda>f. case f of None \<Rightarrow> True | Some e \<Rightarrow> \<not> errors_Is_context e) (faults s)"

definition calm_tick :: "tick \<Rightarrow> bool" where
  "calm_tick t = (case t of Tick E f \<Rightarrow> \<forall>s. calm (f s) | Deadline \<Rightarrow> True | CtxDone e \<Rightarrow> False)"

lemma calm_pop: "calm s \<Longrightarrow> pop_fault s = (f, s') \<Longrightarrow> calm s' \<and> (\<forall>e. f = Some e \<longrightarrow> \<not> errors_Is_context e)"
  by (cases "faults s") (auto simp: calm_def pop_fault_def split: option.splits)

lemma calm_redis_update: "calm (s\<lparr>redis := m\<rparr>) = calm s"
  by (simp add: calm_def)

lemma calm_redis:
  assumes "calm s"
  shows "redis_Get E k s = (res, t) \<Longrightarrow> calm t \<and> (\<forall>e. res = Inl e \<longrightarrow> \<not> errors_Is_context e)"
    and "redis_SetNX E k v ttl s = (res', t) \<Longrightarrow> calm t \<and> (\<forall>e. res' = Inl e \<longrightarrow> \<not> errors_Is_context e)"
  using calm_pop [OF assms]
  by (auto simp: redis_Get_def redis_SetNX_def calm_redis_update split: prod.splits option.splits if_splits)

lemma calm_check:
  assumes "calm s" "checkExistingIdempotencyKey E k fp w s = (res, w', t)"
  shows "calm t \<and> (\<forall>e. res = Inl e \<longrightarrow> \<not> errors_Is_context e)"
proof -
  obtain g s1 where g: "redis_Get E k s = (g, s1)" by fastforce
  note c1 = calm_redis(1) [OF assms(1) this]
  obtain a s2 where a: "reserveIdempotencyKey E k fp s1 = (a, s2)" by fastforce
  have c2: "calm s2 \<and> (\<forall>e. a = Inl e \<longrightarrow> \<not> errors_Is_context e)"
    using c1 a unfolding reserveIdempotencyKey_def by (intro calm_redis(2) [of s1]) simp_all
  show ?thesis
    using assms(2) g a c1 c2 by (auto simp: checkExistingIdempotencyKey_def split: sum.splits option.splits if_splits)
qed

lemma calm_handle:
  "calm s \<Longrightarrow> list_all calm_tick ticks \<Longrightarrow> handleExistingIdempotencyKey E ticks k fp w s = (res, w', t) \<Longrightarrow>
   case res of Inl e \<Rightarrow> \<not> errors_Is_context e | Inr b \<Rightarrow> b \<longrightarrow> cn_Status (rw_conn w') \<noteq> None"
proof (induction ticks arbitrary: E w s)
  case Nil
  obtain c w1 s1 where "checkExistingIdempotencyKey E k fp w s = (c, w1, s1)" by (metis prod_cases3)
  with Nil calm_check [OF Nil(1) this] check_handled_status [of E k fp w s] show ?case
    by (cases c) (auto simp: handleExistingIdempotencyKey.simps [of _ "[]"] still_processing_def http_Error_def split: if_splits)
next
  case (Cons y ts)
  obtain c w1 s1 where c: "checkExistingIdempotencyKey E k fp w s = (c, w1, s1)" by (metis prod_cases3)
  note known = calm_check [OF Cons.prems(1) c]
  have st: "c = Inr (True, b) \<Longrightarrow> cn_Status (rw_conn w1) \<noteq> None" for b using c check_handled_status by blast
  show ?case
  proof (cases "c = Inr (False, True)")
    case True
    show ?thesis
    proof (cases y)
      case (Tick E' f)
      with Cons.prems True c have "calm (f s1)" "list_all calm_tick ts"
        "handleExistingIdempotencyKey E' ts k fp w1 (f s1) = (res, w', t)"
        by (simp_all add: handleExistingIdempotencyKey.simps [of _ "Tick E' f # ts"] calm_tick_def [of "Tick E' f"])
      then show ?thesis by (rule Cons.IH)
    qed (use True c Cons.prems in \<open>auto simp: handleExistingIdempotencyKey.simps [of _ "y # ts" for y] still_processing_def http_Error_def calm_tick_def\<close>)
  next
    case False
    with c Cons.prems(3) have "c = Inl e \<Longrightarrow> res = Inl e" "c = Inr (h, b) \<Longrightarrow> res = Inr h \<and> w' = w1" for e h b
      by (auto simp: handleExistingIdempotencyKey.simps [of _ "y # ts"] split: if_splits)
    with known st show ?thesis by (cases c) fastforce+
  qed
qed

lemma cached_finished:
  assumes "\<And>w s. finished w (fst (h r w s))"
  shows "cn_Status (rw_conn (fst (serve_and_cache E h k fp r w s))) \<noteq> None"
proof -
  let ?w = "Capture (newResponseCapture (rw_conn w))"
  obtain w1 s1 where h: "h r ?w s = (w1, s1)" by fastforce
  with assms [of ?w s] have "finished ?w w1" by simp
  with h writes_to_Capture [of ?w w1] show ?thesis
    by (auto simp: serve_and_cache_def finished_def split: ResponseWriter.split)
qed

text \<open>C30. Every request is answered: as long as its client stays connected, a request to any route ends with a status,
  whatever it contains, whether or not its key is taken, and whether or not Redis and the database fail.\<close>

theorem every_request_is_answered:
  assumes "x \<in> set (Routes L E)" and "take 3 (rq_Path r) = ''/v1''" and "calm s" and "list_all calm_tick ticks"
  shows "cn_Status (rw_conn (fst (v1 L E1 ticks E2 x r w s))) \<noteq> None"
proof -
  let ?h = "StubAuth (uuid_Parse L) (route_chain x)"
  have h: "finished w (fst (?h r w s))" for w s by (rule chain_finished [OF assms(1,2)])
  then have run: "cn_Status (rw_conn (fst (?h r w s))) \<noteq> None" "cn_Status (rw_conn (fst (serve_and_cache E2 ?h k fp r w s))) \<noteq> None" for w s k fp
    using cached_finished [of ?h r] by (simp_all add: finished_def)
  show ?thesis
  proof (cases "\<exists>key fp. keyed r key fp")
    case False
    with run(1) finished_answers(3) show ?thesis
      by (auto simp: v1_def Idempotency_def keyed_def Let_def finished_def split: sum.split)
  next
    case True
    then obtain key fp where r: "keyed r key fp" by blast
    obtain a s1 where s1: "reserveIdempotencyKey E1 (idempotencyPrefix @ key) fp s = (a, s1)" by fastforce
    with calm_redis(2) [OF assms(3)] have "calm s1" by (auto simp: reserveIdempotencyKey_def)
    obtain res w2 s2 where e: "handleExistingIdempotencyKey E1 ticks (idempotencyPrefix @ key) fp w s1 = (res, w2, s2)"
      by (metis prod_cases3)
    from calm_handle [OF \<open>calm s1\<close> assms(4) this] show ?thesis
      using r s1 e run by (auto simp: v1_def Idempotency_def keyed_def Let_def split: sum.splits bool.split)
  qed
qed

text \<open>C24. A request that is repeated with its idempotency key is carried out once: when the first one was answered with a
  2xx status, any request with the same key and fingerprint in the following 24 hours gets the same status, the same
  body and the same headers, and changes nothing.\<close>

theorem repeated_request_runs_once:
  assumes "x \<in> set (Routes L E)" and "take 3 (rq_Path r) = ''/v1''" and "keyed r key fp" and "keyed r' key fp"
    and "faults s = []" and "redis_get E0 s (idempotencyPrefix @ key) = None" and "distinct (map fst hs)"
    and "faults (snd (StubAuth (uuid_Parse L) (route_chain x) r (Capture (newResponseCapture (fresh_conn hs))) (reserved E0 key fp s))) = []"
    and "v1 L E0 ticks E1 x r (Conn (fresh_conn hs)) s = (Conn c, s2)"
    and "cn_Status c = Some st" and "200 \<le> st" and "st < 300"
    and "redis t (idempotencyPrefix @ key) = redis s2 (idempotencyPrefix @ key)" and "faults t = []"
    and "app_now E2 < app_now E1 + 24 * hour_ns"
  shows "\<exists>c'. v1 L E2 ticks' E3 x' r' (Conn (fresh_conn hs')) t = (Conn c', t) \<and> cn_Status c' = cn_Status c
    \<and> cn_Body c' = cn_Body c \<and> list_all (\<lambda>(k, v). map_of (cn_Sent c') k = Some v) (cn_Sent c)"
proof -
  let ?h = "StubAuth (uuid_Parse L) (route_chain x)" and ?w = "Capture (newResponseCapture (fresh_conn hs))"
  obtain w1 s1 where h: "?h r ?w (reserved E0 key fp s) = (w1, s1)" by fastforce
  have "faults s1 = []" "writes_to ?w w1"
    using assms(8) chain_finished [OF assms(1,2), of ?w "uuid_Parse L" "reserved E0 key fp s"] by (simp_all add: h finished_def)
  from retry_replays_the_response [OF assms(3-7) h this assms(9) [unfolded v1_def] assms(10-15)] show ?thesis
    by (simp add: v1_def)
qed

section \<open>Gaps\<close>

text \<open>C33. A reservation cannot be created for a new guest: a request that gives the guest inline, without the identifier of a
  stored one, is refused with 422 before the service that would store the guest runs.\<close>

theorem inline_guest_is_refused:
  assumes "ReadJSON r (json_create (uuid_Parse L)) = Inr x" and "PrimaryGuestID x = None"
  shows "\<exists>c. Create_h L E r (Conn (fresh_conn hs)) s = (Conn c, s) \<and> cn_Status c = Some 422"
proof -
  have "create_errors x \<noteq> []" using assms(2) by (simp add: create_errors_Nil valid_create_def)
  then obtain e es where "create_errors x = e # es" by (cases "create_errors x") auto
  moreover have "ErrStatus (WithMessage ErrUnprocessable e) = 422" by (simp add: WithMessage_def ErrUnprocessable_def New_def)
  ultimately show ?thesis
    using assms(1) WriteError_fresh [of "WithMessage ErrUnprocessable e" hs]
    by (auto simp: Create_h_def with_body_def validated_def create_errs)
qed

text \<open>An added item is not validated: the validator looks for the fields of the item in the struct that embeds it and
  accepts an item without adults, which it refuses when the same item is changed.\<close>

theorem added_items_are_not_validated:
  "Struct mp (reflect_add_item i) ''operations.reservation_items'' = Inr []
   \<and> Struct mp (reflect_item (i\<lparr>AdultsCount := 0\<rparr>)) ''operations.reservation_items'' \<noteq> Inr []"
  by (simp add: unruled_item_errs item_struct_errs)

end
