(* ===== verification/WebExamples.thy ===== *)
theory WebExamples
  imports Api Demo
begin

text \<open>The theorems about the web layer on concrete requests.\<close>

definition demo_post :: http_request where
  "demo_post = \<lparr>rq_Method = ''POST'', rq_Path = ''/v1/reservations'', rq_URI = ''/v1/reservations'',
     rq_Header = [''Idempotency-Key'' \<mapsto> ''k1''], rq_Query = Map.empty, rq_Body = Inr [], rq_Params = Map.empty,
     rq_ctx = demo_ctx\<rparr>"

definition demo_fp :: string where
  "demo_fp = projr (requestFingerprint demo_post)"

definition echo :: handler where
  "echo r w s = (WriteJSON 201 (JStr ''done'') w, s)"

lemma keyed_demo: "keyed demo_post ''k1'' demo_fp"
  by (simp add: keyed_def demo_fp_def demo_post_def requestFingerprint_def Get_value_def Let_def)

lemma demo_free: "redis_get E demo_sess k = None" "faults demo_sess = []" "faults (reserved E k fp demo_sess) = []"
  by (simp_all add: demo_sess_def redis_get_def reserved_def)

lemma live_demo: "live demo_env ''k1'' (reserved demo_env ''k1'' demo_fp demo_sess)"
  by (simp add: live_def reserved_def demo_sess_def redis_get_def idempotencyLockTTL_def minute_ns_def second_ns_def)

theorem duplicate_never_runs_witness:
  "Idempotency demo_env [Tick demo_env (\<lambda>s. reserved demo_env ''k1'' demo_fp demo_sess), Deadline] demo_env echo demo_post (Conn (fresh_conn []))
     (reserved demo_env ''k1'' demo_fp demo_sess)
   = Idempotency demo_env [Tick demo_env (\<lambda>s. reserved demo_env ''k1'' demo_fp demo_sess), Deadline] demo_env undefined demo_post (Conn (fresh_conn []))
     (reserved demo_env ''k1'' demo_fp demo_sess)"
  by (rule duplicate_never_runs [OF keyed_demo live_demo]) (simp add: stays_live_def live_demo)

theorem replay_crosses_tenants_witness:
  "\<exists>c s. Idempotency demo_env [] demo_env (StubAuth (\<lambda>x. None) undefined)
      (demo_post\<lparr>rq_Header := (rq_Header demo_post)(''X-Property-ID'' := None, ''X-User-Permissions'' := None)\<rparr>) (Conn (fresh_conn [])) s = (Conn c, s)
    \<and> cn_Status c = Some 200 \<and> cn_Body c = ''secret''"
proof -
  let ?rc = "\<lparr>rc_conn = fresh_conn [], rc_status = 200, rc_body = ''secret'', rc_written = True, rc_headersCopy = []\<rparr>"
  let ?s = "demo_sess\<lparr>redis := [idempotencyPrefix @ ''k1'' \<mapsto> (json_write (record_json (completed_record demo_fp ?rc)), 6 * day_ns)]\<rparr>"
  have "\<exists>c. Idempotency demo_env [] demo_env (StubAuth (\<lambda>x. None) undefined)
      (demo_post\<lparr>rq_Header := (rq_Header demo_post)(''X-Property-ID'' := None, ''X-User-Permissions'' := None)\<rparr>) (Conn (fresh_conn [])) ?s = (Conn c, ?s)
    \<and> cn_Status c = Some (rc_status ?rc) \<and> cn_Body c = rc_body ?rc"
    by (rule replay_crosses_tenants [OF keyed_demo]) (auto simp: demo_sess_def demo_env_def day_ns_def in_int64_def)
  then show ?thesis by auto
qed

section \<open>Requests to the routes\<close>

definition demo_lib :: lib where
  "demo_lib = \<lparr>uuid_Parse = map_of [(uuid_text 1, 1)], MatchPattern = (\<lambda>p t. False)\<rparr>"

definition demo_checkin :: route where
  "demo_checkin = \<lparr>rt_method = ''PATCH'', rt_pattern = ''/{id}/checkin'', rt_ifMatch = False,
     rt_perm = Some ''reservations:checkin'', rt_handler = CheckinReservation_h demo_lib demo_env\<rparr>"

definition demo_patch :: http_request where
  "demo_patch = \<lparr>rq_Method = ''PATCH'', rq_Path = ''/v1/reservations'', rq_URI = ''/v1/reservations'',
     rq_Header = [''Idempotency-Key'' \<mapsto> ''k1'', ''X-Property-ID'' \<mapsto> uuid_text 1, ''X-User-Permissions'' \<mapsto> ''reservations:checkin''],
     rq_Query = Map.empty, rq_Body = Inr [], rq_Params = [''id'' \<mapsto> uuid_text 1], rq_ctx = demo_ctx\<rparr>"

lemma demo_checkin_route: "demo_checkin \<in> set (Routes demo_lib demo_env)"
  by (simp add: demo_checkin_def Routes_def)

lemma demo_patch_path: "take 3 (rq_Path demo_patch) = ''/v1''"
  by (simp add: demo_patch_def)

lemma demo_uuid: "uuid_text 1 \<noteq> []"
  by (simp add: uuid_text_def Let_def)

lemma demo_auth:
  "StubAuth (uuid_Parse demo_lib) h demo_patch w s = h (demo_patch\<lparr>rq_ctx := auth_ctx demo_patch 1\<rparr>) w s"
  "split_permissions (Header_Get demo_patch ''X-User-Permissions'') = [''reservations:checkin'']"
  using demo_uuid by (simp_all add: StubAuth_def demo_patch_def Get_value_def demo_lib_def split_permissions_def TrimSpace_def is_space_def Let_def)

lemma demo_chain: "route_chain demo_checkin (demo_patch\<lparr>rq_ctx := auth_ctx demo_patch 1\<rparr>) w s =
   respond batchStatus batch_json (\<lambda>c. CheckinReservation demo_env c 1) (demo_patch\<lparr>rq_ctx := auth_ctx demo_patch 1\<rparr>) w s"
  unfolding demo_auth(2)
  by (simp add: route_chain_def demo_checkin_def RequirePermission_def HasPermission_def GetPermissionsFromCtx_def SetPermissionsInCtx_def
      CheckinReservation_h_def with_param_def ParseUUIDParam_def demo_lib_def demo_patch_def Get_value_def)

lemma demo_checkin_runs:
  assumes "GetPropertyIDFromCtx c = 1" "ctxUserID c = None" "pool s = demo_db" "faults s = []"
  shows "\<exists>t. CheckinReservation demo_env c 1 s = (Inr [], t) \<and> faults t = [] \<and> redis t = redis s"
  using assms by (simp add: CheckinReservation_def checkinReservationTx_def in_property_tx_def ExecuteTx_def tx_body_def BeginTx_def Commit_def pop_fault_def
      bnd_def guard_def map_err_def ret_def throw_def SetCurrentPropertyID_def run_stmt_def stmt_effect_def no_effect_def GetUserIDFromCtx_def
      GetReservationItems_def query_def rls_view_def demo_env_def demo_db_def demo_item_def leave_tx_def Let_def)

lemma demo_patch_runs:
  assumes "pool s = demo_db" "faults s = []"
  shows "\<exists>t. StubAuth (uuid_Parse demo_lib) (route_chain demo_checkin) demo_patch w s = (WriteJSON 200 (batch_json []) w, t) \<and> faults t = []
    \<and> redis t = redis s"
proof -
  have "GetPropertyIDFromCtx (auth_ctx demo_patch 1) = 1" "ctxUserID (auth_ctx demo_patch 1) = None"
    by (simp_all add: SetPermissionsInCtx_def SetPropertyIDInCtx_def demo_patch_def demo_ctx_def GetPropertyIDFromCtx_def)
  from demo_checkin_runs [OF this assms] show ?thesis
    by (auto simp: demo_auth(1) demo_chain respond_def batchStatus_def)
qed

definition demo_fp2 :: string where
  "demo_fp2 = projr (requestFingerprint demo_patch)"

lemma keyed_demo_patch: "keyed demo_patch ''k1'' demo_fp2"
  by (simp add: keyed_def demo_fp2_def demo_patch_def requestFingerprint_def Get_value_def Let_def)

theorem repeated_request_runs_once_witness:
  "\<exists>c c' t. v1 demo_lib demo_env [] demo_env demo_checkin demo_patch (Conn (fresh_conn [])) demo_sess = (Conn c, t)
     \<and> v1 demo_lib demo_env [] demo_env demo_checkin demo_patch (Conn (fresh_conn [])) t = (Conn c', t)
     \<and> cn_Status c = Some 200 \<and> cn_Status c' = cn_Status c \<and> cn_Body c' = cn_Body c"
proof -
  let ?w = "Capture (newResponseCapture (fresh_conn []))" and ?s = "reserved demo_env ''k1'' demo_fp2 demo_sess"
  have "pool ?s = demo_db" "faults ?s = []" by (simp_all add: reserved_def demo_sess_def)
  from demo_patch_runs [OF this] obtain s1 where
    run: "StubAuth (uuid_Parse demo_lib) (route_chain demo_checkin) demo_patch ?w ?s = (WriteJSON 200 (batch_json []) ?w, s1)" "faults s1 = []"
    by blast
  obtain c t where first: "v1 demo_lib demo_env [] demo_env demo_checkin demo_patch (Conn (fresh_conn [])) demo_sess = (Conn c, t)"
    and st: "cn_Status c = Some 200" and t: "faults t = []"
    using run by (simp add: v1_def Idempotency_free [OF keyed_demo_patch demo_free(2,1)] serve_and_cache_def WriteJSON_def newResponseCapture_def fresh_conn_def
        capture_Write_def capture_WriteHeader_def conn_Write_def conn_WriteHeader_def Let_def cacheResponse_def redis_SetAll_def no_fault)
  have "faults (snd (StubAuth (uuid_Parse demo_lib) (route_chain demo_checkin) demo_patch ?w ?s)) = []" using run by simp
  from repeated_request_runs_once [OF demo_checkin_route demo_patch_path keyed_demo_patch keyed_demo_patch demo_free(2,1) _ this first st,
      of t demo_env "[]" demo_env demo_checkin "[]"] t
  obtain c' where "v1 demo_lib demo_env [] demo_env demo_checkin demo_patch (Conn (fresh_conn [])) t = (Conn c', t)"
    "cn_Status c' = cn_Status c" "cn_Body c' = cn_Body c"
    by (auto simp: hour_ns_def minute_ns_def second_ns_def)
  with first st show ?thesis by metis
qed


theorem api_isolates_tenants_witness:
  "foreign 1 (pool (snd (v1 demo_lib demo_env [] demo_env (demo_checkin\<lparr>rt_handler := CheckinReservation_h demo_lib (with_rls demo_env)\<rparr>)
      demo_patch (Conn (fresh_conn [])) demo_sess))) = foreign 1 demo_db"
proof -
  let ?x = "demo_checkin\<lparr>rt_handler := CheckinReservation_h demo_lib (with_rls demo_env)\<rparr>"
  have x: "?x \<in> set (Routes demo_lib (with_rls demo_env))" by (simp add: demo_checkin_def Routes_def)
  have p: "uuid_Parse demo_lib (Header_Get demo_patch ''X-Property-ID'') \<in> {None, Some 1}"
    by (simp add: demo_lib_def demo_patch_def Get_value_def)
  obtain w t where run: "v1 demo_lib demo_env [] demo_env ?x demo_patch (Conn (fresh_conn [])) demo_sess = (w, t)" by fastforce
  from api_isolates_tenants [OF x demo_patch_path p _ _ run] run show ?thesis by (simp add: demo_sess_def)
qed


theorem every_request_is_answered_witness:
  "cn_Status (rw_conn (fst (v1 demo_lib demo_env [] demo_env demo_checkin demo_patch (Conn (fresh_conn [])) demo_sess))) \<noteq> None"
  by (rule every_request_is_answered [OF demo_checkin_route demo_patch_path]) (simp_all add: calm_def demo_sess_def)

definition demo_confirm :: route where
  "demo_confirm = \<lparr>rt_method = ''POST'', rt_pattern = ''/{id}/confirm'', rt_ifMatch = True,
     rt_perm = Some ''reservations:confirm'', rt_handler = Confirm_h demo_lib demo_env\<rparr>"

definition demo_confirm_post :: http_request where
  "demo_confirm_post = demo_patch\<lparr>rq_Method := ''POST'', rq_Header := [''X-Property-ID'' \<mapsto> uuid_text 1,
     ''X-User-Permissions'' \<mapsto> ''reservations:confirm'', ''If-Match'' \<mapsto> ''1'']\<rparr>"

theorem version_required_witness:
  "\<exists>v c req w' t. StubAuth (uuid_Parse demo_lib) (route_chain demo_confirm) demo_confirm_post (Conn (fresh_conn []))
       (demo_sess\<lparr>faults := [Some ContextCanceled]\<rparr>) = (w', t)
     \<and> strconv_Atoi (Trim_quotes (Header_Get demo_confirm_post ''If-Match'')) = Some v \<and> 1 \<le> v \<and> GetIfMatchVersion c = int32 v
     \<and> t = serve demo_env c req (demo_sess\<lparr>faults := [Some ContextCanceled]\<rparr>)"
proof -
  let ?s = "demo_sess\<lparr>faults := [Some ContextCanceled]\<rparr>"
  let ?out = "StubAuth (uuid_Parse demo_lib) (route_chain demo_confirm) demo_confirm_post (Conn (fresh_conn [])) ?s"
  obtain w' t where run: "?out = (w', t)" by fastforce
  have "demo_confirm \<in> set (Routes demo_lib demo_env)" "rt_ifMatch demo_confirm" "rq_Method demo_confirm_post = rt_method demo_confirm"
    "take 3 (rq_Path demo_confirm_post) = ''/v1''"
    by (simp_all add: demo_confirm_def Routes_def demo_confirm_post_def demo_patch_def)
  moreover have "faults (snd ?out) = []"
    using demo_uuid by (simp add: StubAuth_def demo_confirm_post_def demo_patch_def demo_lib_def Get_value_def Let_def
      split_permissions_def TrimSpace_def is_space_def route_chain_def demo_confirm_def RequireIfMatch_def Trim_quotes_def parse_digits_def is_digit_def
      digit_val_def in_int64_def read_nat_def RequirePermission_def HasPermission_def GetPermissionsFromCtx_def SetPermissionsInCtx_def
      SetIfMatchVersion_def SetPropertyIDInCtx_def Confirm_h_def with_param_def ParseUUIDParam_def respond_def ConfirmReservation_def ExecuteTx_def BeginTx_def pop_fault_def
      in_property_tx_def bnd_def guard_def ret_def GetPropertyIDFromCtx_def demo_ctx_def)
  with run have "t \<noteq> ?s" by auto
  ultimately show ?thesis using version_required [OF _ _ _ _ run] run by metis
qed

definition demo_inline :: http_request where
  "demo_inline = demo_patch\<lparr>rq_Method := ''POST'', rq_Body := Inr ''{\"guest\":{\"first_name\":\"Ann\"}}''\<rparr>"

theorem inline_guest_is_refused_witness:
  "\<exists>c x. ReadJSON demo_inline (json_create (uuid_Parse demo_lib)) = Inr x \<and> map_option gp_FirstName (Guest x) = Some ''Ann''
     \<and> Create_h demo_lib demo_env demo_inline (Conn (fresh_conn [])) demo_sess = (Conn c, demo_sess) \<and> cn_Status c = Some 422"
proof -
  have "json_decode ''{\"guest\":{\"first_name\":\"Ann\"}}'' = Some (JObj [(''guest'', JObj [(''first_name'', JStr ''Ann'')])])"
    by code_simp
  then have "\<exists>x. ReadJSON demo_inline (json_create (uuid_Parse demo_lib)) = Inr x \<and> PrimaryGuestID x = None \<and> map_option gp_FirstName (Guest x) = Some ''Ann''"
    by (simp add: ReadJSON_def demo_inline_def json_create_def create_fields_def find_field_def as_pointer_def json_guest_def guest_fields_def as_string_def
      zero_create_def zero_guest_def lower_char_def)
  then show ?thesis using inline_guest_is_refused [of demo_inline demo_lib _ demo_env "[]" demo_sess] by metis
qed

end
