(* ===== verification/RealtimeExamples.thy ===== *)
theory RealtimeExamples
  imports Cache WebExamples
begin

text \<open>The theorems about events and the cache on one client, one event and a small cache.\<close>

section \<open>The hub\<close>

definition demo_subscribe :: http_request where
  "demo_subscribe = demo_patch\<lparr>rq_Method := ''GET'', rq_Query := [''property_id'' \<mapsto> uuid_text 1]\<rparr>"

definition demo_client :: client where
  "demo_client = \<lparr>cl_id = 0, cl_property = 1, cl_buffer = [], cl_frames = []\<rparr>"

definition demo_hub :: Hub where
  "demo_hub = \<lparr>hb_clients = [demo_client], hb_next = 1\<rparr>"

definition demo_event :: Event where
  "demo_event = \<lparr>ev_Channel = ''reservation_changes'', ev_Data = [(''property_id'', JStr (uuid_text 1))], ev_Timestamp = []\<rparr>"

abbreviation demo_up :: "string \<Rightarrow> uuid option" where "demo_up \<equiv> uuid_Parse demo_lib"

lemma demo_resolve: "resolvePropertyID demo_up demo_subscribe = Inr 1"
  using demo_uuid by (simp add: resolvePropertyID_def demo_subscribe_def demo_patch_def demo_lib_def Get_value_def demo_ctx_def GetPropertyIDFromCtx_def Let_def)

lemma demo_subscribed: "hub_step demo_up id NewHub demo_hub"
proof -
  have "snd (Subscribe demo_up demo_subscribe (Plain (Conn (fresh_conn []))) NewHub) = demo_hub"
    by (simp add: Subscribe_def demo_resolve Let_def sse_headers_def maxSSEClients_def NewHub_def demo_hub_def demo_client_def)
  then show ?thesis by (metis hub_step.subscribe)
qed

lemma demo_event_property: "event_property demo_up demo_event = Some 1"
  by (simp add: event_property_def Data_string_def Data_get_def demo_event_def demo_lib_def)

theorem event_delivery_witness:
  "sent_to (hb_clients (snd (OnEvent demo_up id (\<lambda>i. 0) demo_event demo_hub)) ! 0) = [ConvertEventToSSEMessage id demo_event]"
  using event_delivery [OF demo_event_property, of 0 demo_hub id "\<lambda>i. 0"]
  by (simp add: demo_hub_def demo_client_def sent_to_def bufferSize_def)

theorem clients_see_their_property_witness:
  "\<exists>h c. (hub_step demo_up id)\<^sup>*\<^sup>* NewHub h \<and> c \<in> set (hb_clients h) \<and> sent_to c \<noteq> [] \<and> for_property demo_up id (cl_property c) (hd (sent_to c))"
proof -
  let ?h = "snd (OnEvent demo_up id (\<lambda>i. 0) demo_event demo_hub)"
  have "(hub_step demo_up id)\<^sup>*\<^sup>* NewHub demo_hub" using demo_subscribed by (rule r_into_rtranclp)
  then have reach: "(hub_step demo_up id)\<^sup>*\<^sup>* NewHub ?h" by (rule rtranclp.rtrancl_into_rtrancl) (rule hub_step.event)
  obtain c where c: "c \<in> set (hb_clients ?h)" "sent_to c = [ConvertEventToSSEMessage id demo_event]"
    by (simp add: OnEvent_def demo_event_property fanOut_def demo_hub_def demo_client_def send_def bufferSize_def sent_to_def)
  with clients_see_their_property [OF reach c(1), of "hd (sent_to c)"] reach show ?thesis by fastforce
qed

theorem streaming_never_starts_witness:
  "\<exists>c line. RequestLogger ''10.0.0.1:80'' (Subscribe demo_up) demo_subscribe (Conn (fresh_conn [])) NewHub = ((Conn c, NewHub), Some line)
     \<and> cn_Status c = Some 500 \<and> ll_status line = 500"
  by (rule streaming_never_starts [OF demo_resolve])

theorem listener_backoff_witness:
  "rs_backoff (fst (run_listener (New_listener None) (replicate 7 \<lparr>cx_connect = Some ContextCanceled, cx_listen = None, cx_waits = []\<rparr>) run_start ()))
   = 64 * second_ns"
  using listener_backoff [of "replicate 7 \<lparr>cx_connect = Some ContextCanceled, cx_listen = None, cx_waits = []\<rparr>" "New_listener None :: unit Listener" "()"]
  by (simp add: numeral_eq_Suc)

section \<open>The cache\<close>

definition demo_glob :: "string \<Rightarrow> string \<Rightarrow> bool" where
  "demo_glob p k = (if p \<noteq> [] \<and> last p = CHR ''*'' then take (length p - 1) k = butlast p else p = k)"

definition demo_scan :: scanner where
  "demo_scan p s = [sorted_list_of_set {k \<in> dom (redis s). demo_glob p k}]"

definition planner_key :: string where
  "planner_key = ''yop:planner:p1:0001-01-12:0001-01-20''"

lemma demo_scans: "scans demo_glob demo_scan" "globs demo_glob"
proof -
  have "finite (dom m) \<Longrightarrow> finite {k \<in> dom m. demo_glob p k}" for m :: "string \<rightharpoonup> string \<times> time" and p
    by (rule finite_subset [of _ "dom m"]) auto
  then show "scans demo_glob demo_scan" by (auto simp: scans_def demo_scan_def)
  show "globs demo_glob" by (simp add: globs_def demo_glob_def)
qed

definition demo_stay_event :: Event where
  "demo_stay_event = \<lparr>ev_Channel = ''reservation_changes'', ev_Data = [(''property_id'', JStr ''p1''), (''check_in_date'', JStr ''0001-01-11''),
     (''check_out_date'', JStr ''0001-01-13'')], ev_Timestamp = []\<rparr>"

definition demo_change :: parsedChange where
  "demo_change = \<lparr>rp_Operation = [], rp_PropertyID = ''p1'', rp_RecordID = [], rp_CheckInDate = ''0001-01-11'',
     rp_CheckOutDate = ''0001-01-13'', rp_Table = [], pc_CheckIn = 10 * day_ns, pc_CheckOut = 12 * day_ns\<rparr>"

lemma demo_dates_parsed: "parse_date ''0001-01-11'' = Some (10 * day_ns)" "parse_date ''0001-01-13'' = Some (12 * day_ns)"
  "parse_date ''0001-01-12'' = Some (11 * day_ns)" "parse_date ''0001-01-20'' = Some (19 * day_ns)"
  by code_simp+

lemma demo_change_parsed: "parseReservationChange id demo_stay_event = Inr demo_change"
proof -
  let ?v = "JObj [(''check_in_date'', JStr ''0001-01-11''), (''check_out_date'', JStr ''0001-01-13''), (''property_id'', JStr ''p1'')]"
  have "through_any id (JObj (ev_Data demo_stay_event)) = ?v" by (simp add: demo_stay_event_def less_eq_char_def)
  moreover have "json_unmarshal (json_write ?v) = Some ?v" by (rule json_roundtrip) simp
  ultimately show ?thesis
    by (simp add: parseReservationChange_def payload_fields_def find_field_def as_string_def zero_payload_def demo_dates_parsed demo_change_def
        reservationChangePayload.defs)
qed

lemma planner_key_stale: "stale demo_glob demo_change planner_key"
  by (simp add: stale_def plannerKeyOverlaps_def demo_change_def planner_key_def demo_dates_parsed Let_def day_ns_def)


theorem service_notifications_are_lost_witness:
  "\<exists>t payload. notifyReservationChange ''created'' 20 demo_sess = (Inr (), t)
     \<and> notifications (data t) = notifications (data demo_sess) @ [(''reservation_changes'', payload)]
     \<and> dispatch (eventListener demo_up id demo_scan (\<lambda>i. 0)) [] id \<lparr>nt_Channel = ''reservation_changes'', nt_Payload = payload\<rparr> (demo_hub, demo_sess)
       = (demo_hub, demo_sess)"
proof -
  obtain t where t: "notifyReservationChange ''created'' 20 demo_sess = (Inr (), t)"
    by (simp add: notifyReservationChange_def NotifyChannel_def run_stmt_def stmt_effect_def pop_fault_def demo_sess_def)
  from service_notifications_are_lost [OF t, where order = id] t show ?thesis by fastforce
qed

end
