(* ===== verification/Regex.thy ===== *)
theory Regex
  imports Json
begin

text \<open>
  What the build tools use of \<open>regexp\<close>: regular expressions with groups, anchors and word boundaries, on ASCII text.

  A run of an expression from a position gives all positions where it can end, in the order of preference of the
  library: earlier alternatives and longer repetitions first. The match is the first one at the leftmost
  position that has any. A position holds the groups so far, the text before it (reversed) and the text after it.
\<close>

section \<open>Expressions\<close>

datatype rx =
    Eps
  | Chr "char \<Rightarrow> bool"
  | Cat rx rx
  | Or rx rx
  | Many rx
  | Group nat rx
  | TextStart
  | TextEnd
  | WordBoundary

type_synonym pos = "(nat \<times> string) list \<times> string \<times> string"

abbreviation rest :: "pos \<Rightarrow> string" where "rest p \<equiv> snd (snd p)"

definition in_range :: "nat \<Rightarrow> nat \<Rightarrow> char \<Rightarrow> bool" where
  "in_range a b c \<longleftrightarrow> a \<le> of_char c \<and> of_char c \<le> b"

definition is_word :: "char \<Rightarrow> bool" where
  "is_word c \<longleftrightarrow> in_range 48 57 c \<or> in_range 65 90 c \<or> in_range 97 122 c \<or> c = CHR ''_''"

definition is_blank :: "char \<Rightarrow> bool" where
  "is_blank c \<longleftrightarrow> c \<in> {CHR 0x09, CHR 0x0A, CHR 0x0C, CHR 0x0D, CHR '' ''}"

definition at_boundary :: "string \<Rightarrow> string \<Rightarrow> bool" where
  "at_boundary b r \<longleftrightarrow> (b \<noteq> [] \<and> is_word (hd b)) \<noteq> (r \<noteq> [] \<and> is_word (hd r))"

fun many :: "nat \<Rightarrow> (pos \<Rightarrow> pos list) \<Rightarrow> pos \<Rightarrow> pos list" where
  "many 0 f p = [p]"
| "many (Suc n) f p = concat (map (\<lambda>q. if length (rest q) < length (rest p) then many n f q else []) (f p)) @ [p]"

fun run :: "rx \<Rightarrow> pos \<Rightarrow> pos list" where
  "run Eps p = [p]"
| "run (Chr P) (cs, b, r) = (case r of [] \<Rightarrow> [] | c # r' \<Rightarrow> if P c then [(cs, c # b, r')] else [])"
| "run (Cat x y) p = concat (map (run y) (run x p))"
| "run (Or x y) p = run x p @ run y p"
| "run (Many x) p = many (length (rest p)) (run x) p"
| "run (Group n x) (cs, b, r) =
     map (\<lambda>(cs', b', r'). ((n, rev (take (length b' - length b) b')) # cs', b', r')) (run x (cs, b, r))"
| "run TextStart (cs, b, r) = (if b = [] then [(cs, b, r)] else [])"
| "run TextEnd (cs, b, r) = (if r = [] then [(cs, b, r)] else [])"
| "run WordBoundary (cs, b, r) = (if at_boundary b r then [(cs, b, r)] else [])"

section \<open>Searching\<close>

fun search :: "rx \<Rightarrow> string \<Rightarrow> string \<Rightarrow> (string \<times> pos) option" where
  "search x b [] = (case run x ([], b, []) of [] \<Rightarrow> None | p # _ \<Rightarrow> Some (b, p))"
| "search x b (c # s) = (case run x ([], b, c # s) of [] \<Rightarrow> search x (c # b) s | p # _ \<Rightarrow> Some (b, p))"

type_synonym submatch = "(nat \<times> string) list"

definition grp :: "submatch \<Rightarrow> nat \<Rightarrow> string" where
  "grp m n = (case map_of m n of Some t \<Rightarrow> t | None \<Rightarrow> [])"

definition submatch_of :: "string \<times> pos \<Rightarrow> submatch" where
  "submatch_of = (\<lambda>(b, cs, b', r). (0, rev (take (length b' - length b) b')) # cs)"

definition FindStringSubmatch :: "rx \<Rightarrow> string \<Rightarrow> submatch option" where
  "FindStringSubmatch x s = map_option submatch_of (search x [] s)"

definition MatchString :: "rx \<Rightarrow> string \<Rightarrow> bool" where
  "MatchString x s \<longleftrightarrow> search x [] s \<noteq> None"

function find_all :: "rx \<Rightarrow> string \<Rightarrow> string \<Rightarrow> (string \<times> pos) list" where
  "find_all x b s = (case search x b s of
     None \<Rightarrow> []
   | Some (b', p) \<Rightarrow> (b', p) # (if length (rest p) < length s then find_all x (fst (snd p)) (rest p)
       else case s of [] \<Rightarrow> [] | c # s' \<Rightarrow> find_all x (c # b) s'))"
  by pat_completeness auto
termination
  by (relation "measure (\<lambda>(x, b, s). length s)") auto

declare find_all.simps [simp del]

definition FindAllStringSubmatch :: "rx \<Rightarrow> string \<Rightarrow> submatch list" where
  "FindAllStringSubmatch x s = map submatch_of (find_all x [] s)"

definition FindAllString :: "rx \<Rightarrow> string \<Rightarrow> string list" where
  "FindAllString x s = map (\<lambda>m. grp m 0) (FindAllStringSubmatch x s)"

fun cut_out :: "nat \<Rightarrow> string \<Rightarrow> (string \<times> pos) list \<Rightarrow> string" where
  "cut_out i s [] = drop i s"
| "cut_out i s ((b, p) # ms) = take (length b - i) (drop i s) @ cut_out (length s - length (rest p)) s ms"

definition RemoveAllString :: "rx \<Rightarrow> string \<Rightarrow> string" where
  "RemoveAllString x s = cut_out 0 s (find_all x [] s)"

section \<open>Notation of the patterns\<close>

definition Opt :: "rx \<Rightarrow> rx" where "Opt x = Or x Eps"
definition Plus :: "rx \<Rightarrow> rx" where "Plus x = Cat x (Many x)"

fun seq :: "rx list \<Rightarrow> rx" where
  "seq [] = Eps"
| "seq [x] = x"
| "seq (x # y # r) = Cat x (seq (y # r))"

definition lit :: "string \<Rightarrow> rx" where
  "lit s = seq (map (\<lambda>c. Chr (\<lambda>d. d = c)) s)"

definition lit_i :: "string \<Rightarrow> rx" where
  "lit_i s = seq (map (\<lambda>c. Chr (\<lambda>d. lower_char d = lower_char c)) s)"

definition words :: rx where "words = Plus (Chr is_word)"
definition digits :: rx where "digits = Plus (Chr is_digit)"
definition blanks :: rx where "blanks = Many (Chr is_blank)"
definition blanks1 :: rx where "blanks1 = Plus (Chr is_blank)"
definition cast :: rx where "cast = Opt (Cat (lit ''::'') words)"

end
