(* ===== verification/SyncConstraints.thy ===== *)
theory SyncConstraints
  imports Regex "HOL-Library.AList" "HOL-Library.List_Lexorder" "HOL-Library.Char_ord"
begin

text \<open>
  The generator of the validation rules (\<open>cmd/tools/sync-constraints\<close>): how the CHECK clauses, the NOT NULL columns and
  the exclusion constraints of the database become the rules of \<open>config/constraints.g.yml\<close>.

  The rows of the three queries are arguments. A Go map is an association list whose order is not observed: the writers
  sort their keys. The YAML document is the tree the tool builds; the text of the tree is made by the library.
\<close>

section \<open>types.go\<close>

record JsonbRule =
  jb_Required :: bool
  jb_Pattern :: "string option"
  jb_Min :: "int option"
  jb_Max :: "int option"

record FieldConstraint =
  fk_Required :: bool
  fk_RequiredWith :: string
  fk_ValidRange :: bool
  fk_MaxLength :: "int option"
  fk_MinLength :: "int option"
  fk_ExactLength :: "int option"
  fk_Min :: "int option"
  fk_Max :: "int option"
  fk_Pattern :: "string option"
  fk_Jsonb :: "(string \<times> JsonbRule) list"

record Comparison =
  cm_Field :: string
  cm_Operator :: string
  cm_Other :: string

record Entry =
  en_Fields :: "(string \<times> FieldConstraint) list"
  en_Comparisons :: "Comparison list"
  en_Notes :: "string list"

type_synonym constraintMap = "(string \<times> Entry) list"

definition internalFields :: "string list" where "internalFields = [''password_hash'']"
definition systemColumns :: "string list" where "systemColumns = [''id'', ''created_at'', ''updated_at'', ''deleted_at'']"
definition functionNames :: "string list" where "functionNames = [''char_length'', ''length'', ''lower'', ''upper'', ''jsonb_typeof'']"

abbreviation open_paren :: rx where "open_paren \<equiv> Opt (lit ''('')"
abbreviation close_paren :: rx where "close_paren \<equiv> Opt (lit '')'')"

definition char_length_of :: "rx list" where
  "char_length_of = [lit_i ''char_length('', open_paren, Group 1 words, close_paren, cast, lit '')'']"

definition column :: "rx list" where
  "column = [open_paren, Group 1 words, close_paren, cast]"

definition between :: "rx list" where
  "between = [blanks1, lit_i ''between'', blanks1, Group 2 digits, blanks1, lit_i ''and'', blanks1, Group 3 digits]"

definition reCharLenLTE :: rx where "reCharLenLTE = seq (char_length_of @ [blanks, lit ''<='', blanks, Group 2 digits])"
definition reCharLenBetween :: rx where "reCharLenBetween = seq (char_length_of @ between)"
definition reCharLenEQ :: rx where "reCharLenEQ = seq (char_length_of @ [blanks, lit ''='', blanks, Group 2 digits])"

definition quote :: char where "quote = CHR 0x27"

definition reRegex :: rx where
  "reRegex = seq (column @ [blanks, lit ''~'', blanks, lit [quote], Group 2 (Plus (Chr (\<lambda>c. c \<noteq> quote))), lit [quote]])"

definition reBetween :: rx where "reBetween = seq (column @ between)"
definition reGTE :: rx where "reGTE = seq (column @ [blanks, lit ''>='', blanks, Group 2 digits])"
definition reGT :: rx where "reGT = seq (column @ [blanks, lit ''>'', blanks, Group 2 digits])"

definition bound_of :: "string \<Rightarrow> nat \<Rightarrow> rx list" where
  "bound_of name n = [lit_i name, lit ''('', open_paren, Group n words, close_paren, lit '')'']"

definition reRangeValid :: rx where
  "reRangeValid = Or (seq (bound_of ''lower'' 1 @ [blanks, lit ''<'', blanks] @ bound_of ''upper'' 2))
     (seq (bound_of ''upper'' 3 @ [blanks, lit ''>'', blanks] @ bound_of ''lower'' 4))"

definition reCrossCol :: rx where
  "reCrossCol = seq ([TextStart, blanks] @ column @ [blanks,
     Group 2 (Or (lit ''>='') (Or (lit ''<='') (Or (lit ''!='') (Or (lit ''>'') (lit ''<''))))), blanks,
     open_paren, Group 3 words, close_paren, cast, blanks, TextEnd])"

definition reIsNotNull :: rx where
  "reIsNotNull = seq [open_paren, Group 1 words, close_paren, blanks1, lit_i ''IS'', blanks1, lit_i ''NOT'', blanks1, lit_i ''NULL'']"

definition reIsNull :: rx where
  "reIsNull = seq [open_paren, Group 1 words, close_paren, blanks1, lit_i ''IS'', blanks1, lit_i ''NULL'']"

definition quoted_word :: "nat \<Rightarrow> rx" where
  "quoted_word n = seq [lit [quote], Group n words, lit [quote], cast]"

definition reJsonbHasKey :: rx where
  "reJsonbHasKey = seq [Group 1 words, blanks, lit ''?'', blanks, quoted_word 2]"

definition reJsonbInList :: rx where
  "reJsonbInList = seq [open_paren, Group 1 words, close_paren, blanks, lit ''->>'', blanks, quoted_word 2, close_paren, blanks1,
     lit_i ''IN'', blanks, lit ''('', Group 3 (Plus (Chr (\<lambda>c. c \<noteq> CHR '')''))), lit '')'']"

definition reJsonbAnyArr :: rx where
  "reJsonbAnyArr = seq [open_paren, Group 1 words, close_paren, blanks, lit ''->>'', blanks, quoted_word 2, close_paren, blanks,
     lit ''='', blanks, lit_i ''ANY'', blanks, lit ''('', lit_i ''ARRAY'', lit ''['', Group 3 (Plus (Chr (\<lambda>c. c \<noteq> CHR '']''))), lit ''])'']"

definition reQuotedVal :: rx where
  "reQuotedVal = seq [lit [quote], Group 1 (Plus (Or (lit [quote, quote]) (Chr (\<lambda>c. c \<noteq> quote)))), lit [quote]]"

section \<open>parse.go: parentheses and null checks\<close>

definition trim_blanks :: "string \<Rightarrow> string" where
  "trim_blanks s = rev (dropWhile (\<lambda>c. is_blank c \<or> c = CHR 0x0B) (rev (dropWhile (\<lambda>c. is_blank c \<or> c = CHR 0x0B) s)))"

fun depth_loop :: "int \<Rightarrow> int \<Rightarrow> string \<Rightarrow> int" where
  "depth_loop depth minDepth [] = minDepth"
| "depth_loop depth minDepth (c # s) =
     (if c = CHR ''('' then depth_loop (depth + 1) minDepth s
      else if c = CHR '')'' then depth_loop (depth - 1) (min minDepth (depth - 1)) s
      else depth_loop depth minDepth s)"

definition parenDepth :: "string \<Rightarrow> int" where
  "parenDepth s = depth_loop 0 0 s"

lemma length_trim_blanks: "length (trim_blanks s) \<le> length s"
  using length_dropWhile_le [of _ s] length_dropWhile_le [of _ "rev (dropWhile (\<lambda>c. is_blank c \<or> c = CHR 0x0B) s)"]
  by (auto simp: trim_blanks_def intro: order_trans)

function strip_loop :: "string \<Rightarrow> string" where
  "strip_loop s =
     (if 2 \<le> length s \<and> hd s = CHR ''('' \<and> last s = CHR '')'' \<and> 0 \<le> parenDepth (butlast (tl s))
      then strip_loop (trim_blanks (butlast (tl s))) else s)"
  by auto
termination
proof (relation "measure length")
  fix s :: string
  assume "2 \<le> length s \<and> hd s = CHR ''('' \<and> last s = CHR '')'' \<and> 0 \<le> parenDepth (butlast (tl s))"
  then show "(trim_blanks (butlast (tl s)), s) \<in> measure length"
    using length_trim_blanks [of "butlast (tl s)"] by auto
qed simp

declare strip_loop.simps [simp del]

definition stripOuterParens :: "string \<Rightarrow> string" where
  "stripOuterParens s = strip_loop (trim_blanks s)"

definition upper_char :: "char \<Rightarrow> char" where
  "upper_char c = (let n = of_char c :: nat in if 97 \<le> n \<and> n \<le> 122 then char_of (n - 32) else c)"

definition has_suffix :: "string \<Rightarrow> string \<Rightarrow> bool" where
  "has_suffix s suf \<longleftrightarrow> length suf \<le> length s \<and> drop (length s - length suf) s = suf"

definition isNullCheck :: "string \<Rightarrow> bool" where
  "isNullCheck clause = (let up = map upper_char (trim_blanks clause) in has_suffix up ''IS NOT NULL'' \<or> has_suffix up ''IS NULL'')"

definition no_constraint :: FieldConstraint where
  "no_constraint = \<lparr>fk_Required = False, fk_RequiredWith = [], fk_ValidRange = False, fk_MaxLength = None, fk_MinLength = None,
     fk_ExactLength = None, fk_Min = None, fk_Max = None, fk_Pattern = None, fk_Jsonb = []\<rparr>"

definition isEmpty :: "FieldConstraint \<Rightarrow> bool" where
  "isEmpty fc \<longleftrightarrow> \<not> fk_Required fc \<and> \<not> fk_ValidRange fc \<and> fk_RequiredWith fc = [] \<and> fk_MaxLength fc = None \<and> fk_MinLength fc = None
     \<and> fk_ExactLength fc = None \<and> fk_Min fc = None \<and> fk_Max fc = None \<and> fk_Pattern fc = None \<and> fk_Jsonb fc = []"

definition getOrCreate :: "constraintMap \<Rightarrow> string \<Rightarrow> Entry" where
  "getOrCreate cm key = (case map_of cm key of Some e \<Rightarrow> e | None \<Rightarrow> \<lparr>en_Fields = [], en_Comparisons = [], en_Notes = []\<rparr>)"

definition getOrCreateField :: "Entry \<Rightarrow> string \<Rightarrow> FieldConstraint" where
  "getOrCreateField e field = (case map_of (en_Fields e) field of Some fc \<Rightarrow> fc | None \<Rightarrow> no_constraint)"

definition update_field :: "string \<Rightarrow> (FieldConstraint \<Rightarrow> FieldConstraint) \<Rightarrow> Entry \<Rightarrow> Entry" where
  "update_field field f e = e\<lparr>en_Fields := AList.update field (f (getOrCreateField e field)) (en_Fields e)\<rparr>"

section \<open>parse.go: clauses on one field\<close>

definition int64 :: "int \<Rightarrow> int" where
  "int64 i = sint (word_of_int i :: 64 word)"

definition atoi :: "string \<Rightarrow> int" where
  "atoi t = (case strconv_Atoi t of Some n \<Rightarrow> n | None \<Rightarrow> if t \<noteq> [] \<and> list_all is_digit t then 9223372036854775807 else 0)"

type_synonym clause_state = "string \<times> FieldConstraint \<times> bool"

definition found :: "string \<Rightarrow> (FieldConstraint \<Rightarrow> FieldConstraint) \<Rightarrow> clause_state \<Rightarrow> clause_state" where
  "found candidate f = (\<lambda>(col, fc, matched). (if col = [] then candidate else col, f fc, True))"

definition on_match :: "submatch option \<Rightarrow> (submatch \<Rightarrow> clause_state \<Rightarrow> clause_state) \<Rightarrow> clause_state \<Rightarrow> clause_state" where
  "on_match m k st = (case m of None \<Rightarrow> st | Some x \<Rightarrow> k x st)"

definition unless_function :: "submatch \<Rightarrow> (clause_state \<Rightarrow> clause_state) \<Rightarrow> clause_state \<Rightarrow> clause_state" where
  "unless_function m k st = (if grp m 1 \<in> set functionNames then st else k st)"

definition length_between :: "submatch \<Rightarrow> clause_state \<Rightarrow> clause_state" where
  "length_between m = found (grp m 1) (\<lambda>fc. fc\<lparr>fk_MinLength := Some (atoi (grp m 2)), fk_MaxLength := Some (atoi (grp m 3))\<rparr>)"

definition length_eq :: "submatch \<Rightarrow> clause_state \<Rightarrow> clause_state" where
  "length_eq m = found (grp m 1) (\<lambda>fc. fc\<lparr>fk_ExactLength := Some (atoi (grp m 2))\<rparr>)"

definition length_lte :: "submatch \<Rightarrow> clause_state \<Rightarrow> clause_state" where
  "length_lte m = found (grp m 1) (\<lambda>fc. fc\<lparr>fk_MaxLength := Some (atoi (grp m 2))\<rparr>)"

definition pattern_of :: "submatch \<Rightarrow> clause_state \<Rightarrow> clause_state" where
  "pattern_of m = unless_function m (found (grp m 1) (\<lambda>fc. fc\<lparr>fk_Pattern := Some (grp m 2)\<rparr>))"

definition value_between :: "submatch \<Rightarrow> clause_state \<Rightarrow> clause_state" where
  "value_between m = unless_function m (found (grp m 1) (\<lambda>fc. fc\<lparr>fk_Min := Some (atoi (grp m 2)), fk_Max := Some (atoi (grp m 3))\<rparr>))"

definition value_gte :: "submatch \<Rightarrow> clause_state \<Rightarrow> clause_state" where
  "value_gte m = unless_function m (found (grp m 1) (\<lambda>fc. fc\<lparr>fk_Min := Some (atoi (grp m 2))\<rparr>))"

definition value_gt :: "submatch \<Rightarrow> clause_state \<Rightarrow> clause_state" where
  "value_gt m = unless_function m (found (grp m 1) (\<lambda>fc. fc\<lparr>fk_Min := Some (int64 (atoi (grp m 2) + 1))\<rparr>))"

definition parseClause :: "string \<Rightarrow> string \<Rightarrow> (string \<times> FieldConstraint) option" where
  "parseClause clause columnName =
     (let st = on_match (FindStringSubmatch reGT clause) value_gt
        (on_match (FindStringSubmatch reGTE clause) value_gte
        (on_match (FindStringSubmatch reBetween clause) value_between
        (fold pattern_of (FindAllStringSubmatch reRegex clause)
        (on_match (FindStringSubmatch reCharLenLTE clause) length_lte
        (on_match (FindStringSubmatch reCharLenEQ clause) length_eq
        (on_match (FindStringSubmatch reCharLenBetween clause) length_between (columnName, no_constraint, False)))))))
      in if snd (snd st) then Some (fst st, fst (snd st)) else None)"

definition or_else :: "'a option \<Rightarrow> 'a option \<Rightarrow> 'a option" where
  "or_else a b = (case a of None \<Rightarrow> b | Some x \<Rightarrow> Some x)"

definition mergeField :: "FieldConstraint \<Rightarrow> FieldConstraint \<Rightarrow> FieldConstraint" where
  "mergeField dst src = dst\<lparr>fk_MaxLength := or_else (fk_MaxLength src) (fk_MaxLength dst), fk_MinLength := or_else (fk_MinLength src) (fk_MinLength dst),
     fk_ExactLength := or_else (fk_ExactLength src) (fk_ExactLength dst), fk_Min := or_else (fk_Min src) (fk_Min dst),
     fk_Max := or_else (fk_Max src) (fk_Max dst), fk_Pattern := or_else (fk_Pattern src) (fk_Pattern dst),
     fk_ValidRange := fk_ValidRange src \<or> fk_ValidRange dst,
     fk_RequiredWith := (if fk_RequiredWith src \<noteq> [] then fk_RequiredWith src else fk_RequiredWith dst)\<rparr>"

section \<open>parse.go: clauses on several fields\<close>

definition uniqueWordMatches :: "rx \<Rightarrow> string \<Rightarrow> string list" where
  "uniqueWordMatches re s = sort (remdups (map (\<lambda>m. grp m 1) (FindAllStringSubmatch re s)))"

definition filterColNames :: "string list \<Rightarrow> string list" where
  "filterColNames cols = filter (\<lambda>c. c \<notin> set functionNames \<and> c \<notin> set systemColumns) cols"

definition parseRequiredWith :: "string \<Rightarrow> (string \<times> string) option" where
  "parseRequiredWith clause =
     (let notNullCols = filterColNames (uniqueWordMatches reIsNotNull clause);
          nullCols = filterColNames (uniqueWordMatches reIsNull (RemoveAllString reIsNotNull clause))
      in if length notNullCols = 2 \<and> notNullCols = nullCols then Some (notNullCols ! 0, notNullCols ! 1) else None)"

definition parseRangeValidity :: "string \<Rightarrow> string option" where
  "parseRangeValidity clause = (case FindStringSubmatch reRangeValid clause of
     None \<Rightarrow> None
   | Some m \<Rightarrow> (let (a, b) = (if grp m 1 = [] then (grp m 3, grp m 4) else (grp m 1, grp m 2)) in if a = b then Some a else None))"

definition parseCrossCol :: "string \<Rightarrow> Comparison option" where
  "parseCrossCol clause = (case FindStringSubmatch reCrossCol clause of
     None \<Rightarrow> None
   | Some m \<Rightarrow>
       if grp m 1 \<in> set functionNames \<or> grp m 3 \<in> set functionNames \<or> strconv_Atoi (grp m 1) \<noteq> None \<or> strconv_Atoi (grp m 3) \<noteq> None
       then None else Some \<lparr>cm_Field = grp m 1, cm_Operator = grp m 2, cm_Other = grp m 3\<rparr>)"

definition extractQuotedValues :: "string \<Rightarrow> string list" where
  "extractQuotedValues s = map (\<lambda>m. grp m 1) (FindAllStringSubmatch reQuotedVal s)"

type_synonym jsonb_state = "string \<times> (string \<times> JsonbRule) list"

definition no_jsonb :: JsonbRule where
  "no_jsonb = \<lparr>jb_Required = False, jb_Pattern = None, jb_Min = None, jb_Max = None\<rparr>"

definition jsonb_update :: "string \<Rightarrow> (JsonbRule \<Rightarrow> JsonbRule) \<Rightarrow> (string \<times> JsonbRule) list \<Rightarrow> (string \<times> JsonbRule) list" where
  "jsonb_update key f js = AList.update key (f (case map_of js key of Some j \<Rightarrow> j | None \<Rightarrow> no_jsonb)) js"

fun join_with :: "string \<Rightarrow> string list \<Rightarrow> string" where
  "join_with sep [] = []"
| "join_with sep [x] = x"
| "join_with sep (x # y # r) = x @ sep @ join_with sep (y # r)"

definition jsonb_has_key :: "submatch \<Rightarrow> jsonb_state \<Rightarrow> jsonb_state" where
  "jsonb_has_key m = (\<lambda>(col, js). if grp m 1 \<in> set functionNames then (col, js)
     else (if col = [] then grp m 1 else col, jsonb_update (grp m 2) (\<lambda>j. j\<lparr>jb_Required := True\<rparr>) js))"

definition jsonb_values :: "submatch \<Rightarrow> jsonb_state \<Rightarrow> jsonb_state" where
  "jsonb_values m = (\<lambda>(col, js). if grp m 1 \<in> set functionNames then (col, js)
     else (if col = [] then grp m 1 else col,
           let vals = extractQuotedValues (grp m 3)
           in if vals = [] then js else jsonb_update (grp m 2) (\<lambda>j. j\<lparr>jb_Pattern := Some (join_with ''|'' vals)\<rparr>) js))"

definition contains :: "string \<Rightarrow> string \<Rightarrow> bool" where
  "contains s t \<longleftrightarrow> search (lit t) [] s \<noteq> None"

definition parseJsonb :: "string \<Rightarrow> (string \<times> (string \<times> JsonbRule) list) option" where
  "parseJsonb clause =
     (if \<not> contains clause ''?'' \<and> \<not> contains clause ''->>'' then None
      else let (col, js) = fold jsonb_values (FindAllStringSubmatch reJsonbAnyArr clause)
             (fold jsonb_values (FindAllStringSubmatch reJsonbInList clause)
             (fold jsonb_has_key (FindAllStringSubmatch reJsonbHasKey clause) ([], [])))
        in if col = [] \<or> js = [] then None else Some (col, js))"

section \<open>main.go\<close>

record check_row =
  ck_schema :: string
  ck_table :: string
  ck_constraintName :: string
  ck_columnName :: "string option"
  ck_checkClause :: string

definition merge_jsonb :: "(string \<times> JsonbRule) list \<Rightarrow> FieldConstraint \<Rightarrow> FieldConstraint" where
  "merge_jsonb js fc = fc\<lparr>fk_Jsonb := fold (\<lambda>(k, v) acc. case map_of acc k of
     None \<Rightarrow> AList.update k v acc
   | Some old \<Rightarrow> AList.update k (old\<lparr>jb_Required := jb_Required v \<or> jb_Required old, jb_Pattern := or_else (jb_Pattern v) (jb_Pattern old)\<rparr>) acc) js (fk_Jsonb fc)\<rparr>"

definition single_field :: "string \<Rightarrow> string \<Rightarrow> (string \<times> FieldConstraint) option" where
  "single_field clause col = (case parseClause clause col of Some (detectedCol, fc) \<Rightarrow> if isEmpty fc then None else Some (detectedCol, fc) | None \<Rightarrow> None)"

definition classify :: "check_row \<Rightarrow> string \<Rightarrow> string \<Rightarrow> Entry \<Rightarrow> Entry" where
  "classify row clause col e =
     (case parseJsonb clause of
        Some (jsonbCol, js) \<Rightarrow> update_field jsonbCol (merge_jsonb js) e
      | None \<Rightarrow> (case parseRangeValidity clause of
          Some rangeCol \<Rightarrow> update_field rangeCol (\<lambda>fc. fc\<lparr>fk_ValidRange := True\<rparr>) e
        | None \<Rightarrow> (case single_field clause col of
            Some (detectedCol, fc) \<Rightarrow> update_field detectedCol (\<lambda>dst. mergeField dst fc) e
          | None \<Rightarrow> (case parseRequiredWith clause of
              Some (colA, colB) \<Rightarrow> update_field colB (\<lambda>fc. fc\<lparr>fk_RequiredWith := colA\<rparr>) (update_field colA (\<lambda>fc. fc\<lparr>fk_RequiredWith := colB\<rparr>) e)
            | None \<Rightarrow> (case parseCrossCol clause of
                Some cmp \<Rightarrow> e\<lparr>en_Comparisons := en_Comparisons e @ [cmp]\<rparr>
              | None \<Rightarrow> e\<lparr>en_Notes := en_Notes e @ [ck_constraintName row @ '': '' @ clause]\<rparr>)))))"

definition table_key :: "string \<Rightarrow> string \<Rightarrow> string" where
  "table_key schema table = schema @ ''.'' @ table"

definition sync_check :: "check_row \<Rightarrow> constraintMap \<Rightarrow> constraintMap" where
  "sync_check row cm =
     (let clause = stripOuterParens (ck_checkClause row); col = (case ck_columnName row of None \<Rightarrow> [] | Some c \<Rightarrow> c);
          key = table_key (ck_schema row) (ck_table row)
      in if col \<in> set internalFields \<or> isNullCheck clause then cm
         else AList.update key (classify row clause col (getOrCreate cm key)) cm)"

definition sync_not_null :: "string \<times> string \<times> string \<Rightarrow> constraintMap \<Rightarrow> constraintMap" where
  "sync_not_null = (\<lambda>(schema, table, column) cm.
     if column \<in> set systemColumns \<or> column \<in> set internalFields then cm
     else let key = table_key schema table in AList.update key (update_field column (\<lambda>fc. fc\<lparr>fk_Required := True\<rparr>) (getOrCreate cm key)) cm)"

definition sync_gist :: "string \<times> string \<times> string \<times> string \<Rightarrow> constraintMap \<Rightarrow> constraintMap" where
  "sync_gist = (\<lambda>(schema, table, name, def) cm. let key = table_key schema table; e = getOrCreate cm key
     in AList.update key (e\<lparr>en_Notes := en_Notes e @ [''GIST '' @ name @ '': '' @ def]\<rparr>) cm)"

definition sync :: "check_row list \<Rightarrow> (string \<times> string \<times> string) list \<Rightarrow> (string \<times> string \<times> string \<times> string) list \<Rightarrow> constraintMap" where
  "sync checks notNulls gists = fold sync_gist gists (fold sync_not_null notNulls (fold sync_check checks []))"

section \<open>write\_yaml.go\<close>

datatype yaml = Scalar string string | Mapping "(string \<times> yaml) list" | Sequence "yaml list"

abbreviation untagged :: "string \<Rightarrow> yaml" where "untagged v \<equiv> Scalar [] v"

definition appendBoolNode :: "string \<Rightarrow> bool \<Rightarrow> (string \<times> yaml) list" where
  "appendBoolNode key v = (if v then [(key, Scalar ''!!bool'' ''true'')] else [])"

definition appendIntNode :: "string \<Rightarrow> int option \<Rightarrow> (string \<times> yaml) list" where
  "appendIntNode key v = (case v of None \<Rightarrow> [] | Some n \<Rightarrow> [(key, Scalar ''!!int'' (dec_int n))])"

definition appendStrNode :: "string \<Rightarrow> string option \<Rightarrow> (string \<times> yaml) list" where
  "appendStrNode key v = (case v of None \<Rightarrow> [] | Some t \<Rightarrow> [(key, untagged t)])"

definition sorted_entries :: "(string \<times> 'a) list \<Rightarrow> (string \<times> 'a) list" where
  "sorted_entries m = map (\<lambda>k. (k, the (map_of m k))) (sort (remdups (map fst m)))"

definition jsonb_node :: "JsonbRule \<Rightarrow> yaml" where
  "jsonb_node sf = Mapping (appendBoolNode ''required'' (jb_Required sf) @ appendStrNode ''pattern'' (jb_Pattern sf) @
     appendIntNode ''min'' (jb_Min sf) @ appendIntNode ''max'' (jb_Max sf))"

definition field_node :: "FieldConstraint \<Rightarrow> yaml" where
  "field_node fc = Mapping (appendBoolNode ''required'' (fk_Required fc) @
     (if fk_RequiredWith fc \<noteq> [] then appendStrNode ''required_with'' (Some (fk_RequiredWith fc)) else []) @
     appendBoolNode ''valid_range'' (fk_ValidRange fc) @ appendIntNode ''max_length'' (fk_MaxLength fc) @
     appendIntNode ''min_length'' (fk_MinLength fc) @ appendIntNode ''exact_length'' (fk_ExactLength fc) @
     appendIntNode ''min'' (fk_Min fc) @ appendIntNode ''max'' (fk_Max fc) @ appendStrNode ''pattern'' (fk_Pattern fc) @
     (if fk_Jsonb fc \<noteq> [] then [(''jsonb'', Mapping (map (\<lambda>(k, sf). (k, jsonb_node sf)) (sorted_entries (fk_Jsonb fc))))] else []))"

definition comparison_node :: "Comparison \<Rightarrow> yaml" where
  "comparison_node c = Mapping [(''field'', untagged (cm_Field c)), (''operator'', untagged (cm_Operator c)), (''other'', untagged (cm_Other c))]"

definition fields_content :: "(string \<times> FieldConstraint) list \<Rightarrow> (string \<times> yaml) list" where
  "fields_content fs = map (\<lambda>(k, fc). (k, field_node fc)) (filter (\<lambda>(k, fc). \<not> isEmpty fc) (sorted_entries fs))"

definition table_content :: "Entry \<Rightarrow> (string \<times> yaml) list" where
  "table_content e =
     (if fields_content (en_Fields e) \<noteq> [] then [(''fields'', Mapping (fields_content (en_Fields e)))] else []) @
     (if en_Comparisons e \<noteq> [] then [(''comparisons'', Sequence (map comparison_node (en_Comparisons e)))] else []) @
     (if en_Notes e \<noteq> [] then [(''notes'', Sequence (map untagged (en_Notes e)))] else [])"

definition yaml_doc :: "constraintMap \<Rightarrow> yaml" where
  "yaml_doc cm = Mapping [(''constraints'',
     Mapping (map (\<lambda>(k, e). (k, Mapping (table_content e))) (filter (\<lambda>(k, e). table_content e \<noteq> []) (sorted_entries cm))))]"

definition yaml_header :: string where
  "yaml_header = ''# Auto-generated by '' @ [quote] @ ''make gen-constraints'' @ [quote] @ ''. Do not edit manually.'' @ [CHR 0x0A] @
     ''# Run '' @ [quote] @ ''make gen-constraints'' @ [quote] @ '' after any schema migration.'' @ [CHR 0x0A, CHR 0x0A]"

definition writeYAML :: "(yaml \<Rightarrow> string + string) \<Rightarrow> constraintMap \<Rightarrow> string + string" where
  "writeYAML enc cm = (case enc (yaml_doc cm) of Inl err \<Rightarrow> Inl (''encode yaml: '' @ err) | Inr t \<Rightarrow> Inr (yaml_header @ t))"

section \<open>write\_ts.go\<close>

definition double_quote :: char where "double_quote = CHR 0x22"

definition ts_int :: "string \<Rightarrow> int option \<Rightarrow> string list" where
  "ts_int name v = (case v of None \<Rightarrow> [] | Some n \<Rightarrow> [name @ '': '' @ dec_int n])"

definition ts_pattern :: "string option \<Rightarrow> string list" where
  "ts_pattern v = (case v of None \<Rightarrow> [] | Some p \<Rightarrow> [''pattern: /'' @ p @ ''/''])"

definition buildTSProps :: "(string \<Rightarrow> string) \<Rightarrow> FieldConstraint \<Rightarrow> string" where
  "buildTSProps quoted fc = join_with '', '' (
     (if fk_Required fc then [''required: true''] else []) @
     (if fk_RequiredWith fc \<noteq> [] then [''requiredWith: '' @ quoted (fk_RequiredWith fc)] else []) @
     (if fk_ValidRange fc then [''validRange: true''] else []) @
     ts_int ''maxLength'' (fk_MaxLength fc) @ ts_int ''minLength'' (fk_MinLength fc) @ ts_int ''exactLength'' (fk_ExactLength fc) @
     ts_int ''min'' (fk_Min fc) @ ts_int ''max'' (fk_Max fc) @ ts_pattern (fk_Pattern fc))"

definition buildTSJsonbProps :: "JsonbRule \<Rightarrow> string" where
  "buildTSJsonbProps sf = join_with '', '' ((if jb_Required sf then [''required: true''] else []) @ ts_pattern (jb_Pattern sf) @
     ts_int ''min'' (jb_Min sf) @ ts_int ''max'' (jb_Max sf))"

record tsTSField =
  tf_Name :: string
  tf_Props :: string
  tf_Jsonb :: "(string \<times> string) list"

record tsTable =
  tt_Name :: string
  tt_Fields :: "tsTSField list"
  tt_Comparisons :: "Comparison list"
  tt_Notes :: "string list"

definition ts_field :: "(string \<Rightarrow> string) \<Rightarrow> string \<times> FieldConstraint \<Rightarrow> tsTSField" where
  "ts_field quoted = (\<lambda>(field, fc). \<lparr>tf_Name = field, tf_Props = buildTSProps quoted fc,
     tf_Jsonb = map (\<lambda>(k, sf). (k, buildTSJsonbProps sf)) (sorted_entries (fk_Jsonb fc))\<rparr>)"

definition ts_table :: "(string \<Rightarrow> string) \<Rightarrow> string \<times> Entry \<Rightarrow> tsTable" where
  "ts_table quoted = (\<lambda>(table, e). \<lparr>tt_Name = table,
     tt_Fields = filter (\<lambda>f. tf_Props f \<noteq> [] \<or> tf_Jsonb f \<noteq> []) (map (ts_field quoted) (sorted_entries (en_Fields e))),
     tt_Comparisons = en_Comparisons e, tt_Notes = en_Notes e\<rparr>)"

definition tsTables :: "(string \<Rightarrow> string) \<Rightarrow> constraintMap \<Rightarrow> tsTable list" where
  "tsTables quoted cm = filter (\<lambda>t. tt_Fields t \<noteq> [] \<or> tt_Comparisons t \<noteq> [] \<or> tt_Notes t \<noteq> []) (map (ts_table quoted) (sorted_entries cm))"

definition nl :: string where "nl = [CHR 0x0A]"

definition in_quotes :: "string \<Rightarrow> string" where
  "in_quotes t = [double_quote] @ t @ [double_quote]"

definition ts_field_text :: "tsTSField \<Rightarrow> string" where
  "ts_field_text f = nl @ ''      '' @ tf_Name f @ '': { '' @ tf_Props f @ (if tf_Props f \<noteq> [] \<and> tf_Jsonb f \<noteq> [] then '', '' else []) @
     (if tf_Jsonb f \<noteq> [] then nl @ ''        jsonb: {'' @
        concat (map (\<lambda>(k, props). nl @ ''          '' @ k @ '': { '' @ props @ '' },'') (tf_Jsonb f)) @ nl @ ''        }'' else []) @ '' },''"

definition ts_comparison_text :: "Comparison \<Rightarrow> string" where
  "ts_comparison_text c = nl @ ''      { field: '' @ in_quotes (cm_Field c) @ '', operator: '' @ in_quotes (cm_Operator c) @ '', other: '' @ in_quotes (cm_Other c) @ '' },''"

definition ts_table_text :: "(string \<Rightarrow> string) \<Rightarrow> tsTable \<Rightarrow> string" where
  "ts_table_text js t = nl @ ''  '' @ in_quotes (tt_Name t) @ '': {'' @ nl @ ''    fields: {'' @ concat (map ts_field_text (tt_Fields t)) @ nl @ ''    },'' @
     (if tt_Comparisons t \<noteq> [] then nl @ ''    comparisons: ['' @ concat (map ts_comparison_text (tt_Comparisons t)) @ nl @ ''    ],'' else []) @
     (if tt_Notes t \<noteq> [] then nl @ ''    notes: ['' @ concat (map (\<lambda>n. nl @ ''      '' @ in_quotes (js n) @ '','') (tt_Notes t)) @ nl @ ''    ],'' else []) @
     nl @ ''  },''"

definition ts_header :: string where
  "ts_header = ''// Auto-generated by '' @ [quote] @ ''make gen-constraints'' @ [quote] @ ''. Do not edit manually.'' @ nl @
     ''// Run '' @ [quote] @ ''make gen-constraints'' @ [quote] @ '' after any schema migration.'' @ nl @ nl"

definition writeTS :: "(string \<Rightarrow> string) \<Rightarrow> (string \<Rightarrow> string) \<Rightarrow> constraintMap \<Rightarrow> string" where
  "writeTS quoted js cm = ts_header @ ''export const CONSTRAINTS = {'' @ concat (map (ts_table_text js) (tsTables quoted cm)) @ nl @
     ''} as const;'' @ nl @ nl @ ''export type ConstraintTable = keyof typeof CONSTRAINTS;'' @ nl"

end
