(* ===== verification/Matching.thy ===== *)
theory Matching
  imports Regex
begin

text \<open>
  Facts about matching: what a run reads is a word of the language of the expression, so a text without the characters or the
  adjacent pairs every such word has is not matched; and the preferred way to read a text, step by step.
\<close>

section \<open>The language of an expression\<close>

inductive_set star :: "string set \<Rightarrow> string set" for A where
  star_Nil [intro]: "[] \<in> star A"
| star_Cons [intro]: "u \<in> A \<Longrightarrow> v \<in> star A \<Longrightarrow> u @ v \<in> star A"

primrec lang :: "rx \<Rightarrow> string set" where
  "lang Eps = {[]}"
| "lang (Chr P) = {[c] | c. P c}"
| "lang (Cat x y) = {u @ v | u v. u \<in> lang x \<and> v \<in> lang y}"
| "lang (Or x y) = lang x \<union> lang y"
| "lang (Many x) = star (lang x)"
| "lang (Group n x) = lang x"
| "lang TextStart = {[]}"
| "lang TextEnd = {[]}"
| "lang WordBoundary = {[]}"

definition reads_word :: "string set \<Rightarrow> pos \<Rightarrow> pos \<Rightarrow> bool" where
  "reads_word A p q \<longleftrightarrow> (\<exists>w \<in> A. rest p = w @ rest q \<and> fst (snd q) = rev w @ fst (snd p))"

lemma reads_word_Nil: "[] \<in> A \<Longrightarrow> reads_word A p p"
  by (force simp: reads_word_def)

lemma reads_word_mono: "reads_word A p q \<Longrightarrow> A \<subseteq> B \<Longrightarrow> reads_word B p q"
  by (auto simp: reads_word_def)

lemma reads_word_trans:
  assumes "reads_word A p t" and "reads_word B t q" and "\<And>u v. u \<in> A \<Longrightarrow> v \<in> B \<Longrightarrow> u @ v \<in> C"
  shows "reads_word C p q"
proof -
  from assms(1) obtain u where u: "u \<in> A" "rest p = u @ rest t" "fst (snd t) = rev u @ fst (snd p)" by (auto simp: reads_word_def)
  from assms(2) obtain v where v: "v \<in> B" "rest t = v @ rest q" "fst (snd q) = rev v @ fst (snd t)" by (auto simp: reads_word_def)
  from u v have "rest p = (u @ v) @ rest q" "fst (snd q) = rev (u @ v) @ fst (snd p)" by simp_all
  with assms(3) [OF u(1) v(1)] show ?thesis unfolding reads_word_def by blast
qed

lemma many_reads:
  assumes "\<And>p q. q \<in> set (f p) \<Longrightarrow> reads_word A p q" and "q \<in> set (many n f p)"
  shows "reads_word (star A) p q"
  using assms(2)
proof (induction n arbitrary: p)
  case 0
  then show ?case by (auto intro: reads_word_Nil)
next
  case (Suc n)
  show ?case
  proof (cases "q = p")
    case True
    then show ?thesis by (auto intro: reads_word_Nil)
  next
    case False
    with Suc.prems obtain t where t: "t \<in> set (f p)" "q \<in> set (many n f t)"
      by (auto split: if_splits)
    show ?thesis by (rule reads_word_trans [OF assms(1) [OF t(1)] Suc.IH [OF t(2)]]) (rule star_Cons)
  qed
qed

text \<open>Whatever a run reads_word is a word of the language.\<close>

lemma run_reads: "q \<in> set (run x p) \<Longrightarrow> reads_word (lang x) p q"
proof (induction x arbitrary: p q)
  case (Chr P)
  then show ?case by (cases p) (auto simp: reads_word_def split: list.splits if_splits)
next
  case (Cat x y)
  then obtain t where t: "t \<in> set (run x p)" "q \<in> set (run y t)" by auto
  show ?case by (rule reads_word_trans [OF Cat.IH(1) [OF t(1)] Cat.IH(2) [OF t(2)]]) auto
next
  case (Or x y)
  then consider "q \<in> set (run x p)" | "q \<in> set (run y p)" by auto
  then show ?case by cases (auto intro: reads_word_mono dest: Or.IH)
next
  case (Many x)
  have "reads_word (star (lang x)) p q" by (rule many_reads [OF Many.IH]) (use Many.prems in simp_all)
  then show ?case by simp
next
  case (Group n x)
  obtain cs b r where p: "p = (cs, b, r)" by (cases p)
  from Group.prems p obtain t where t: "t \<in> set (run x p)" "snd q = snd t" by (auto simp: split_beta)
  from Group.IH [OF t(1)] t(2) show ?case by (simp add: reads_word_def)
qed (auto simp: reads_word_def split: if_splits)

lemma search_reads:
  assumes "search x b s = Some m"
  shows "\<exists>u v w. s = u @ w @ v \<and> w \<in> lang x"
  using assms
proof (induction x b s rule: search.induct)
  case (1 x b)
  then obtain q where "q \<in> set (run x ([], b, []))" by (auto split: list.splits)
  from run_reads [OF this] show ?case by (auto simp: reads_word_def)
next
  case (2 x b c s)
  show ?case
  proof (cases "run x ([], b, c # s)")
    case Nil
    with 2 obtain u v w where "s = u @ w @ v" "w \<in> lang x" by auto
    then have "c # s = (c # u) @ w @ v" by simp
    with \<open>w \<in> lang x\<close> show ?thesis by blast
  next
    case (Cons q qs)
    then have "q \<in> set (run x ([], b, c # s))" by simp
    from run_reads [OF this] obtain w where "w \<in> lang x" "c # s = [] @ w @ rest q" by (auto simp: reads_word_def)
    then show ?thesis by blast
  qed
qed

text \<open>A text without a word of the language has no match.\<close>

lemma no_match:
  assumes "\<And>u v w. s = u @ w @ v \<Longrightarrow> w \<notin> lang x"
  shows "search x [] s = None"
proof (cases "search x [] s")
  case (Some m)
  from search_reads [OF this] assms show ?thesis by blast
qed simp

lemma no_match_iffs:
  assumes "search x [] s = None"
  shows "FindStringSubmatch x s = None" "FindAllStringSubmatch x s = []" "\<not> MatchString x s"
  using assms by (simp_all add: FindStringSubmatch_def FindAllStringSubmatch_def MatchString_def find_all.simps [of x "[]" s])

section \<open>Characters and pairs a match needs\<close>

primrec needs :: "(char \<Rightarrow> bool) \<Rightarrow> rx \<Rightarrow> bool" where
  "needs P Eps \<longleftrightarrow> False"
| "needs P (Chr Q) \<longleftrightarrow> (\<forall>c. Q c \<longrightarrow> P c)"
| "needs P (Cat x y) \<longleftrightarrow> needs P x \<or> needs P y"
| "needs P (Or x y) \<longleftrightarrow> needs P x \<and> needs P y"
| "needs P (Many x) \<longleftrightarrow> False"
| "needs P (Group n x) \<longleftrightarrow> needs P x"
| "needs P TextStart \<longleftrightarrow> False"
| "needs P TextEnd \<longleftrightarrow> False"
| "needs P WordBoundary \<longleftrightarrow> False"

lemma needs_lang: "needs P x \<Longrightarrow> w \<in> lang x \<Longrightarrow> \<exists>c \<in> set w. P c"
proof (induction x arbitrary: w)
  case (Cat x y)
  then show ?case by fastforce
qed auto

lemma no_match_needs: "needs P x \<Longrightarrow> \<forall>c \<in> set s. \<not> P c \<Longrightarrow> search x [] s = None"
  by (rule no_match) (use needs_lang in fastforce)

fun pair_in :: "(char \<Rightarrow> bool) \<Rightarrow> (char \<Rightarrow> bool) \<Rightarrow> string \<Rightarrow> bool" where
  "pair_in P Q (c # d # s) \<longleftrightarrow> P c \<and> Q d \<or> pair_in P Q (d # s)"
| "pair_in P Q s \<longleftrightarrow> False"

lemma pair_in_Cons: "pair_in P Q (c # s) \<longleftrightarrow> s \<noteq> [] \<and> P c \<and> Q (hd s) \<or> pair_in P Q s"
  by (cases s) simp_all

lemma pair_in_append:
  "pair_in P Q (u @ v) \<longleftrightarrow> pair_in P Q u \<or> pair_in P Q v \<or> u \<noteq> [] \<and> v \<noteq> [] \<and> P (last u) \<and> Q (hd v)"
proof (induction u)
  case (Cons c u)
  then show ?case by (cases "u = []") (auto simp: pair_in_Cons)
qed simp

lemma pair_in_none: "\<forall>c \<in> set s. \<not> Q c \<Longrightarrow> \<not> pair_in P Q s"
  by (induction P Q s rule: pair_in.induct) auto

lemma pair_in_none_left: "\<forall>c \<in> set s. \<not> P c \<Longrightarrow> \<not> pair_in P Q s"
  by (induction P Q s rule: pair_in.induct) auto

primrec ends_in :: "(char \<Rightarrow> bool) \<Rightarrow> rx \<Rightarrow> bool" where
  "ends_in P Eps \<longleftrightarrow> False"
| "ends_in P (Chr Q) \<longleftrightarrow> (\<forall>c. Q c \<longrightarrow> P c)"
| "ends_in P (Cat x y) \<longleftrightarrow> ends_in P y \<or> ends_in P x \<and> lang y \<subseteq> star {[c] | c. P c}"
| "ends_in P (Or x y) \<longleftrightarrow> ends_in P x \<and> ends_in P y"
| "ends_in P (Many x) \<longleftrightarrow> False"
| "ends_in P (Group n x) \<longleftrightarrow> ends_in P x"
| "ends_in P TextStart \<longleftrightarrow> False"
| "ends_in P TextEnd \<longleftrightarrow> False"
| "ends_in P WordBoundary \<longleftrightarrow> False"

primrec leads :: "(char \<Rightarrow> bool) \<Rightarrow> (char \<Rightarrow> bool) \<Rightarrow> rx \<Rightarrow> bool" where
  "leads P Q Eps \<longleftrightarrow> False"
| "leads P Q (Chr R) \<longleftrightarrow> (\<forall>c. R c \<longrightarrow> Q c)"
| "leads P Q (Cat x y) \<longleftrightarrow> leads P Q x \<or> lang x \<subseteq> star {[c] | c. P c \<or> Q c} \<and> leads P Q y"
| "leads P Q (Or x y) \<longleftrightarrow> leads P Q x \<and> leads P Q y"
| "leads P Q (Many x) \<longleftrightarrow> False"
| "leads P Q (Group n x) \<longleftrightarrow> leads P Q x"
| "leads P Q TextStart \<longleftrightarrow> False"
| "leads P Q TextEnd \<longleftrightarrow> False"
| "leads P Q WordBoundary \<longleftrightarrow> False"

primrec needs_pair :: "(char \<Rightarrow> bool) \<Rightarrow> (char \<Rightarrow> bool) \<Rightarrow> rx \<Rightarrow> bool" where
  "needs_pair P Q Eps \<longleftrightarrow> False"
| "needs_pair P Q (Chr R) \<longleftrightarrow> False"
| "needs_pair P Q (Cat x y) \<longleftrightarrow> ends_in P x \<and> leads P Q y \<or> needs_pair P Q x \<or> needs_pair P Q y"
| "needs_pair P Q (Or x y) \<longleftrightarrow> needs_pair P Q x \<and> needs_pair P Q y"
| "needs_pair P Q (Many x) \<longleftrightarrow> False"
| "needs_pair P Q (Group n x) \<longleftrightarrow> needs_pair P Q x"
| "needs_pair P Q TextStart \<longleftrightarrow> False"
| "needs_pair P Q TextEnd \<longleftrightarrow> False"
| "needs_pair P Q WordBoundary \<longleftrightarrow> False"

lemma star_chars: "w \<in> star {[c] | c. P c} \<longleftrightarrow> (\<forall>c \<in> set w. P c)"
proof
  assume "w \<in> star {[c] | c. P c}"
  then show "\<forall>c \<in> set w. P c" by induction auto
next
  assume "\<forall>c \<in> set w. P c"
  then show "w \<in> star {[c] | c. P c}"
  proof (induction w)
    case (Cons c w)
    then have "[c] @ w \<in> star {[c] | c. P c}" by (intro star_Cons) auto
    then show ?case by simp
  qed auto
qed

lemma ends_in_lang: "ends_in P x \<Longrightarrow> w \<in> lang x \<Longrightarrow> w \<noteq> [] \<and> P (last w)"
proof (induction x arbitrary: w)
  case (Cat x y)
  then obtain u v where w: "w = u @ v" "u \<in> lang x" "v \<in> lang y" by auto
  from Cat.prems(1) consider "ends_in P y" | "ends_in P x" "\<forall>c \<in> set v. P c"
    using w(3) by (auto simp: star_chars subset_iff)
  then show ?case
  proof cases
    case 1
    from Cat.IH(2) [OF this w(3)] w(1) show ?thesis by simp
  next
    case 2
    from Cat.IH(1) [OF 2(1) w(2)] 2(2) w(1) show ?thesis by (cases "v = []") simp_all
  qed
qed auto

definition led :: "(char \<Rightarrow> bool) \<Rightarrow> (char \<Rightarrow> bool) \<Rightarrow> string \<Rightarrow> bool" where
  "led P Q w \<longleftrightarrow> (\<exists>u c v. w = u @ c # v \<and> (\<forall>d \<in> set u. P d) \<and> Q c)"

lemma led_append: "led P Q u \<Longrightarrow> led P Q (u @ v)"
  unfolding led_def by force

lemma led_skip: "\<forall>c \<in> set u. P c \<or> Q c \<Longrightarrow> led P Q v \<Longrightarrow> led P Q (u @ v)"
proof (induction u)
  case (Cons a u)
  show ?case
  proof (cases "Q a")
    case True
    then show ?thesis unfolding led_def by (intro exI [of _ "[]"]) simp
  next
    case False
    with Cons obtain x c y where "u @ v = x @ c # y" "\<forall>d \<in> set x. P d" "Q c" "P a" unfolding led_def by auto
    then show ?thesis unfolding led_def by (intro exI [of _ "a # x"]) simp
  qed
qed simp

lemma leads_lang: "leads P Q x \<Longrightarrow> w \<in> lang x \<Longrightarrow> led P Q w"
proof (induction x arbitrary: w)
  case (Chr R)
  then show ?case by (auto simp: led_def intro!: exI [of _ "[]"])
next
  case (Cat x y)
  then obtain u v where w: "w = u @ v" "u \<in> lang x" "v \<in> lang y" by auto
  from Cat.prems(1) consider "leads P Q x" | "leads P Q y" "\<forall>c \<in> set u. P c \<or> Q c"
    using w(2) star_chars [of u "\<lambda>c. P c \<or> Q c"] by auto
  then show ?case
  proof cases
    case 1
    from Cat.IH(1) [OF this w(2)] w(1) show ?thesis by (simp add: led_append)
  next
    case 2
    from Cat.IH(2) [OF 2(1) w(3)] 2(2) w(1) show ?thesis by (simp add: led_skip)
  qed
qed auto

lemma pair_in_led:
  assumes "u \<noteq> []" "P (last u)" "led P Q v"
  shows "pair_in P Q (u @ v)"
proof -
  from assms(3) obtain x c y where v: "v = x @ c # y" "\<forall>d \<in> set x. P d" "Q c" by (auto simp: led_def)
  then have "P (last (u @ x))" using assms(2) by (cases "x = []") simp_all
  with v assms(1) have "pair_in P Q ((u @ x) @ c # y)" unfolding pair_in_append [of P Q "u @ x"] by simp
  then show ?thesis using v(1) by simp
qed

lemma needs_pair_lang: "needs_pair P Q x \<Longrightarrow> w \<in> lang x \<Longrightarrow> pair_in P Q w"
proof (induction x arbitrary: w)
  case (Cat x y)
  then obtain u v where w: "w = u @ v" "u \<in> lang x" "v \<in> lang y" by auto
  from Cat.prems(1) consider "ends_in P x" "leads P Q y" | "needs_pair P Q x" | "needs_pair P Q y" by auto
  then show ?case
  proof cases
    case 1
    from ends_in_lang [OF 1(1) w(2)] leads_lang [OF 1(2) w(3)] show ?thesis unfolding w(1) by (auto intro: pair_in_led)
  next
    case 2
    from Cat.IH(1) [OF 2 w(2)] show ?thesis unfolding w(1) pair_in_append by simp
  next
    case 3
    from Cat.IH(2) [OF 3 w(3)] show ?thesis unfolding w(1) pair_in_append by simp
  qed
qed auto

lemma no_match_pair: "needs_pair P Q x \<Longrightarrow> \<not> pair_in P Q s \<Longrightarrow> search x [] s = None"
  by (rule no_match) (use needs_pair_lang in \<open>fastforce simp: pair_in_append\<close>)

section \<open>The preferred way to read\<close>

definition first :: "rx \<Rightarrow> pos \<Rightarrow> pos \<Rightarrow> bool" where
  "first x p q \<longleftrightarrow> (\<exists>qs. run x p = q # qs)"

lemma first_Eps: "first Eps p p"
  by (simp add: first_def)

lemma first_Chr: "P c \<Longrightarrow> first (Chr P) (cs, b, c # r) (cs, c # b, r)"
  by (simp add: first_def)

lemma first_Cat: "first x p t \<Longrightarrow> first y t q \<Longrightarrow> first (Cat x y) p q"
  by (auto simp: first_def)

lemma first_Or: "first x p q \<Longrightarrow> first (Or x y) p q"
  by (auto simp: first_def)

lemma first_Or2: "run x p = [] \<Longrightarrow> first y p q \<Longrightarrow> first (Or x y) p q"
  by (auto simp: first_def)

lemma first_Group: "first x (cs, b, w @ r) (cs', rev w @ b, r) \<Longrightarrow> first (Group n x) (cs, b, w @ r) ((n, w) # cs', rev w @ b, r)"
  by (auto simp: first_def)

lemma first_many:
  assumes "\<forall>c \<in> set w. P c" and "r = [] \<or> \<not> P (hd r)" and "length w \<le> n"
  shows "\<exists>qs. many n (run (Chr P)) (cs, b, w @ r) = (cs, rev w @ b, r) # qs"
  using assms
proof (induction w arbitrary: b n)
  case Nil
  then show ?case by (cases n; cases r) auto
next
  case (Cons c w)
  from Cons.prems(3) obtain m where n: "n = Suc m" by (cases n) auto
  from Cons.prems n Cons.IH [of m "c # b"] obtain qs where
    "many m (run (Chr P)) (cs, c # b, w @ r) = (cs, rev w @ c # b, r) # qs" by auto
  with Cons.prems(1) n show ?case by simp
qed

lemma first_Many: "\<forall>c \<in> set w. P c \<Longrightarrow> r = [] \<or> \<not> P (hd r) \<Longrightarrow> first (Many (Chr P)) (cs, b, w @ r) (cs, rev w @ b, r)"
  using first_many [of w P r "length (w @ r)" cs b] by (auto simp: first_def)

lemma first_Plus:
  assumes "w \<noteq> []" "\<forall>c \<in> set w. P c" "r = [] \<or> \<not> P (hd r)"
  shows "first (Plus (Chr P)) (cs, b, w @ r) (cs, rev w @ b, r)"
proof -
  from assms(1) obtain c v where w: "w = c # v" by (cases w) auto
  have "first (Many (Chr P)) (cs, c # b, v @ r) (cs, rev v @ c # b, r)" by (rule first_Many) (use assms w in auto)
  with w assms(2) show ?thesis by (auto simp: Plus_def intro!: first_Cat first_Chr)
qed

lemma seq_Cons: "seq (x # xs) = (if xs = [] then x else Cat x (seq xs))"
  by (cases xs) simp_all

lemma first_seq_Cons: "first x p t \<Longrightarrow> first (seq xs) t q \<Longrightarrow> first (seq (x # xs)) p q"
  by (cases xs) (auto intro: first_Cat simp: first_def)

lemma first_seq_map: "list_all2 P cs s \<Longrightarrow> first (seq (map (\<lambda>c. Chr (P c)) cs)) (g, b, s @ r) (g, rev s @ b, r)"
proof (induction arbitrary: b rule: list_all2_induct)
  case Nil
  then show ?case by (simp add: first_Eps)
next
  case (Cons c cs d s)
  have "first (Chr (P c)) (g, b, d # s @ r) (g, d # b, s @ r)" using Cons(1) by (rule first_Chr)
  from first_seq_Cons [OF this Cons(3)] show ?case by simp
qed

lemma first_lit: "first (lit s) (g, b, s @ r) (g, rev s @ b, r)"
  unfolding lit_def by (rule first_seq_map) (simp add: list_all2_conv_all_nth)

lemma first_lit_i:
  assumes "map lower_char s = map lower_char t"
  shows "first (lit_i t) (g, b, s @ r) (g, rev s @ b, r)"
proof -
  have "list_all2 (=) (map lower_char s) (map lower_char t)" using assms by (simp add: list.rel_eq)
  then have "list_all2 (\<lambda>c d. lower_char d = lower_char c) t s"
    by (simp add: list.rel_map list.rel_flip [of _ t s, symmetric] conversep_iff [abs_def])
  then show ?thesis unfolding lit_i_def by (rule first_seq_map)
qed

lemma search_first: "first x ([], b, s) q \<Longrightarrow> search x b s = Some (b, q)"
  by (cases s) (auto simp: first_def)

lemma search_later:
  assumes "run x ([], b, c # s) = []"
  shows "search x b (c # s) = search x (c # b) s"
  using assms by simp

end
