(* ===== verification/ConstraintRules.thy ===== *)
theory ConstraintRules
  imports SyncConstraints Matching
begin

text \<open>
  What the generator of the validation rules makes of the CHECK constraints on one column, for every column name and every
  bound: the clause as PostgreSQL prints it, the patterns that read it and the ones that find nothing in it, and the
  rule that is recorded.
\<close>

section \<open>Words, numbers and parentheses\<close>

definition column_name :: "string \<Rightarrow> bool" where
  "column_name s \<longleftrightarrow> s \<noteq> [] \<and> list_all is_word s \<and> s \<notin> set functionNames"

lemma digit_is_word: "is_digit c \<Longrightarrow> is_word c"
  by (simp add: is_digit_def is_word_def in_range_def)

lemma word_chars:
  assumes "is_word c"
  shows "c \<noteq> CHR ''(''" "c \<noteq> CHR '')''" "c \<noteq> CHR ''?''" "c \<noteq> CHR ''-''" "c \<noteq> CHR ''~''" "c \<noteq> CHR ''>''" "c \<noteq> CHR ''=''" "c \<noteq> CHR ''<''"
    "c \<noteq> CHR '':''" "\<not> is_blank c" "c \<noteq> CHR 0x0B" "c \<noteq> CHR '' ''"
  using assms by (auto simp: is_word_def in_range_def is_blank_def)

lemma dec_nat_words: "list_all is_word (dec_nat n)"
  using dec_nat_digits [of n] by (auto simp: list_all_iff digit_is_word)

lemma column_words: "column_name col \<Longrightarrow> list_all is_word col" "column_name col \<Longrightarrow> col \<noteq> []"
  by (simp_all add: column_name_def)

lemma depth_loop_words: "list_all is_word w \<Longrightarrow> depth_loop d m (w @ s) = depth_loop d m s"
  by (induction w) (auto simp: word_chars)

lemma depth_loop_words_end: "list_all is_word w \<Longrightarrow> depth_loop d m w = m"
  using depth_loop_words [of w d m "[]"] by simp

definition solid :: "char \<Rightarrow> bool" where
  "solid c \<longleftrightarrow> \<not> is_blank c \<and> c \<noteq> CHR 0x0B"

lemma trim_blanks_id:
  assumes "s \<noteq> []" "solid (hd s)" "solid (last s)"
  shows "trim_blanks s = s"
proof -
  have id: "dropWhile P s = s" if "s = [] \<or> \<not> P (hd s)" for P and s :: string
    using that by (cases s) auto
  from assms show ?thesis by (simp add: trim_blanks_def id hd_rev solid_def)
qed

lemma solid_word: "list_all is_word w \<Longrightarrow> w \<noteq> [] \<Longrightarrow> solid (hd w) \<and> solid (last w)"
  by (simp add: solid_def list_all_iff word_chars hd_in_set)

lemma solid_parens: "solid CHR ''(''" "solid CHR '')''" "solid CHR ''c''"
  by (simp_all add: is_blank_def solid_def)

lemma strip_loop_parens:
  "strip_loop (''('' @ t @ '')'') = (if 0 \<le> parenDepth t then strip_loop (trim_blanks t) else ''('' @ t @ '')'')"
  by (subst strip_loop.simps) simp

lemma strip_loop_plain: "s \<noteq> [] \<Longrightarrow> hd s \<noteq> CHR ''('' \<Longrightarrow> strip_loop s = s"
  by (subst strip_loop.simps) simp

lemma strip_plain:
  assumes "t \<noteq> []" "solid (hd t)" "solid (last t)" "hd t \<noteq> CHR ''(''" "0 \<le> parenDepth t"
  shows "stripOuterParens (''('' @ t @ '')'') = t"
  using assms strip_loop_parens [of t] by (simp add: stripOuterParens_def trim_blanks_id solid_parens strip_loop_plain)

lemma strip_conjunction:
  assumes "t \<noteq> []" "0 \<le> parenDepth (''('' @ t @ '')'')" "\<not> 0 \<le> parenDepth t"
  shows "stripOuterParens (''(('' @ t @ ''))'') = ''('' @ t @ '')''"
  using assms strip_loop_parens [of t] strip_loop_parens [of "''('' @ t @ '')''"]
  by (simp add: stripOuterParens_def trim_blanks_id solid_parens)

lemma not_null_check:
  assumes "s \<noteq> []" "solid (hd s)" "solid (last s)" "upper_char (last s) \<noteq> CHR ''L''"
  shows "\<not> isNullCheck s"
proof -
  have suf: "last up = last suf" if "has_suffix up suf" "suf \<noteq> []" for up suf
    using that by (metis append_take_drop_id has_suffix_def last_appendR)
  have "last (map upper_char s) \<noteq> CHR ''L''" using assms(1,4) by (simp add: last_map)
  then show ?thesis
    unfolding isNullCheck_def Let_def trim_blanks_id [OF assms(1-3)]
    using suf [of "map upper_char s" "''IS NOT NULL''"] suf [of "map upper_char s" "''IS NULL''"] by auto
qed

lemma upper_char_digit: "is_digit c \<Longrightarrow> upper_char c = c"
  by (simp add: is_digit_def upper_char_def)

lemma last_dec_nat: "is_digit (last (dec_nat n))"
  using dec_nat_digits [of n] by (simp add: list_all_iff)

lemma hd_dec_nat: "is_digit (hd (dec_nat n))"
  using dec_nat_digits [of n] by (simp add: list_all_iff)

lemma atoi_dec_nat: "n < 2 ^ 63 \<Longrightarrow> atoi (dec_nat n) = int n"
proof -
  assume n: "n < 2 ^ 63"
  obtain c cs where c: "dec_nat n = c # cs" "c \<noteq> CHR ''-''" "c \<noteq> CHR ''+''" using dec_nat_no_sign by blast
  then have "strconv_Atoi (dec_nat n) = Some (int n)"
    using n parse_dec_nat [of n] by (simp add: in_int64_def)
  then show ?thesis by (simp add: atoi_def)
qed

section \<open>What each pattern needs\<close>

abbreviation like :: "char \<Rightarrow> char \<Rightarrow> bool" where "like d c \<equiv> lower_char c = lower_char d"

lemmas rx_parts = lit_def lit_i_def blanks_def blanks1_def digits_def Plus_def

lemma pair_reGT: "needs_pair (\<lambda>c. c = CHR ''>'') (\<lambda>c. is_blank c \<or> is_digit c) reGT"
  unfolding reGT_def column_def by (simp add: rx_parts star_chars subset_iff)

lemma pair_char_length:
  "needs_pair (like CHR ''h'') (like CHR ''('') reCharLenBetween"
  "needs_pair (like CHR ''h'') (like CHR ''('') reCharLenEQ"
  "needs_pair (like CHR ''h'') (like CHR ''('') reCharLenLTE"
  unfolding reCharLenBetween_def reCharLenEQ_def reCharLenLTE_def char_length_of_def by (simp_all add: rx_parts)

lemma pair_between:
  "needs_pair is_blank (like CHR ''b'') reBetween" "needs_pair is_blank (like CHR ''b'') reCharLenBetween"
  unfolding reBetween_def reCharLenBetween_def char_length_of_def column_def between_def
  by (simp_all add: rx_parts star_chars subset_iff)

lemma pair_reCharLenEQ: "needs_pair (\<lambda>c. is_blank c \<or> c = CHR '')'') (\<lambda>c. c = CHR ''='') reCharLenEQ"
  unfolding reCharLenEQ_def char_length_of_def by (simp add: rx_parts star_chars subset_iff)

lemma pair_reRangeValid: "needs_pair (like CHR ''r'') (\<lambda>c. c = CHR ''('') reRangeValid"
  unfolding reRangeValid_def bound_of_def by (simp add: rx_parts)

lemma needs_chars:
  "needs (\<lambda>c. c = CHR ''~'') reRegex" "needs (\<lambda>c. c = CHR ''<'') reCharLenLTE"
  "needs (\<lambda>c. c = CHR ''>'') reGTE" "needs (\<lambda>c. c = CHR ''='') reGTE" "needs (\<lambda>c. c = CHR ''>'') reGT"
  unfolding reRegex_def reCharLenLTE_def reGTE_def reGT_def column_def char_length_of_def by (simp_all add: rx_parts)

lemma contains_lit: "c \<in> set t \<Longrightarrow> c \<notin> set s \<Longrightarrow> \<not> contains s t"
  unfolding contains_def
proof -
  assume c: "c \<in> set t" "c \<notin> set s"
  have "needs (\<lambda>d. d = c) (lit t)" using c(1) unfolding lit_def
  proof (induction t)
    case (Cons d t)
    then show ?case by (cases t) (auto simp: seq_Cons)
  qed simp
  moreover have "\<forall>d \<in> set s. d \<noteq> c" using c(2) by auto
  ultimately have "search (lit t) [] s = None" by (rule no_match_needs)
  then show "\<not> search (lit t) [] s \<noteq> None" by simp
qed

section \<open>How the patterns read a clause\<close>

lemma first_column:
  assumes "column_name col" "r = [] \<or> \<not> is_word (hd r)"
  shows "first (Group n words) (g, b, col @ r) ((n, col) # g, rev col @ b, r)"
  using assms unfolding words_def column_name_def by (intro first_Group first_Plus) (auto simp: list_all_iff)

lemma first_digits:
  "r = [] \<or> \<not> is_digit (hd r) \<Longrightarrow> first (Group n digits) (g, b, dec_nat k @ r) ((n, dec_nat k) # g, rev (dec_nat k) @ b, r)"
  using dec_nat_digits [of k] unfolding digits_def by (intro first_Group first_Plus) (auto simp: list_all_iff)

lemma first_blank: "r = [] \<or> \<not> is_blank (hd r) \<Longrightarrow> first blanks (g, b, CHR '' '' # r) (g, CHR '' '' # b, r)"
  using first_Many [of "'' ''" is_blank r g b] by (simp add: blanks_def is_blank_def)

lemma first_Opt: "first x p q \<Longrightarrow> first (Opt x) p q"
  by (simp add: Opt_def first_Or)

lemma first_Opt_skip: "run x p = [] \<Longrightarrow> first (Opt x) p p"
  by (simp add: Opt_def first_def)

lemma run_lit_none: "s \<noteq> [] \<Longrightarrow> r = [] \<or> hd r \<noteq> hd s \<Longrightarrow> run (lit s) (g, b, r) = []"
  by (cases s; cases r) (simp_all add: lit_def seq_Cons)

lemma first_lit1: "first (lit [c]) (g, b, c # r) (g, c # b, r)"
  using first_lit [of "[c]" g b r] by simp

lemma first_skip_paren: "p \<noteq> [] \<Longrightarrow> r = [] \<or> hd r \<noteq> hd p \<Longrightarrow> first (Opt (lit p)) (g, b, r) (g, b, r)"
  by (intro first_Opt_skip run_lit_none)

lemma first_skip_cast: "r = [] \<or> hd r \<noteq> CHR '':'' \<Longrightarrow> first cast (g, b, r) (g, b, r)"
  unfolding cast_def using run_lit_none [of "''::''" r g b] by (intro first_Opt_skip) simp

lemma first_text_cast: "first cast (g, b, ''::text)'' @ r) (g, rev ''::text'' @ b, '')'' @ r)"
proof -
  have "first words (g, ''::'' @ b, ''text'' @ '')'' @ r) (g, rev ''text'' @ ''::'' @ b, '')'' @ r)"
    unfolding words_def by (rule first_Plus) (auto simp: is_word_def in_range_def)
  from first_Cat [OF first_lit [of "''::''" g b "''text)'' @ r"], of words] this show ?thesis
    unfolding cast_def by (intro first_Opt) simp
qed

lemma run_seq_Cons: "run (seq (x # xs)) p = concat (map (run (seq xs)) (run x p))"
proof (cases xs)
  case Nil
  have "concat (map (run Eps) ps) = ps" for ps by (induction ps) simp_all
  with Nil show ?thesis by simp
qed simp

lemma run_seq_append: "run (seq (xs @ ys)) p = concat (map (run (seq ys)) (run (seq xs) p))"
proof (induction xs arbitrary: p)
  case (Cons x xs)
  have "concat (map (run (seq (xs @ ys))) ps) = concat (map (run (seq ys)) (concat (map (run (seq xs)) ps)))" for ps
    using Cons.IH by (induction ps) simp_all
  then show ?case unfolding append_Cons run_seq_Cons .
qed simp

text \<open>A reading of a list of expressions, each by its preferred way; an optional one is left out when nothing can follow it.\<close>

inductive firsts :: "rx list \<Rightarrow> pos \<Rightarrow> pos \<Rightarrow> bool" where
  firsts_Nil: "firsts [] p p"
| firsts_Cons: "first x p t \<Longrightarrow> firsts xs t q \<Longrightarrow> firsts (x # xs) p q"
| firsts_back: "run x p = [t] \<Longrightarrow> run (seq xs) t = [] \<Longrightarrow> firsts xs p q \<Longrightarrow> firsts (Opt x # xs) p q"

lemma firsts_seq: "firsts xs p q \<Longrightarrow> first (seq xs) p q"
proof (induction rule: firsts.induct)
  case (firsts_Nil p)
  then show ?case by (simp add: first_Eps)
next
  case (firsts_Cons x p t xs q)
  then show ?case by (intro first_seq_Cons)
next
  case (firsts_back x p t xs q)
  then show ?case unfolding first_def run_seq_Cons by (simp add: Opt_def)
qed

lemma firsts_append: "firsts xs p t \<Longrightarrow> firsts ys t q \<Longrightarrow> firsts (xs @ ys) p q"
  by (induction rule: firsts.induct) (auto intro: firsts.intros simp: run_seq_append)

definition operand :: "string \<Rightarrow> rx list" where
  "operand op = [blanks, lit op, blanks, Group 2 digits]"

lemma firsts_operand:
  assumes "op \<noteq> []" "\<not> is_blank (hd op)" "r = [] \<or> \<not> is_digit (hd r)"
  shows "\<exists>b'. firsts (operand op) (g, b, '' '' @ op @ '' '' @ dec_nat k @ r) ((2, dec_nat k) # g, b', r)"
proof -
  let ?b = "CHR '' '' # rev op @ CHR '' '' # b"
  have 1: "first blanks (g, b, CHR '' '' # op @ '' '' @ dec_nat k @ r) (g, CHR '' '' # b, op @ '' '' @ dec_nat k @ r)"
    using assms(1,2) by (intro first_blank) auto
  have 2: "first blanks (g, rev op @ CHR '' '' # b, CHR '' '' # dec_nat k @ r) (g, ?b, dec_nat k @ r)"
    using word_chars(10) [OF digit_is_word [OF hd_dec_nat [of k]]] by (intro first_blank) simp
  have "firsts (operand op) (g, b, CHR '' '' # op @ '' '' @ dec_nat k @ r) ((2, dec_nat k) # g, rev (dec_nat k) @ ?b, r)"
    unfolding operand_def using 2
    by (intro firsts_Cons [OF 1] firsts_Cons [OF first_lit] firsts_Cons [OF _ firsts_Cons [OF first_digits [OF assms(3)] firsts_Nil]]) simp
  then show ?thesis by auto
qed

text \<open>The column, bare or in the parentheses of a conjunction.\<close>

lemma firsts_column:
  assumes "column_name col" "r \<noteq> []" "hd r = CHR '' ''"
  shows "\<exists>b'. firsts column ([], b, col @ r) ([(1, col)], b', r)" "\<exists>b'. firsts column ([], b, ''('' @ col @ r) ([(1, col)], b', r)"
proof -
  have w: "\<not> is_word (hd r)" using assms(3) by (simp add: is_word_def in_range_def)
  have tail: "firsts [Group 1 words, close_paren, cast] ([], b, col @ r) ([(1, col)], rev col @ b, r)" for b
    using assms w by (intro firsts_Cons [OF first_column] firsts_Cons [OF first_skip_paren] firsts_Cons [OF first_skip_cast] firsts_Nil) auto
  have "col @ r \<noteq> []" "hd (col @ r) \<noteq> CHR ''(''" using column_words [OF assms(1)] by (auto simp: list_all_iff word_chars)
  then have "firsts column ([], b, col @ r) ([(1, col)], rev col @ b, r)"
    unfolding column_def using tail by (intro firsts_Cons [OF first_skip_paren]) auto
  then show "\<exists>b'. firsts column ([], b, col @ r) ([(1, col)], b', r)" ..
  have "firsts column ([], b, ''('' @ col @ r) ([(1, col)], rev col @ CHR ''('' # b, r)"
    unfolding column_def using tail by (auto intro: firsts_Cons [OF first_Opt [OF first_lit1]])
  then show "\<exists>b'. firsts column ([], b, ''('' @ col @ r) ([(1, col)], b', r)" ..
qed

text \<open>The length of a column, as it is or cast to text.\<close>

definition length_of :: "bool \<Rightarrow> string \<Rightarrow> string" where
  "length_of casts col = (if casts then ''char_length(('' @ col @ '')::text)'' else ''char_length('' @ col @ '')'')"

lemma firsts_length:
  assumes "column_name col" and "r = [] \<or> hd r \<noteq> CHR '':'' \<and> hd r \<noteq> CHR '')''"
  shows "\<exists>b'. firsts char_length_of ([], b, length_of casts col @ r) ([(1, col)], b', r)"
proof -
  let ?b = "rev ''char_length('' @ b"
  have w: "col @ t \<noteq> []" "hd (col @ t) \<noteq> CHR ''(''" for t using column_words [OF assms(1)] by (auto simp: list_all_iff word_chars)
  have start: "first (lit_i ''char_length('') ([], b, ''char_length('' @ t) ([], ?b, t)" for t
    by (rule first_lit_i) simp
  have close: "firsts [lit '')''] ([(1, col)], b', '')'' @ r) ([(1, col)], '')'' @ b', r)" for b'
    using first_lit1 [of "CHR '')''" "[(1, col)]" b' r] by (simp add: firsts_Cons [OF _ firsts_Nil])
  have word: "first (Group 1 words) ([], b', col @ '')'' @ t) ([(1, col)], rev col @ b', '')'' @ t)" for b' t
    by (rule first_column [OF assms(1)]) (simp add: is_word_def in_range_def)
  have open_p: "first open_paren ([], ?b, ''('' @ t) ([], ''('' @ ?b, t)" for t
    using first_Opt [OF first_lit1 [of "CHR ''(''" "[]" ?b t]] by simp
  have close_p: "first close_paren (g, b', '')'' @ t) (g, '')'' @ b', t)" for g b' t
    using first_Opt [OF first_lit1 [of "CHR '')''" g b' t]] by simp
  show ?thesis
  proof (cases casts)
    case True
    have "firsts char_length_of ([], b, ''char_length('' @ ''('' @ col @ '')'' @ ''::text)'' @ r)
        ([(1, col)], '')'' @ rev ''::text'' @ '')'' @ rev col @ ''('' @ ?b, r)"
      unfolding char_length_of_def
      by (intro firsts_Cons [OF start] firsts_Cons [OF open_p] firsts_Cons [OF word] firsts_Cons [OF close_p]
          firsts_Cons [OF first_text_cast] close)
    with True show ?thesis by (auto simp: length_of_def)
  next
    case False
    have none: "run (seq [cast, lit '')'']) ([(1, col)], '')'' @ rev col @ ?b, r) = []"
      using assms(2) run_lit_none [of "'')''" r] run_lit_none [of "''::''" r] by (auto simp: cast_def Opt_def)
    have one: "run (lit '')'') ([(1, col)], rev col @ ?b, '')'' @ r) = [([(1, col)], '')'' @ rev col @ ?b, r)]"
      by (simp add: lit_def)
    have "firsts char_length_of ([], b, ''char_length('' @ col @ '')'' @ r) ([(1, col)], '')'' @ rev col @ ?b, r)"
      unfolding char_length_of_def
      by (intro firsts_Cons [OF start] firsts_Cons [OF first_skip_paren] firsts_Cons [OF word] firsts_back [OF one none]
          firsts_Cons [OF first_skip_cast] close) (use w in auto)
    with False show ?thesis by (auto simp: length_of_def)
  qed
qed

lemma found_by:
  assumes "firsts xs ([], [], s) ([(1, col)], b, '' '' @ op @ '' '' @ dec_nat k @ r)" "op \<noteq> []" "\<not> is_blank (hd op)" "r = [] \<or> \<not> is_digit (hd r)"
  shows "\<exists>m. FindStringSubmatch (seq (xs @ [blanks, lit op, blanks, Group 2 digits])) s = Some m \<and> grp m 1 = col \<and> grp m 2 = dec_nat k"
proof -
  obtain b' where "firsts (operand op) ([(1, col)], b, '' '' @ op @ '' '' @ dec_nat k @ r) ([(2, dec_nat k), (1, col)], b', r)"
    using firsts_operand [OF assms(2-4), of "[(1, col)]"] by blast
  from firsts_seq [OF firsts_append [OF assms(1) this]] show ?thesis
    unfolding operand_def by (auto dest!: search_first simp: FindStringSubmatch_def submatch_of_def grp_def)
qed

section \<open>Rules of one column\<close>

datatype check = MaxLength bool nat | ExactLength bool nat | AtLeast nat | Above nat

definition clause_text :: "string \<Rightarrow> check \<Rightarrow> string" where
  "clause_text col k = (case k of
     MaxLength casts n \<Rightarrow> length_of casts col @ '' <= '' @ dec_nat n
   | ExactLength casts n \<Rightarrow> length_of casts col @ '' = '' @ dec_nat n
   | AtLeast n \<Rightarrow> col @ '' >= '' @ dec_nat n
   | Above n \<Rightarrow> col @ '' > '' @ dec_nat n)"

fun check_rule :: "check \<Rightarrow> FieldConstraint \<Rightarrow> FieldConstraint" where
  "check_rule (MaxLength _ n) fc = fc\<lparr>fk_MaxLength := Some (int n)\<rparr>"
| "check_rule (ExactLength _ n) fc = fc\<lparr>fk_ExactLength := Some (int n)\<rparr>"
| "check_rule (AtLeast n) fc = fc\<lparr>fk_Min := Some (int n)\<rparr>"
| "check_rule (Above n) fc = fc\<lparr>fk_Min := Some (int n + 1)\<rparr>"

fun check_bound :: "check \<Rightarrow> nat" where
  "check_bound (MaxLength _ n) = n"
| "check_bound (ExactLength _ n) = n"
| "check_bound (AtLeast n) = n"
| "check_bound (Above n) = n + 1"

lemma word_set: "list_all is_word w \<Longrightarrow> \<not> is_word c \<Longrightarrow> c \<notin> set w"
  by (auto simp: list_all_iff)

lemma words_no_pair:
  assumes "list_all is_word w"
  shows "\<not> pair_in P (\<lambda>c. c = CHR ''('') w" "\<not> pair_in is_blank Q w" "\<not> pair_in P (\<lambda>c. c = CHR ''='') w"
    "\<not> pair_in P (\<lambda>c. lower_char c = CHR ''('') w" "\<not> pair_in (\<lambda>c. c = CHR ''>'') Q w"
proof -
  have p: "\<not> lower_char c = CHR ''(''" if "is_word c" for c
  proof
    assume "lower_char c = CHR ''(''"
    then have "(of_char (lower_char c) :: nat) = 40" by (simp add: lower_char_def)
    then show False using that by (auto simp: lower_char_def is_word_def in_range_def Let_def split: if_splits)
  qed
  show "\<not> pair_in P (\<lambda>c. c = CHR ''('') w" "\<not> pair_in P (\<lambda>c. c = CHR ''='') w" "\<not> pair_in P (\<lambda>c. lower_char c = CHR ''('') w"
    using assms p by (auto simp: list_all_iff intro!: pair_in_none dest: word_chars)
  show "\<not> pair_in is_blank Q w" "\<not> pair_in (\<lambda>c. c = CHR ''>'') Q w"
    using assms by (auto simp: list_all_iff intro!: pair_in_none_left dest: word_chars)
qed

lemma column_ends:
  assumes "column_name col"
  shows "is_word (hd col)" "is_word (last col)" "col \<noteq> []"
  using assms by (simp_all add: column_name_def list_all_iff)

lemma lower_char_digit: "is_digit c \<Longrightarrow> lower_char c = c"
  by (simp add: is_digit_def lower_char_def)

lemma digit_chars: "is_digit c \<Longrightarrow> c \<noteq> CHR ''b''" "is_digit c \<Longrightarrow> c \<noteq> CHR ''(''"
  by (auto simp: is_digit_def)

lemma lower_chars:
  "lower_char CHR ''('' = CHR ''(''" "lower_char CHR '')'' = CHR '')''" "lower_char CHR ''<'' = CHR ''<''" "lower_char CHR ''>'' = CHR ''>''"
  "lower_char CHR ''='' = CHR ''=''" "lower_char CHR '' '' = CHR '' ''" "lower_char CHR '':'' = CHR '':''" "lower_char CHR ''A'' = CHR ''a''" "lower_char CHR ''N'' = CHR ''n''" "lower_char CHR ''D'' = CHR ''d''"
  "lower_char CHR ''b'' = CHR ''b''" "lower_char CHR ''h'' = CHR ''h''" "lower_char CHR ''r'' = CHR ''r''"
  by code_simp+

lemmas pair_simps = lower_chars pair_in_append pair_in_Cons clause_text_def length_of_def dec_nat_words
  words_no_pair [OF dec_nat_words] lower_char_digit [OF hd_dec_nat]
  digit_chars [OF hd_dec_nat] digit_chars [OF last_dec_nat] word_chars [OF digit_is_word [OF hd_dec_nat]]

lemma clause_no_pairs:
  assumes col: "column_name col"
  shows "\<not> pair_in (like CHR ''r'') (\<lambda>c. c = CHR ''('') (clause_text col k)"
    and "\<not> pair_in is_blank (like CHR ''b'') (clause_text col k)"
proof -
  note f = pair_simps words_no_pair [OF column_words(1) [OF col]] column_ends [OF col]
    word_chars [OF column_ends(1) [OF col]] word_chars [OF column_ends(2) [OF col]]
  show "\<not> pair_in (like CHR ''r'') (\<lambda>c. c = CHR ''('') (clause_text col k)"
    by (cases k) (simp_all add: f)
  show "\<not> pair_in is_blank (like CHR ''b'') (clause_text col k)"
    by (cases k) (simp_all add: f is_blank_def)
qed

lemma clause_chars:
  assumes col: "column_name col"
  shows "CHR ''?'' \<notin> set (clause_text col k)" "CHR ''-'' \<notin> set (clause_text col k)" "CHR ''~'' \<notin> set (clause_text col k)"
proof -
  have n: "\<not> is_word CHR ''?''" "\<not> is_word CHR ''-''" "\<not> is_word CHR ''~''" by (simp_all add: is_word_def in_range_def)
  note f = clause_text_def length_of_def n word_set [OF dec_nat_words] word_set [OF column_words(1) [OF col]]
  show "CHR ''?'' \<notin> set (clause_text col k)" "CHR ''-'' \<notin> set (clause_text col k)" "CHR ''~'' \<notin> set (clause_text col k)"
    by (cases k; simp add: f)+
qed

lemma no_jsonb_text: "CHR ''?'' \<notin> set s \<Longrightarrow> CHR ''-'' \<notin> set s \<Longrightarrow> parseJsonb s = None"
  using contains_lit [of "CHR ''?''" "''?''" s] contains_lit [of "CHR ''-''" "''->>''" s] by (simp add: parseJsonb_def)

lemma no_range: "\<not> pair_in (like CHR ''r'') (\<lambda>c. c = CHR ''('') s \<Longrightarrow> parseRangeValidity s = None"
  using no_match_iffs(1) [OF no_match_pair [OF pair_reRangeValid]] by (simp add: parseRangeValidity_def)

lemma no_pattern: "CHR ''~'' \<notin> set s \<Longrightarrow> FindAllStringSubmatch reRegex s = []"
  by (intro no_match_iffs(2) no_match_needs [OF needs_chars(1)]) auto

lemmas no_between = no_match_iffs(1) [OF no_match_pair [OF pair_between(1)]] no_match_iffs(1) [OF no_match_pair [OF pair_between(2)]]

lemma no_char: "needs (\<lambda>c. c = d) x \<Longrightarrow> d \<notin> set s \<Longrightarrow> FindStringSubmatch x s = None"
  by (intro no_match_iffs(1) no_match_needs) auto

lemma no_length:
  assumes "\<not> pair_in (like CHR ''h'') (like CHR ''('') s"
  shows "FindStringSubmatch reCharLenBetween s = None" "FindStringSubmatch reCharLenEQ s = None" "FindStringSubmatch reCharLenLTE s = None"
  using assms pair_char_length by (blast intro: no_match_iffs(1) no_match_pair)+

lemma no_gt: "\<not> pair_in (\<lambda>c. c = CHR ''>'') (\<lambda>c. is_blank c \<or> is_digit c) s \<Longrightarrow> FindStringSubmatch reGT s = None"
  by (rule no_match_iffs(1) [OF no_match_pair [OF pair_reGT]])

lemma no_eq: "\<not> pair_in (\<lambda>c. is_blank c \<or> c = CHR '')'') (\<lambda>c. c = CHR ''='') s \<Longrightarrow> FindStringSubmatch reCharLenEQ s = None"
  by (rule no_match_iffs(1) [OF no_match_pair [OF pair_reCharLenEQ]])

lemma length_clause:
  assumes "column_name col" "op \<noteq> []" "\<not> is_blank (hd op)"
  shows "\<exists>m. FindStringSubmatch (seq (char_length_of @ [blanks, lit op, blanks, Group 2 digits])) (length_of casts col @ '' '' @ op @ '' '' @ dec_nat n) = Some m
    \<and> grp m 1 = col \<and> grp m 2 = dec_nat n"
proof -
  obtain b where "firsts char_length_of ([], [], length_of casts col @ '' '' @ op @ '' '' @ dec_nat n @ []) ([(1, col)], b, '' '' @ op @ '' '' @ dec_nat n @ [])"
    using firsts_length [OF assms(1), of "'' '' @ op @ '' '' @ dec_nat n @ []" "[]" casts] by auto
  from found_by [OF this assms(2,3)] show ?thesis by simp
qed

lemma number_clause:
  assumes "column_name col" "op \<noteq> []" "\<not> is_blank (hd op)" "r = [] \<or> \<not> is_digit (hd r)" "p = [] \<or> p = ''(''"
  shows "\<exists>m. FindStringSubmatch (seq (column @ [blanks, lit op, blanks, Group 2 digits])) (p @ col @ '' '' @ op @ '' '' @ dec_nat n @ r) = Some m
    \<and> grp m 1 = col \<and> grp m 2 = dec_nat n"
proof -
  obtain b where "firsts column ([], [], p @ col @ '' '' @ op @ '' '' @ dec_nat n @ r) ([(1, col)], b, '' '' @ op @ '' '' @ dec_nat n @ r)"
    using firsts_column [OF assms(1), of "'' '' @ op @ '' '' @ dec_nat n @ r" "[]"] assms(5) by auto
  from found_by [OF this assms(2-4)] show ?thesis .
qed

lemma int64_id: "in_int64 i \<Longrightarrow> int64 i = i"
  by (simp add: int64_def in_int64_def sint_sbintrunc' signed_take_bit_int_eq_self)

lemma clause_rule:
  assumes col: "column_name col" and n: "check_bound k < 2 ^ 63"
  shows "parseClause (clause_text col k) col = Some (col, check_rule k no_constraint)"
proof -
  have c: "\<not> is_word CHR ''<''" "\<not> is_word CHR ''>''" "\<not> is_word CHR ''=''" by (simp_all add: is_word_def in_range_def)
  note sets = clause_text_def length_of_def c word_set [OF dec_nat_words] word_set [OF column_words(1) [OF col]]
  note pairs = pair_simps words_no_pair [OF column_words(1) [OF col]] column_ends [OF col]
    word_chars [OF column_ends(1) [OF col]] word_chars [OF column_ends(2) [OF col]]
  note blank = is_blank_def
  note always = no_pattern [OF clause_chars(3) [OF col]] no_between [OF clause_no_pairs(2) [OF col]]
  have function_free: "col \<notin> set functionNames" using col by (simp add: column_name_def)
  note run = parseClause_def on_match_def found_def unless_function_def atoi_dec_nat column_ends(3) [OF col] function_free always
    length_lte_def length_eq_def value_gte_def value_gt_def
  show ?thesis
  proof (cases k)
    case (MaxLength casts n)
    have "FindStringSubmatch reGTE (clause_text col k) = None" "FindStringSubmatch reGT (clause_text col k) = None"
      by (rule no_char [OF needs_chars(3)], simp add: MaxLength sets) (rule no_char [OF needs_chars(5)], simp add: MaxLength sets)
    moreover have "FindStringSubmatch reCharLenEQ (clause_text col k) = None"
      by (rule no_eq) (simp add: MaxLength pairs blank)
    moreover obtain m where "FindStringSubmatch reCharLenLTE (clause_text col k) = Some m" "grp m 1 = col" "grp m 2 = dec_nat n"
      using length_clause [OF col, of "''<=''" casts n] by (auto simp: MaxLength clause_text_def reCharLenLTE_def blank)
    ultimately show ?thesis using n by (simp add: run MaxLength)
  next
    case (ExactLength casts n)
    have "FindStringSubmatch reGTE (clause_text col k) = None" "FindStringSubmatch reGT (clause_text col k) = None"
      by (rule no_char [OF needs_chars(3)], simp add: ExactLength sets) (rule no_char [OF needs_chars(5)], simp add: ExactLength sets)
    moreover have "FindStringSubmatch reCharLenLTE (clause_text col k) = None"
      by (rule no_char [OF needs_chars(2)]) (simp add: ExactLength sets)
    moreover obtain m where "FindStringSubmatch reCharLenEQ (clause_text col k) = Some m" "grp m 1 = col" "grp m 2 = dec_nat n"
      using length_clause [OF col, of "''=''" casts n] by (auto simp: ExactLength clause_text_def reCharLenEQ_def blank)
    ultimately show ?thesis using n by (simp add: run ExactLength)
  next
    case (AtLeast n)
    note no_length [of "clause_text col k"]
    moreover have "\<not> pair_in (like CHR ''h'') (like CHR ''('') (clause_text col k)" by (simp add: AtLeast pairs)
    moreover have "FindStringSubmatch reGT (clause_text col k) = None"
      by (rule no_gt) (simp add: AtLeast pairs blank is_digit_def)
    moreover obtain m where "FindStringSubmatch reGTE (clause_text col k) = Some m" "grp m 1 = col" "grp m 2 = dec_nat n"
      using number_clause [OF col, of "''>=''" "[]" "[]" n] by (auto simp: AtLeast clause_text_def reGTE_def blank)
    ultimately show ?thesis using n by (simp add: run AtLeast)
  next
    case (Above n)
    note no_length [of "clause_text col k"]
    moreover have "\<not> pair_in (like CHR ''h'') (like CHR ''('') (clause_text col k)" by (simp add: Above pairs)
    moreover have "FindStringSubmatch reGTE (clause_text col k) = None"
      by (rule no_char [OF needs_chars(4)]) (simp add: Above sets)
    moreover obtain m where "FindStringSubmatch reGT (clause_text col k) = Some m" "grp m 1 = col" "grp m 2 = dec_nat n"
      using number_clause [OF col, of "''>''" "[]" "[]" n] by (auto simp: Above clause_text_def reGT_def blank)
    ultimately show ?thesis using n by (simp add: run Above int64_id in_int64_def)
  qed
qed

section \<open>Rows of the schema\<close>

lemma mergeField_rule: "mergeField dst (check_rule k no_constraint) = check_rule k dst"
  by (cases k) (simp_all add: mergeField_def no_constraint_def or_else_def)

lemma rule_not_empty: "\<not> isEmpty (check_rule k no_constraint)"
  by (cases k) (simp_all add: isEmpty_def)

lemma clause_ends:
  assumes col: "column_name col"
  shows "clause_text col k \<noteq> []" "solid (hd (clause_text col k))" "solid (last (clause_text col k))"
    "upper_char (last (clause_text col k)) \<noteq> CHR ''L''" "hd (clause_text col k) \<noteq> CHR ''(''" "0 \<le> parenDepth (clause_text col k)"
proof -
  note f = clause_text_def length_of_def column_ends [OF col] solid_parens
  have d: "solid (last (dec_nat n))" "upper_char (last (dec_nat n)) \<noteq> CHR ''L''" for n
    using last_dec_nat [of n] solid_word [OF dec_nat_words, of n] by (auto simp: upper_char_digit is_digit_def)
  have w: "solid (hd col)" "hd col \<noteq> CHR ''(''" using solid_word [OF column_words(1) [OF col]] column_ends [OF col] by (simp_all add: word_chars)
  show "clause_text col k \<noteq> []" "solid (hd (clause_text col k))" "solid (last (clause_text col k))"
    "upper_char (last (clause_text col k)) \<noteq> CHR ''L''" "hd (clause_text col k) \<noteq> CHR ''(''"
    by (cases k; simp add: f d w)+
  show "0 \<le> parenDepth (clause_text col k)"
    by (cases k) (simp_all add: f parenDepth_def depth_loop_words depth_loop_words_end dec_nat_words column_words [OF col])
qed

definition printed :: "string \<Rightarrow> check \<Rightarrow> string" where
  "printed col k = ''('' @ clause_text col k @ '')''"

lemma check_row_rule:
  assumes col: "column_name col" "col \<notin> set internalFields" and row: "ck_columnName row = Some col" "ck_checkClause row = printed col k"
    and n: "check_bound k < 2 ^ 63"
  shows "sync_check row cm = (let key = table_key (ck_schema row) (ck_table row)
     in AList.update key (update_field col (check_rule k) (getOrCreate cm key)) cm)"
proof -
  have "stripOuterParens (ck_checkClause row) = clause_text col k"
    unfolding row(2) printed_def by (rule strip_plain) (rule clause_ends [OF col(1)])+
  moreover have "\<not> isNullCheck (clause_text col k)" by (rule not_null_check) (rule clause_ends [OF col(1)])+
  moreover have "parseJsonb (clause_text col k) = None" by (rule no_jsonb_text) (rule clause_chars [OF col(1)])+
  moreover have "parseRangeValidity (clause_text col k) = None" by (rule no_range) (rule clause_no_pairs [OF col(1)])
  moreover have "single_field (clause_text col k) col = Some (col, check_rule k no_constraint)"
    using clause_rule [OF col(1) n] rule_not_empty by (simp add: single_field_def)
  ultimately show ?thesis using row(1) col(2) by (simp add: sync_check_def Let_def classify_def mergeField_rule)
qed

text \<open>C40. The generator turns the CHECK constraints on one column into their validation rules: for every column and every bound,
  the clause PostgreSQL prints for an upper limit on the length, an exact length, a minimum or a strict lower bound
  becomes that rule of the column, and nothing else of the collected rules changes.\<close>

theorem checks_become_rules:
  assumes "column_name col" "col \<notin> set internalFields" and "ck_columnName row = Some col" "ck_checkClause row = printed col k"
    and "check_bound k < 2 ^ 63"
  shows "sync_check row cm = (let key = table_key (ck_schema row) (ck_table row)
     in AList.update key (update_field col (check_rule k) (getOrCreate cm key)) cm)"
  using assms by (rule check_row_rule)

section \<open>BETWEEN\<close>

definition between_clause :: "string \<Rightarrow> nat \<Rightarrow> nat \<Rightarrow> string" where
  "between_clause col lo hi = ''('' @ col @ '' >= '' @ dec_nat lo @ '') AND ('' @ col @ '' <= '' @ dec_nat hi @ '')''"

lemma between_rule:
  assumes col: "column_name col" and n: "lo < 2 ^ 63"
  shows "parseClause (between_clause col lo hi) col = Some (col, check_rule (AtLeast lo) no_constraint)"
proof -
  have c: "\<not> is_word CHR ''~''" by (simp add: is_word_def in_range_def)
  note pairs = pair_simps words_no_pair [OF column_words(1) [OF col]] column_ends [OF col] between_clause_def
    word_chars [OF column_ends(1) [OF col]] word_chars [OF column_ends(2) [OF col]]
  have function_free: "col \<notin> set functionNames" using col by (simp add: column_name_def)
  have "\<not> pair_in (like CHR ''h'') (like CHR ''('') (between_clause col lo hi)" by (simp add: pairs)
  note no_length [OF this]
  moreover have "\<not> pair_in is_blank (like CHR ''b'') (between_clause col lo hi)" by (simp add: pairs is_blank_def)
  note no_between [OF this]
  moreover have "FindAllStringSubmatch reRegex (between_clause col lo hi) = []"
    by (rule no_pattern) (simp add: between_clause_def word_set [OF dec_nat_words] word_set [OF column_words(1) [OF col]] c)
  moreover have "FindStringSubmatch reGT (between_clause col lo hi) = None"
    by (rule no_gt) (simp add: pairs is_blank_def is_digit_def)
  moreover obtain m where "FindStringSubmatch reGTE (between_clause col lo hi) = Some m" "grp m 1 = col" "grp m 2 = dec_nat lo"
    using number_clause [OF col, of "''>=''" "'') AND ('' @ col @ '' <= '' @ dec_nat hi @ '')''" "''(''" lo]
    by (auto simp: between_clause_def reGTE_def is_blank_def is_digit_def)
  ultimately show ?thesis
    using n by (simp add: parseClause_def on_match_def found_def unless_function_def atoi_dec_nat column_ends(3) [OF col] function_free value_gte_def)
qed

lemma between_row_rule:
  assumes col: "column_name col" "col \<notin> set internalFields" and row: "ck_columnName row = Some col" "ck_checkClause row = ''('' @ between_clause col lo hi @ '')''"
    and n: "lo < 2 ^ 63"
  shows "sync_check row cm = (let key = table_key (ck_schema row) (ck_table row)
     in AList.update key (update_field col (\<lambda>fc. fc\<lparr>fk_Min := Some (int lo)\<rparr>) (getOrCreate cm key)) cm)"
proof -
  let ?s = "between_clause col lo hi" and ?t = "col @ '' >= '' @ dec_nat lo @ '') AND ('' @ col @ '' <= '' @ dec_nat hi"
  have c: "\<not> is_word CHR ''?''" "\<not> is_word CHR ''-''" by (simp_all add: is_word_def in_range_def)
  have s: "?s = ''('' @ ?t @ '')''" by (simp add: between_clause_def)
  have "stripOuterParens (ck_checkClause row) = ?s"
    using strip_conjunction [of ?t] column_ends [OF col(1)] unfolding row(2) s
    by (simp add: parenDepth_def depth_loop_words depth_loop_words_end dec_nat_words column_words [OF col(1)])
  moreover have "\<not> isNullCheck ?s" by (rule not_null_check) (simp_all add: s solid_parens upper_char_def)
  moreover have "parseJsonb ?s = None"
    by (rule no_jsonb_text) (simp_all add: s c word_set [OF dec_nat_words] word_set [OF column_words(1) [OF col(1)]])
  moreover have "parseRangeValidity ?s = None"
    by (rule no_range) (simp add: between_clause_def pair_simps words_no_pair [OF column_words(1) [OF col(1)]] column_ends [OF col(1)] word_chars [OF column_ends(1) [OF col(1)]])
  moreover have "single_field ?s col = Some (col, check_rule (AtLeast lo) no_constraint)"
    using between_rule [OF col(1) n] rule_not_empty [of "AtLeast lo"] by (simp add: single_field_def)
  ultimately show ?thesis using row(1) col(2) by (simp add: sync_check_def Let_def classify_def mergeField_rule del: check_rule.simps) simp
qed

text \<open>The upper bound of a BETWEEN is lost: PostgreSQL prints the constraint as two comparisons, of which the generator
  records the minimum only. No maximum is written, although the tool has a pattern for BETWEEN that sets both.\<close>

theorem between_loses_upper_bound:
  assumes "column_name col" "col \<notin> set internalFields" and "ck_columnName row = Some col"
    and "ck_checkClause row = ''('' @ between_clause col lo hi @ '')''" and "lo < 2 ^ 63"
  shows "sync_check row cm = (let key = table_key (ck_schema row) (ck_table row)
     in AList.update key (update_field col (\<lambda>fc. fc\<lparr>fk_Min := Some (int lo)\<rparr>) (getOrCreate cm key)) cm)"
  using assms by (rule between_row_rule)

end
