(* ===== verification/ConstraintFile.thy ===== *)
theory ConstraintFile
  imports ConstraintRules Validation "HOL-Library.Monad_Syntax"
begin

text \<open>
  From the generator to the validator: \<open>config/constraints.g.yml\<close> is written by \<open>cmd/tools/sync-constraints\<close> and read, once,
  when \<open>internal/platform/constraints\<close> is initialised.

  The library makes the text of a document and reads it back: the encoder and the parser are parameters. What is
  modelled is the document itself and how its values fill the structs, by the tags of \<open>constraints.go\<close>.
\<close>

section \<open>constraints.go: reading the document\<close>

definition yaml_null :: "string \<Rightarrow> bool" where
  "yaml_null t \<longleftrightarrow> t \<in> {[], ''~'', ''null'', ''Null'', ''NULL''}"

definition load_bool :: "yaml option \<Rightarrow> bool option" where
  "load_bool y = (case y of None \<Rightarrow> Some False
   | Some (Scalar tag v) \<Rightarrow> if v = ''true'' then Some True else if v = ''false'' then Some False else None
   | _ \<Rightarrow> None)"

definition load_int :: "yaml option \<Rightarrow> int option option" where
  "load_int y = (case y of None \<Rightarrow> Some None
   | Some (Scalar tag v) \<Rightarrow> if yaml_null v then Some None else map_option Some (strconv_Atoi v)
   | _ \<Rightarrow> None)"

definition load_str :: "yaml option \<Rightarrow> string option option" where
  "load_str y = (case y of None \<Rightarrow> Some None
   | Some (Scalar tag v) \<Rightarrow> Some (if yaml_null v then None else Some v)
   | _ \<Rightarrow> None)"

definition load_map :: "(yaml \<Rightarrow> 'a option) \<Rightarrow> yaml option \<Rightarrow> (string \<times> 'a) list option" where
  "load_map ld y = (case y of None \<Rightarrow> Some []
   | Some (Mapping m) \<Rightarrow> those (map (\<lambda>(k, v). map_option (Pair (if yaml_null k then [] else k)) (ld v)) m)
   | _ \<Rightarrow> None)"

definition load_jsonb :: "yaml \<Rightarrow> JsonbSubField option" where
  "load_jsonb y = (case y of
     Mapping m \<Rightarrow> do {
       req \<leftarrow> load_bool (map_of m ''required'');
       pat \<leftarrow> load_str (map_of m ''pattern'');
       mn \<leftarrow> load_int (map_of m ''min'');
       mx \<leftarrow> load_int (map_of m ''max'');
       Some \<lparr>js_Required = req, js_Pattern = pat, js_Min = mn, js_Max = mx\<rparr> }
   | _ \<Rightarrow> None)"

definition load_field :: "yaml \<Rightarrow> Field option" where
  "load_field y = (case y of
     Mapping m \<Rightarrow> do {
       req \<leftarrow> load_bool (map_of m ''required'');
       maxl \<leftarrow> load_int (map_of m ''max_length'');
       minl \<leftarrow> load_int (map_of m ''min_length'');
       exact \<leftarrow> load_int (map_of m ''exact_length'');
       mn \<leftarrow> load_int (map_of m ''min'');
       mx \<leftarrow> load_int (map_of m ''max'');
       pat \<leftarrow> load_str (map_of m ''pattern'');
       co \<leftarrow> load_str (map_of m ''required_with'');
       vr \<leftarrow> load_bool (map_of m ''valid_range'');
       js \<leftarrow> load_map load_jsonb (map_of m ''jsonb'');
       Some \<lparr>fc_Required = req, fc_MaxLength = maxl, fc_MinLength = minl, fc_ExactLength = exact, fc_Min = mn, fc_Max = mx,
         fc_Pattern = pat, fc_Jsonb = js\<rparr> }
   | _ \<Rightarrow> None)"

definition load_table :: "yaml \<Rightarrow> TableEntry option" where
  "load_table y = (case y of Mapping m \<Rightarrow> load_map load_field (map_of m ''fields'') | _ \<Rightarrow> None)"

definition load_file :: "yaml \<Rightarrow> (string \<times> TableEntry) list option" where
  "load_file y = (case y of Mapping m \<Rightarrow> load_map load_table (map_of m ''constraints'') | _ \<Rightarrow> None)"

section \<open>constraints.go: matching a pattern\<close>

text \<open>Compiled patterns are kept; \<open>regexp.Compile\<close> is a parameter.\<close>

type_synonym matcher = "string \<Rightarrow> bool"

definition MatchPattern :: "(string \<Rightarrow> matcher option) \<Rightarrow> string \<Rightarrow> string \<Rightarrow> (string \<rightharpoonup> matcher) \<Rightarrow> bool \<times> (string \<rightharpoonup> matcher)" where
  "MatchPattern compile pattern v regexCache = (case regexCache pattern of
     Some re \<Rightarrow> (re v, regexCache)
   | None \<Rightarrow> (case compile pattern of
       None \<Rightarrow> (False, regexCache)
     | Some re \<Rightarrow> (re v, regexCache(pattern \<mapsto> re))))"

definition cache_agrees :: "(string \<Rightarrow> matcher option) \<Rightarrow> (string \<rightharpoonup> matcher) \<Rightarrow> bool" where
  "cache_agrees compile regexCache \<longleftrightarrow> (\<forall>p re. regexCache p = Some re \<longrightarrow> compile p = Some re)"

lemma MatchPattern_uncached:
  assumes "cache_agrees compile regexCache"
  shows "fst (MatchPattern compile pattern v regexCache) = (case compile pattern of None \<Rightarrow> False | Some re \<Rightarrow> re v)"
    and "cache_agrees compile (snd (MatchPattern compile pattern v regexCache))"
  using assms by (auto simp: MatchPattern_def cache_agrees_def split: option.split)

section \<open>What is written is what is read\<close>

definition jsonb_rules :: "JsonbRule \<Rightarrow> JsonbSubField" where
  "jsonb_rules sf = \<lparr>js_Required = jb_Required sf, js_Pattern = jb_Pattern sf, js_Min = jb_Min sf, js_Max = jb_Max sf\<rparr>"

definition field_rules :: "FieldConstraint \<Rightarrow> Field" where
  "field_rules fc = \<lparr>fc_Required = fk_Required fc, fc_MaxLength = fk_MaxLength fc, fc_MinLength = fk_MinLength fc,
     fc_ExactLength = fk_ExactLength fc, fc_Min = fk_Min fc, fc_Max = fk_Max fc, fc_Pattern = fk_Pattern fc,
     fc_Jsonb = map (\<lambda>(k, sf). (k, jsonb_rules sf)) (sorted_entries (fk_Jsonb fc))\<rparr>"

definition plain_text :: "string option \<Rightarrow> bool" where
  "plain_text t \<longleftrightarrow> (case t of None \<Rightarrow> True | Some s \<Rightarrow> \<not> yaml_null s)"

definition plain_field :: "string \<times> FieldConstraint \<Rightarrow> bool" where
  "plain_field = (\<lambda>(name, fc). \<not> yaml_null name \<and> plain_text (fk_Pattern fc) \<and>
     list_all (\<lambda>(k, sf). \<not> yaml_null k \<and> plain_text (jb_Pattern sf)) (fk_Jsonb fc))"

definition plain_map :: "constraintMap \<Rightarrow> bool" where
  "plain_map = list_all (\<lambda>(name, e). \<not> yaml_null name \<and> list_all plain_field (en_Fields e))"

definition int_ok :: "int option \<Rightarrow> bool" where
  "int_ok v \<longleftrightarrow> (case v of None \<Rightarrow> True | Some n \<Rightarrow> in_int64 n)"

definition values_ok :: "('a \<Rightarrow> bool) \<Rightarrow> (string \<times> 'a) list \<Rightarrow> bool" where
  "values_ok P m = list_all (\<lambda>(k, v). P v) m"

definition jsonb_ok :: "JsonbRule \<Rightarrow> bool" where
  "jsonb_ok sf \<longleftrightarrow> int_ok (jb_Min sf) \<and> int_ok (jb_Max sf)"

definition field_ok :: "FieldConstraint \<Rightarrow> bool" where
  "field_ok fc \<longleftrightarrow> int_ok (fk_MaxLength fc) \<and> int_ok (fk_MinLength fc) \<and> int_ok (fk_ExactLength fc) \<and> int_ok (fk_Min fc) \<and> int_ok (fk_Max fc)
     \<and> values_ok jsonb_ok (fk_Jsonb fc)"

definition entry_ok :: "Entry \<Rightarrow> bool" where
  "entry_ok e = values_ok field_ok (en_Fields e)"

definition map_ok :: "constraintMap \<Rightarrow> bool" where
  "map_ok cm = values_ok entry_ok cm"

lemma values_ok_lookup: "values_ok P m \<Longrightarrow> map_of m k = Some v \<Longrightarrow> P v"
  by (auto simp: values_ok_def list_all_iff dest: map_of_SomeD)

lemma values_ok_update: "values_ok P m \<Longrightarrow> P v \<Longrightarrow> values_ok P (AList.update k v m)"
  unfolding values_ok_def by (induction m) auto

lemma values_ok_Nil [simp]: "values_ok P []"
  by (simp add: values_ok_def)

subsection \<open>Sorted entries\<close>

lemma map_of_keys: "distinct ks \<Longrightarrow> map_of (map (\<lambda>k. (k, f k)) ks) = (\<lambda>k. if k \<in> set ks then Some (f k) else None)"
  by (induction ks) auto

lemma map_of_sorted_entries: "map_of (sorted_entries m) = map_of m"
proof
  fix k
  show "map_of (sorted_entries m) k = map_of m k"
    using map_of_eq_None_iff [of m k] unfolding sorted_entries_def by (cases "map_of m k") (simp_all add: map_of_keys)
qed

lemma distinct_sorted_entries: "distinct (map fst (sorted_entries m))"
  by (simp add: sorted_entries_def comp_def)

lemma sorted_entries_in: "(k, v) \<in> set (sorted_entries m) \<Longrightarrow> map_of m k = Some v"
  using map_of_is_SomeI [OF distinct_sorted_entries, of k v m] by (simp add: map_of_sorted_entries)

subsection \<open>Values\<close>

lemma dec_int_not_null: "\<not> yaml_null (dec_int n)"
proof (cases "n < 0")
  case True
  then show ?thesis by (simp add: dec_int_def yaml_null_def)
next
  case False
  then show ?thesis using hd_dec_nat [of "nat n"] by (auto simp: dec_int_def yaml_null_def is_digit_def)
qed

definition bool_node :: "bool \<Rightarrow> yaml option" where
  "bool_node b = (if b then Some (Scalar ''!!bool'' ''true'') else None)"

lemma load_bool_node: "load_bool (bool_node b) = Some b"
  by (simp add: load_bool_def bool_node_def)

lemma load_int_node: "int_ok v \<Longrightarrow> load_int (map_option (\<lambda>n. Scalar ''!!int'' (dec_int n)) v) = Some v"
  by (cases v) (simp_all add: load_int_def int_ok_def dec_int_not_null Atoi_dec_int del: strconv_Atoi.simps)

lemma load_str_node: "plain_text v \<Longrightarrow> load_str (map_option untagged v) = Some v"
  by (cases v) (simp_all add: load_str_def plain_text_def)

lemma load_str_simps: "load_str None = Some None" "load_str (Some (Scalar tag t)) = Some (if yaml_null t then None else Some t)"
  by (simp_all add: load_str_def)

lemma node_lookup:
  "map_of (appendBoolNode key b) k = (if k = key then bool_node b else None)"
  "map_of (appendIntNode key i) k = (if k = key then map_option (\<lambda>n. Scalar ''!!int'' (dec_int n)) i else None)"
  "map_of (appendStrNode key t) k = (if k = key then map_option untagged t else None)"
  "map_of (if c then appendStrNode key t else []) k = (if k = key then if c then map_option untagged t else None else None)"
  "map_of (if c then [(key, y)] else []) k = (if k = key then if c then Some y else None else None)"
  by (auto simp: appendBoolNode_def appendIntNode_def appendStrNode_def bool_node_def split: option.splits)

lemma map_of_or_else: "map_of (a @ b) k = or_else (map_of a k) (map_of b k)"
  by (simp add: or_else_def map_add_def)

lemma or_else_None: "or_else None y = y" "or_else x None = x"
  by (simp_all add: or_else_def split: option.split)

lemmas load_simps = node_lookup map_of_or_else or_else_None load_bool_node load_int_node load_str_node

lemma load_map_written:
  assumes "\<And>k v. (k, v) \<in> set m \<Longrightarrow> \<not> yaml_null k \<and> ld (f v) = Some (g v)"
  shows "load_map ld (Some (Mapping (map (\<lambda>(k, v). (k, f v)) m))) = Some (map (\<lambda>(k, v). (k, g v)) m)"
  using assms
proof (induction m)
  case Nil
  then show ?case by (simp add: load_map_def)
next
  case (Cons p m)
  obtain k v where p: "p = (k, v)" by (cases p)
  have "load_map ld (Some (Mapping (map (\<lambda>(k, v). (k, f v)) m))) = Some (map (\<lambda>(k, v). (k, g v)) m)"
    by (rule Cons.IH) (rule Cons.prems, simp)
  moreover have "\<not> yaml_null k" "ld (f v) = Some (g v)" using Cons.prems [of k v] p by simp_all
  ultimately show ?case by (simp add: load_map_def p)
qed

lemma load_jsonb_node:
  assumes "plain_text (jb_Pattern sf)" "jsonb_ok sf"
  shows "load_jsonb (jsonb_node sf) = Some (jsonb_rules sf)"
  using assms by (simp add: load_jsonb_def jsonb_node_def jsonb_ok_def jsonb_rules_def load_simps del: map_of_append)

lemma load_field_node:
  assumes "plain_field (name, fc)" "field_ok fc"
  shows "load_field (field_node fc) = Some (field_rules fc)"
proof -
  have "plain_text (fk_Pattern fc)" using assms(1) by (simp add: plain_field_def)
  moreover have "\<not> yaml_null k \<and> load_jsonb (jsonb_node sf) = Some (jsonb_rules sf)" if "(k, sf) \<in> set (sorted_entries (fk_Jsonb fc))" for k sf
  proof -
    from sorted_entries_in [OF that] have m: "map_of (fk_Jsonb fc) k = Some sf" .
    then have "(k, sf) \<in> set (fk_Jsonb fc)" by (rule map_of_SomeD)
    with assms(1) have "\<not> yaml_null k" "plain_text (jb_Pattern sf)" by (auto simp: plain_field_def list_all_iff)
    moreover have "jsonb_ok sf" using assms(2) values_ok_lookup [OF _ m] by (auto simp: field_ok_def)
    ultimately show ?thesis by (simp add: load_jsonb_node)
  qed
  from load_map_written [of "sorted_entries (fk_Jsonb fc)" load_jsonb jsonb_node jsonb_rules, OF this]
  have "load_map load_jsonb (if fk_Jsonb fc = [] then None else Some (Mapping (map (\<lambda>(k, sf). (k, jsonb_node sf)) (sorted_entries (fk_Jsonb fc))))) =
      Some (map (\<lambda>(k, sf). (k, jsonb_rules sf)) (sorted_entries (fk_Jsonb fc)))"
    by (simp add: load_map_def sorted_entries_def)
  moreover have "int_ok (fk_MaxLength fc)" "int_ok (fk_MinLength fc)" "int_ok (fk_ExactLength fc)" "int_ok (fk_Min fc)" "int_ok (fk_Max fc)"
    using assms(2) by (simp_all add: field_ok_def)
  ultimately show ?thesis
    by (cases "fk_Jsonb fc = []"; cases "fk_RequiredWith fc = []")
      (simp_all add: load_field_def field_node_def field_rules_def load_simps load_str_simps del: map_of_append)
qed

definition written_fields :: "Entry \<Rightarrow> (string \<times> FieldConstraint) list" where
  "written_fields e = filter (\<lambda>(k, fc). \<not> isEmpty fc) (sorted_entries (en_Fields e))"

lemma load_table_node:
  assumes "list_all plain_field (en_Fields e)" "entry_ok e"
  shows "load_table (Mapping (table_content e)) = Some (map (\<lambda>(k, fc). (k, field_rules fc)) (written_fields e))"
proof -
  have "\<not> yaml_null k \<and> load_field (field_node fc) = Some (field_rules fc)" if "(k, fc) \<in> set (written_fields e)" for k fc
  proof -
    from that have m: "map_of (en_Fields e) k = Some fc" by (auto simp: written_fields_def dest: sorted_entries_in)
    then have "plain_field (k, fc)" using assms(1) by (auto simp: list_all_iff dest: map_of_SomeD)
    moreover have "field_ok fc" using assms(2) values_ok_lookup [OF _ m] by (auto simp: entry_ok_def)
    ultimately show ?thesis using load_field_node by (auto simp: plain_field_def)
  qed
  from load_map_written [of "written_fields e" load_field field_node field_rules, OF this] show ?thesis
    by (cases "written_fields e = []")
      (simp_all add: load_table_def table_content_def fields_content_def written_fields_def [symmetric] load_simps load_map_def del: map_of_append)
qed

definition written_tables :: "constraintMap \<Rightarrow> (string \<times> Entry) list" where
  "written_tables cm = filter (\<lambda>(k, e). table_content e \<noteq> []) (sorted_entries cm)"

lemma load_file_written:
  assumes "plain_map cm" "map_ok cm"
  shows "load_file (yaml_doc cm) = Some (map (\<lambda>(k, e). (k, map (\<lambda>(f, fc). (f, field_rules fc)) (written_fields e))) (written_tables cm))"
proof -
  have "\<not> yaml_null k \<and> load_table (Mapping (table_content e)) = Some (map (\<lambda>(f, fc). (f, field_rules fc)) (written_fields e))"
    if "(k, e) \<in> set (written_tables cm)" for k e
  proof -
    from that have m: "map_of cm k = Some e" by (auto simp: written_tables_def dest: sorted_entries_in)
    then have "\<not> yaml_null k" "list_all plain_field (en_Fields e)" using assms(1) by (auto simp: plain_map_def list_all_iff dest!: map_of_SomeD)
    moreover have "entry_ok e" using assms(2) values_ok_lookup [OF _ m] by (auto simp: map_ok_def)
    ultimately show ?thesis by (simp add: load_table_node)
  qed
  from load_map_written [of "written_tables cm" load_table "\<lambda>e. Mapping (table_content e)", OF this] show ?thesis
    by (simp add: load_file_def yaml_doc_def written_tables_def [symmetric])
qed

lemma map_of_filtered:
  assumes "distinct (map fst m)"
  shows "map_of (map (\<lambda>(k, v). (k, g v)) (filter (\<lambda>(k, v). P v) m)) k = (case map_of m k of None \<Rightarrow> None | Some v \<Rightarrow> if P v then Some (g v) else None)"
  using assms
proof (induction m)
  case (Cons p m)
  obtain a b where p: "p = (a, b)" by (cases p)
  show ?case
  proof (cases "a = k")
    case True
    with Cons.prems p have "map_of m k = None" by (simp add: map_of_eq_None_iff)
    with Cons True p show ?thesis by simp
  next
    case False
    with Cons p show ?thesis by simp
  qed
qed simp

definition rule_of :: "constraintMap \<Rightarrow> string \<Rightarrow> string \<Rightarrow> Field option" where
  "rule_of cm table field = (case map_of cm table of None \<Rightarrow> None | Some e \<Rightarrow> (case map_of (en_Fields e) field of None \<Rightarrow> None
     | Some fc \<Rightarrow> if isEmpty fc then None else Some (field_rules fc)))"

definition loaded_rule :: "(string \<times> TableEntry) list \<Rightarrow> string \<Rightarrow> string \<Rightarrow> Field option" where
  "loaded_rule file table field = (case map_of file table of None \<Rightarrow> None | Some t \<Rightarrow> map_of t field)"

lemma loaded_rule_written:
  assumes "plain_map cm" "map_ok cm" "load_file (yaml_doc cm) = Some file"
  shows "loaded_rule file table field = rule_of cm table field"
proof -
  have f: "map_of (map (\<lambda>(f, fc). (f, field_rules fc)) (written_fields e)) field =
      (case map_of (en_Fields e) field of None \<Rightarrow> None | Some fc \<Rightarrow> if isEmpty fc then None else Some (field_rules fc))" for e
    unfolding written_fields_def map_of_filtered [OF distinct_sorted_entries, of field_rules "\<lambda>fc. \<not> isEmpty fc"] map_of_sorted_entries
    by (simp split: option.split)
  have none: "written_fields e = []" if "table_content e = []" for e
    using that by (simp add: table_content_def fields_content_def written_fields_def split: if_splits)
  have read: "file = map (\<lambda>(k, e). (k, map (\<lambda>(f, fc). (f, field_rules fc)) (written_fields e))) (written_tables cm)"
    using load_file_written [OF assms(1,2)] assms(3) by simp
  have "map_of file table = (case map_of cm table of None \<Rightarrow> None | Some e \<Rightarrow>
      if table_content e \<noteq> [] then Some (map (\<lambda>(f, fc). (f, field_rules fc)) (written_fields e)) else None)"
    unfolding read written_tables_def
    by (subst map_of_filtered [OF distinct_sorted_entries, of "\<lambda>e. map (\<lambda>(f, fc). (f, field_rules fc)) (written_fields e)" "\<lambda>e. table_content e \<noteq> []"])
      (simp add: map_of_sorted_entries)
  note tables = this
  show ?thesis
  proof (cases "map_of cm table")
    case None
    with tables show ?thesis by (simp add: loaded_rule_def rule_of_def)
  next
    case (Some e)
    show ?thesis
    proof (cases "table_content e = []")
      case True
      with none [OF this] f [of e] tables Some show ?thesis by (simp add: loaded_rule_def rule_of_def)
    next
      case False
      with f [of e] tables Some show ?thesis by (simp add: loaded_rule_def rule_of_def)
    qed
  qed
qed

subsection \<open>Every number the generator writes fits\<close>

lemma Atoi_in_range: "strconv_Atoi t = Some n \<Longrightarrow> in_int64 n"
  by (simp add: split_beta Let_def split: option.splits if_splits)

lemma int_ok_atoi: "int_ok (Some (atoi t))"
  using Atoi_in_range [of t] by (simp add: int_ok_def atoi_def in_int64_def del: strconv_Atoi.simps split: option.split)

lemma int_ok_int64: "int_ok (Some (int64 i))"
  using sint_ge [of "word_of_int i :: 64 word"] sint_lt [of "word_of_int i :: 64 word"] by (simp add: int_ok_def in_int64_def int64_def)

definition state_ok :: "clause_state \<Rightarrow> bool" where
  "state_ok st \<longleftrightarrow> field_ok (fst (snd st))"

lemma found_ok: "(\<And>fc. field_ok fc \<Longrightarrow> field_ok (f fc)) \<Longrightarrow> state_ok st \<Longrightarrow> state_ok (found c f st)"
  by (auto simp: state_ok_def found_def split_beta)

lemmas matcher_defs = length_between_def length_eq_def length_lte_def pattern_of_def value_between_def value_gte_def value_gt_def

lemma matchers_ok:
  assumes "state_ok st"
  shows "state_ok (length_between m st)" "state_ok (length_eq m st)" "state_ok (length_lte m st)" "state_ok (pattern_of m st)"
    "state_ok (value_between m st)" "state_ok (value_gte m st)" "state_ok (value_gt m st)"
  using assms unfolding matcher_defs unless_function_def by (auto intro!: found_ok simp: field_ok_def int_ok_atoi int_ok_int64)

lemma on_match_ok: "(\<And>m st. state_ok st \<Longrightarrow> state_ok (k m st)) \<Longrightarrow> state_ok st \<Longrightarrow> state_ok (on_match m k st)"
  by (simp add: on_match_def split: option.split)

lemma fold_ok: "(\<And>x st. P st \<Longrightarrow> P (k x st)) \<Longrightarrow> P st \<Longrightarrow> P (fold k xs st)"
  by (induction xs arbitrary: st) auto

lemma no_constraint_ok: "field_ok no_constraint"
  by (simp add: field_ok_def no_constraint_def int_ok_def)

lemma parseClause_ok:
  assumes "parseClause clause col = Some (c, fc)"
  shows "field_ok fc"
proof -
  define st where "st = on_match (FindStringSubmatch reGT clause) value_gt
      (on_match (FindStringSubmatch reGTE clause) value_gte (on_match (FindStringSubmatch reBetween clause) value_between
      (fold pattern_of (FindAllStringSubmatch reRegex clause) (on_match (FindStringSubmatch reCharLenLTE clause) length_lte
      (on_match (FindStringSubmatch reCharLenEQ clause) length_eq
      (on_match (FindStringSubmatch reCharLenBetween clause) length_between (col, no_constraint, False)))))))"
  have "state_ok (col, no_constraint, False)" by (simp add: state_ok_def no_constraint_ok)
  then have "state_ok st" unfolding st_def by (intro on_match_ok fold_ok [where P = state_ok] matchers_ok)
  moreover from assms have "fc = fst (snd st)" unfolding parseClause_def st_def [symmetric] Let_def by (simp split: if_splits)
  ultimately show ?thesis by (simp add: state_ok_def)
qed

lemma int_ok_or_else: "int_ok a \<Longrightarrow> int_ok b \<Longrightarrow> int_ok (or_else a b)"
  by (cases a) (simp_all add: or_else_def)

lemma mergeField_ok: "field_ok dst \<Longrightarrow> field_ok src \<Longrightarrow> field_ok (mergeField dst src)"
  by (simp add: field_ok_def mergeField_def int_ok_or_else)

lemma no_jsonb_ok: "jsonb_ok no_jsonb"
  by (simp add: no_jsonb_def jsonb_ok_def int_ok_def)

lemma jsonb_update_ok: "values_ok jsonb_ok js \<Longrightarrow> (\<And>j. jsonb_ok j \<Longrightarrow> jsonb_ok (f j)) \<Longrightarrow> values_ok jsonb_ok (jsonb_update k f js)"
  unfolding jsonb_update_def
  by (rule values_ok_update) (auto split: option.split dest: values_ok_lookup simp: no_jsonb_ok)

lemma jsonb_matchers_ok:
  assumes "values_ok jsonb_ok (snd st)"
  shows "values_ok jsonb_ok (snd (jsonb_has_key m st))" "values_ok jsonb_ok (snd (jsonb_values m st))"
  using assms by (auto simp: jsonb_has_key_def jsonb_values_def split_beta Let_def jsonb_ok_def intro!: jsonb_update_ok)

lemma parseJsonb_ok:
  assumes "parseJsonb clause = Some (c, js)"
  shows "values_ok jsonb_ok js"
proof -
  define st where "st = fold jsonb_values (FindAllStringSubmatch reJsonbAnyArr clause)
      (fold jsonb_values (FindAllStringSubmatch reJsonbInList clause) (fold jsonb_has_key (FindAllStringSubmatch reJsonbHasKey clause) ([], [])))"
  have "values_ok jsonb_ok (snd st)"
    unfolding st_def by (intro fold_ok [where P = "\<lambda>st. values_ok jsonb_ok (snd st)"] jsonb_matchers_ok) simp_all
  moreover from assms have "js = snd st" unfolding parseJsonb_def st_def [symmetric] Let_def by (simp add: split_beta split: if_splits)
  ultimately show ?thesis by simp
qed

lemma merge_jsonb_ok:
  assumes "field_ok fc" "values_ok jsonb_ok js"
  shows "field_ok (merge_jsonb js fc)"
proof -
  have "values_ok jsonb_ok (fold (\<lambda>(k, v) acc. case map_of acc k of None \<Rightarrow> AList.update k v acc
      | Some old \<Rightarrow> AList.update k (old\<lparr>jb_Required := jb_Required v \<or> jb_Required old, jb_Pattern := or_else (jb_Pattern v) (jb_Pattern old)\<rparr>) acc) js m)"
    if "values_ok jsonb_ok m" for m
    using assms(2) that
  proof (induction js arbitrary: m)
    case (Cons p js)
    obtain k v where p: "p = (k, v)" by (cases p)
    with Cons.prems(1) have v: "jsonb_ok v" "values_ok jsonb_ok js" by (simp_all add: values_ok_def)
    show ?case
    proof (cases "map_of m k")
      case None
      with Cons.IH [OF v(2) values_ok_update [OF Cons.prems(2) v(1)]] p show ?thesis by simp
    next
      case (Some old)
      from values_ok_lookup [OF Cons.prems(2) Some]
      have "jsonb_ok (old\<lparr>jb_Required := jb_Required v \<or> jb_Required old, jb_Pattern := or_else (jb_Pattern v) (jb_Pattern old)\<rparr>)"
        by (simp add: jsonb_ok_def)
      from Cons.IH [OF v(2) values_ok_update [OF Cons.prems(2) this]] p Some show ?thesis by simp
    qed
  qed simp
  with assms(1) show ?thesis by (simp add: merge_jsonb_def field_ok_def)
qed

lemma update_field_ok:
  assumes "entry_ok e" "\<And>fc. field_ok fc \<Longrightarrow> field_ok (f fc)"
  shows "entry_ok (update_field field f e)"
proof -
  have "field_ok (getOrCreateField e field)"
    using assms(1) values_ok_lookup [of field_ok "en_Fields e" field] by (simp add: getOrCreateField_def entry_ok_def no_constraint_ok split: option.split)
  from assms(2) [OF this] assms(1) show ?thesis by (simp add: update_field_def entry_ok_def values_ok_update)
qed

lemma field_ok_frames [simp]:
  "field_ok (fc\<lparr>fk_ValidRange := b\<rparr>) = field_ok fc" "field_ok (fc\<lparr>fk_RequiredWith := t\<rparr>) = field_ok fc" "field_ok (fc\<lparr>fk_Required := b\<rparr>) = field_ok fc"
  by (simp_all add: field_ok_def)

lemma entry_ok_frames [simp]: "entry_ok (e\<lparr>en_Notes := ns\<rparr>) = entry_ok e" "entry_ok (e\<lparr>en_Comparisons := cs\<rparr>) = entry_ok e"
  by (simp_all add: entry_ok_def)

lemma single_field_ok: "single_field clause col = Some (c, fc) \<Longrightarrow> field_ok fc"
  by (auto simp: single_field_def dest: parseClause_ok split: option.splits if_splits)

lemma classify_ok: "entry_ok e \<Longrightarrow> entry_ok (classify row clause col e)"
  unfolding classify_def
  by (auto split: option.split intro!: update_field_ok dest: parseJsonb_ok single_field_ok intro: merge_jsonb_ok mergeField_ok)

lemma getOrCreate_ok: "map_ok cm \<Longrightarrow> entry_ok (getOrCreate cm key)"
  using values_ok_lookup [of entry_ok cm key] by (simp add: map_ok_def getOrCreate_def entry_ok_def [of "\<lparr>en_Fields = [], en_Comparisons = [], en_Notes = []\<rparr>"] split: option.split)

lemma map_ok_update: "map_ok cm \<Longrightarrow> entry_ok e \<Longrightarrow> map_ok (AList.update key e cm)"
  by (simp add: map_ok_def values_ok_update)

lemma sync_steps_ok:
  assumes "map_ok cm"
  shows "map_ok (sync_check row cm)" "map_ok (sync_not_null c cm)" "map_ok (sync_gist g cm)"
  using assms by (auto simp: sync_check_def sync_not_null_def sync_gist_def split_beta Let_def intro!: map_ok_update classify_ok update_field_ok getOrCreate_ok)

lemma sync_ok: "map_ok (sync checks notNulls gists)"
proof -
  have "map_ok []" by (simp add: map_ok_def)
  then show ?thesis unfolding sync_def by (intro fold_ok [where P = map_ok] sync_steps_ok)
qed

text \<open>C39. The rules the generator finds in the schema are the rules the validator works with: whatever rows the database returns,
  once \<open>constraints.g.yml\<close> is written and read back, the rule of a column of a table is the one the generator collected
  for it, and a column for which it collected none has none. The library is only asked to give back the document it
  wrote, and the names and patterns are not spelt like a YAML null.\<close>

theorem written_rules_are_loaded:
  assumes "enc (yaml_doc (sync checks notNulls gists)) = Inr t" and "parse (yaml_header @ t) = Some (yaml_doc (sync checks notNulls gists))"
    and "plain_map (sync checks notNulls gists)"
  shows "\<exists>text file. writeYAML enc (sync checks notNulls gists) = Inr text \<and> Option.bind (parse text) load_file = Some file
    \<and> loaded_rule file table field = rule_of (sync checks notNulls gists) table field"
  using assms(1,2) load_file_written [OF assms(3) sync_ok] loaded_rule_written [OF assms(3) sync_ok] by (auto simp: writeYAML_def)

end
