(* ===== verification/RtmCheck.thy ===== *)
theory RtmCheck
  imports SyncConstraints
begin

text \<open>
  The traceability check (\<open>cmd/tools/rtmcheck\<close>): which requirement identifiers of the requirements document have a test.

  The file system is an argument: the text of a file or the reason it cannot be opened, and the entries a walk of a directory
  visits, in order. The identifiers are found by a regular expression, the flag \<open>-pattern\<close>. What the tool prints
  and its exit status are the result of \<open>main\<close>.
\<close>

section \<open>Files\<close>

datatype file_error = NotExist string | FileError string

fun is_not_exist :: "file_error \<Rightarrow> bool" where
  "is_not_exist (NotExist _) = True"
| "is_not_exist (FileError _) = False"

record file_system =
  os_Open :: "string \<Rightarrow> file_error + string"
  WalkDir :: "string \<Rightarrow> (string \<times> (file_error + bool)) list"

text \<open>\<open>bufio.Scanner\<close> gives the lines up to the first one that does not fit its buffer.\<close>

definition newline :: char where "newline = CHR 0x0A"

fun raw_lines :: "string \<Rightarrow> string \<Rightarrow> string list" where
  "raw_lines acc [] = (if acc = [] then [] else [rev acc])"
| "raw_lines acc (c # s) = (if c = newline then rev acc # raw_lines [] s else raw_lines (c # acc) s)"

definition drop_cr :: "string \<Rightarrow> string" where
  "drop_cr s = (if s \<noteq> [] \<and> last s = CHR 0x0D then butlast s else s)"

definition scan_lines :: "nat \<Rightarrow> string \<Rightarrow> string list \<times> file_error option" where
  "scan_lines max_token text =
     (let ls = raw_lines [] text; ok = takeWhile (\<lambda>l. length l < max_token) ls
      in (map drop_cr ok, if length ok = length ls then None else Some (FileError ''bufio.Scanner: token too long'')))"

definition large_buffer :: nat where "large_buffer = 1024 * 1024"
definition default_buffer :: nat where "default_buffer = 64 * 1024"

section \<open>Identifiers\<close>

definition defaultPattern :: rx where
  "defaultPattern = seq [lit ''R-RES-'', Plus (Chr (in_range 65 90)), lit ''-'', digits, Opt (Chr (in_range 97 122))]"

definition inFamily :: "string \<Rightarrow> string \<Rightarrow> bool" where
  "inFamily ident fam \<longleftrightarrow> strip_prefix (''R-RES-'' @ map upper_char fam @ ''-'') ident \<noteq> None"

definition pluralS :: "nat \<Rightarrow> string" where
  "pluralS n = (if n = 1 then [] else ''s'')"

definition parseRTM :: "file_system \<Rightarrow> string \<Rightarrow> rx \<Rightarrow> file_error + string list" where
  "parseRTM fs path idRegex = (case os_Open fs path of
     Inl err \<Rightarrow> Inl err
   | Inr text \<Rightarrow> (case scan_lines large_buffer text of
       (ls, Some err) \<Rightarrow> Inl err
     | (ls, None) \<Rightarrow> Inr (sort (remdups (concat (map (FindAllString idRegex) ls))))))"

section \<open>Deferred identifiers\<close>

definition before_hash :: "string \<Rightarrow> string" where
  "before_hash line = (if CHR ''#'' \<in> set line then trim_blanks (takeWhile (\<lambda>c. c \<noteq> CHR ''#'') line) else line)"

definition parseDeferred :: "file_system \<Rightarrow> string \<Rightarrow> string list \<times> file_error option" where
  "parseDeferred fs path = (case os_Open fs path of
     Inl err \<Rightarrow> ([], Some err)
   | Inr text \<Rightarrow> (case scan_lines default_buffer text of
       (ls, err) \<Rightarrow> (filter (\<lambda>l. l \<noteq> []) (map (\<lambda>l. before_hash (trim_blanks l)) ls), err)))"

definition deferred_by :: "string \<Rightarrow> string \<Rightarrow> bool" where
  "deferred_by ident p \<longleftrightarrow> (if has_suffix p ''*'' then strip_prefix (butlast p) ident \<noteq> None else ident = p)"

definition isDeferred :: "string \<Rightarrow> string list \<Rightarrow> bool" where
  "isDeferred ident patterns = list_ex (deferred_by ident) patterns"

section \<open>Test files\<close>

definition funcDecl :: rx where
  "funcDecl = seq [TextStart, lit ''func'', blanks1, Group 1 (Cat (lit ''Test'') words), blanks, lit ''('']"

definition skipCall :: rx where
  "skipCall = seq [WordBoundary, lit ''t.Skip'', Opt (Or (lit ''f'') (lit ''Now'')), blanks, lit ''('']"

record block =
  bl_name :: string
  bl_ids :: "string list"
  bl_hasSkip :: bool
  bl_hasNonSkip :: bool
  bl_braceDepth :: int
  bl_started :: bool

type_synonym coverage = "string \<Rightarrow> string list option"

record scan_state =
  sc_cur :: "block option"
  sc_preceding :: "string list"
  sc_out :: coverage

definition braces :: "string \<Rightarrow> int" where
  "braces line = int (count_list line CHR 0x7B) - int (count_list line CHR 0x7D)"

definition has_brace :: "string \<Rightarrow> bool" where
  "has_brace line \<longleftrightarrow> CHR 0x7B \<in> set line"

definition add_name :: "string \<Rightarrow> string list \<Rightarrow> coverage \<Rightarrow> coverage" where
  "add_name name idents out = (\<lambda>i. if i \<in> set idents then Some ((case out i of None \<Rightarrow> [] | Some ns \<Rightarrow> ns) @ [name]) else out i)"

definition flush :: "scan_state \<Rightarrow> scan_state" where
  "flush st = (case sc_cur st of
     None \<Rightarrow> st
   | Some b \<Rightarrow> if bl_hasSkip b \<and> \<not> bl_hasNonSkip b then st\<lparr>sc_cur := None\<rparr>
       else st\<lparr>sc_cur := None, sc_out := add_name (bl_name b) (bl_ids b) (sc_out st)\<rparr>)"

definition outside :: "rx \<Rightarrow> string \<Rightarrow> scan_state \<Rightarrow> scan_state" where
  "outside idRegex line st = (case FindStringSubmatch funcDecl line of
     Some m \<Rightarrow> st\<lparr>sc_cur := Some \<lparr>bl_name = grp m 1, bl_ids = concat (map (FindAllString idRegex) (sc_preceding st)),
         bl_hasSkip = False, bl_hasNonSkip = False, bl_braceDepth = braces line, bl_started = has_brace line\<rparr>,
       sc_preceding := []\<rparr>
   | None \<Rightarrow> let trimmed = trim_blanks line
       in if strip_prefix ''//'' trimmed \<noteq> None then st\<lparr>sc_preceding := sc_preceding st @ [line]\<rparr>
          else if trimmed \<noteq> [] then st\<lparr>sc_preceding := []\<rparr> else st)"

definition mark_line :: "string \<Rightarrow> block \<Rightarrow> block" where
  "mark_line line b =
     (if MatchString skipCall line then b\<lparr>bl_hasSkip := True\<rparr>
      else let trimmed = trim_blanks line
        in if trimmed \<noteq> [] \<and> strip_prefix ''//'' trimmed = None \<and> strip_prefix ''func '' trimmed = None \<and> trimmed \<noteq> [CHR 0x7D]
           then b\<lparr>bl_hasNonSkip := True\<rparr> else b)"

definition body_line :: "rx \<Rightarrow> string \<Rightarrow> block \<Rightarrow> block" where
  "body_line idRegex line b =
     (let b' = mark_line line (b\<lparr>bl_ids := bl_ids b @ FindAllString idRegex line\<rparr>)
      in b'\<lparr>bl_braceDepth := bl_braceDepth b' + braces line\<rparr>)"

definition inside :: "rx \<Rightarrow> string \<Rightarrow> block \<Rightarrow> scan_state \<Rightarrow> scan_state" where
  "inside idRegex line b st =
     (let b' = body_line idRegex line b
      in if bl_started b' \<and> bl_braceDepth b' \<le> 0 then flush (st\<lparr>sc_cur := Some b'\<rparr>)
         else if \<not> bl_started b' \<and> has_brace line then st\<lparr>sc_cur := Some (b'\<lparr>bl_started := True\<rparr>)\<rparr>
         else st\<lparr>sc_cur := Some b'\<rparr>)"

definition scan_line :: "rx \<Rightarrow> string \<Rightarrow> scan_state \<Rightarrow> scan_state" where
  "scan_line idRegex line st = (case sc_cur st of None \<Rightarrow> outside idRegex line st | Some b \<Rightarrow> inside idRegex line b st)"

definition scan_start :: scan_state where
  "scan_start = \<lparr>sc_cur = None, sc_preceding = [], sc_out = (\<lambda>_. None)\<rparr>"

definition parseTestFile :: "file_system \<Rightarrow> string \<Rightarrow> rx \<Rightarrow> file_error + coverage" where
  "parseTestFile fs path idRegex = (case os_Open fs path of
     Inl err \<Rightarrow> Inl err
   | Inr text \<Rightarrow> (case scan_lines large_buffer text of
       (ls, Some err) \<Rightarrow> Inl err
     | (ls, None) \<Rightarrow> Inr (sc_out (flush (fold (scan_line idRegex) ls scan_start)))))"

definition merge_coverage :: "coverage \<Rightarrow> coverage \<Rightarrow> coverage" where
  "merge_coverage fileIDs covered = (\<lambda>i. case fileIDs i of None \<Rightarrow> covered i
     | Some fns \<Rightarrow> Some ((case covered i of None \<Rightarrow> [] | Some ns \<Rightarrow> ns) @ fns))"

fun visit :: "file_system \<Rightarrow> rx \<Rightarrow> (string \<times> (file_error + bool)) list \<Rightarrow> coverage \<Rightarrow> file_error + coverage" where
  "visit fs idRegex [] covered = Inr covered"
| "visit fs idRegex ((path, d) # es) covered = (case d of
     Inl err \<Rightarrow> Inl err
   | Inr isDir \<Rightarrow>
       if isDir \<or> \<not> has_suffix path ''_test.go'' then visit fs idRegex es covered
       else (case parseTestFile fs path idRegex of
         Inl err \<Rightarrow> Inl err
       | Inr fileIDs \<Rightarrow> visit fs idRegex es (merge_coverage fileIDs covered)))"

fun split_commas :: "string \<Rightarrow> string \<Rightarrow> string list" where
  "split_commas acc [] = [rev acc]"
| "split_commas acc (c # s) = (if c = CHR '','' then rev acc # split_commas [] s else split_commas (c # acc) s)"

fun scan_dirs :: "file_system \<Rightarrow> rx \<Rightarrow> string list \<Rightarrow> coverage \<Rightarrow> file_error + coverage" where
  "scan_dirs fs idRegex [] covered = Inr covered"
| "scan_dirs fs idRegex (d # ds) covered =
     (let dir = trim_blanks d
      in if dir = [] then scan_dirs fs idRegex ds covered
         else case visit fs idRegex (WalkDir fs dir) covered of
           Inl err \<Rightarrow> Inl err
         | Inr covered' \<Rightarrow> scan_dirs fs idRegex ds covered')"

definition scanTests :: "file_system \<Rightarrow> string \<Rightarrow> rx \<Rightarrow> file_error + coverage" where
  "scanTests fs dirs idRegex = scan_dirs fs idRegex (split_commas [] dirs) (\<lambda>_. None)"

section \<open>main\<close>

record flags =
  fl_rtm :: string
  fl_deferred :: string
  fl_tests :: string
  fl_family :: string
  fl_strict :: bool
  fl_pattern :: rx

record rtm_outcome =
  ro_stdout :: "string list"
  ro_stderr :: "string list"
  ro_exit :: nat

fun error_text :: "file_error \<Rightarrow> string" where
  "error_text (NotExist t) = t"
| "error_text (FileError t) = t"

definition failed :: "string \<Rightarrow> file_error \<Rightarrow> rtm_outcome" where
  "failed what err = \<lparr>ro_stdout = [], ro_stderr = [''rtmcheck: '' @ what @ '': '' @ error_text err], ro_exit = 2\<rparr>"

definition in_scope :: "flags \<Rightarrow> string list \<Rightarrow> string \<Rightarrow> bool" where
  "in_scope fl deferred ident \<longleftrightarrow> (fl_family fl = [] \<or> inFamily ident (fl_family fl)) \<and> \<not> isDeferred ident deferred"

definition check_mark :: string where "check_mark = [CHR 0xE2, CHR 0x9C, CHR 0x93]"
definition cross_mark :: string where "cross_mark = [CHR 0xE2, CHR 0x9C, CHR 0x97]"

definition report :: "flags \<Rightarrow> string list \<Rightarrow> string list \<Rightarrow> coverage \<Rightarrow> rtm_outcome" where
  "report fl rtmIDs deferred covered =
     (let missing = sort (filter (\<lambda>i. in_scope fl deferred i \<and> covered i = None) rtmIDs);
          total = length (filter (in_scope fl deferred) rtmIDs);
          covCount = int total - int (length missing);
          first = ''RTM check: '' @ dec_int covCount @ '' / '' @ dec_nat total @ '' covered'' @
            (if fl_family fl \<noteq> [] then '' (family='' @ fl_family fl @ '')'' else [])
      in if missing = [] then \<lparr>ro_stdout = [first, check_mark @ '' all in-scope RTM IDs have tests''], ro_stderr = [], ro_exit = 0\<rparr>
         else \<lparr>ro_stdout = first # (cross_mark @ '' '' @ dec_nat (length missing) @ '' missing test'' @ pluralS (length missing) @ '':'') #
                 map (\<lambda>i. ''  - '' @ i) missing,
               ro_stderr = [], ro_exit = (if fl_strict fl then 1 else 0)\<rparr>)"

definition rtm_main :: "file_system \<Rightarrow> flags \<Rightarrow> rtm_outcome" where
  "rtm_main fs fl = (case parseRTM fs (fl_rtm fl) (fl_pattern fl) of
     Inl err \<Rightarrow> failed ''read RTM'' err
   | Inr rtmIDs \<Rightarrow> (case parseDeferred fs (fl_deferred fl) of
       (deferred, derr) \<Rightarrow>
         if (case derr of None \<Rightarrow> False | Some err \<Rightarrow> \<not> is_not_exist err) then failed ''read deferred list'' (the derr)
         else (case scanTests fs (fl_tests fl) (fl_pattern fl) of
           Inl err \<Rightarrow> failed ''scan tests'' err
         | Inr covered \<Rightarrow> report fl rtmIDs deferred covered)))"

section \<open>What a test covers\<close>

definition skips :: "string \<Rightarrow> bool" where
  "skips line = MatchString skipCall line"

definition codes :: "string \<Rightarrow> bool" where
  "codes line \<longleftrightarrow> \<not> skips line \<and> (let t = trim_blanks line
     in t \<noteq> [] \<and> strip_prefix ''//'' t = None \<and> strip_prefix ''func '' t = None \<and> t \<noteq> [CHR 0x7D])"

text \<open>A test that only skips: it has a skip, and nothing else but comments, blank lines and closing braces.\<close>

definition skip_only :: "string list \<Rightarrow> bool" where
  "skip_only body \<longleftrightarrow> list_ex skips body \<and> \<not> list_ex codes body"

definition idents :: "rx \<Rightarrow> string list \<Rightarrow> string list" where
  "idents idRegex ls = concat (map (FindAllString idRegex) ls)"

text \<open>The body ends with the line that closes the brace of the declaration.\<close>

fun closes :: "int \<Rightarrow> string list \<Rightarrow> bool" where
  "closes d [] = False"
| "closes d (l # ls) = (if d + braces l \<le> 0 then ls = [] else closes (d + braces l) ls)"

lemma body_line_block:
  "body_line re line b = b\<lparr>bl_ids := bl_ids b @ FindAllString re line, bl_hasSkip := bl_hasSkip b \<or> skips line,
     bl_hasNonSkip := bl_hasNonSkip b \<or> codes line, bl_braceDepth := bl_braceDepth b + braces line\<rparr>"
  by (cases b) (auto simp: body_line_def mark_line_def Let_def skips_def codes_def)

definition scanned :: "rx \<Rightarrow> string list \<Rightarrow> block \<Rightarrow> block" where
  "scanned re ls b = b\<lparr>bl_ids := bl_ids b @ idents re ls, bl_hasSkip := bl_hasSkip b \<or> list_ex skips ls,
     bl_hasNonSkip := bl_hasNonSkip b \<or> list_ex codes ls, bl_braceDepth := bl_braceDepth b + sum_list (map braces ls)\<rparr>"

lemma scanned_Cons: "scanned re (l # ls) b = scanned re ls (body_line re l b)"
  by (simp add: scanned_def body_line_block idents_def algebra_simps)

lemma body_scanned:
  assumes "bl_started b" "closes (bl_braceDepth b) ls"
  shows "fold (scan_line re) ls (st\<lparr>sc_cur := Some b\<rparr>) = flush (st\<lparr>sc_cur := Some (scanned re ls b)\<rparr>)"
  using assms
proof (induction ls arbitrary: b)
  case (Cons l ls)
  let ?b = "body_line re l b"
  have b: "bl_started ?b" "bl_braceDepth ?b = bl_braceDepth b + braces l" using Cons.prems(1) by (simp_all add: body_line_block)
  show ?case
  proof (cases "bl_braceDepth b + braces l \<le> 0")
    case True
    with Cons.prems(2) have "ls = []" by simp
    moreover have "scanned re [] ?b = ?b" by (simp add: scanned_def idents_def)
    ultimately show ?thesis using True b by (simp add: scan_line_def inside_def Let_def scanned_Cons)
  next
    case False
    then have "closes (bl_braceDepth ?b) ls" using Cons.prems(2) b(2) by simp
    from Cons.IH [OF b(1) this] False b show ?thesis by (simp add: scan_line_def inside_def Let_def scanned_Cons)
  qed
qed simp

text \<open>The line scanner of \<open>rtmcheck\<close> implements its rule for a test function: from the declaration to the line that closes it, the
  function covers every identifier of the comment before it and of its body, unless it only skips; and the scanner
  is then ready for the next declaration.\<close>

theorem test_function_coverage:
  assumes "sc_cur st = None" and "FindStringSubmatch funcDecl decl = Some m" and "has_brace decl" and "closes (braces decl) body"
  shows "fold (scan_line re) (decl # body) st = st\<lparr>sc_cur := None, sc_preceding := [],
    sc_out := (if skip_only body then sc_out st else add_name (grp m 1) (idents re (sc_preceding st @ body)) (sc_out st))\<rparr>"
proof -
  let ?b = "\<lparr>bl_name = grp m 1, bl_ids = idents re (sc_preceding st), bl_hasSkip = False, bl_hasNonSkip = False,
    bl_braceDepth = braces decl, bl_started = True\<rparr>"
  have "fold (scan_line re) (decl # body) st = fold (scan_line re) body (st\<lparr>sc_preceding := []\<rparr>\<lparr>sc_cur := Some ?b\<rparr>)"
    using assms(1-3) by (cases st) (simp add: scan_line_def outside_def idents_def)
  also have "\<dots> = flush (st\<lparr>sc_preceding := []\<rparr>\<lparr>sc_cur := Some (scanned re body ?b)\<rparr>)"
    using assms(4) by (intro body_scanned) simp_all
  also have "\<dots> = st\<lparr>sc_cur := None, sc_preceding := [],
    sc_out := (if skip_only body then sc_out st else add_name (grp m 1) (idents re (sc_preceding st @ body)) (sc_out st))\<rparr>"
    by (cases st) (simp add: flush_def scanned_def skip_only_def idents_def)
  finally show ?thesis .
qed

text \<open>The exit status: with \<open>-strict\<close> the check fails exactly when an identifier in scope has no test.\<close>

lemma strict_gate:
  assumes "parseRTM fs (fl_rtm fl) (fl_pattern fl) = Inr rtmIDs" and "parseDeferred fs (fl_deferred fl) = (deferred, derr)"
    and "derr = None \<or> (\<exists>t. derr = Some (NotExist t))" and "scanTests fs (fl_tests fl) (fl_pattern fl) = Inr covered"
  shows "ro_exit (rtm_main fs fl) = (if fl_strict fl \<and> (\<exists>i \<in> set rtmIDs. in_scope fl deferred i \<and> covered i = None) then 1 else 0)"
proof -
  have empty: "sort (filter (\<lambda>i. in_scope fl deferred i \<and> covered i = None) rtmIDs) = []
      \<longleftrightarrow> \<not> (\<exists>i \<in> set rtmIDs. in_scope fl deferred i \<and> covered i = None)"
  proof -
    have "sort xs = [] \<longleftrightarrow> set xs = {}" for xs :: "string list" by (metis set_empty set_sort)
    then show ?thesis by (auto simp: filter_empty_conv)
  qed
  have "rtm_main fs fl = report fl rtmIDs deferred covered"
    unfolding rtm_main_def assms(1,2,4) sum.case prod.case using assms(3) by auto
  then show ?thesis using empty by (simp add: report_def Let_def)
qed

end
