(* ===== verification/ToolExamples.thy ===== *)
theory ToolExamples
  imports ConstraintFile RtmCheck
begin

text \<open>
  Constraints of the migrations, a small test file, and the properties of the build tools at work on them.
\<close>

section \<open>Constraints of the schema\<close>

definition notes_row :: check_row where
  "notes_row = \<lparr>ck_schema = ''operations'', ck_table = ''reservations'', ck_constraintName = ''reservations_notes_check'',
     ck_columnName = Some ''notes'', ck_checkClause = ''(char_length(notes) <= 2500)''\<rparr>"

definition day_row :: check_row where
  "day_row = \<lparr>ck_schema = ''pricing'', ck_table = ''base_rates'', ck_constraintName = ''base_rates_day_of_week_check'',
     ck_columnName = Some ''day_of_week'', ck_checkClause = ''((day_of_week >= 0) AND (day_of_week <= 6))''\<rparr>"

lemma notes_ok: "column_name ''notes''" "''notes'' \<notin> set internalFields" "ck_columnName notes_row = Some ''notes''"
  "ck_checkClause notes_row = printed ''notes'' (MaxLength False 2500)"
  by code_simp+

lemma notes_bound: "check_bound (MaxLength False 2500) < 2 ^ 63"
  by simp

lemma day_ok: "column_name ''day_of_week''" "''day_of_week'' \<notin> set internalFields" "ck_columnName day_row = Some ''day_of_week''"
  "ck_checkClause day_row = ''('' @ between_clause ''day_of_week'' 0 6 @ '')''"
  by code_simp+

lemma day_bound: "(0::nat) < 2 ^ 63"
  by simp

theorem checks_become_rules_witness:
  "sync_check notes_row [] = [(''operations.reservations'',
     \<lparr>en_Fields = [(''notes'', no_constraint\<lparr>fk_MaxLength := Some 2500\<rparr>)], en_Comparisons = [], en_Notes = []\<rparr>)]"
  using checks_become_rules [OF notes_ok notes_bound, of "[]"]
  by (simp add: notes_row_def table_key_def getOrCreate_def update_field_def getOrCreateField_def)

theorem between_loses_upper_bound_witness:
  "sync_check day_row [] = [(''pricing.base_rates'',
     \<lparr>en_Fields = [(''day_of_week'', no_constraint\<lparr>fk_Min := Some 0\<rparr>)], en_Comparisons = [], en_Notes = []\<rparr>)]"
  using between_loses_upper_bound [OF day_ok day_bound, of "[]"]
  by (simp add: day_row_def table_key_def getOrCreate_def update_field_def getOrCreateField_def)

lemma notes_synced:
  "sync [notes_row] [] [] = [(''operations.reservations'',
     \<lparr>en_Fields = [(''notes'', no_constraint\<lparr>fk_MaxLength := Some 2500\<rparr>)], en_Comparisons = [], en_Notes = []\<rparr>)]"
  using check_row_rule [OF notes_ok notes_bound, of "[]"]
  by (simp add: sync_def notes_row_def table_key_def getOrCreate_def update_field_def getOrCreateField_def)

theorem written_rules_are_loaded_witness:
  "\<exists>text loaded. writeYAML (\<lambda>_. Inr ''document'') (sync [notes_row] [] []) = Inr text
    \<and> Option.bind (Some (yaml_doc (sync [notes_row] [] []))) load_file = Some loaded
    \<and> loaded_rule loaded ''operations.reservations'' ''notes'' = Some (no_rules\<lparr>fc_MaxLength := Some 2500\<rparr>)"
proof -
  have "plain_map (sync [notes_row] [] [])" unfolding notes_synced by code_simp
  moreover have "rule_of (sync [notes_row] [] []) ''operations.reservations'' ''notes'' = Some (no_rules\<lparr>fc_MaxLength := Some 2500\<rparr>)"
    unfolding notes_synced by code_simp
  ultimately show ?thesis
    using written_rules_are_loaded [of "\<lambda>_. Inr ''document''" "[notes_row]" "[]" "[]" "''document''" "\<lambda>_. Some (yaml_doc (sync [notes_row] [] []))"
      "''operations.reservations''" "''notes''"] by simp
qed

text \<open>The values of an IN list become an alternation without anchors: it is found inside other texts.\<close>

lemma alternation_matches_inside: "MatchString (Or (lit ''percentage'') (lit ''fixed'')) ''unfixed''"
  by code_simp

section \<open>A test file\<close>

definition demo_decl :: string where
  "demo_decl = ''func TestValid_003(t *testing.T) '' @ [CHR 0x7B]"

definition demo_stub :: "string list" where
  "demo_stub = [[CHR 0x09] @ ''t.Skip(reason)'', [CHR 0x7D]]"

definition demo_body :: "string list" where
  "demo_body = [[CHR 0x09] @ ''check(t)'', [CHR 0x7D]]"

definition demo_doc :: scan_state where
  "demo_doc = scan_start\<lparr>sc_preceding := [''// R-RES-VALID-003: Stay period'']\<rparr>"

lemma demo_test: "sc_cur demo_doc = None" "FindStringSubmatch funcDecl demo_decl = Some [(0, ''func TestValid_003(''), (1, ''TestValid_003'')]"
  "has_brace demo_decl" "closes (braces demo_decl) demo_stub" "closes (braces demo_decl) demo_body"
  by code_simp+

theorem test_function_coverage_witness:
  "sc_out (fold (scan_line defaultPattern) (demo_decl # demo_stub) demo_doc) ''R-RES-VALID-003'' = None
    \<and> sc_out (fold (scan_line defaultPattern) (demo_decl # demo_body) demo_doc) ''R-RES-VALID-003'' = Some [''TestValid_003'']"
proof -
  have "skip_only demo_stub" "\<not> skip_only demo_body" by code_simp+
  moreover have "idents defaultPattern (sc_preceding demo_doc @ demo_body) = [''R-RES-VALID-003'']" by code_simp
  moreover have "sc_out demo_doc i = None" for i by (simp add: demo_doc_def scan_start_def)
  ultimately show ?thesis
    using test_function_coverage [OF demo_test(1-4), of defaultPattern] test_function_coverage [OF demo_test(1-3,5), of defaultPattern]
    by (simp add: grp_def add_name_def)
qed

end
