(* ===== verification/Server.thy ===== *)
theory Server
  imports Api
begin

text \<open>
  Starting and stopping: the configuration (\<open>platform/config\<close>), the choice of log level and sampler, the schedule of the sweeps
  (\<open>booking/workers.go\<close>), the health check (\<open>cmd/server/api.go\<close>) and the run of the server from its first connection
  to the last deferred call (\<open>cmd/server/main.go\<close>).

  The environment variables, the outcomes of connecting and pinging, and the measured latencies are arguments. A ticker
  of a sweep is the list of its wake-ups, each with the clock and the faults of that run.
\<close>

section \<open>config.go\<close>

record AppConfig =
  cf_Port :: string
  cf_Environment :: string
  cf_DatabaseURL :: string
  cf_RedisAddr :: string
  cf_RedisPassword :: string
  cf_AllowedOrigins :: "string list"
  cf_OTLPEndpoint :: string
  cf_ServiceName :: string
  cf_ServiceVersion :: string

type_synonym environment = "string \<rightharpoonup> string"

definition getEnv :: "environment \<Rightarrow> string \<Rightarrow> string \<Rightarrow> string" where
  "getEnv vars key fallback = (case vars key of Some v \<Rightarrow> v | None \<Rightarrow> fallback)"

definition getRequiredEnv :: "environment \<Rightarrow> string \<Rightarrow> string + string" where
  "getRequiredEnv vars key = (case vars key of
     None \<Rightarrow> Inl (''Fatal: environment variable '' @ key @ '' is required but not set'') | Some v \<Rightarrow> Inr v)"

fun split_at_char :: "char \<Rightarrow> string \<Rightarrow> string \<Rightarrow> string list" where
  "split_at_char d acc [] = [rev acc]"
| "split_at_char d acc (c # s) = (if c = d then rev acc # split_at_char d [] s else split_at_char d (c # acc) s)"

definition MustLoad :: "environment \<Rightarrow> string + AppConfig" where
  "MustLoad vars = (case getRequiredEnv vars ''DB_URL'' of
     Inl fatal \<Rightarrow> Inl fatal
   | Inr url \<Rightarrow> Inr \<lparr>cf_Port = getEnv vars ''PORT'' ''8080'', cf_Environment = getEnv vars ''APP_ENV'' ''dev'', cf_DatabaseURL = url,
       cf_RedisAddr = getEnv vars ''REDIS_ADDR'' ''localhost:6379'', cf_RedisPassword = getEnv vars ''REDIS_PASSWORD'' [],
       cf_AllowedOrigins = split_at_char CHR '' '' [] (getEnv vars ''ALLOWED_ORIGINS'' ''http://localhost:5173''),
       cf_OTLPEndpoint = getEnv vars ''OTLP_ENDPOINT'' [], cf_ServiceName = getEnv vars ''SERVICE_NAME'' ''yop-pms'',
       cf_ServiceVersion = getEnv vars ''SERVICE_VERSION'' ''0.1.0''\<rparr>)"

section \<open>logging.go and otel.go\<close>

datatype log_level = LevelDebug | LevelInfo

record log_handler =
  lg_level :: log_level
  lg_attrs :: "(string \<times> string) list"

definition NewLogger :: "string \<Rightarrow> log_handler" where
  "NewLogger environ = \<lparr>lg_level = (if environ = ''dev'' then LevelDebug else LevelInfo), lg_attrs = []\<rparr>"

definition FromContext :: "log_handler \<Rightarrow> log_handler option \<Rightarrow> log_handler" where
  "FromContext fallback stored = (case stored of Some l \<Rightarrow> l | None \<Rightarrow> fallback)"

definition WithTraceID :: "(string \<times> string) option \<Rightarrow> log_handler \<Rightarrow> log_handler" where
  "WithTraceID recording l = (case recording of
     None \<Rightarrow> l
   | Some (trace, sp) \<Rightarrow> l\<lparr>lg_attrs := lg_attrs l @ [(''trace_id'', trace), (''span_id'', sp)]\<rparr>)"

datatype sampler = AlwaysSample | ParentBasedTenth

definition newSampler :: "string \<Rightarrow> sampler" where
  "newSampler environ = (if environ = ''dev'' then AlwaysSample else ParentBasedTenth)"

datatype exporter = HttpExporter | GrpcExporter

definition Setup_otel :: "goerr option \<Rightarrow> goerr option \<Rightarrow> AppConfig \<Rightarrow> goerr + (exporter \<times> sampler) option" where
  "Setup_otel http_err grpc_err cfg =
     (if cf_OTLPEndpoint cfg = [] then Inr None
      else case http_err of
        None \<Rightarrow> Inr (Some (HttpExporter, newSampler (cf_Environment cfg)))
      | Some _ \<Rightarrow> (case grpc_err of
          Some e \<Rightarrow> Inl e
        | None \<Rightarrow> Inr (Some (GrpcExporter, newSampler (cf_Environment cfg)))))"

section \<open>api.go: the health check\<close>

record ServiceHealth =
  sh_Status :: string
  sh_Latency :: string
  sh_Error :: string

definition ping :: "unit query" where
  "ping s = (case pop_fault s of (Some e, s') \<Rightarrow> (Inl e, s') | (None, s') \<Rightarrow> (Inr (), s'))"

definition service_health :: "string \<Rightarrow> goerr + unit \<Rightarrow> ServiceHealth" where
  "service_health latency r = (case r of
     Inl e \<Rightarrow> \<lparr>sh_Status = ''down'', sh_Latency = [], sh_Error = err_text e\<rparr>
   | Inr _ \<Rightarrow> \<lparr>sh_Status = ''ok'', sh_Latency = latency, sh_Error = []\<rparr>)"

definition checkPostgres :: "string \<Rightarrow> sess \<Rightarrow> ServiceHealth \<times> sess" where
  "checkPostgres latency s = (case ping s of (r, s') \<Rightarrow> (service_health latency r, s'))"

definition checkRedis :: "string \<Rightarrow> sess \<Rightarrow> ServiceHealth \<times> sess" where
  "checkRedis latency s = (case ping s of (r, s') \<Rightarrow> (service_health latency r, s'))"

definition ServiceHealth_json :: "ServiceHealth \<Rightarrow> json" where
  "ServiceHealth_json h = JObj ([(''status'', JStr (sh_Status h)), (''latency'', JStr (sh_Latency h))] @
     (if sh_Error h = [] then [] else [(''error'', JStr (sh_Error h))]))"

definition HealthResponse :: "string \<Rightarrow> (string \<times> ServiceHealth) list \<Rightarrow> json" where
  "HealthResponse status services = JObj [(''status'', JStr status), (''message'', JStr ''Yop API health check''), (''version'', JStr ''0.1.0''),
     (''services'', JObj (map (\<lambda>(k, h). (k, ServiceHealth_json h)) services))]"

definition HealthHandler :: "string \<Rightarrow> string \<Rightarrow> handler" where
  "HealthHandler latency_pg latency_redis r w s =
     (let (pg, s1) = checkPostgres latency_pg s;
          (rd, s2) = checkRedis latency_redis s1;
          services = [(''postgres'', pg), (''redis'', rd)];
          degraded = list_ex (\<lambda>(k, h). sh_Status h \<noteq> ''ok'') services
      in (WriteJSON (if degraded then 503 else 200) (HealthResponse (if degraded then ''degraded'' else ''ok'') services) w, s2))"

definition AllowedMethods :: "string list" where
  "AllowedMethods = [''GET'', ''POST'', ''PUT'', ''DELETE'', ''OPTIONS'']"

section \<open>workers.go: the schedule\<close>

datatype wake = Tick env "goerr option list" | Stop

fun ticker_loop :: "job \<Rightarrow> wake list \<Rightarrow> sess \<Rightarrow> sess" where
  "ticker_loop j [] s = s"
| "ticker_loop j (Stop # ws) s = s"
| "ticker_loop j (Tick E fs # ws) s = ticker_loop j ws (sweep E j (s\<lparr>faults := fs\<rparr>))"

definition HoldExpirySweep :: "wake list \<Rightarrow> sess \<Rightarrow> sess" where
  "HoldExpirySweep = ticker_loop ExpireHolds"

definition NoShowReminder :: "wake list \<Rightarrow> sess \<Rightarrow> sess" where
  "NoShowReminder = ticker_loop CheckNoShows"

definition OverstaySweep :: "wake list \<Rightarrow> sess \<Rightarrow> sess" where
  "OverstaySweep = ticker_loop ProcessOverstays"

definition ArchivalSweep :: "wake list \<Rightarrow> sess \<Rightarrow> sess" where
  "ArchivalSweep = ticker_loop ArchiveTerminal"

section \<open>main.go: run\<close>

datatype resource = SignalContext | PgPool | RedisClient | OtelProvider | EventListener | OutboxWorker

datatype action = Opened resource | Closed resource | FlushedRedis | StartedSweep job | Serving string | ShuttingDown

record outcomes =
  oc_parseURL :: "string option"
  oc_connect :: "string option"
  oc_pingPostgres :: "string option"
  oc_pingRedis :: "string option"
  oc_flush :: "string option"
  oc_otel :: "string option"
  oc_listen :: "string option"
  oc_shutdown :: "string option"

type_synonym stage = "string option \<times> action list \<times> resource list"

text \<open>Each stage may fail; if it succeeds, it acts and defers the closing of what it opened. Returning closes in reverse order.\<close>

fun run_stages :: "stage list \<Rightarrow> resource list \<Rightarrow> (resource list \<Rightarrow> string option \<times> action list) \<Rightarrow> string option \<times> action list" where
  "run_stages [] ds k = k ds"
| "run_stages ((Some err, _, _) # ss) ds k = (Some err, map Closed ds)"
| "run_stages ((None, acts, rs) # ss) ds k = (case run_stages ss (rs @ ds) k of (err, t) \<Rightarrow> (err, acts @ t))"

definition startup :: "AppConfig \<Rightarrow> outcomes \<Rightarrow> stage list" where
  "startup cfg oc =
     [(None, [Opened SignalContext], [SignalContext]),
      (oc_parseURL oc, [], []),
      (oc_connect oc, [Opened PgPool], [PgPool]),
      (oc_pingPostgres oc, [], []),
      (None, [Opened RedisClient], [RedisClient]),
      (oc_pingRedis oc, [], []),
      (if cf_Environment cfg = ''dev'' then oc_flush oc else None, if cf_Environment cfg = ''dev'' then [FlushedRedis] else [], []),
      (oc_otel oc, [Opened OtelProvider], [OtelProvider]),
      (None, [Opened EventListener], [EventListener]),
      (None, [Opened OutboxWorker], [OutboxWorker]),
      (None, [StartedSweep ExpireHolds, StartedSweep CheckNoShows, StartedSweep ProcessOverstays, StartedSweep ArchiveTerminal], [])]"

definition serve_until_stopped :: "AppConfig \<Rightarrow> outcomes \<Rightarrow> resource list \<Rightarrow> string option \<times> action list" where
  "serve_until_stopped cfg oc ds = (case oc_listen oc of
     Some err \<Rightarrow> (Some err, Serving ('':'' @ cf_Port cfg) # map Closed ds)
   | None \<Rightarrow> (map_option (\<lambda>err. ''server shutdown failed: '' @ err) (oc_shutdown oc), Serving ('':'' @ cf_Port cfg) # ShuttingDown # map Closed ds))"

definition run_server :: "AppConfig \<Rightarrow> outcomes \<Rightarrow> string option \<times> action list" where
  "run_server cfg oc = run_stages (startup cfg oc) [] (serve_until_stopped cfg oc)"

definition main_exit :: "environment \<Rightarrow> outcomes \<Rightarrow> nat" where
  "main_exit vars oc = (case MustLoad vars of
     Inl fatal \<Rightarrow> 1
   | Inr cfg \<Rightarrow> (case fst (run_server cfg oc) of Some err \<Rightarrow> 1 | None \<Rightarrow> 0))"

section \<open>What holds\<close>

lemma ping_pool [simp]: "pool (snd (ping s)) = pool s" "redis (snd (ping s)) = redis s"
  by (simp_all add: ping_def pop_fault_def split: list.split option.split)

text \<open>The health check answers 200 exactly when both stores answer and changes no data.\<close>

lemma health_check:
  assumes "HealthHandler lp lr r (Conn (fresh_conn hs)) s = (Conn c, t)"
  shows "cn_Status c = Some (if fst (ping s) = Inr () \<and> fst (ping (snd (ping s))) = Inr () then 200 else 503)"
    and "pool t = pool s" and "redis t = redis s"
  using assms
  by (auto simp: HealthHandler_def checkPostgres_def checkRedis_def service_health_def split_beta WriteJSON_def Let_def fresh_conn_def
      conn_WriteHeader_def conn_Write_def split: sum.splits if_splits)

text \<open>A sweep under its ticker is a sequence of steps of the system, so whatever the system keeps, the sweeps keep.\<close>

lemma ticker_steps: "step\<^sup>*\<^sup>* s (ticker_loop j ws s)"
proof (induction j ws s rule: ticker_loop.induct)
  case (3 j E fs ws s)
  have "step s (sweep E j (s\<lparr>faults := fs\<rparr>))" by (rule step.background)
  from converse_rtranclp_into_rtranclp [of step, OF this 3] show ?case by simp
qed simp_all

lemma schedules_keep_schema:
  assumes "schema_ok (pool s)"
  shows "schema_ok (pool (HoldExpirySweep ws s))" "schema_ok (pool (NoShowReminder ws s))"
    "schema_ok (pool (OverstaySweep ws s))" "schema_ok (pool (ArchivalSweep ws s))"
  unfolding HoldExpirySweep_def NoShowReminder_def OverstaySweep_def ArchivalSweep_def
  by (rule schema_system.reachable [OF ticker_steps assms])+

text \<open>The first archival is the next time it is two o'clock.\<close>

lemma next_archival_at_two: "now < next_archival now" "next_archival now \<le> now + 24 * hour_ns" "next_archival now mod day_ns = 2 * hour_ns"
proof -
  define m where "m = now mod day_ns"
  have d: "day_ns = 24 * hour_ns" "0 < hour_ns" by (simp_all add: day_ns_def hour_ns_def)
  have m: "0 \<le> m" "m < 24 * hour_ns" unfolding m_def d(1) by (simp_all add: hour_ns_def)
  have n: "next_archival now = (if m < 2 * hour_ns then now - m + 2 * hour_ns else now - m + 2 * hour_ns + 24 * hour_ns)"
    by (auto simp: next_archival_def truncate_to_def m_def)
  show "now < next_archival now" "next_archival now \<le> now + 24 * hour_ns" using m d(2) n by auto
  have "now - m = now div day_ns * day_ns" by (simp add: m_def minus_mod_eq_div_mult)
  then have "(now - m + 2 * hour_ns) mod day_ns = 2 * hour_ns" using d by simp
  then show "next_archival now mod day_ns = 2 * hour_ns" unfolding n using d(1) by (simp add: add.assoc [symmetric])
qed

text \<open>Resources.\<close>

fun bracketed :: "resource list \<Rightarrow> action list \<Rightarrow> bool" where
  "bracketed ds [] \<longleftrightarrow> ds = []"
| "bracketed ds (Opened r # t) \<longleftrightarrow> bracketed (r # ds) t"
| "bracketed ds (Closed r # t) \<longleftrightarrow> (case ds of [] \<Rightarrow> False | d # ds' \<Rightarrow> d = r \<and> bracketed ds' t)"
| "bracketed ds (a # t) \<longleftrightarrow> bracketed ds t"

lemma bracketed_closing: "bracketed ds (map Closed ds)"
  by (induction ds) simp_all

definition stage_ok :: "stage \<Rightarrow> bool" where
  "stage_ok = (\<lambda>(_, acts, rs). \<forall>ds t. bracketed (rs @ ds) t \<longrightarrow> bracketed ds (acts @ t))"

lemma run_stages_bracketed:
  assumes "\<forall>x \<in> set ss. stage_ok x" and "\<And>ds. bracketed ds (snd (k ds))"
  shows "bracketed ds (snd (run_stages ss ds k))"
  using assms
proof (induction ss ds k rule: run_stages.induct)
  case (2 err acts rs ss ds k)
  then show ?case by (simp add: bracketed_closing)
next
  case (3 acts rs ss ds k)
  then have "bracketed (rs @ ds) (snd (run_stages ss (rs @ ds) k))" by simp
  with 3(2) show ?case by (auto simp: split_beta stage_ok_def)
qed simp

theorem run_releases_everything: "bracketed [] (snd (run_server cfg oc))"
proof -
  have "\<forall>x \<in> set (startup cfg oc). stage_ok x" by (simp add: startup_def stage_ok_def)
  moreover have "bracketed ds (snd (serve_until_stopped cfg oc ds))" for ds
    by (simp add: serve_until_stopped_def bracketed_closing split: option.split)
  ultimately show ?thesis unfolding run_server_def by (rule run_stages_bracketed)
qed

text \<open>The preflight answer allows no PATCH, the method of the routes that change an item or the metadata.\<close>

lemma patch_not_allowed: "\<exists>x \<in> set (Routes L E). rt_method x \<notin> set AllowedMethods"
  by (simp add: Routes_def AllowedMethods_def)

end
