(* ===== verification/Spec2Isabelle.thy ===== *)
theory Spec2Isabelle
  imports CoherenceExamples OutboxExamples RealtimeExamples ToolExamples Server
begin

text \<open>
  Verification of the reservation system \<open>yop-pms\<close>: the booking service of a hotel group, its HTTP API, its
  background workers and the PostgreSQL and Redis stores it works on. All paths below are under \<open>src/\<close>.

  \<^bold>\<open>The program.\<close> A client sends requests to \<open>/v1/reservations\<close> (\<open>cmd/server/api.go\<close>). They pass the idempotency
  middleware, the stub authentication and, per route, the permission and If-Match checks
  (\<open>internal/platform/middleware\<close>, \<open>internal/booking/router.go\<close>). A handler (\<open>create.go\<close>, \<open>lifecycle.go\<close>, \<open>update.go\<close>
  of \<open>internal/booking\<close>) reads and validates the body (\<open>platform/json\<close>, \<open>platform/validation\<close>) and calls one service
  (\<open>service_*.go\<close>, \<open>availability.go\<close>). A service runs its queries (\<open>internal/store\<close>) in one serializable transaction
  (\<open>platform/db/tx.go\<close>) that sets the property for row-level security. Next to the requests run the sweeps
  (\<open>booking/workers.go\<close>) and the outbox engine (\<open>platform/worker\<close>), which delivers the events the services enqueue. A
  listener (\<open>platform/events\<close>) hands the notifications of PostgreSQL to the cache (\<open>platform/cache\<close>), which evicts stale
  entries, and to the hub (\<open>platform/realtime\<close>), which sends them to the browsers of their property. Two tools support the
  build: \<open>cmd/tools/sync-constraints\<close> turns the constraints of the schema into the rules of the validator, and
  \<open>cmd/tools/rtmcheck\<close> checks that requirements have tests.

  \<^bold>\<open>State.\<close> \<open>Schema.db\<close> holds the tables, \<open>Store.sess\<close> a database session: the committed data (\<open>pool\<close>), the snapshot and
  the data of the open transaction, the row-level security property, the aborted flag, the Redis keys with their expiry
  times, and the script of faults, one entry per call to PostgreSQL or Redis, that makes any of these calls fail.
  \<open>Store.env\<close> holds what the environment decides: the clocks, new identifiers, locked rows, time zones and whether the
  role is subject to row-level security. A query or a service is a function from a session to a result, an error or a
  value, and a session. Errors are the values of \<open>Errors.goerr\<close>. Integers of the code are \<open>int\<close> with the checks and
  the narrowing (\<open>int32\<close>) written out where the code or the database has them; identifiers are 128-bit words.

  \<^bold>\<open>Theories.\<close>
  \<^item> \<open>Prelude\<close>: results and the state-error monad, preservation of invariants, decimal texts, the interfaces of codecs and of
    entries under keys.
  \<^item> \<open>Calendar\<close> (\<open>util/time.go\<close>, \<open>util/range.go\<close>, \<open>types/iso8601_date.go\<close>): nights, differences of stays, civil dates.
  \<^item> \<open>Errors\<close> (\<open>apierror\<close>, \<open>helpers/db_errors.go\<close>, \<open>booking/errors.go\<close>): error values and their classification.
  \<^item> \<open>StateMachine\<close> (\<open>booking/state_machine.go\<close>): statuses, transitions and the rollup, with its rule table as reference.
  \<^item> \<open>Schema\<close>, \<open>Store\<close>, \<open>Tx\<close> (\<open>store/*.sql.go\<close>, the migrations, \<open>db/tx.go\<close>, \<open>helpers/context.go\<close>): tables with their
    constraints, every query of the store, transactions.
  \<^item> \<open>Invariants\<close>: the interfaces \<open>session_invariant\<close> and \<open>store_client\<close>, what every query keeps, interpreted for the
    schema, for the rows of other properties and for frames; atomicity of transactions.
  \<^item> \<open>Contracts\<close>: what a query that returned has read or changed.
  \<^item> \<open>BookingTypes\<close>, \<open>Availability\<close>, \<open>ServiceCreate\<close>, \<open>ServiceRead\<close>, \<open>ServiceLifecycle\<close>, \<open>ServiceUpdate\<close>, \<open>Workers\<close>:
    the services and the sweeps, function by function.
  \<^item> \<open>System\<close>: every request and sweep as a step of one system; no double booking and tenant isolation.
  \<^item> \<open>History\<close>, \<open>Locking\<close>: how rows evolve, versions and optimistic locking.
  \<^item> \<open>Inventory\<close>, \<open>Sweeps\<close>, \<open>Gaps\<close>: what creating, cancelling and sweeping do to rows; where the code falls short.
  \<^item> \<open>Coherence\<close> (\<open>booking/availability.go\<close>, \<open>booking/service_create.go\<close>): what availability counts, when its cache is right,
    which operations keep it right and which do not.
  \<^item> \<open>Outbox\<close> (\<open>platform/worker/engine.go\<close>): claiming, retrying and dead-lettering, interleaved with crashes and new events.
  \<^item> \<open>Json\<close>, \<open>Digest\<close>: the encodings the middleware relies on (\<open>encoding/json\<close>, SHA-256, hexadecimal, base64), with their
    round trips; the hash is checked against published test vectors.
  \<^item> \<open>Http\<close>, \<open>Idempotency\<close> (\<open>platform/json\<close>, \<open>platform/httputil\<close>, \<open>platform/middleware\<close>): requests, response writers,
    middleware.
  \<^item> \<open>Validation\<close>, \<open>Wire\<close>, \<open>Accepted\<close> (\<open>validation/validate.go\<close>, \<open>constraints/constraints.go\<close>, \<open>booking/types.go\<close>): the
    validator, the JSON of inputs and responses, and what the validator accepts.
  \<^item> \<open>Handlers\<close>, \<open>Api\<close> (\<open>booking/create.go\<close>, \<open>lifecycle.go\<close>, \<open>update.go\<close>, \<open>router.go\<close>, \<open>cmd/server/api.go\<close>): the routes under
    their middleware, and what holds of any HTTP request.
  \<^item> \<open>Logging\<close>, \<open>Realtime\<close>, \<open>Cache\<close> (\<open>middleware/logger.go\<close>, \<open>events/listener.go\<close>, \<open>realtime/hub.go\<close>, \<open>cache/*.go\<close>): the request
    logger, the listener as a loop over the outcomes of its connections, the hub as a system of clients with bounded
    buffers, and the eviction of stale keys.
  \<^item> \<open>Server\<close> (\<open>cmd/server\<close>, \<open>platform/config\<close>, \<open>platform/logging\<close>, \<open>platform/otel\<close>): configuration, health check, the schedule of the
    sweeps, and the run of the server as a trace of actions over the outcomes of its calls.
  \<^item> \<open>Regex\<close>, \<open>Matching\<close>: regular expressions as \<open>regexp\<close> matches them, leftmost first, with the language of an expression as
    an upper bound of what it matches.
  \<^item> \<open>SyncConstraints\<close>, \<open>ConstraintRules\<close>, \<open>ConstraintFile\<close> (\<open>cmd/tools/sync-constraints\<close>, \<open>constraints/constraints.go\<close>): the generator, what
    it makes of the constraints on one column, and the way of the rules through the file to the validator.
  \<^item> \<open>RtmCheck\<close> (\<open>cmd/tools/rtmcheck\<close>): the traceability check over a file system.
  \<^item> \<open>Demo\<close>, \<open>Examples\<close>, \<open>CoherenceExamples\<close>, \<open>OutboxExamples\<close>, \<open>WebExamples\<close>, \<open>RealtimeExamples\<close>, \<open>ToolExamples\<close>: one small hotel, a hub with two clients,
    constraints of the migrations and a test file, on which theorems with hypotheses are applied.

  \<^bold>\<open>What is shown.\<close> Safety of the data: the schema, and with it the absence of double bookings, survives any requests,
  sweeps and faults (\<open>System\<close>) and any HTTP request (\<open>Api\<close>); under row-level security nobody changes another property's
  rows; transactions are all or nothing; versions identify states and no update is lost. Behaviour: creating books each
  night once, cancelling frees exactly the rooms of the reservation, sweeps spare rows that changed. Availability: with
  a cache whose entries are right the answer is the number of free rooms of every night, and reading and creating
  keep the entries right under conditions the theorems name; without them they go stale. Outbox: every due
  event is claimed after a bounded number of polls, settled events stay settled, failing events end in the dead letters
  after the configured number of attempts, and events whose handlers take ten seconds are delivered for ever. API: guards come first and have no effect when they refuse, repeated requests
  run once, every request is answered, the validator decides the constraints. Events: a client of the hub only gets
  events of its own property, in order, with bounded buffers; a change evicts exactly the stale keys. Tools: length
  limits and lower bounds of the schema become rules for every column and bound, the rules written are the rules
  loaded, and the line scanner of the traceability check implements its rule for a test function. Server: whatever it
  opened it closes again, in reverse order, on every path. The theorems of \<open>Gaps\<close>, \<open>Coherence\<close>, \<open>Outbox\<close>, \<open>Api\<close>, \<open>Idempotency\<close>, \<open>Realtime\<close>,
  \<open>Cache\<close>, \<open>ConstraintRules\<close> and \<open>OutboxExamples\<close> on deviations state what the code does where its comments or documents
  say otherwise.

  \<^bold>\<open>Bounds and fuel.\<close> Recursions are structural or have a termination proof (\<open>nights_loop\<close>, \<open>validateStruct\<close>, \<open>strip_loop\<close>,
  \<open>find_all\<close>). A repetition in a regular expression runs at most as often as there are characters left, which is all it
  can do since every round reads one. The JSON
  reader takes the length of its text as fuel; \<open>json_roundtrip\<close> shows that this suffices for every text the program
  writes. The wait of a duplicate request is bounded by its list of ticks, over which the theorems quantify.

  \<^bold>\<open>Not modelled.\<close> Libraries are parameters: the parser of identifiers and the matcher of the validator's patterns (record
  \<open>lib\<close>), time zones and locks (\<open>env\<close>), which keys a Redis SCAN returns (with the guarantee Redis documents), what a
  concurrent reader of the hub has taken, the texts of numbers read into \<open>any\<close>, the YAML encoder and parser, the file
  system of the tools. The router library decides which route a path takes, so statements are about an arbitrary route.
  An answer of PostgreSQL that breaks off is taken to
  break off before its first row. Concurrency inside one transaction is the optimistic check of serializable transactions at commit. Texts are
  sequences of bytes; blanks and letters are those of ASCII. Writing logs and traces, the role script and the generated
  documentation have no logic of their own. Columns no query reads are left out of the rows.
\<close>

end
